(* ===== verification/Prelude.thy ===== *)
theory Prelude
  imports Main "HOL-Library.Sublist" "HOL-Library.Monad_Syntax"
begin

text \<open>
  Shared vocabulary of the development: fallible operations over a state (the model of
  a Rust function returning \<open>Result\<close> while it mutates a connection), SQL statements over
  tables kept as lists of rows, byte strings with the parts of Rust's \<open>str\<close> the server
  uses, and JSON values with the field lookups that \<open>serde\<close>'s derived decoders perform.
\<close>

named_theorems op_defs \<open>the combinators of fallible operations, for unfolding\<close>
named_theorems op_results \<open>when a composed operation succeeds or fails\<close>
named_theorems sql_defs \<open>the SQL statement combinators, for unfolding\<close>

section \<open>Fallible operations over a state\<close>

text \<open>
  An operation returns either an error (\<open>Inl\<close>) or a value (\<open>Inr\<close>), and in both cases the
  state it leaves behind: statements executed before an early return stay executed.
\<close>

type_synonym ('s, 'e, 'a) op = "'s \<Rightarrow> ('e + 'a) \<times> 's"

definition ret_op :: "'a \<Rightarrow> ('s, 'e, 'a) op" where
  "ret_op x = (\<lambda>s. (Inr x, s))"

definition raise_op :: "'e \<Rightarrow> ('s, 'e, 'a) op" where
  "raise_op e = (\<lambda>s. (Inl e, s))"

definition bind_op :: "('s, 'e, 'a) op \<Rightarrow> ('a \<Rightarrow> ('s, 'e, 'b) op) \<Rightarrow> ('s, 'e, 'b) op" where
  "bind_op m k = (\<lambda>s. case m s of (Inl e, s') \<Rightarrow> (Inl e, s') | (Inr x, s') \<Rightarrow> k x s')"

definition gets_op :: "('s \<Rightarrow> 'a) \<Rightarrow> ('s, 'e, 'a) op" where
  "gets_op f = (\<lambda>s. (Inr (f s), s))"

definition modify_op :: "('s \<Rightarrow> 's) \<Rightarrow> ('s, 'e, unit) op" where
  "modify_op f = (\<lambda>s. (Inr (), f s))"

definition require_op :: "bool \<Rightarrow> 'e \<Rightarrow> ('s, 'e, unit) op" where
  "require_op b e = (if b then ret_op () else raise_op e)"

text \<open>\<open>Option::ok_or\<close> followed by \<open>?\<close>.\<close>

definition ok_or_op :: "'e \<Rightarrow> 'a option \<Rightarrow> ('s, 'e, 'a) op" where
  "ok_or_op e x = (case x of None \<Rightarrow> raise_op e | Some v \<Rightarrow> ret_op v)"

text \<open>A \<open>Result\<close> computed without the state, followed by \<open>?\<close>.\<close>

definition lift_op :: "'e + 'a \<Rightarrow> ('s, 'e, 'a) op" where
  "lift_op r = (\<lambda>s. (r, s))"

text \<open>\<open>let _ = op;\<close>: the effect is kept, the result and the error are dropped.\<close>

definition ignore_op :: "('s, 'e, 'a) op \<Rightarrow> ('s, 'f, unit) op" where
  "ignore_op m = (\<lambda>s. (Inr (), snd (m s)))"

text \<open>\<open>match op { ... }\<close>: the result is handed on, error or not.\<close>

definition try_op :: "('s, 'e, 'a) op \<Rightarrow> ('s, 'f, 'e + 'a) op" where
  "try_op m = (\<lambda>s. case m s of (r, s') \<Rightarrow> (Inr r, s'))"

definition map_err_op :: "('e \<Rightarrow> 'f) \<Rightarrow> ('s, 'e, 'a) op \<Rightarrow> ('s, 'f, 'a) op" where
  "map_err_op f m = (\<lambda>s. case m s of (Inl e, s') \<Rightarrow> (Inl (f e), s') | (Inr x, s') \<Rightarrow> (Inr x, s'))"

text \<open>A transaction that is dropped without \<open>commit\<close> leaves the state it started from.\<close>

definition tx_op :: "('s, 'e, 'a) op \<Rightarrow> ('s, 'e, 'a) op" where
  "tx_op m = (\<lambda>s. case m s of (Inl e, _) \<Rightarrow> (Inl e, s) | (Inr x, s') \<Rightarrow> (Inr x, s'))"

lemmas [op_defs] = ret_op_def raise_op_def bind_op_def gets_op_def modify_op_def require_op_def
  ok_or_op_def lift_op_def ignore_op_def try_op_def map_err_op_def tx_op_def

lemma ret_op_apply [simp]: "ret_op x s = (Inr x, s)"
  by (simp add: ret_op_def)

lemma raise_op_apply [simp]: "raise_op e s = (Inl e, s)"
  by (simp add: raise_op_def)

lemma gets_op_apply [simp]: "gets_op f s = (Inr (f s), s)"
  by (simp add: gets_op_def)

lemma modify_op_apply [simp]: "modify_op f s = (Inr (), f s)"
  by (simp add: modify_op_def)

lemma lift_op_apply [simp]: "lift_op r s = (r, s)"
  by (simp add: lift_op_def)

lemma ignore_op_apply [simp]: "ignore_op m s = (Inr (), snd (m s))"
  by (simp add: ignore_op_def)

lemma snd_try_op [simp]: "snd (try_op m s) = snd (m s)"
  by (simp add: try_op_def split: prod.split)

lemma snd_map_err_op [simp]: "snd (map_err_op f m s) = snd (m s)"
  by (simp add: map_err_op_def split: prod.split sum.split)

lemma snd_tx_op [simp]: "snd (tx_op m s) = (if isl (fst (m s)) then s else snd (m s))"
  by (simp add: tx_op_def split: prod.split sum.split)

lemma bind_op_Inr [op_results]:
  "bind_op m k s = (Inr y, t) \<longleftrightarrow> (\<exists>x s'. m s = (Inr x, s') \<and> k x s' = (Inr y, t))"
  by (auto simp: bind_op_def split: prod.splits sum.splits)

lemma bind_op_Inl [op_results]:
  "bind_op m k s = (Inl e, t) \<longleftrightarrow>
     m s = (Inl e, t) \<or> (\<exists>x s'. m s = (Inr x, s') \<and> k x s' = (Inl e, t))"
  by (auto simp: bind_op_def split: prod.splits sum.splits)

lemma require_op_Inr [op_results]: "require_op b e s = (Inr u, t) \<longleftrightarrow> b \<and> t = s"
  by (auto simp: require_op_def)

lemma require_op_Inl [op_results]: "require_op b e s = (Inl e', t) \<longleftrightarrow> \<not> b \<and> e' = e \<and> t = s"
  by (auto simp: require_op_def)

lemma ok_or_op_Inr [op_results]: "ok_or_op e x s = (Inr v, t) \<longleftrightarrow> x = Some v \<and> t = s"
  by (auto simp: ok_or_op_def split: option.splits)

lemma ok_or_op_Inl [op_results]: "ok_or_op e x s = (Inl e', t) \<longleftrightarrow> x = None \<and> e' = e \<and> t = s"
  by (auto simp: ok_or_op_def split: option.splits)

lemma try_op_Inr [op_results]: "try_op m s = (Inr r, t) \<longleftrightarrow> m s = (r, t)"
  by (auto simp: try_op_def split: prod.splits)

lemma try_op_Inl [op_results]: "try_op m s \<noteq> (Inl e, t)"
  by (auto simp: try_op_def split: prod.splits)

lemma map_err_op_Inr [op_results]: "map_err_op f m s = (Inr x, t) \<longleftrightarrow> m s = (Inr x, t)"
  by (auto simp: map_err_op_def split: prod.splits sum.splits)

lemma map_err_op_Inl [op_results]:
  "map_err_op f m s = (Inl e, t) \<longleftrightarrow> (\<exists>e0. e = f e0 \<and> m s = (Inl e0, t))"
  by (auto simp: map_err_op_def split: prod.splits sum.splits)

lemma tx_op_Inr [op_results]: "tx_op m s = (Inr x, t) \<longleftrightarrow> m s = (Inr x, t)"
  by (auto simp: tx_op_def split: prod.splits sum.splits)

lemma tx_op_Inl [op_results]: "tx_op m s = (Inl e, t) \<longleftrightarrow> t = s \<and> (\<exists>s'. m s = (Inl e, s'))"
  by (auto simp: tx_op_def split: prod.splits sum.splits)

text \<open>
  \<open>keeps P m\<close>: whatever \<open>m\<close> returns, the state it leaves is related by \<open>P\<close> to the state it
  started from. With a reflexive and transitive \<open>P\<close> it composes along \<open>bind_op\<close>, which is
  how frame and monotonicity facts about whole handlers are proved.
\<close>

definition keeps :: "('s \<Rightarrow> 's \<Rightarrow> bool) \<Rightarrow> ('s, 'e, 'a) op \<Rightarrow> bool" where
  "keeps P m \<longleftrightarrow> (\<forall>s. P s (snd (m s)))"

named_theorems keeps_intros \<open>composition rules for state relations kept by operations\<close>

locale state_preorder =
  fixes P :: "'s \<Rightarrow> 's \<Rightarrow> bool"
  assumes refl: "P s s"
    and trans: "P s t \<Longrightarrow> P t u \<Longrightarrow> P s u"
begin

lemma keeps_pure: "(\<And>s. snd (m s) = s) \<Longrightarrow> keeps P m"
  by (simp add: keeps_def refl)

lemma keeps_ret: "keeps P (ret_op x)"
  by (rule keeps_pure) simp

lemma keeps_raise: "keeps P (raise_op e)"
  by (rule keeps_pure) simp

lemma keeps_gets: "keeps P (gets_op f)"
  by (rule keeps_pure) simp

lemma keeps_lift: "keeps P (lift_op r)"
  by (rule keeps_pure) simp

lemma keeps_require: "keeps P (require_op b e)"
  by (rule keeps_pure) (simp add: require_op_def)

lemma keeps_ok_or: "keeps P (ok_or_op e x)"
  by (rule keeps_pure) (simp add: ok_or_op_def split: option.splits)

lemma keeps_modify: "(\<And>s. P s (f s)) \<Longrightarrow> keeps P (modify_op f)"
  by (simp add: keeps_def)

lemma keeps_bind:
  assumes "keeps P m" and "\<And>x. keeps P (k x)"
  shows "keeps P (bind_op m k)"
  unfolding keeps_def
proof
  fix s
  from assms(1) have "P s (snd (m s))" by (simp add: keeps_def)
  then show "P s (snd (bind_op m k s))"
    using assms(2) trans by (auto simp: keeps_def bind_op_def split: prod.splits sum.splits)
qed

lemma keeps_ignore: "keeps P m \<Longrightarrow> keeps P (ignore_op m)"
  by (simp add: keeps_def)

lemma keeps_try: "keeps P m \<Longrightarrow> keeps P (try_op m)"
  by (simp add: keeps_def)

lemma keeps_map_err: "keeps P m \<Longrightarrow> keeps P (map_err_op f m)"
  by (simp add: keeps_def)

lemma keeps_tx: "keeps P m \<Longrightarrow> keeps P (tx_op m)"
  by (simp add: keeps_def refl)

lemma keeps_if: "(b \<Longrightarrow> keeps P m) \<Longrightarrow> (\<not> b \<Longrightarrow> keeps P n) \<Longrightarrow> keeps P (if b then m else n)"
  by simp

lemma keeps_option:
  "keeps P m \<Longrightarrow> (\<And>x. keeps P (k x)) \<Longrightarrow> keeps P (case v of None \<Rightarrow> m | Some x \<Rightarrow> k x)"
  by (simp split: option.splits)

lemma keeps_sum:
  "(\<And>x. keeps P (m x)) \<Longrightarrow> (\<And>x. keeps P (k x)) \<Longrightarrow> keeps P (case v of Inl x \<Rightarrow> m x | Inr x \<Rightarrow> k x)"
  by (simp split: sum.splits)

lemma keeps_prod: "(\<And>x y. keeps P (k x y)) \<Longrightarrow> keeps P (case v of (x, y) \<Rightarrow> k x y)"
  by (simp split: prod.splits)

lemmas keeps_rules = keeps_ret keeps_raise keeps_gets keeps_lift keeps_require keeps_ok_or
  keeps_bind keeps_ignore keeps_try keeps_map_err keeps_tx keeps_if keeps_option keeps_sum
  keeps_prod

end

text \<open>Operations that leave the state alone: the preorder is equality.\<close>

interpretation readonly: state_preorder "\<lambda>s t. t = s"
  by unfold_locales auto

section \<open>SQL statements over lists of rows\<close>

text \<open>
  A table is the list of its rows in insertion order. \<open>UPDATE ... SET f WHERE p\<close> rewrites the
  rows that satisfy \<open>p\<close>, \<open>DELETE ... WHERE p\<close> drops them, \<open>fetch_optional\<close> returns the first
  row, and \<open>rows_affected\<close> counts the rows that satisfied \<open>p\<close> before the statement.
\<close>

definition sql_update :: "('r \<Rightarrow> bool) \<Rightarrow> ('r \<Rightarrow> 'r) \<Rightarrow> 'r list \<Rightarrow> 'r list" where
  "sql_update p f rows = map (\<lambda>r. if p r then f r else r) rows"

definition sql_delete :: "('r \<Rightarrow> bool) \<Rightarrow> 'r list \<Rightarrow> 'r list" where
  "sql_delete p rows = filter (\<lambda>r. \<not> p r) rows"

definition sql_count :: "('r \<Rightarrow> bool) \<Rightarrow> 'r list \<Rightarrow> nat" where
  "sql_count p rows = length (filter p rows)"

definition sql_find :: "('r \<Rightarrow> bool) \<Rightarrow> 'r list \<Rightarrow> 'r option" where
  "sql_find p rows = find p rows"

text \<open>The key column of a table holds pairwise different values (PRIMARY KEY, UNIQUE).\<close>

definition keyed :: "('r \<Rightarrow> 'k) \<Rightarrow> 'r list \<Rightarrow> bool" where
  "keyed key rows \<longleftrightarrow> distinct (map key rows)"

lemmas [sql_defs] = sql_update_def sql_delete_def sql_count_def sql_find_def

lemma sql_count_0 [simp]: "sql_count p rows = 0 \<longleftrightarrow> (\<forall>r\<in>set rows. \<not> p r)"
  by (auto simp: sql_count_def filter_empty_conv)

lemma sql_count_pos: "0 < sql_count p rows \<longleftrightarrow> (\<exists>r\<in>set rows. p r)"
  by (metis neq0_conv sql_count_0)

lemma sql_count_one: "sql_count p rows = 1 \<Longrightarrow> \<exists>r\<in>set rows. p r"
  by (simp flip: sql_count_pos)

lemma sql_find_None: "sql_find p rows = None \<longleftrightarrow> (\<forall>r\<in>set rows. \<not> p r)"
  by (auto simp: sql_find_def find_None_iff)

lemma sql_find_Nil [simp]: "sql_find p [] = None"
  by (simp add: sql_find_def)

lemma sql_find_Cons [simp]: "sql_find p (r # rs) = (if p r then Some r else sql_find p rs)"
  by (simp add: sql_find_def)

lemma sql_find_append:
  "sql_find p (xs @ ys) = (case sql_find p xs of None \<Rightarrow> sql_find p ys | Some r \<Rightarrow> Some r)"
  by (induction xs) (auto simp: sql_find_def)

lemma sql_find_delete_other:
  "(\<And>r. p r \<Longrightarrow> \<not> q r) \<Longrightarrow> sql_find p (sql_delete q xs) = sql_find p xs"
  by (induction xs) (auto simp: sql_find_def sql_delete_def)

lemma sql_find_update:
  assumes "\<And>r. p (if q r then f r else r) = p r"
  shows "sql_find p (sql_update q f xs) = map_option (\<lambda>r. if q r then f r else r) (sql_find p xs)"
  using assms by (induction xs) (auto simp: sql_find_def sql_update_def split: if_splits)

lemma sql_count_update_0:
  "(\<And>r. q r \<Longrightarrow> \<not> p (f r)) \<Longrightarrow> (\<And>r. p r \<Longrightarrow> q r) \<Longrightarrow> sql_count p (sql_update q f xs) = 0"
  by (auto simp: sql_update_def)

lemma sql_find_ex: "\<exists>r\<in>set rows. p r \<Longrightarrow> \<exists>r. sql_find p rows = Some r"
  by (cases "sql_find p rows") (auto simp: sql_find_None)

lemma sql_find_SomeD: "sql_find p rows = Some r \<Longrightarrow> r \<in> set rows \<and> p r"
  by (auto simp: sql_find_def find_Some_iff)

lemma sql_find_keyed:
  assumes "keyed key rows" and "r \<in> set rows"
  shows "sql_find (\<lambda>x. key x = key r) rows = Some r"
  using assms
  by (induction rows) (auto simp: keyed_def sql_find_def image_iff)

lemma sql_find_keyed_and:
  assumes "keyed key rows" and "r \<in> set rows" and "p r"
  shows "sql_find (\<lambda>x. key x = key r \<and> p x) rows = Some r"
  using assms
  by (induction rows) (auto simp: keyed_def sql_find_def image_iff)

lemma set_sql_update: "set (sql_update p f rows) = (\<lambda>r. if p r then f r else r) ` set rows"
  by (simp add: sql_update_def)

lemma set_sql_delete [simp]: "set (sql_delete p rows) = {r \<in> set rows. \<not> p r}"
  by (simp add: sql_delete_def)

lemma keyed_Nil [simp]: "keyed key []"
  by (simp add: keyed_def)

lemma keyed_append:
  "keyed key (rows @ [r]) \<longleftrightarrow> keyed key rows \<and> (\<forall>x\<in>set rows. key x \<noteq> key r)"
  by (auto simp: keyed_def image_iff)

lemma map_key_sql_update:
  "(\<And>r. key (f r) = key r) \<Longrightarrow> map key (sql_update p f rows) = map key rows"
  by (simp add: sql_update_def)

lemma in_map3: "r \<in> set xs \<Longrightarrow> f (g (h r)) \<in> set (map f (map g (map h xs @ ys)))"
  by simp

lemma keyed_sql_update:
  assumes "\<And>r. p r \<Longrightarrow> key (f r) = key r"
  shows "keyed key (sql_update p f rows) = keyed key rows"
proof -
  have "map key (sql_update p f rows) = map key rows"
    using assms by (simp add: sql_update_def)
  then show ?thesis by (simp add: keyed_def)
qed

lemma keyed_sql_delete: "keyed key rows \<Longrightarrow> keyed key (sql_delete p rows)"
  by (auto simp: keyed_def sql_delete_def intro: distinct_map_filter)

text \<open>On a key column at most one row satisfies a condition that fixes the key.\<close>

lemma keyed_count_le_1:
  assumes "keyed key rows" and "\<And>r. p r \<Longrightarrow> key r = k"
  shows "sql_count p rows \<le> 1"
  using assms
proof (induction rows)
  case Nil
  then show ?case by (simp add: sql_count_def)
next
  case (Cons a rows)
  show ?case
  proof (cases "p a")
    case True
    with Cons.prems have "\<forall>r\<in>set rows. \<not> p r"
      by (auto simp: keyed_def image_iff)
    then have "sql_count p rows = 0" by simp
    with True show ?thesis by (simp add: sql_count_def)
  next
    case False
    with Cons show ?thesis by (simp add: keyed_def sql_count_def)
  qed
qed

lemma keyed_unique:
  "keyed key rows \<Longrightarrow> r \<in> set rows \<Longrightarrow> q \<in> set rows \<Longrightarrow> key r = key q \<Longrightarrow> r = q"
  by (auto simp: keyed_def distinct_map dest: inj_onD)

end
