(* ===== verification/Rust_Str.thy ===== *)
theory Rust_Str
  imports Prelude
begin

text \<open>
  Rust's \<open>str\<close> as the list of its UTF-8 bytes: \<open>length\<close> is \<open>str::len\<close>, and the operations
  below are the ones of the standard library that the server calls. Splitting, trimming and
  ASCII case folding work on bytes as the library does; the Unicode properties that the code
  asks of \<open>char\<close>s are computed on the decoded scalar values.
\<close>

section \<open>Bytes and ASCII classes\<close>

definition byte :: "char \<Rightarrow> nat" where
  "byte c = of_char c"

definition is_ascii_digit :: "char \<Rightarrow> bool" where
  "is_ascii_digit c \<longleftrightarrow> 48 \<le> byte c \<and> byte c \<le> 57"

definition is_ascii_upper :: "char \<Rightarrow> bool" where
  "is_ascii_upper c \<longleftrightarrow> 65 \<le> byte c \<and> byte c \<le> 90"

definition is_ascii_lower :: "char \<Rightarrow> bool" where
  "is_ascii_lower c \<longleftrightarrow> 97 \<le> byte c \<and> byte c \<le> 122"

definition is_ascii_alphanumeric :: "char \<Rightarrow> bool" where
  "is_ascii_alphanumeric c \<longleftrightarrow> is_ascii_digit c \<or> is_ascii_upper c \<or> is_ascii_lower c"

definition is_ascii_hexdigit :: "char \<Rightarrow> bool" where
  "is_ascii_hexdigit c \<longleftrightarrow> is_ascii_digit c \<or> (65 \<le> byte c \<and> byte c \<le> 70) \<or> (97 \<le> byte c \<and> byte c \<le> 102)"

definition is_ascii_control :: "char \<Rightarrow> bool" where
  "is_ascii_control c \<longleftrightarrow> byte c < 32 \<or> byte c = 127"

text \<open>\<open>u8::is_ascii_whitespace\<close>: space, tab, line feed, form feed, carriage return.\<close>

definition is_ascii_whitespace :: "char \<Rightarrow> bool" where
  "is_ascii_whitespace c \<longleftrightarrow> byte c \<in> {32, 9, 10, 12, 13}"

definition to_ascii_lower :: "char \<Rightarrow> char" where
  "to_ascii_lower c = (if is_ascii_upper c then char_of (byte c + 32) else c)"

definition to_ascii_lowercase :: "string \<Rightarrow> string" where
  "to_ascii_lowercase s = map to_ascii_lower s"

definition eq_ignore_ascii_case :: "string \<Rightarrow> string \<Rightarrow> bool" where
  "eq_ignore_ascii_case s t \<longleftrightarrow> to_ascii_lowercase s = to_ascii_lowercase t"

lemma eq_ignore_ascii_case_refl [simp]: "eq_ignore_ascii_case s s"
  by (simp add: eq_ignore_ascii_case_def)

lemma eq_ignore_ascii_case_sym: "eq_ignore_ascii_case s t \<Longrightarrow> eq_ignore_ascii_case t s"
  by (simp add: eq_ignore_ascii_case_def)

lemma eq_ignore_ascii_case_trans:
  "eq_ignore_ascii_case s t \<Longrightarrow> eq_ignore_ascii_case t u \<Longrightarrow> eq_ignore_ascii_case s u"
  by (simp add: eq_ignore_ascii_case_def)

lemma byte_less_256 [simp]: "byte c < 256"
  by (simp add: byte_def)

lemma byte_char_of [simp]: "n < 256 \<Longrightarrow> byte (char_of n) = n"
  by (simp add: byte_def)

lemma to_ascii_lower_idem [simp]: "to_ascii_lower (to_ascii_lower c) = to_ascii_lower c"
  by (auto simp: to_ascii_lower_def is_ascii_upper_def)

lemma to_ascii_lowercase_idem [simp]:
  "to_ascii_lowercase (to_ascii_lowercase s) = to_ascii_lowercase s"
  by (simp add: to_ascii_lowercase_def)

lemma length_to_ascii_lowercase [simp]: "length (to_ascii_lowercase s) = length s"
  by (simp add: to_ascii_lowercase_def)

lemma eq_ignore_ascii_case_length: "eq_ignore_ascii_case s t \<Longrightarrow> length s = length t"
  by (metis eq_ignore_ascii_case_def length_to_ascii_lowercase)

section \<open>Splitting and searching\<close>

fun split_char :: "char \<Rightarrow> string \<Rightarrow> string list" where
  "split_char c [] = [[]]"
| "split_char c (x # xs) =
     (if x = c then [] # split_char c xs
      else (case split_char c xs of [] \<Rightarrow> [[x]] | y # ys \<Rightarrow> (x # y) # ys))"

fun split_once_char :: "char \<Rightarrow> string \<Rightarrow> (string \<times> string) option" where
  "split_once_char c [] = None"
| "split_once_char c (x # xs) =
     (if x = c then Some ([], xs)
      else map_option (\<lambda>(a, b). (x # a, b)) (split_once_char c xs))"

fun join_str :: "string \<Rightarrow> string list \<Rightarrow> string" where
  "join_str sep [] = []"
| "join_str sep [x] = x"
| "join_str sep (x # y # ys) = x @ sep @ join_str sep (y # ys)"

definition strip_prefix :: "string \<Rightarrow> string \<Rightarrow> string option" where
  "strip_prefix p s = (if prefix p s then Some (drop (length p) s) else None)"

text \<open>\<open>str::find\<close> with a string needle: the byte offset of the first occurrence.\<close>

fun find_str :: "string \<Rightarrow> string \<Rightarrow> nat option" where
  "find_str needle [] = (if needle = [] then Some 0 else None)"
| "find_str needle (x # xs) =
     (if prefix needle (x # xs) then Some 0 else map_option Suc (find_str needle xs))"

lemma split_char_nonempty [simp]: "split_char c s \<noteq> []"
  by (cases s) (auto split: list.splits)

lemma split_char_no_sep: "p \<in> set (split_char c s) \<Longrightarrow> c \<notin> set p"
proof (induction s arbitrary: p)
  case Nil
  then show ?case by simp
next
  case (Cons x xs)
  show ?case
  proof (cases "x = c")
    case True
    with Cons show ?thesis by auto
  next
    case False
    obtain y ys where ys: "split_char c xs = y # ys"
      using split_char_nonempty by (meson neq_Nil_conv)
    from Cons.prems False ys have "p = x # y \<or> p \<in> set ys" by auto
    with Cons.IH ys False show ?thesis by auto
  qed
qed

lemma join_split_char [simp]: "join_str [c] (split_char c s) = s"
proof (induction s)
  case Nil
  then show ?case by simp
next
  case (Cons x xs)
  then obtain y ys where "split_char c xs = y # ys"
    using split_char_nonempty by (meson neq_Nil_conv)
  with Cons show ?case by (cases ys) auto
qed

lemma set_split_char: "p \<in> set (split_char c s) \<Longrightarrow> set p \<subseteq> set s"
proof (induction s arbitrary: p)
  case Nil
  then show ?case by simp
next
  case (Cons x xs)
  obtain y ys where ys: "split_char c xs = y # ys"
    using split_char_nonempty by (meson neq_Nil_conv)
  with Cons show ?case by (fastforce split: if_splits)
qed

lemma split_char_append_sep:
  "c \<notin> set a \<Longrightarrow> split_char c (a @ c # b) = a # split_char c b"
  by (induction a) auto

lemma split_char_append:
  "split_char c (a @ c # b) = split_char c a @ split_char c b"
  by (induction a) (auto split: list.splits)

lemma split_char_single: "c \<notin> set a \<Longrightarrow> split_char c a = [a]"
  by (induction a) auto

lemma split_char_join:
  assumes "xs \<noteq> []" and "\<forall>x\<in>set xs. c \<notin> set x"
  shows "split_char c (join_str [c] xs) = xs"
  using assms
  by (induction "[c]" xs rule: join_str.induct) (auto simp: split_char_append_sep split_char_single)

lemma split_once_char_Some:
  "split_once_char c s = Some (a, b) \<longleftrightarrow> s = a @ c # b \<and> c \<notin> set a"
proof (induction s arbitrary: a)
  case Nil
  then show ?case by simp
next
  case (Cons x xs)
  show ?case
  proof (cases "x = c")
    case True
    then show ?thesis by (cases a) auto
  next
    case False
    with Cons show ?thesis by (cases a) auto
  qed
qed

lemma strip_prefix_Some: "strip_prefix p s = Some t \<longleftrightarrow> s = p @ t"
  by (auto simp: strip_prefix_def prefix_def)

lemma find_str_Some:
  "find_str n h = Some i \<Longrightarrow> i + length n \<le> length h \<and> prefix n (drop i h)"
proof (induction n h arbitrary: i rule: find_str.induct)
  case (1 n)
  then show ?case by (simp split: if_splits)
next
  case (2 n x xs)
  then show ?case
    by (cases i) (auto split: if_splits dest: prefix_length_le)
qed

lemma all_le_Suc: "(\<forall>i\<le>Suc n. P i) \<longleftrightarrow> P 0 \<and> (\<forall>i\<le>n. P (Suc i))"
  by (metis Suc_le_mono le0 not0_implies_Suc)

lemma find_str_None: "find_str n h = None \<longleftrightarrow> (\<forall>i\<le>length h. \<not> prefix n (drop i h))"
  by (induction n h rule: find_str.induct) (simp_all add: all_le_Suc)

section \<open>White space and Unicode scalar values\<close>

text \<open>
  The UTF-8 encodings of the code points with the Unicode property White\_Space, which is
  what \<open>char::is_whitespace\<close> tests: U+0009--000D, U+0020, U+0085, U+00A0, U+1680,
  U+2000--200A, U+2028, U+2029, U+202F, U+205F, U+3000.
\<close>

definition bytes :: "nat list \<Rightarrow> string" where
  "bytes ns = map char_of ns"

definition whitespace_encodings :: "string list" where
  "whitespace_encodings =
     map bytes ([[9], [10], [11], [12], [13], [32], [194, 133], [194, 160], [225, 154, 128],
       [226, 128, 168], [226, 128, 169], [226, 128, 175], [226, 129, 159], [227, 128, 128]]
       @ map (\<lambda>n. [226, 128, n]) [128..<139])"

lemma whitespace_encodings_nonempty: "w \<in> set whitespace_encodings \<Longrightarrow> w \<noteq> []"
  by (auto simp: whitespace_encodings_def bytes_def)

definition leading_whitespace :: "string \<Rightarrow> string option" where
  "leading_whitespace s = find (\<lambda>w. prefix w s) whitespace_encodings"

definition trailing_whitespace :: "string \<Rightarrow> string option" where
  "trailing_whitespace s = find (\<lambda>w. suffix w s) whitespace_encodings"

lemma leading_whitespace_Some:
  assumes "leading_whitespace s = Some w"
  shows "w \<noteq> [] \<and> prefix w s"
proof -
  from assms have "w \<in> set whitespace_encodings" and "prefix w s"
    by (auto simp: leading_whitespace_def find_Some_iff)
  then show ?thesis using whitespace_encodings_nonempty by blast
qed

lemma trailing_whitespace_Some:
  assumes "trailing_whitespace s = Some w"
  shows "w \<noteq> [] \<and> suffix w s"
proof -
  from assms have "w \<in> set whitespace_encodings" and "suffix w s"
    by (auto simp: trailing_whitespace_def find_Some_iff)
  then show ?thesis using whitespace_encodings_nonempty by blast
qed

function trim_start :: "string \<Rightarrow> string" where
  "trim_start s = (case leading_whitespace s of None \<Rightarrow> s | Some w \<Rightarrow> trim_start (drop (length w) s))"
  by pat_completeness auto
termination
proof (relation "measure length")
  fix s w assume "leading_whitespace s = Some w"
  then have "0 < length w" and "length w \<le> length s"
    using leading_whitespace_Some prefix_length_le by blast+
  then have "length s - length w < length s" by linarith
  then show "(drop (length w) s, s) \<in> measure length" by simp
qed simp

function trim_end :: "string \<Rightarrow> string" where
  "trim_end s =
     (case trailing_whitespace s of None \<Rightarrow> s | Some w \<Rightarrow> trim_end (take (length s - length w) s))"
  by pat_completeness auto
termination
proof (relation "measure length")
  fix s w assume "trailing_whitespace s = Some w"
  then have "0 < length w" and "length w \<le> length s"
    using trailing_whitespace_Some suffix_length_le by blast+
  then have "length s - length w < length s" by linarith
  then show "(take (length s - length w) s, s) \<in> measure length" by simp
qed simp

declare trim_start.simps [simp del] trim_end.simps [simp del]

definition trim :: "string \<Rightarrow> string" where
  "trim s = trim_end (trim_start s)"

text \<open>Text that starts and ends with a printable ASCII character has nothing to trim.\<close>

definition ascii_graphic :: "char \<Rightarrow> bool" where
  "ascii_graphic c \<longleftrightarrow> 33 \<le> byte c \<and> byte c < 127"

lemma whitespace_encodings_graphic:
  "w \<in> set whitespace_encodings \<Longrightarrow> \<not> ascii_graphic (hd w) \<and> \<not> ascii_graphic (last w)"
  by (auto simp: whitespace_encodings_def bytes_def ascii_graphic_def byte_def)

lemma leading_whitespace_graphic:
  assumes "s \<noteq> []" "ascii_graphic (hd s)"
  shows "leading_whitespace s = None"
proof (rule ccontr)
  assume "leading_whitespace s \<noteq> None"
  then obtain w where "w \<in> set whitespace_encodings" "prefix w s"
    by (auto simp: leading_whitespace_def find_Some_iff intro: nth_mem)
  then have "\<not> ascii_graphic (hd w)" "hd w = hd s"
    using whitespace_encodings_graphic whitespace_encodings_nonempty by (auto simp: prefix_def)
  with assms(2) show False by simp
qed

lemma trim_graphic:
  assumes "s \<noteq> []" "ascii_graphic (hd s)" "ascii_graphic (last s)"
  shows "trim s = s"
proof -
  have "leading_whitespace s = None" using assms(1,2) by (rule leading_whitespace_graphic)
  moreover have "trailing_whitespace s = None"
  proof (rule ccontr)
    assume "trailing_whitespace s \<noteq> None"
    then obtain w where "w \<in> set whitespace_encodings" "suffix w s"
      by (auto simp: trailing_whitespace_def find_Some_iff intro: nth_mem)
    then have "\<not> ascii_graphic (last w)" "last w = last s"
      using whitespace_encodings_graphic whitespace_encodings_nonempty
      by (auto simp: suffix_def)
    with assms(3) show False by simp
  qed
  ultimately show ?thesis by (simp add: trim_def trim_start.simps trim_end.simps)
qed

text \<open>\<open>split_whitespace\<close>: the maximal pieces between runs of white space.\<close>

function split_ws_from :: "string \<Rightarrow> string \<Rightarrow> string list" where
  "split_ws_from cur s =
     (case s of
        [] \<Rightarrow> (if cur = [] then [] else [rev cur])
      | x # xs \<Rightarrow>
          (case leading_whitespace s of
             None \<Rightarrow> split_ws_from (x # cur) xs
           | Some w \<Rightarrow> (if cur = [] then [] else [rev cur]) @ split_ws_from [] (drop (length w) s)))"
  by pat_completeness auto
termination
proof (relation "measure (\<lambda>(cur, s). length s)")
  fix cur s x xs w
  assume "s = x # xs" and "leading_whitespace s = Some w"
  then have "0 < length w" and "length w \<le> length s"
    using leading_whitespace_Some prefix_length_le by blast+
  then have "length s - length w < length s" by linarith
  then show "(([], drop (length w) s), (cur, s)) \<in> measure (\<lambda>(cur, s). length s)"
    by simp
qed auto

declare split_ws_from.simps [simp del]

definition split_whitespace :: "string \<Rightarrow> string list" where
  "split_whitespace s = split_ws_from [] s"

lemma split_whitespace_word: "s \<noteq> [] \<Longrightarrow> \<forall>c\<in>set s. ascii_graphic c \<Longrightarrow> split_whitespace s = [s]"
proof -
  have "\<forall>c\<in>set s. ascii_graphic c \<Longrightarrow> split_ws_from cur s = (if cur = [] \<and> s = [] then [] else [rev cur @ s])" for cur
    by (induction s arbitrary: cur)
       (simp_all add: split_ws_from.simps [of _ "[]"] split_ws_from.simps [of _ "_ # _"] leading_whitespace_graphic)
  then show "s \<noteq> [] \<Longrightarrow> \<forall>c\<in>set s. ascii_graphic c \<Longrightarrow> split_whitespace s = [s]"
    by (simp add: split_whitespace_def)
qed

lemma split_ws_from_nonempty: "p \<in> set (split_ws_from cur s) \<Longrightarrow> p \<noteq> []"
proof (induction cur s arbitrary: p rule: split_ws_from.induct)
  case (1 cur s)
  show ?case
  proof (cases s)
    case Nil
    with "1.prems" show ?thesis by (auto simp: split_ws_from.simps split: if_splits)
  next
    case (Cons x xs)
    show ?thesis
    proof (cases "leading_whitespace s")
      case None
      with Cons "1.prems" have "p \<in> set (split_ws_from (x # cur) xs)"
        by (simp add: split_ws_from.simps [of cur "x # xs"])
      then show ?thesis using "1.IH"(1) Cons None by blast
    next
      case (Some w)
      with Cons "1.prems" have "p = rev cur \<and> cur \<noteq> [] \<or> p \<in> set (split_ws_from [] (drop (length w) s))"
        by (auto simp: split_ws_from.simps [of cur "x # xs"] split: if_splits)
      then show ?thesis using "1.IH"(2) Cons Some by blast
    qed
  qed
qed

text \<open>
  The scalar values of a well-formed UTF-8 string (every Rust \<open>str\<close> is one); the length of a
  sequence is read off its first byte.
\<close>

fun utf8_chars :: "nat list \<Rightarrow> nat list" where
  "utf8_chars [] = []"
| "utf8_chars [a] = [a]"
| "utf8_chars [a, b] =
     (if a < 128 then a # utf8_chars [b] else [(a mod 32) * 64 + b mod 64])"
| "utf8_chars [a, b, c] =
     (if a < 128 then a # utf8_chars [b, c]
      else if a < 224 then ((a mod 32) * 64 + b mod 64) # utf8_chars [c]
      else [(a mod 16) * 4096 + (b mod 64) * 64 + c mod 64])"
| "utf8_chars (a # b # c # d # rest) =
     (if a < 128 then a # utf8_chars (b # c # d # rest)
      else if a < 224 then ((a mod 32) * 64 + b mod 64) # utf8_chars (c # d # rest)
      else if a < 240 then ((a mod 16) * 4096 + (b mod 64) * 64 + c mod 64) # utf8_chars (d # rest)
      else ((a mod 8) * 262144 + (b mod 64) * 4096 + (c mod 64) * 64 + d mod 64)
             # utf8_chars rest)"

definition chars :: "string \<Rightarrow> nat list" where
  "chars s = utf8_chars (map byte s)"

text \<open>\<open>char::is_control\<close>: general category Cc.\<close>

definition is_control :: "nat \<Rightarrow> bool" where
  "is_control n \<longleftrightarrow> n < 32 \<or> (127 \<le> n \<and> n < 160)"

definition is_ascii_string :: "string \<Rightarrow> bool" where
  "is_ascii_string s \<longleftrightarrow> (\<forall>c\<in>set s. byte c < 128)"

lemma utf8_chars_ascii: "\<forall>n\<in>set ns. n < 128 \<Longrightarrow> utf8_chars ns = ns"
  by (induction ns rule: utf8_chars.induct) auto

lemma chars_ascii: "is_ascii_string s \<Longrightarrow> chars s = map byte s"
  unfolding chars_def by (rule utf8_chars_ascii) (auto simp: is_ascii_string_def)

section \<open>Decimal integers\<close>

text \<open>
  \<open>str::parse::<i64>\<close>: an optional sign, at least one ASCII digit, and a value in range.
\<close>

definition in_i64 :: "int \<Rightarrow> bool" where
  "in_i64 n \<longleftrightarrow> - (2 ^ 63) \<le> n \<and> n < 2 ^ 63"

fun digits_value :: "nat \<Rightarrow> string \<Rightarrow> nat option" where
  "digits_value acc [] = Some acc"
| "digits_value acc (c # cs) =
     (if is_ascii_digit c then digits_value (acc * 10 + (byte c - 48)) cs else None)"

definition parse_digits :: "string \<Rightarrow> nat option" where
  "parse_digits s = (if s = [] then None else digits_value 0 s)"

definition parse_i64 :: "string \<Rightarrow> int option" where
  "parse_i64 s =
     (let v = (case s of
                 [] \<Rightarrow> None
               | c # cs \<Rightarrow> (if c = CHR ''-'' then map_option (\<lambda>n. - int n) (parse_digits cs)
                            else if c = CHR ''+'' then map_option int (parse_digits cs)
                            else map_option int (parse_digits s)))
      in case v of None \<Rightarrow> None | Some n \<Rightarrow> (if in_i64 n then Some n else None))"

lemma parse_i64_in_range: "parse_i64 s = Some n \<Longrightarrow> in_i64 n"
  by (auto simp: parse_i64_def Let_def split: option.splits if_splits)

text \<open>\<open>i64::to_string\<close>.\<close>

function show_nat :: "nat \<Rightarrow> string" where
  "show_nat n = (if n < 10 then [char_of (48 + n)] else show_nat (n div 10) @ [char_of (48 + n mod 10)])"
  by pat_completeness auto
termination
  by (relation "measure id") auto

declare show_nat.simps [simp del]

definition show_int :: "int \<Rightarrow> string" where
  "show_int n = (if n < 0 then ''-'' @ show_nat (nat (- n)) else show_nat (nat n))"

lemma digits_value_append:
  "digits_value acc (s @ t) = (case digits_value acc s of None \<Rightarrow> None | Some a \<Rightarrow> digits_value a t)"
  by (induction s arbitrary: acc) auto

lemma is_ascii_digit_char_of: "k < 10 \<Longrightarrow> is_ascii_digit (char_of (48 + k :: nat))"
  by (simp add: is_ascii_digit_def)

lemma digits_value_show_nat: "digits_value 0 (show_nat n) = Some n"
proof (induction n rule: show_nat.induct)
  case (1 n)
  show ?case
  proof (cases "n < 10")
    case True
    then show ?thesis by (subst show_nat.simps) (simp add: is_ascii_digit_char_of)
  next
    case False
    then show ?thesis
      using 1 by (subst show_nat.simps) (simp add: digits_value_append is_ascii_digit_char_of)
  qed
qed

lemma show_nat_nonempty [simp]: "show_nat n \<noteq> []"
  by (subst show_nat.simps) simp

lemma show_nat_digits: "c \<in> set (show_nat n) \<Longrightarrow> is_ascii_digit c"
proof (induction n rule: show_nat.induct)
  case (1 n)
  then show ?case
    by (subst (asm) show_nat.simps) (auto simp: is_ascii_digit_char_of split: if_splits)
qed

lemma parse_digits_show_nat [simp]: "parse_digits (show_nat n) = Some n"
  by (simp add: parse_digits_def digits_value_show_nat)

lemma parse_i64_show_int: "in_i64 n \<Longrightarrow> parse_i64 (show_int n) = Some n"
proof -
  assume n: "in_i64 n"
  show ?thesis
  proof (cases "n < 0")
    case True
    with n show ?thesis by (simp add: parse_i64_def show_int_def)
  next
    case False
    obtain c cs where cs: "show_nat (nat n) = c # cs"
      using show_nat_nonempty by (meson neq_Nil_conv)
    then have "is_ascii_digit c" using show_nat_digits [of c "nat n"] by simp
    then have "c \<noteq> CHR ''-''" and "c \<noteq> CHR ''+''"
      by (auto simp: is_ascii_digit_def byte_def)
    moreover have "parse_digits (c # cs) = Some (nat n)"
      using parse_digits_show_nat [of "nat n"] cs by simp
    ultimately show ?thesis using n False cs by (simp add: parse_i64_def show_int_def)
  qed
qed

end
