(* ===== verification/Errors.thy ===== *)
theory Errors
  imports Rust_Str
begin

text \<open>
  \<open>errors.rs\<close>: the error type every handler returns, its HTTP status and body, and the
  conversion of database errors. \<open>handlers/mod.rs\<close> wraps it for login and registration.
\<close>

section \<open>Application errors\<close>

datatype sqlx_error = RowNotFound | DatabaseUnique string | DatabaseOther string

datatype app_error =
    DbError sqlx_error
  | UniqueError string
  | NotFound
  | InputError "string list"
  | AuthenticationRequired
  | Forbidden
  | InternalError string

type_synonym 'a result = "app_error + 'a"

fun status_code :: "app_error \<Rightarrow> nat" where
  "status_code (DbError _) = 500"
| "status_code (UniqueError _) = 409"
| "status_code NotFound = 404"
| "status_code (InputError _) = 400"
| "status_code AuthenticationRequired = 401"
| "status_code Forbidden = 403"
| "status_code (InternalError _) = 500"

text \<open>\<open>IntoResponse\<close>: the status and the body sent to the client.\<close>

fun error_response :: "app_error \<Rightarrow> nat \<times> string" where
  "error_response (DbError err) = (500, ''Internal server error'')"
| "error_response (InternalError err) = (500, ''Internal server error'')"
| "error_response NotFound = (404, ''Resource not found'')"
| "error_response (UniqueError err) = (409, err)"
| "error_response AuthenticationRequired = (401, ''Authentication required'')"
| "error_response Forbidden = (403, ''Access denied'')"
| "error_response (InputError errs) = (400, join_str '', '' errs)"

fun app_error_of_sqlx :: "sqlx_error \<Rightarrow> app_error" where
  "app_error_of_sqlx (DatabaseUnique _) = UniqueError ''Uniqueness constraint not satisfied''"
| "app_error_of_sqlx err = DbError err"

text \<open>
  Internal failures never reach the client: the response to a database or internal error does
  not depend on the error's contents, and every response carries the status of its error.
\<close>

lemma error_response_status: "fst (error_response e) = status_code e"
  by (cases e) auto

lemma error_response_opaque:
  "status_code e = 500 \<Longrightarrow> error_response e = (500, ''Internal server error'')"
  by (cases e) auto

section \<open>Login and registration errors\<close>

text \<open>A duration in nanoseconds, as the rate limiter hands it out.\<close>

datatype login_error = LoginApp app_error | LoginRateLimit nat | MfaRequired | MfaInvalid

datatype register_error = RegisterApp app_error | RegisterRateLimit nat

definition nanos_per_sec :: nat where
  "nanos_per_sec = 1000000000"

text \<open>
  \<open>RateLimitExceeded::into_response\<close>: whole seconds, rounded down. A response is its status,
  the headers set explicitly and the body.
\<close>

type_synonym wire_response = "nat \<times> (string \<times> string) list \<times> string"

definition rate_limit_response :: "nat \<Rightarrow> wire_response" where
  "rate_limit_response retry_after =
     (let secs = retry_after div nanos_per_sec
      in (429, [(''retry-after'', show_nat secs)],
          ''Rate limit exceeded. Retry after '' @ show_nat secs @ '' seconds.''))"

definition app_response :: "app_error \<Rightarrow> wire_response" where
  "app_response e = (case error_response e of (status, body) \<Rightarrow> (status, [], body))"

definition json_content :: "(string \<times> string) list" where
  "json_content = [(''content-type'', ''application/json'')]"

definition mfa_required_body :: string where
  "mfa_required_body = [CHR 0x7B, CHR 0x22] @ ''error'' @ [CHR 0x22] @ '':'' @ [CHR 0x22] @ ''mfa_required'' @ [CHR 0x22, CHR 0x7D]"

definition invalid_totp_body :: string where
  "invalid_totp_body = [CHR 0x7B, CHR 0x22] @ ''error'' @ [CHR 0x22] @ '':'' @ [CHR 0x22] @ ''invalid_totp'' @ [CHR 0x22, CHR 0x7D]"

fun login_error_response :: "login_error \<Rightarrow> wire_response" where
  "login_error_response (LoginApp e) = app_response e"
| "login_error_response (LoginRateLimit d) = rate_limit_response d"
| "login_error_response MfaRequired = (401, json_content, mfa_required_body)"
| "login_error_response MfaInvalid = (401, json_content, invalid_totp_body)"

fun register_error_response :: "register_error \<Rightarrow> wire_response" where
  "register_error_response (RegisterApp e) = app_response e"
| "register_error_response (RegisterRateLimit d) = rate_limit_response d"

end
