(* ===== verification/Json.thy ===== *)
theory Json
  imports Rust_Str
begin

text \<open>
  JSON values and the lookups performed by a decoder derived with \<open>serde\<close>: a field that
  occurs twice is an error, an unknown field is ignored, a missing \<open>Option\<close> field is \<open>None\<close>,
  and an integer outside the 64-bit range does not decode as \<open>i64\<close>.
\<close>

datatype json =
    JNull
  | JBool bool
  | JInt int
  | JStr string
  | JArr "json list"
  | JObj "(string \<times> json) list"

text \<open>\<open>None\<close> is a decoding error, \<open>Some None\<close> a missing field.\<close>

fun jget :: "string \<Rightarrow> json \<Rightarrow> json option option" where
  "jget k (JObj kvs) =
     (case filter (\<lambda>kv. fst kv = k) kvs of
        [] \<Rightarrow> Some None
      | [kv] \<Rightarrow> Some (Some (snd kv))
      | _ \<Rightarrow> None)"
| "jget k _ = None"

fun as_str :: "json \<Rightarrow> string option" where
  "as_str (JStr s) = Some s"
| "as_str _ = None"

fun as_i64 :: "json \<Rightarrow> int option" where
  "as_i64 (JInt n) = (if in_i64 n then Some n else None)"
| "as_i64 _ = None"

fun as_bool :: "json \<Rightarrow> bool option" where
  "as_bool (JBool b) = Some b"
| "as_bool _ = None"

fun as_strs :: "json list \<Rightarrow> string list option" where
  "as_strs [] = Some []"
| "as_strs (j # js) = do { s \<leftarrow> as_str j; ss \<leftarrow> as_strs js; Some (s # ss) }"

fun as_str_list :: "json \<Rightarrow> string list option" where
  "as_str_list (JArr js) = as_strs js"
| "as_str_list _ = None"

definition req_field :: "(json \<Rightarrow> 'a option) \<Rightarrow> string \<Rightarrow> json \<Rightarrow> 'a option" where
  "req_field f k j = (case jget k j of Some (Some v) \<Rightarrow> f v | _ \<Rightarrow> None)"

definition opt_field :: "(json \<Rightarrow> 'a option) \<Rightarrow> string \<Rightarrow> json \<Rightarrow> 'a option option" where
  "opt_field f k j =
     (case jget k j of
        None \<Rightarrow> None
      | Some None \<Rightarrow> Some None
      | Some (Some JNull) \<Rightarrow> Some None
      | Some (Some v) \<Rightarrow> map_option Some (f v))"

definition jopt :: "('a \<Rightarrow> json) \<Rightarrow> 'a option \<Rightarrow> json" where
  "jopt f x = (case x of None \<Rightarrow> JNull | Some v \<Rightarrow> f v)"

text \<open>\<open>skip_serializing_if = "Option::is_none"\<close>.\<close>

definition jskip :: "string \<Rightarrow> ('a \<Rightarrow> json) \<Rightarrow> 'a option \<Rightarrow> (string \<times> json) list" where
  "jskip k f x = (case x of None \<Rightarrow> [] | Some v \<Rightarrow> [(k, f v)])"

definition jstrs :: "string list \<Rightarrow> json" where
  "jstrs ss = JArr (map JStr ss)"

lemma as_strs_map [simp]: "as_strs (map JStr ss) = Some ss"
  by (induction ss) auto

lemma as_str_list_jstrs [simp]: "as_str_list (jstrs ss) = Some ss"
  by (simp add: jstrs_def)

lemmas json_field_defs = req_field_def opt_field_def jopt_def jskip_def

end
