(* ===== verification/Externals.thy ===== *)
theory Externals
  imports Errors Json
begin

text \<open>
  The third-party code the server calls, as one record of functions that every definition
  using it takes as an argument: hashing, encodings, UUID text, JSON text, JWT signing and
  checking, authenticated encryption, password hashing, HMAC, regular expressions, URL
  handling and the Unicode tables beyond ASCII. What the server relies on is stated below as
  named hypotheses about these functions; nothing else is assumed of them.
\<close>

section \<open>The interface\<close>

type_synonym uuid = nat
type_synonym skey = string

record jwt_header =
  jh_alg :: string
  jh_kid :: "string option"

text \<open>The fields of \<open>jsonwebtoken::Validation\<close> that the server sets.\<close>

record jwt_validation =
  jv_leeway :: int
  jv_required :: "string list"
  jv_iss :: "string list option"
  jv_aud :: "string list option"
  jv_validate_aud :: bool
  jv_validate_exp :: bool

text \<open>A parsed URL, with the components the server reads.\<close>

record url =
  ur_text :: string
  ur_scheme :: string
  ur_host_str :: "string option"
  ur_domain :: "string option"
  ur_host_port :: string
  ur_username :: string
  ur_password :: "string option"
  ur_query :: "string option"
  ur_fragment :: "string option"
  ur_path :: string
  ur_before_path :: string
  ur_origin :: string

record externals =
  x_public_key :: "skey \<Rightarrow> string"
  x_sha256 :: "string \<Rightarrow> string"
  x_hex_encode :: "string \<Rightarrow> string"
  x_hex_decode :: "string \<Rightarrow> string option"
  x_b64url :: "string \<Rightarrow> string"
  x_uuid_str :: "uuid \<Rightarrow> string"
  x_uuid_parse :: "string \<Rightarrow> uuid option"
  x_json_print :: "json \<Rightarrow> string"
  x_json_parse :: "string \<Rightarrow> json option"
  x_jwt_sign :: "skey \<Rightarrow> jwt_header \<Rightarrow> json \<Rightarrow> string + string"
  x_jwt_verify :: "skey \<Rightarrow> jwt_validation \<Rightarrow> int \<Rightarrow> string \<Rightarrow> json option"
  x_aead_encrypt :: "string \<Rightarrow> string \<Rightarrow> string \<Rightarrow> string option"
  x_aead_decrypt :: "string \<Rightarrow> string \<Rightarrow> string \<Rightarrow> string option"
  x_argon2_hash :: "string \<Rightarrow> string \<Rightarrow> string + string"
  x_argon2_verify :: "string \<Rightarrow> string \<Rightarrow> bool"
  x_hmac_sha1 :: "string \<Rightarrow> string \<Rightarrow> string"
  x_regex :: "string \<Rightarrow> string \<Rightarrow> bool option"
  x_regex_valid :: "string \<Rightarrow> bool"
  x_b64url_decode :: "string \<Rightarrow> string option"
  x_b64_decode :: "string \<Rightarrow> string option"
  x_url_parse :: "string \<Rightarrow> url option"
  x_url_encode :: "string \<Rightarrow> string"
  x_url_decode :: "string \<Rightarrow> string option"
  x_alphanumeric :: "nat \<Rightarrow> bool"
  x_to_uppercase :: "nat \<Rightarrow> string"

section \<open>What the server relies on\<close>

text \<open>The value of a claim that is checked by the JWT library when it is a string.\<close>

definition claim_str :: "string \<Rightarrow> json \<Rightarrow> string option" where
  "claim_str k j = req_field as_str k j"

text \<open>
  The documented checks of \<open>jsonwebtoken::decode\<close>: every required claim is present, the token
  has not expired beyond the leeway (unless that check is switched off), and issuer and audience are among the configured ones.
\<close>

definition jwt_accepts :: "jwt_validation \<Rightarrow> int \<Rightarrow> json \<Rightarrow> bool" where
  "jwt_accepts v now j \<longleftrightarrow>
     (\<forall>k\<in>set (jv_required v) \<inter> {''exp'', ''iss'', ''aud'', ''sub''}. case jget k j of Some (Some _) \<Rightarrow> True | _ \<Rightarrow> False)
   \<and> (jv_validate_exp v \<longrightarrow>
        (case req_field as_i64 ''exp'' j of None \<Rightarrow> False | Some e \<Rightarrow> now - jv_leeway v \<le> e))
   \<and> (case jv_iss v of None \<Rightarrow> True
      | Some is \<Rightarrow> (case claim_str ''iss'' j of None \<Rightarrow> False | Some i \<Rightarrow> i \<in> set is))
   \<and> (jv_validate_aud v \<longrightarrow>
        (case jv_aud v of None \<Rightarrow> True
         | Some as \<Rightarrow> (case claim_str ''aud'' j of None \<Rightarrow> False | Some a \<Rightarrow> a \<in> set as)))"

text \<open>A token is returned only after the configured checks.\<close>

definition jwt_checks :: "externals \<Rightarrow> bool" where
  "jwt_checks x \<longleftrightarrow>
     (\<forall>key v now tok j. x_jwt_verify x key v now tok = Some j \<longrightarrow> jwt_accepts v now j)"

text \<open>A token signed with the key verifies under it, to the same claims, when the checks pass.\<close>

definition jwt_roundtrip :: "externals \<Rightarrow> bool" where
  "jwt_roundtrip x \<longleftrightarrow>
     (\<forall>key hdr v now tok j. x_jwt_sign x key hdr j = Inr tok \<and> jwt_accepts v now j
        \<longrightarrow> x_jwt_verify x key v now tok = Some j)"

text \<open>The claims are part of the token: what it decodes to does not depend on when or how it is checked.\<close>

definition jwt_payload_fixed :: "externals \<Rightarrow> bool" where
  "jwt_payload_fixed x \<longleftrightarrow>
     (\<forall>key v now v' now' tok j j'. x_jwt_verify x key v now tok = Some j \<and>
        x_jwt_verify x key v' now' tok = Some j' \<longrightarrow> j' = j)"

text \<open>Signatures cannot be forged: a token that verifies was produced by the signer.\<close>

definition jwt_authentic :: "externals \<Rightarrow> bool" where
  "jwt_authentic x \<longleftrightarrow>
     (\<forall>key v now tok j. x_jwt_verify x key v now tok = Some j
        \<longrightarrow> (\<exists>hdr. x_jwt_sign x key hdr j = Inr tok))"

text \<open>UUID text parses back.\<close>

definition uuid_text :: "externals \<Rightarrow> bool" where
  "uuid_text x \<longleftrightarrow> (\<forall>u. x_uuid_parse x (x_uuid_str x u) = Some u)"

text \<open>Authenticated encryption decrypts what it encrypted.\<close>

definition aead_roundtrip :: "externals \<Rightarrow> bool" where
  "aead_roundtrip x \<longleftrightarrow>
     (\<forall>key nonce p c. x_aead_encrypt x key nonce p = Some c \<longrightarrow> x_aead_decrypt x key nonce c = Some p)"

definition json_roundtrip :: "externals \<Rightarrow> bool" where
  "json_roundtrip x \<longleftrightarrow> (\<forall>j. x_json_parse x (x_json_print x j) = Some j)"

section \<open>Small helpers over the interface\<close>

definition sha256_hex :: "externals \<Rightarrow> string \<Rightarrow> string" where
  "sha256_hex x s = x_hex_encode x (x_sha256 x s)"

text \<open>\<open>char::is_alphanumeric\<close>: ASCII letters and digits, and the Unicode tables above them.\<close>

definition is_alphanumeric :: "externals \<Rightarrow> nat \<Rightarrow> bool" where
  "is_alphanumeric x n \<longleftrightarrow>
     (if n < 128 then is_ascii_alphanumeric (char_of n) else x_alphanumeric x n)"

definition eddsa_header :: jwt_header where
  "eddsa_header = \<lparr>jh_alg = ''EdDSA'', jh_kid = None\<rparr>"

lemma jwt_checks_exp:
  assumes "jwt_checks x" and "x_jwt_verify x key v now tok = Some j"
    and "req_field as_i64 ''exp'' j = Some e" and "jv_validate_exp v"
  shows "now - jv_leeway v \<le> e"
proof -
  from assms(1,2) have "jwt_accepts v now j" by (auto simp: jwt_checks_def)
  with assms(3,4) show ?thesis by (simp add: jwt_accepts_def)
qed

lemma jwt_checks_aud:
  assumes "jwt_checks x" and "x_jwt_verify x key v now tok = Some j"
    and "jv_validate_aud v" and "jv_aud v = Some auds"
  shows "\<exists>a. claim_str ''aud'' j = Some a \<and> a \<in> set auds"
proof -
  from assms(1,2) have "jwt_accepts v now j" by (auto simp: jwt_checks_def)
  with assms(3,4) show ?thesis by (auto simp: jwt_accepts_def split: option.splits)
qed

lemma jwt_checks_iss:
  assumes "jwt_checks x" and "x_jwt_verify x key v now tok = Some j"
    and "jv_iss v = Some isss"
  shows "\<exists>i. claim_str ''iss'' j = Some i \<and> i \<in> set isss"
proof -
  from assms(1,2) have "jwt_accepts v now j" by (auto simp: jwt_checks_def)
  with assms(3) show ?thesis by (auto simp: jwt_accepts_def split: option.splits)
qed

end
