(* ===== verification/Database.thy ===== *)
theory Database
  imports Externals
begin

text \<open>
  The SQLite database: one record field per table, one record type per row, as created by the
  files under \<open>migrations/\<close>. A statement that inserts checks the table's key columns and
  foreign keys as SQLite does. Failures of the database itself (I/O, a lost connection) are
  not modelled.
\<close>

section \<open>Rows\<close>

text \<open>\<open>user/mod.rs\<close>'s \<open>User\<close>; the row has one more column, which no \<open>User\<close> carries.\<close>

record user =
  u_id :: uuid
  u_username :: string
  u_name :: string
  u_email :: "string option"
  u_active :: bool
  u_created_at :: int
  u_updated_at :: int

record user_row = user +
  u_token_version :: int

record authenticator_row =
  au_id :: uuid
  au_type :: string
  au_value :: string
  au_owner :: uuid

record refresh_row =
  rt_id :: uuid
  rt_user :: uuid
  rt_hash :: string
  rt_expires :: int
  rt_created :: int
  rt_revoked :: "int option"
  rt_retry_until :: "int option"
  rt_retry_pair :: "string option"

record role =
  ro_id :: uuid
  ro_name :: string
  ro_description :: "string option"

record application_row =
  ar_id :: uuid
  ar_name :: string
  ar_slug :: string
  ar_host_pattern :: "string option"
  ar_path_prefix :: "string option"
  ar_required_roles :: "string option"
  ar_enabled :: int
  ar_created_at :: int
  ar_updated_at :: int
  ar_app_type :: string
  ar_client_id :: "string option"
  ar_secret_hash :: "string option"
  ar_redirect_uris :: "string option"
  ar_post_logout_uris :: "string option"

record code_row =
  cd_hash :: string
  cd_application :: uuid
  cd_user :: uuid
  cd_redirect_uri :: string
  cd_scope :: string
  cd_nonce :: "string option"
  cd_challenge :: string
  cd_method :: string
  cd_auth_time :: int
  cd_expires :: int
  cd_consumed :: "int option"
  cd_session_version :: "int option"
  cd_session_exp :: "int option"

record handoff_row =
  ho_id :: string
  ho_user :: uuid
  ho_expires :: int

record totp_row =
  tp_user :: uuid
  tp_secret :: string
  tp_last_step :: "int option"
  tp_activated :: "int option"
  tp_created :: int
  tp_updated :: int

record recovery_row =
  rc_id :: uuid
  rc_user :: uuid
  rc_hash :: string
  rc_used :: "int option"
  rc_created :: int

record invitation =
  in_id :: string
  in_created_by :: uuid
  in_label :: "string option"
  in_max_uses :: "int option"
  in_uses :: int
  in_expires_at :: "int option"
  in_created_at :: int

record app_password_row =
  pw_id :: uuid
  pw_user :: uuid
  pw_name :: string
  pw_hash :: string
  pw_created :: int
  pw_last_used :: "int option"

record passkey_row =
  pk_id :: uuid
  pk_user :: uuid
  pk_credential_id :: string
  pk_name :: string
  pk_credential :: string
  pk_created :: int
  pk_last_used :: "int option"

record challenge_row =
  pc_id :: string
  pc_kind :: string
  pc_user :: "uuid option"
  pc_token_version :: "int option"
  pc_name :: "string option"
  pc_state :: string
  pc_expires :: int

record audit_row =
  al_id :: uuid
  al_timestamp :: int
  al_event_type :: string
  al_user :: "uuid option"
  al_actor :: "uuid option"
  al_ip :: "string option"
  al_user_agent :: "string option"
  al_details :: "string option"

record key_row =
  ky_id :: uuid
  ky_name :: string
  ky_public :: string
  ky_private :: string
  ky_nonce :: "string option"

record db =
  users :: "user_row list"
  authenticators :: "authenticator_row list"
  refresh_tokens :: "refresh_row list"
  revocations :: "(uuid \<times> int) list"
  roles :: "role list"
  user_roles :: "(uuid \<times> uuid) list"
  applications :: "application_row list"
  oidc_codes :: "code_row list"
  handoffs :: "handoff_row list"
  totps :: "totp_row list"
  recovery_codes :: "recovery_row list"
  settings :: "(string \<times> string) list"
  invitations :: "invitation list"
  app_passwords :: "app_password_row list"
  passkeys :: "passkey_row list"
  passkey_challenges :: "challenge_row list"
  audit_log :: "audit_row list"
  keys :: "key_row list"

type_synonym 'a db_op = "(db, app_error, 'a) op"

section \<open>Inserting with constraints\<close>

definition unique_violation :: app_error where
  "unique_violation = app_error_of_sqlx (DatabaseUnique ''UNIQUE constraint failed'')"

definition fk_violation :: app_error where
  "fk_violation = app_error_of_sqlx (DatabaseOther ''FOREIGN KEY constraint failed'')"

text \<open>
  An INSERT: a duplicate key is rejected first, then a dangling reference; either leaves the
  table unchanged.
\<close>

definition insert_op :: "(db \<Rightarrow> bool) \<Rightarrow> (db \<Rightarrow> bool) \<Rightarrow> (db \<Rightarrow> db) \<Rightarrow> unit db_op" where
  "insert_op dup dangling f = (\<lambda>d.
     if dup d then (Inl unique_violation, d)
     else if dangling d then (Inl fk_violation, d)
     else (Inr (), f d))"

lemma insert_op_Inr [op_results]:
  "insert_op dup dang f d = (Inr u, d') \<longleftrightarrow> \<not> dup d \<and> \<not> dang d \<and> d' = f d"
  by (auto simp: insert_op_def)

lemma insert_op_Inl [op_results]:
  "insert_op dup dang f d = (Inl e, d') \<longleftrightarrow>
     d' = d \<and> (dup d \<and> e = unique_violation \<or> \<not> dup d \<and> dang d \<and> e = fk_violation)"
  by (auto simp: insert_op_def)

lemma insert_op_state: "snd (insert_op dup dang f d) = (if dup d \<or> dang d then d else f d)"
  by (simp add: insert_op_def)

definition user_exists :: "uuid \<Rightarrow> db \<Rightarrow> bool" where
  "user_exists u d \<longleftrightarrow> (\<exists>r\<in>set (users d). u_id r = u)"

definition role_exists :: "uuid \<Rightarrow> db \<Rightarrow> bool" where
  "role_exists i d \<longleftrightarrow> (\<exists>r\<in>set (roles d). ro_id r = i)"

definition application_exists :: "uuid \<Rightarrow> db \<Rightarrow> bool" where
  "application_exists i d \<longleftrightarrow> (\<exists>r\<in>set (applications d). ar_id r = i)"

section \<open>Well-formed databases\<close>

text \<open>The PRIMARY KEY and UNIQUE columns of the schema.\<close>

definition db_keys :: "db \<Rightarrow> bool" where
  "db_keys d \<longleftrightarrow>
     keyed u_id (users d) \<and> keyed u_username (users d) \<and> keyed au_id (authenticators d)
   \<and> keyed rt_id (refresh_tokens d) \<and> keyed fst (revocations d)
   \<and> keyed ro_id (roles d) \<and> keyed ro_name (roles d) \<and> distinct (user_roles d)
   \<and> keyed ar_id (applications d) \<and> keyed ar_slug (applications d)
   \<and> keyed cd_hash (oidc_codes d) \<and> keyed ho_id (handoffs d) \<and> keyed tp_user (totps d)
   \<and> keyed rc_id (recovery_codes d) \<and> keyed rc_hash (recovery_codes d)
   \<and> keyed fst (settings d) \<and> keyed in_id (invitations d) \<and> keyed pw_id (app_passwords d)
   \<and> keyed pk_id (passkeys d) \<and> keyed pk_credential_id (passkeys d)
   \<and> keyed pc_id (passkey_challenges d) \<and> keyed al_id (audit_log d)"

definition empty_db :: db where
  "empty_db = \<lparr>users = [], authenticators = [], refresh_tokens = [], revocations = [], roles = [],
     user_roles = [], applications = [], oidc_codes = [], handoffs = [], totps = [],
     recovery_codes = [], settings = [], invitations = [], app_passwords = [], passkeys = [],
     passkey_challenges = [], audit_log = [],
     keys = []\<rparr>"

lemma db_keys_empty: "db_keys empty_db"
  by (simp add: db_keys_def empty_db_def)

text \<open>
  How the table of users may evolve, seen from one user \<open>u\<close>: ids stay unique, and a user
  present afterwards was present before, with a session generation that did not go down.
  Every operation of the server keeps this relation for every user it does not create.
\<close>

definition version_of :: "uuid \<Rightarrow> db \<Rightarrow> int option" where
  "version_of u d = map_option u_token_version (sql_find (\<lambda>r. u_id r = u) (users d))"

definition evolves :: "uuid \<Rightarrow> db \<Rightarrow> db \<Rightarrow> bool" where
  "evolves u d d' \<longleftrightarrow> (keyed u_id (users d) \<longrightarrow>
     keyed u_id (users d') \<and>
     (\<forall>v'. version_of u d' = Some v' \<longrightarrow> (\<exists>v. version_of u d = Some v \<and> v \<le> v')))"

interpretation ev: state_preorder "evolves u" for u
proof
  show "evolves u s s" for s by (simp add: evolves_def)
  show "evolves u s v" if "evolves u s t" "evolves u t v" for s t v
    using that unfolding evolves_def by (meson order_trans)
qed

text \<open>Operations that leave the table of users alone.\<close>

definition same_users :: "db \<Rightarrow> db \<Rightarrow> bool" where
  "same_users d d' \<longleftrightarrow> users d' = users d"

interpretation su: state_preorder same_users
  by unfold_locales (auto simp: same_users_def)

lemma same_users_evolves: "same_users d d' \<Longrightarrow> evolves u d d'"
  by (auto simp: same_users_def evolves_def version_of_def)

lemma keeps_mono: "(\<And>s t. P s t \<Longrightarrow> Q s t) \<Longrightarrow> keeps P m \<Longrightarrow> keeps Q m"
  by (auto simp: keeps_def)

lemma keeps_same_users_evolves: "keeps same_users m \<Longrightarrow> keeps (evolves u) m"
  by (rule keeps_mono [of same_users]) (rule same_users_evolves)

lemma keeps_insert_users [keeps_intros]:
  "(\<And>d. users (f d) = users d) \<Longrightarrow> keeps same_users (insert_op dup dang f)"
  by (simp add: keeps_def insert_op_state same_users_def)

lemma keeps_modify_users [keeps_intros]:
  "(\<And>d. users (f d) = users d) \<Longrightarrow> keeps same_users (modify_op f)"
  by (simp add: keeps_def same_users_def)

text \<open>An UPDATE of the users table that keeps ids and does not lower the generation.\<close>

lemma sql_update_evolves:
  assumes "users d' = sql_update p f (users d)"
    and "\<And>r. u_id (f r) = u_id r" and "\<And>r. u_token_version r \<le> u_token_version (f r)"
  shows "evolves u d d'"
proof -
  have "version_of u d' = map_option (\<lambda>r. u_token_version (if p r then f r else r))
          (sql_find (\<lambda>r. u_id r = u) (users d))"
    unfolding version_of_def assms(1)
    by (subst sql_find_update) (simp_all add: assms(2) option.map_comp comp_def)
  then show ?thesis
    using assms(3) by (auto simp: evolves_def version_of_def assms(1,2) keyed_sql_update)
qed

lemma sql_delete_evolves:
  assumes "users d' = sql_delete (\<lambda>r. u_id r = i) (users d)"
  shows "evolves u d d'"
proof -
  have "version_of u d' = (if u = i then None else version_of u d)"
    unfolding version_of_def assms(1)
    using sql_find_delete_other [of "\<lambda>r. u_id r = u" "\<lambda>r. u_id r = i" "users d"]
    by (auto simp: sql_find_None)
  then show ?thesis
    by (auto simp: evolves_def assms(1) keyed_sql_delete split: if_splits)
qed

end
