(* ===== verification/Users.thy ===== *)
theory Users
  imports Database "HOL-Library.List_Lexorder" "HOL-Library.Char_ord"
begin

text \<open>
  \<open>user/mod.rs\<close>, \<open>user/auth/mod.rs\<close> and \<open>role.rs\<close>: accounts, password authenticators, roles
  and role assignments, with their validation rules and SQL statements.
\<close>

section \<open>Validation\<close>

definition MIN_USERNAME_LEN :: nat where "MIN_USERNAME_LEN = 3"
definition MAX_USERNAME_LEN :: nat where "MAX_USERNAME_LEN = 64"
definition MIN_NAME_LEN :: nat where "MIN_NAME_LEN = 3"
definition MAX_NAME_LEN :: nat where "MAX_NAME_LEN = 128"
definition MAX_EMAIL_LEN :: nat where "MAX_EMAIL_LEN = 254"
definition MIN_PASSWORD_LEN :: nat where "MIN_PASSWORD_LEN = 12"
definition MAX_PASSWORD_LEN :: nat where "MAX_PASSWORD_LEN = 512"

lemmas length_limits = MIN_USERNAME_LEN_def MAX_USERNAME_LEN_def MIN_NAME_LEN_def MAX_NAME_LEN_def
  MAX_EMAIL_LEN_def MIN_PASSWORD_LEN_def MAX_PASSWORD_LEN_def

text \<open>The pattern \<^verbatim>\<open>^[A-Za-z0-9.\-_]*$\<close>.\<close>

definition username_regex :: "string \<Rightarrow> bool" where
  "username_regex s \<longleftrightarrow> (\<forall>c\<in>set s. is_ascii_alphanumeric c \<or> c \<in> set ''.-_'')"

text \<open>
  The pattern \<^verbatim>\<open>^.+@.+\..{2,}$\<close> over scalar values: no line feed, an at sign (64) after at
  least one character, and after it a full stop (46) with at least one character before and
  two after.
\<close>

definition email_regex :: "string \<Rightarrow> bool" where
  "email_regex s \<longleftrightarrow>
     (let cs = chars s in
        10 \<notin> set cs \<and>
        (\<exists>i\<in>set [0..<length cs]. cs ! i = 64 \<and> 1 \<le> i \<and>
           (\<exists>j\<in>set [0..<length cs]. cs ! j = 46 \<and> i + 2 \<le> j \<and> j + 3 \<le> length cs)))"

definition validate_username :: "string \<Rightarrow> string + unit" where
  "validate_username username =
     (if length username < MIN_USERNAME_LEN \<or> MAX_USERNAME_LEN < length username
      then Inl ''Username must be between 3 and 64 characters''
      else if \<not> username_regex username
      then Inl ''Username must consist only of letters, numbers, and allowed symbols''
      else Inr ())"

definition validate_name :: "string \<Rightarrow> string + unit" where
  "validate_name name =
     (if length name < MIN_NAME_LEN \<or> MAX_NAME_LEN < length name
      then Inl ''Name must be between 3 and 128 characters'' else Inr ())"

definition validate_email :: "string option \<Rightarrow> string + unit" where
  "validate_email email =
     (case email of
        None \<Rightarrow> Inr ()
      | Some e \<Rightarrow>
          (if MAX_EMAIL_LEN < length e then Inl ''Email must contain no more than 254 characters''
           else if email_regex e then Inr ()
           else Inl ''Email is not valid''))"

definition validate_password :: "string \<Rightarrow> string + unit" where
  "validate_password p =
     (if length p < MIN_PASSWORD_LEN \<or> MAX_PASSWORD_LEN < length p
      then Inl ''Password must be between 12 and 512 characters'' else Inr ())"

record create_user_input =
  cu_username :: string
  cu_name :: string
  cu_password :: string
  cu_email :: "string option"

fun lefts :: "('a + 'b) list \<Rightarrow> 'a list" where
  "lefts [] = []"
| "lefts (Inl e # rs) = e # lefts rs"
| "lefts (Inr _ # rs) = lefts rs"

lemma lefts_Nil: "lefts rs = [] \<longleftrightarrow> (\<forall>r\<in>set rs. \<not> isl r)"
  by (induction rs rule: lefts.induct) auto

definition validate_create_input :: "create_user_input \<Rightarrow> unit result" where
  "validate_create_input i =
     (let errors = lefts [validate_username (cu_username i), validate_name (cu_name i),
                          validate_email (cu_email i), validate_password (cu_password i)]
      in if errors = [] then Inr () else Inl (InputError errors))"

section \<open>Users\<close>

definition new_user :: "uuid \<Rightarrow> int \<Rightarrow> string \<Rightarrow> string \<Rightarrow> string option \<Rightarrow> user" where
  "new_user fresh now username name email =
     \<lparr>u_id = fresh, u_username = username, u_name = name, u_email = email, u_active = True,
      u_created_at = now, u_updated_at = now\<rparr>"

text \<open>The row inserted for a user; \<open>token_version\<close> takes its column default.\<close>

definition row_of_user :: "user \<Rightarrow> user_row" where
  "row_of_user u = user.extend u \<lparr>u_token_version = 0\<rparr>"

definition username_taken :: "app_error \<Rightarrow> app_error" where
  "username_taken e = (if e = unique_violation then UniqueError ''Username already taken'' else e)"

definition user_save :: "user \<Rightarrow> unit db_op" where
  "user_save u = map_err_op username_taken
     (insert_op
        (\<lambda>d. \<exists>r\<in>set (users d). u_id r = u_id u \<or> u_username r = u_username u)
        (\<lambda>d. False)
        (\<lambda>d. d\<lparr>users := users d @ [row_of_user u]\<rparr>))"

definition user_get :: "uuid \<Rightarrow> db \<Rightarrow> user option" where
  "user_get i d = map_option user.truncate (sql_find (\<lambda>r. u_id r = i) (users d))"

definition user_get_by_username :: "string \<Rightarrow> db \<Rightarrow> user option" where
  "user_get_by_username name d =
     map_option user.truncate (sql_find (\<lambda>r. u_username r = name) (users d))"

definition user_list :: "db \<Rightarrow> user list" where
  "user_list d = map user.truncate (users d)"

text \<open>The join of \<open>user_roles\<close> with \<open>roles\<close> for one user.\<close>

definition user_get_roles :: "uuid \<Rightarrow> db \<Rightarrow> string list" where
  "user_get_roles i d =
     concat (map (\<lambda>ur. map ro_name (filter (\<lambda>r. ro_id r = snd ur) (roles d)))
                 (filter (\<lambda>ur. fst ur = i) (user_roles d)))"

definition input_err :: "string + unit \<Rightarrow> unit db_op" where
  "input_err r = (case r of Inl e \<Rightarrow> raise_op (InputError [e]) | Inr _ \<Rightarrow> ret_op ())"

definition user_update ::
  "int \<Rightarrow> user \<Rightarrow> string option \<Rightarrow> string option option \<Rightarrow> string option \<Rightarrow> user db_op" where
  "user_update now self name email username =
     bind_op (case name of None \<Rightarrow> ret_op () | Some n \<Rightarrow> input_err (validate_name n)) (\<lambda>_.
     bind_op (case email of None \<Rightarrow> ret_op () | Some e \<Rightarrow> input_err (validate_email e)) (\<lambda>_.
     bind_op (case username of None \<Rightarrow> ret_op () | Some u \<Rightarrow> input_err (validate_username u)) (\<lambda>_.
     let s1 = (case name of None \<Rightarrow> self | Some n \<Rightarrow> self\<lparr>u_name := n\<rparr>);
         s2 = (case email of None \<Rightarrow> s1 | Some e \<Rightarrow> s1\<lparr>u_email := e\<rparr>);
         s3 = (case username of None \<Rightarrow> s2 | Some u \<Rightarrow> s2\<lparr>u_username := u\<rparr>);
         s4 = s3\<lparr>u_updated_at := now\<rparr>
     in (\<lambda>d.
       if user_exists (u_id s4) d
          \<and> (\<exists>r\<in>set (users d). u_id r \<noteq> u_id s4 \<and> u_username r = u_username s4)
       then (Inl (UniqueError ''Username already taken''), d)
       else (Inr s4, d\<lparr>users := sql_update (\<lambda>r. u_id r = u_id s4)
               (\<lambda>r. r\<lparr>u_name := u_name s4, u_email := u_email s4, u_username := u_username s4,
                      u_updated_at := u_updated_at s4\<rparr>) (users d)\<rparr>)))))"

definition user_set_active :: "int \<Rightarrow> user \<Rightarrow> bool \<Rightarrow> (user \<times> bool) db_op" where
  "user_set_active now self active =
     (if u_active self = active then ret_op (self, False)
      else let s = self\<lparr>u_active := active, u_updated_at := now\<rparr>
        in bind_op (modify_op (\<lambda>d. d\<lparr>users := sql_update (\<lambda>r. u_id r = u_id s)
                      (\<lambda>r. r\<lparr>u_active := u_active s, u_updated_at := u_updated_at s\<rparr>) (users d)\<rparr>))
           (\<lambda>_. ret_op (s, True)))"

text \<open>
  Deleting a user cascades to everything the schema hangs on it, and clears the references
  of the audit log.
\<close>

definition forget_user :: "uuid \<Rightarrow> db \<Rightarrow> db" where
  "forget_user i d = d\<lparr>
     users := sql_delete (\<lambda>r. u_id r = i) (users d),
     authenticators := sql_delete (\<lambda>r. au_owner r = i) (authenticators d),
     refresh_tokens := sql_delete (\<lambda>r. rt_user r = i) (refresh_tokens d),
     revocations := sql_delete (\<lambda>r. fst r = i) (revocations d),
     user_roles := sql_delete (\<lambda>r. fst r = i) (user_roles d),
     oidc_codes := sql_delete (\<lambda>r. cd_user r = i) (oidc_codes d),
     handoffs := sql_delete (\<lambda>r. ho_user r = i) (handoffs d),
     totps := sql_delete (\<lambda>r. tp_user r = i) (totps d),
     recovery_codes := sql_delete (\<lambda>r. rc_user r = i) (recovery_codes d),
     invitations := sql_delete (\<lambda>r. in_created_by r = i) (invitations d),
     app_passwords := sql_delete (\<lambda>r. pw_user r = i) (app_passwords d),
     passkeys := sql_delete (\<lambda>r. pk_user r = i) (passkeys d),
     passkey_challenges := sql_delete (\<lambda>r. pc_user r = Some i) (passkey_challenges d),
     audit_log := map (\<lambda>r. r\<lparr>al_user := (if al_user r = Some i then None else al_user r),
                            al_actor := (if al_actor r = Some i then None else al_actor r)\<rparr>)
                      (audit_log d)\<rparr>"

definition user_delete :: "uuid \<Rightarrow> bool db_op" where
  "user_delete i = (\<lambda>d. (Inr (sql_count (\<lambda>r. u_id r = i) (users d) = 1), forget_user i d))"

section \<open>Password authenticators\<close>

datatype authentication_scheme = Password string | Totp string

record authenticator =
  an_id :: uuid
  an_scheme :: authentication_scheme
  an_owner :: uuid

definition new_password ::
  "externals \<Rightarrow> string \<Rightarrow> uuid \<Rightarrow> string \<Rightarrow> uuid \<Rightarrow> string + authenticator" where
  "new_password x salt fresh cleartext owner =
     (case x_argon2_hash x salt cleartext of
        Inl e \<Rightarrow> Inl e
      | Inr hash \<Rightarrow> Inr \<lparr>an_id = fresh, an_scheme = Password hash, an_owner = owner\<rparr>)"

definition scheme_columns :: "authentication_scheme \<Rightarrow> string \<times> string" where
  "scheme_columns s = (case s of Password h \<Rightarrow> (''password'', h) | Totp t \<Rightarrow> (''totp'', t))"

definition scheme_of_columns :: "string \<Rightarrow> string \<Rightarrow> authentication_scheme option" where
  "scheme_of_columns ty v =
     (if ty = ''password'' then Some (Password v)
      else if ty = ''totp'' then Some (Totp v) else None)"

definition authenticator_save :: "authenticator \<Rightarrow> unit db_op" where
  "authenticator_save a =
     (case scheme_columns (an_scheme a) of (ty, v) \<Rightarrow>
        insert_op (\<lambda>d. \<exists>r\<in>set (authenticators d). au_id r = an_id a)
          (\<lambda>d. \<not> user_exists (an_owner a) d)
          (\<lambda>d. d\<lparr>authenticators := authenticators d @
             [\<lparr>au_id = an_id a, au_type = ty, au_value = v, au_owner = an_owner a\<rparr>]\<rparr>))"

definition authenticator_of_row :: "authenticator_row \<Rightarrow> authenticator result" where
  "authenticator_of_row r =
     (case scheme_of_columns (au_type r) (au_value r) of
        None \<Rightarrow> Inl (DbError (DatabaseOther (''Unknown authentication scheme: '' @ au_type r)))
      | Some s \<Rightarrow> Inr \<lparr>an_id = au_id r, an_scheme = s, an_owner = au_owner r\<rparr>)"

definition authenticator_get :: "uuid \<Rightarrow> authenticator option db_op" where
  "authenticator_get i =
     bind_op (gets_op (\<lambda>d. sql_find (\<lambda>r. au_id r = i) (authenticators d))) (\<lambda>row.
     case row of None \<Rightarrow> ret_op None
     | Some r \<Rightarrow> bind_op (lift_op (authenticator_of_row r)) (\<lambda>a. ret_op (Some a)))"

definition get_password_for :: "uuid \<Rightarrow> authenticator option db_op" where
  "get_password_for owner =
     bind_op (gets_op (\<lambda>d. sql_find (\<lambda>r. au_owner r = owner \<and> au_type r = ''password'') (authenticators d)))
     (\<lambda>row. case row of None \<Rightarrow> ret_op None
      | Some r \<Rightarrow> bind_op (lift_op (authenticator_of_row r)) (\<lambda>a. ret_op (Some a)))"

definition verify_password :: "externals \<Rightarrow> authenticator \<Rightarrow> string \<Rightarrow> bool" where
  "verify_password x a cleartext =
     (case an_scheme a of Password hash \<Rightarrow> x_argon2_verify x hash cleartext | Totp _ \<Rightarrow> False)"

text \<open>
  The dummy Argon2 check on the failing paths only equalises timing; it returns nothing and
  changes nothing.
\<close>

definition try_password_login :: "externals \<Rightarrow> user \<Rightarrow> string \<Rightarrow> unit db_op" where
  "try_password_login x u cleartext =
     (if \<not> u_active u then raise_op AuthenticationRequired
      else bind_op (get_password_for (u_id u)) (\<lambda>pw.
        case pw of
          Some a \<Rightarrow> (if verify_password x a cleartext then ret_op () else raise_op AuthenticationRequired)
        | None \<Rightarrow> raise_op AuthenticationRequired))"

definition update_password ::
  "externals \<Rightarrow> string \<Rightarrow> uuid \<Rightarrow> uuid \<Rightarrow> string \<Rightarrow> unit db_op" where
  "update_password x salt fresh i new =
     (case new_password x salt fresh new i of
        Inl e \<Rightarrow> raise_op (InternalError (''Failed to hash password: '' @ e))
      | Inr a \<Rightarrow>
          (case an_scheme a of
             Totp _ \<Rightarrow> raise_op (InternalError ''Unexpected scheme'')
           | Password hash \<Rightarrow>
               modify_op (\<lambda>d. d\<lparr>authenticators :=
                 sql_update (\<lambda>r. au_owner r = i \<and> au_type r = ''password'')
                   (\<lambda>r. r\<lparr>au_value := hash\<rparr>) (authenticators d)\<rparr>)))"

record login_input =
  li_username :: string
  li_password :: string
  li_totp_code :: "string option"

definition user_login :: "externals \<Rightarrow> login_input \<Rightarrow> user db_op" where
  "user_login x i =
     bind_op (gets_op (user_get_by_username (li_username i))) (\<lambda>found.
     case found of
       Some u \<Rightarrow>
         bind_op (try_op (try_password_login x u (li_password i))) (\<lambda>r.
         case r of Inr _ \<Rightarrow> ret_op u | Inl _ \<Rightarrow> raise_op AuthenticationRequired)
     | None \<Rightarrow> raise_op AuthenticationRequired)"

section \<open>Roles\<close>

definition ROLE_ADMIN :: string where "ROLE_ADMIN = ''admin''"
definition ROLE_USER :: string where "ROLE_USER = ''user''"

definition role_get :: "uuid \<Rightarrow> db \<Rightarrow> role option" where
  "role_get i d = sql_find (\<lambda>r. ro_id r = i) (roles d)"

definition role_list :: "db \<Rightarrow> role list" where
  "role_list d = sort_key ro_name (roles d)"

definition role_get_by_name :: "string \<Rightarrow> db \<Rightarrow> role option" where
  "role_get_by_name n d = sql_find (\<lambda>r. ro_name r = n) (roles d)"

definition role_save :: "role \<Rightarrow> unit db_op" where
  "role_save r =
     insert_op (\<lambda>d. \<exists>q\<in>set (roles d). ro_id q = ro_id r \<or> ro_name q = ro_name r) (\<lambda>d. False)
       (\<lambda>d. d\<lparr>roles := roles d @ [r]\<rparr>)"

definition role_delete :: "uuid \<Rightarrow> bool db_op" where
  "role_delete i = (\<lambda>d.
     let user_count = sql_count (\<lambda>ur. snd ur = i) (user_roles d) in
     if 0 < user_count
     then (Inl (InputError [''Cannot delete role: '' @ show_nat user_count @ '' users have this role assigned'']), d)
     else case role_get i d of
        Some r \<Rightarrow>
          (if ro_name r = ROLE_ADMIN \<or> ro_name r = ROLE_USER
           then (Inl (InputError [''Cannot delete built-in roles (admin, user)'']), d)
           else (Inr (0 < sql_count (\<lambda>q. ro_id q = i) (roles d)),
                 d\<lparr>roles := sql_delete (\<lambda>q. ro_id q = i) (roles d)\<rparr>))
      | None \<Rightarrow> (Inr (0 < sql_count (\<lambda>q. ro_id q = i) (roles d)),
                 d\<lparr>roles := sql_delete (\<lambda>q. ro_id q = i) (roles d)\<rparr>))"

definition role_validate_input :: "externals \<Rightarrow> string \<Rightarrow> string option \<Rightarrow> unit result" where
  "role_validate_input x name desc =
     (let e1 = (if name = [] \<or> 64 < length name
                then [''Role name must be between 1 and 64 characters''] else []);
          e2 = (if \<not> list_all (\<lambda>c. is_alphanumeric x c \<or> c = 95 \<or> c = 45) (chars name)
                then [''Role name must contain only alphanumeric characters, underscores, and hyphens'']
                else []);
          e3 = (case desc of Some s \<Rightarrow> (if 256 < length s
                then [''Role description must be 256 characters or less''] else []) | None \<Rightarrow> []);
          errors = e1 @ e2 @ e3
      in if errors = [] then Inr () else Inl (InputError errors))"

definition userrole_get_for_user :: "uuid \<Rightarrow> db \<Rightarrow> (uuid \<times> uuid \<times> string) list" where
  "userrole_get_for_user i d =
     concat (map (\<lambda>ur. map (\<lambda>r. (fst ur, snd ur, ro_name r)) (filter (\<lambda>r. ro_id r = snd ur) (roles d)))
                 (filter (\<lambda>ur. fst ur = i) (user_roles d)))"

definition userrole_assign :: "uuid \<Rightarrow> uuid \<Rightarrow> unit db_op" where
  "userrole_assign u r =
     bind_op (gets_op (\<lambda>d. sql_count (\<lambda>ur. fst ur = u \<and> snd ur = r) (user_roles d))) (\<lambda>count.
     if 0 < count then raise_op (UniqueError ''Role already assigned to user'')
     else insert_op (\<lambda>d. (u, r) \<in> set (user_roles d))
            (\<lambda>d. \<not> user_exists u d \<or> \<not> role_exists r d)
            (\<lambda>d. d\<lparr>user_roles := user_roles d @ [(u, r)]\<rparr>))"

definition userrole_remove :: "uuid \<Rightarrow> uuid \<Rightarrow> bool db_op" where
  "userrole_remove u r = (\<lambda>d.
     (Inr (0 < sql_count (\<lambda>ur. fst ur = u \<and> snd ur = r) (user_roles d)),
      d\<lparr>user_roles := sql_delete (\<lambda>ur. fst ur = u \<and> snd ur = r) (user_roles d)\<rparr>))"

section \<open>Facts\<close>

lemmas user_record_defs = user.truncate_def user.extend_def row_of_user_def

lemma u_id_truncate [simp]: "u_id (user.truncate r) = u_id r"
  by (simp add: user.truncate_def)

lemma u_active_truncate [simp]: "u_active (user.truncate r) = u_active r"
  by (simp add: user.truncate_def)

lemma u_username_truncate [simp]: "u_username (user.truncate r) = u_username r"
  by (simp add: user.truncate_def)

lemma u_id_row_of_user [simp]: "u_id (row_of_user u) = u_id u"
  by (simp add: user_record_defs)

lemma u_username_row_of_user [simp]: "u_username (row_of_user u) = u_username u"
  by (simp add: user_record_defs)

lemma truncate_row_of_user [simp]: "user.truncate (row_of_user u) = u"
  by (simp add: user_record_defs)

text \<open>Which operations touch the table of users, and how.\<close>

lemma keeps_user_save: "u_id v \<noteq> u \<Longrightarrow> keeps (evolves u) (user_save v)"
proof -
  assume "u_id v \<noteq> u"
  then have "evolves u d (d\<lparr>users := users d @ [row_of_user v]\<rparr>)"
    if "\<not> (\<exists>r\<in>set (users d). u_id r = u_id v \<or> u_username r = u_username v)" for d
    using that by (auto simp: evolves_def version_of_def keyed_append sql_find_append split: option.split)
  then show ?thesis
    by (simp add: keeps_def user_save_def insert_op_state ev.refl)
qed

lemma keeps_user_update: "keeps (evolves u) (user_update now self name email username)"
proof -
  have "keeps (evolves u) (input_err r)" for r
    unfolding input_err_def by (auto intro: ev.keeps_rules split: sum.split)
  then show ?thesis
    unfolding user_update_def Let_def
    by (intro ev.keeps_rules)
       (auto simp: keeps_def intro!: sql_update_evolves ev.refl)
qed

lemma keeps_user_set_active: "keeps (evolves u) (user_set_active now self a)"
  unfolding user_set_active_def Let_def
  by (intro ev.keeps_rules ev.keeps_modify) (auto intro!: sql_update_evolves)

lemma keeps_user_delete: "keeps (evolves u) (user_delete i)"
  unfolding keeps_def user_delete_def
  by (auto intro!: sql_delete_evolves simp: forget_user_def)

lemma keeps_password_ops:
  "keeps same_users (authenticator_save a)"
  "keeps same_users (get_password_for w)"
  "keeps same_users (try_password_login x us p)"
  "keeps same_users (update_password x salt fresh i new)"
  "keeps same_users (user_login x li)"
proof -
  show 1: "keeps same_users (authenticator_save a)" for a
    unfolding authenticator_save_def by (intro su.keeps_rules keeps_intros) simp
  show 2: "keeps same_users (get_password_for w)" for w
    unfolding get_password_for_def by (intro su.keeps_rules)
  show 3: "keeps same_users (try_password_login x us p)" for x us p
    unfolding try_password_login_def by (intro su.keeps_rules 2)
  show "keeps same_users (update_password x salt fresh i new)"
    unfolding update_password_def
    by (auto intro!: su.keeps_rules keeps_intros split: sum.split authentication_scheme.split)
  show "keeps same_users (user_login x li)"
    unfolding user_login_def by (intro su.keeps_rules 3)
qed

lemma keeps_role_ops:
  "keeps same_users (role_save r)" "keeps same_users (role_delete i)"
  "keeps same_users (userrole_assign w i)" "keeps same_users (userrole_remove w i)"
proof -
  show "keeps same_users (role_save r)" unfolding role_save_def by (intro keeps_intros) simp
  show "keeps same_users (userrole_assign w i)"
    unfolding userrole_assign_def by (intro su.keeps_rules keeps_intros) simp
qed (simp_all add: keeps_def role_delete_def userrole_remove_def same_users_def Let_def split: option.split)

section \<open>When a password fits\<close>

text \<open>The first password row of an account, and whether a cleartext matches it.\<close>

definition password_matches :: "externals \<Rightarrow> uuid \<Rightarrow> string \<Rightarrow> db \<Rightarrow> bool" where
  "password_matches x u cleartext d \<longleftrightarrow>
     (\<exists>r. sql_find (\<lambda>r. au_owner r = u \<and> au_type r = ''password'') (authenticators d) = Some r
        \<and> x_argon2_verify x (au_value r) cleartext)"

lemma try_password_login_eq:
  "try_password_login x u p d =
     (if u_active u \<and> password_matches x (u_id u) p d then Inr () else Inl AuthenticationRequired, d)"
proof (cases "sql_find (\<lambda>r. au_owner r = u_id u \<and> au_type r = ''password'') (authenticators d)")
  case (Some r)
  then have "au_type r = ''password''" by (auto dest: sql_find_SomeD)
  with Some show ?thesis
    by (simp add: try_password_login_def get_password_for_def bind_op_def authenticator_of_row_def
        scheme_of_columns_def verify_password_def password_matches_def)
qed (simp add: try_password_login_def get_password_for_def bind_op_def password_matches_def)

end
