(* ===== verification/Settings.thy ===== *)
theory Settings
  imports Database
begin

text \<open>
  \<open>settings.rs\<close>: the key-value store of runtime settings and its typed views.
\<close>

section \<open>The store\<close>

definition KEY_OPEN_REGISTRATION :: string where "KEY_OPEN_REGISTRATION = ''open_registration''"
definition KEY_SESSION_EXPIRY_SECONDS :: string where
  "KEY_SESSION_EXPIRY_SECONDS = ''session_expiry_seconds''"
definition KEY_LDAP_ENABLED :: string where "KEY_LDAP_ENABLED = ''ldap_enabled''"
definition KEY_LDAP_BASE_DN :: string where "KEY_LDAP_BASE_DN = ''ldap_base_dn''"
definition KEY_LDAP_BIND_ADDRESS :: string where "KEY_LDAP_BIND_ADDRESS = ''ldap_bind_address''"
definition KEY_LDAP_SERVICE_PASSWORD_HASH :: string where
  "KEY_LDAP_SERVICE_PASSWORD_HASH = ''ldap_service_password_hash''"
definition KEY_LDAP_PASSWORD_MODE :: string where "KEY_LDAP_PASSWORD_MODE = ''ldap_password_mode''"

definition DEFAULT_LDAP_BASE_DN :: string where "DEFAULT_LDAP_BASE_DN = ''dc=authere,dc=local''"
definition DEFAULT_LDAP_BIND_ADDRESS :: string where "DEFAULT_LDAP_BIND_ADDRESS = ''0.0.0.0:3389''"

definition DEFAULT_SESSION_EXPIRY_SECONDS :: int where
  "DEFAULT_SESSION_EXPIRY_SECONDS = 7 * 24 * 60 * 60"
definition MIN_SESSION_EXPIRY_SECONDS :: int where "MIN_SESSION_EXPIRY_SECONDS = 5 * 60"
definition MAX_SESSION_EXPIRY_SECONDS :: int where "MAX_SESSION_EXPIRY_SECONDS = 365 * 24 * 60 * 60"

lemmas session_expiry_limits =
  DEFAULT_SESSION_EXPIRY_SECONDS_def MIN_SESSION_EXPIRY_SECONDS_def MAX_SESSION_EXPIRY_SECONDS_def

definition get_setting :: "string \<Rightarrow> db \<Rightarrow> string option" where
  "get_setting key d = map_option snd (sql_find (\<lambda>r. fst r = key) (settings d))"

text \<open>INSERT OR REPLACE: the old row is deleted and the new one inserted.\<close>

definition set_setting :: "string \<Rightarrow> string \<Rightarrow> unit db_op" where
  "set_setting key value =
     modify_op (\<lambda>d. d\<lparr>settings := sql_delete (\<lambda>r. fst r = key) (settings d) @ [(key, value)]\<rparr>)"

definition open_registration_enabled :: "db \<Rightarrow> bool" where
  "open_registration_enabled d \<longleftrightarrow> get_setting KEY_OPEN_REGISTRATION d = Some ''true''"

definition clamp :: "int \<Rightarrow> int \<Rightarrow> int \<Rightarrow> int" where
  "clamp lo hi v = (if v < lo then lo else if hi < v then hi else v)"

definition session_expiry_seconds :: "db \<Rightarrow> int" where
  "session_expiry_seconds d =
     (let parsed = (case get_setting KEY_SESSION_EXPIRY_SECONDS d of
                      None \<Rightarrow> DEFAULT_SESSION_EXPIRY_SECONDS
                    | Some s \<Rightarrow> (case parse_i64 s of
                        None \<Rightarrow> DEFAULT_SESSION_EXPIRY_SECONDS | Some n \<Rightarrow> n))
      in clamp MIN_SESSION_EXPIRY_SECONDS MAX_SESSION_EXPIRY_SECONDS parsed)"

definition validate_session_expiry_seconds :: "int \<Rightarrow> string + int" where
  "validate_session_expiry_seconds v =
     (if v < MIN_SESSION_EXPIRY_SECONDS
      then Inl (''Session expiry must be at least '' @ show_int MIN_SESSION_EXPIRY_SECONDS @ '' seconds'')
      else if MAX_SESSION_EXPIRY_SECONDS < v
      then Inl (''Session expiry must be at most '' @ show_int MAX_SESSION_EXPIRY_SECONDS @ '' seconds'')
      else Inr v)"

section \<open>LDAP configuration\<close>

datatype ldap_password_mode = PrimaryAndApp | AppOnly | PrimaryOnly

fun mode_str :: "ldap_password_mode \<Rightarrow> string" where
  "mode_str PrimaryAndApp = ''primary_and_app''"
| "mode_str AppOnly = ''app_only''"
| "mode_str PrimaryOnly = ''primary_only''"

definition mode_of_str :: "string \<Rightarrow> string + ldap_password_mode" where
  "mode_of_str s =
     (if s = ''primary_and_app'' then Inr PrimaryAndApp
      else if s = ''app_only'' then Inr AppOnly
      else if s = ''primary_only'' then Inr PrimaryOnly
      else Inl (''Unknown LDAP password mode: '' @ s))"

fun app_passwords_enabled :: "ldap_password_mode \<Rightarrow> bool" where
  "app_passwords_enabled PrimaryOnly = False"
| "app_passwords_enabled _ = True"

text \<open>
  The bind address stays text: whether it parses as a socket address is decided by the
  standard library's \<open>SocketAddr\<close> parser, passed as \<open>sock\<close>.
\<close>

record ldap_config =
  lc_enabled :: bool
  lc_base_dn :: string
  lc_bind_address :: string
  lc_service_password_hash :: "string option"
  lc_password_mode :: ldap_password_mode

definition service_account_dn :: "ldap_config \<Rightarrow> string" where
  "service_account_dn c = ''cn=service,'' @ lc_base_dn c"

definition people_base_dn :: "ldap_config \<Rightarrow> string" where
  "people_base_dn c = ''ou=people,'' @ lc_base_dn c"

definition groups_base_dn :: "ldap_config \<Rightarrow> string" where
  "groups_base_dn c = ''ou=groups,'' @ lc_base_dn c"

definition nonempty :: "string option \<Rightarrow> string option" where
  "nonempty s = (case s of Some t \<Rightarrow> (if t = [] then None else Some t) | None \<Rightarrow> None)"

definition or_default :: "string \<Rightarrow> string option \<Rightarrow> string" where
  "or_default dflt s = (case s of None \<Rightarrow> dflt | Some t \<Rightarrow> t)"

definition load_ldap_config :: "(string \<Rightarrow> string + string) \<Rightarrow> db \<Rightarrow> ldap_config result" where
  "load_ldap_config sock d =
     (let enabled = (get_setting KEY_LDAP_ENABLED d = Some ''true'');
          base_dn = or_default DEFAULT_LDAP_BASE_DN (nonempty (get_setting KEY_LDAP_BASE_DN d));
          addr = or_default DEFAULT_LDAP_BIND_ADDRESS (nonempty (get_setting KEY_LDAP_BIND_ADDRESS d))
      in case sock addr of
           Inl e \<Rightarrow> Inl (InternalError (''invalid ldap_bind_address: '' @ e))
         | Inr bind_address \<Rightarrow> Inr
             \<lparr>lc_enabled = enabled, lc_base_dn = base_dn, lc_bind_address = bind_address,
              lc_service_password_hash = nonempty (get_setting KEY_LDAP_SERVICE_PASSWORD_HASH d),
              lc_password_mode =
                (case get_setting KEY_LDAP_PASSWORD_MODE d of
                   None \<Rightarrow> PrimaryAndApp
                 | Some s \<Rightarrow> (case mode_of_str s of Inl _ \<Rightarrow> PrimaryAndApp | Inr m \<Rightarrow> m))\<rparr>)"

text \<open>Each comma-separated component must be \<open>attr=value\<close> with both sides non-blank.\<close>

fun validate_rdns :: "string list \<Rightarrow> string + unit" where
  "validate_rdns [] = Inr ()"
| "validate_rdns (raw # rest) =
     (let rdn = trim raw in
      if rdn = [] then Inl ''Base DN contains an empty component''
      else case split_once_char CHR ''='' rdn of
          None \<Rightarrow> Inl (''Base DN component '' @ [CHR 0x27] @ rdn @ [CHR 0x27]
                        @ '' is missing an '' @ [CHR 0x27] @ ''='' @ [CHR 0x27] @ '' separator'')
        | Some (attr, value) \<Rightarrow>
            (if trim attr = [] \<or> trim value = []
             then Inl (''Base DN component '' @ [CHR 0x27] @ rdn @ [CHR 0x27]
                        @ '' has an empty attribute or value'')
             else validate_rdns rest))"

definition validate_base_dn :: "string \<Rightarrow> string + unit" where
  "validate_base_dn dn =
     (let trimmed = trim dn in
      if trimmed = [] then Inl ''Base DN cannot be empty''
      else if 512 < length trimmed then Inl ''Base DN is too long''
      else validate_rdns (split_char CHR '','' trimmed))"

section \<open>Facts\<close>

text \<open>
  The contract clients of a key-value store rely on: a read returns the last write of its key
  and writes to other keys do not disturb it.
\<close>

locale kv_store =
  fixes get :: "'k \<Rightarrow> 's \<Rightarrow> 'v option"
    and put :: "'k \<Rightarrow> 'v \<Rightarrow> 's \<Rightarrow> 's"
  assumes get_put_same: "get k (put k v s) = Some v"
    and get_put_other: "k' \<noteq> k \<Longrightarrow> get k' (put k v s) = get k' s"
begin

definition put_all :: "('k \<times> 'v) list \<Rightarrow> 's \<Rightarrow> 's" where
  "put_all kvs s = foldl (\<lambda>st kv. put (fst kv) (snd kv) st) s kvs"

lemma put_all_Nil [simp]: "put_all [] s = s"
  by (simp add: put_all_def)

lemma put_all_snoc [simp]: "put_all (kvs @ [kv]) s = put (fst kv) (snd kv) (put_all kvs s)"
  by (simp add: put_all_def)

lemma get_put_all: "get k (put_all kvs s) = (case map_of (rev kvs) k of None \<Rightarrow> get k s | Some v \<Rightarrow> Some v)"
proof (induction kvs rule: rev_induct)
  case Nil
  then show ?case by simp
next
  case (snoc kv kvs)
  then show ?case
    by (cases "k = fst kv") (auto simp: get_put_same get_put_other map_add_def split: option.splits)
qed

lemma put_put_same: "get k' (put k v (put k w s)) = get k' (put k v s)"
  by (cases "k' = k") (simp_all add: get_put_same get_put_other)

end

interpretation setting_store: kv_store get_setting "\<lambda>k v d. snd (set_setting k v d)"
proof
  fix k v and d :: db
  have "sql_find (\<lambda>r. fst r = k) (sql_delete (\<lambda>r. fst r = k) (settings d)) = None"
    by (simp add: sql_find_None)
  then show "get_setting k (snd (set_setting k v d)) = Some v"
    by (simp add: get_setting_def set_setting_def sql_find_append)
next
  fix k' k v and d :: db
  assume neq: "k' \<noteq> (k :: string)"
  then have "sql_find (\<lambda>r. fst r = k') (sql_delete (\<lambda>r. fst r = k) (settings d))
        = sql_find (\<lambda>r. fst r = k') (settings d)"
    by (intro sql_find_delete_other) auto
  with neq show "get_setting k' (snd (set_setting k v d)) = get_setting k' d"
    by (simp add: get_setting_def set_setting_def sql_find_append split: option.split)
qed

lemma clamp_range: "lo \<le> hi \<Longrightarrow> lo \<le> clamp lo hi v \<and> clamp lo hi v \<le> hi"
  by (simp add: clamp_def)

lemma session_expiry_seconds_range:
  "MIN_SESSION_EXPIRY_SECONDS \<le> session_expiry_seconds d
   \<and> session_expiry_seconds d \<le> MAX_SESSION_EXPIRY_SECONDS"
  unfolding session_expiry_seconds_def Let_def
  by (rule clamp_range) (simp add: session_expiry_limits)

lemma session_expiry_seconds_pos: "0 < session_expiry_seconds d"
  using session_expiry_seconds_range [of d] by (simp add: session_expiry_limits)

lemma mode_roundtrip: "mode_of_str (mode_str m) = Inr m"
  by (cases m) (simp_all add: mode_of_str_def)

end
