(* ===== verification/Tokens.thy ===== *)
theory Tokens
  imports Users Settings
begin

text \<open>
  \<open>user/auth/token.rs\<close>: the signing key at rest, access and refresh tokens, rotation, the
  browser retry window, and revocation through the per-user session generation. The clock and
  the random values of one call are arguments.
\<close>

section \<open>Claims and their JSON form\<close>

definition ACCESS_TOKEN_LIFETIME :: int where "ACCESS_TOKEN_LIFETIME = 15 * 60"

definition TOKEN_ISSUER :: string where "TOKEN_ISSUER = ''authere''"
definition TOKEN_AUDIENCE :: string where "TOKEN_AUDIENCE = ''authere''"

record claims =
  c_sub :: string
  c_iss :: string
  c_aud :: string
  c_roles :: "string list"
  c_exp :: int
  c_iat :: int
  c_jti :: string
  c_typ :: string
  c_session_exp :: "int option"
  c_session_version :: "int option"
  c_auth_time :: "int option"

definition claims_to_json :: "claims \<Rightarrow> json" where
  "claims_to_json c = JObj
     [(''sub'', JStr (c_sub c)), (''iss'', JStr (c_iss c)), (''aud'', JStr (c_aud c)),
      (''roles'', jstrs (c_roles c)), (''exp'', JInt (c_exp c)), (''iat'', JInt (c_iat c)),
      (''jti'', JStr (c_jti c)), (''typ'', JStr (c_typ c)),
      (''session_exp'', jopt JInt (c_session_exp c)),
      (''session_version'', jopt JInt (c_session_version c)),
      (''auth_time'', jopt JInt (c_auth_time c))]"

definition claims_of_json :: "json \<Rightarrow> claims option" where
  "claims_of_json j = do {
     sub \<leftarrow> req_field as_str ''sub'' j;
     iss \<leftarrow> req_field as_str ''iss'' j;
     aud \<leftarrow> req_field as_str ''aud'' j;
     rls \<leftarrow> req_field as_str_list ''roles'' j;
     ex \<leftarrow> req_field as_i64 ''exp'' j;
     iat \<leftarrow> req_field as_i64 ''iat'' j;
     jti \<leftarrow> req_field as_str ''jti'' j;
     typ \<leftarrow> req_field as_str ''typ'' j;
     sexp \<leftarrow> opt_field as_i64 ''session_exp'' j;
     sver \<leftarrow> opt_field as_i64 ''session_version'' j;
     aut \<leftarrow> opt_field as_i64 ''auth_time'' j;
     Some \<lparr>c_sub = sub, c_iss = iss, c_aud = aud, c_roles = rls, c_exp = ex, c_iat = iat,
           c_jti = jti, c_typ = typ, c_session_exp = sexp, c_session_version = sver,
           c_auth_time = aut\<rparr> }"

record token_pair =
  tk_access :: string
  tk_refresh :: string
  tk_expires_in :: int
  tk_refresh_expires_in :: int
  tk_token_type :: string

definition pair_to_json :: "token_pair \<Rightarrow> json" where
  "pair_to_json p = JObj
     [(''access_token'', JStr (tk_access p)), (''refresh_token'', JStr (tk_refresh p)),
      (''expires_in'', JInt (tk_expires_in p)),
      (''refresh_expires_in'', JInt (tk_refresh_expires_in p)),
      (''token_type'', JStr (tk_token_type p))]"

definition pair_of_json :: "json \<Rightarrow> token_pair option" where
  "pair_of_json j = do {
     a \<leftarrow> req_field as_str ''access_token'' j;
     r \<leftarrow> req_field as_str ''refresh_token'' j;
     e \<leftarrow> req_field as_i64 ''expires_in'' j;
     re \<leftarrow> req_field as_i64 ''refresh_expires_in'' j;
     t \<leftarrow> req_field as_str ''token_type'' j;
     Some \<lparr>tk_access = a, tk_refresh = r, tk_expires_in = e, tk_refresh_expires_in = re,
           tk_token_type = t\<rparr> }"

definition opt_i64 :: "int option \<Rightarrow> bool" where
  "opt_i64 v = (case v of None \<Rightarrow> True | Some n \<Rightarrow> in_i64 n)"

definition claims_i64 :: "claims \<Rightarrow> bool" where
  "claims_i64 c \<longleftrightarrow> in_i64 (c_exp c) \<and> in_i64 (c_iat c) \<and> opt_i64 (c_session_exp c)
     \<and> opt_i64 (c_session_version c) \<and> opt_i64 (c_auth_time c)"

section \<open>The signing key at rest\<close>

text \<open>\<open>AUTHERE_KEY_SECRET\<close> is the argument \<open>secret\<close>; \<open>None\<close> when it is not set.\<close>

definition get_kek :: "externals \<Rightarrow> string option \<Rightarrow> string result" where
  "get_kek x secret =
     (case secret of
        None \<Rightarrow> Inl (InternalError
          ''AUTHERE_KEY_SECRET environment variable is required (32 random bytes, hex-encoded)'')
      | Some s \<Rightarrow> (case x_hex_decode x (trim s) of
          None \<Rightarrow> Inl (InternalError
            ''AUTHERE_KEY_SECRET must be hex-encoded (64 hex characters = 32 bytes)'')
        | Some bs \<Rightarrow> (if length bs = 32 then Inr bs else Inl (InternalError
            ''AUTHERE_KEY_SECRET must be exactly 32 bytes (64 hex characters)''))))"

definition encrypt_private_key ::
  "externals \<Rightarrow> string \<Rightarrow> string \<Rightarrow> string \<Rightarrow> (string \<times> string) result" where
  "encrypt_private_key x nonce key_bytes kek =
     (case x_aead_encrypt x kek nonce key_bytes of
        None \<Rightarrow> Inl (InternalError ''Key encryption failed: aead::Error'')
      | Some ct \<Rightarrow> Inr (ct, nonce))"

definition decrypt_private_key :: "externals \<Rightarrow> string \<Rightarrow> string \<Rightarrow> string \<Rightarrow> string result" where
  "decrypt_private_key x ct nonce kek =
     (case x_aead_decrypt x kek nonce ct of
        None \<Rightarrow> Inl (InternalError (''Key decryption failed '' @ bytes [226, 128, 148] @ '' check AUTHERE_KEY_SECRET''))
      | Some p \<Rightarrow> (if length p = 32 then Inr p
          else Inl (InternalError ''Decrypted key has invalid length'')))"

definition initialize ::
  "externals \<Rightarrow> string option \<Rightarrow> skey \<Rightarrow> uuid \<Rightarrow> string \<Rightarrow> unit db_op" where
  "initialize x secret key fresh nonce =
     bind_op (lift_op (get_kek x secret)) (\<lambda>kek.
     bind_op (lift_op (encrypt_private_key x nonce key kek)) (\<lambda>(ct, nn).
     insert_op (\<lambda>d. \<exists>r\<in>set (keys d). ky_id r = fresh) (\<lambda>d. False)
       (\<lambda>d. d\<lparr>keys := keys d @ [\<lparr>ky_id = fresh, ky_name = ''default'', ky_public = x_public_key x key,
                                 ky_private = ct, ky_nonce = Some nn\<rparr>]\<rparr>)))"

definition try_initialize ::
  "externals \<Rightarrow> string option \<Rightarrow> skey \<Rightarrow> uuid \<Rightarrow> string \<Rightarrow> bool db_op" where
  "try_initialize x secret key fresh nonce =
     bind_op (gets_op (\<lambda>d. sql_find (\<lambda>r. ky_name r = ''default'') (keys d))) (\<lambda>existing.
     case existing of
       Some _ \<Rightarrow> ret_op False
     | None \<Rightarrow> bind_op (initialize x secret key fresh nonce) (\<lambda>_. ret_op True))"

definition load_signing_key :: "externals \<Rightarrow> string option \<Rightarrow> string \<Rightarrow> skey db_op" where
  "load_signing_key x secret fresh_nonce =
     bind_op (gets_op (\<lambda>d. sql_find (\<lambda>r. ky_name r = ''default'') (keys d))) (\<lambda>found.
     bind_op (ok_or_op (DbError RowNotFound) found) (\<lambda>row.
     case ky_nonce row of
       None \<Rightarrow>
         bind_op (lift_op (get_kek x secret)) (\<lambda>kek.
         bind_op (require_op (length (ky_private row) = 32) (InternalError ''Invalid key length'')) (\<lambda>_.
         bind_op (lift_op (encrypt_private_key x fresh_nonce (ky_private row) kek)) (\<lambda>(ct, nn).
         bind_op (modify_op (\<lambda>d. d\<lparr>keys := sql_update (\<lambda>r. ky_name r = ''default'')
                    (\<lambda>r. r\<lparr>ky_private := ct, ky_nonce := Some nn\<rparr>) (keys d)\<rparr>)) (\<lambda>_.
         ret_op (ky_private row)))))
     | Some nonce \<Rightarrow>
         bind_op (lift_op (get_kek x secret)) (\<lambda>kek.
         bind_op (require_op (length nonce = 12) (InternalError ''Invalid nonce length'')) (\<lambda>_.
         lift_op (decrypt_private_key x (ky_private row) nonce kek)))))"

section \<open>Issuing tokens\<close>

definition hash_token :: "externals \<Rightarrow> string \<Rightarrow> string" where
  "hash_token x tok = sha256_hex x tok"

text \<open>Encoding the key as PKCS8 and signing are one external step.\<close>

definition sign_claims :: "externals \<Rightarrow> skey \<Rightarrow> json \<Rightarrow> string result" where
  "sign_claims x key j =
     (case x_jwt_sign x key eddsa_header j of
        Inl e \<Rightarrow> Inl (InternalError (''Failed to encode JWT: '' @ e))
      | Inr tok \<Rightarrow> Inr tok)"

definition access_claims ::
  "externals \<Rightarrow> int \<Rightarrow> string \<Rightarrow> uuid \<Rightarrow> string list \<Rightarrow> int \<Rightarrow> int option \<Rightarrow> int \<Rightarrow> claims" where
  "access_claims x now jti user_id rls session_expires_at version auth_time =
     \<lparr>c_sub = x_uuid_str x user_id, c_iss = TOKEN_ISSUER, c_aud = TOKEN_AUDIENCE, c_roles = rls,
      c_exp = min (now + ACCESS_TOKEN_LIFETIME) session_expires_at, c_iat = now, c_jti = jti,
      c_typ = ''access'', c_session_exp = Some session_expires_at, c_session_version = version,
      c_auth_time = Some auth_time\<rparr>"

definition generate_access_token_for_session ::
  "externals \<Rightarrow> skey \<Rightarrow> int \<Rightarrow> string \<Rightarrow> uuid \<Rightarrow> string list \<Rightarrow> int \<Rightarrow> int option \<Rightarrow> int \<Rightarrow> string result"
  where
  "generate_access_token_for_session x key now jti user_id rls session_expires_at version auth_time =
     sign_claims x key (claims_to_json
       (access_claims x now jti user_id rls session_expires_at version auth_time))"

definition generate_access_token ::
  "externals \<Rightarrow> skey \<Rightarrow> int \<Rightarrow> string \<Rightarrow> uuid \<Rightarrow> string list \<Rightarrow> string result" where
  "generate_access_token x key now jti user_id rls =
     generate_access_token_for_session x key now jti user_id rls (now + ACCESS_TOKEN_LIFETIME)
       (Some 0) now"

definition refresh_claims ::
  "externals \<Rightarrow> int \<Rightarrow> string \<Rightarrow> uuid \<Rightarrow> int \<Rightarrow> int option \<Rightarrow> int \<Rightarrow> claims" where
  "refresh_claims x now jti user_id expires_at version auth_time =
     \<lparr>c_sub = x_uuid_str x user_id, c_iss = TOKEN_ISSUER, c_aud = TOKEN_AUDIENCE, c_roles = [],
      c_exp = expires_at, c_iat = now, c_jti = jti, c_typ = ''refresh'',
      c_session_exp = Some expires_at, c_session_version = version,
      c_auth_time = Some auth_time\<rparr>"

definition generate_refresh_token_for_session ::
  "externals \<Rightarrow> skey \<Rightarrow> int \<Rightarrow> string \<Rightarrow> uuid \<Rightarrow> uuid \<Rightarrow> int \<Rightarrow> int option \<Rightarrow> int \<Rightarrow> string db_op" where
  "generate_refresh_token_for_session x key now jti fresh user_id expires_at version auth_time =
     bind_op (lift_op (sign_claims x key (claims_to_json
        (refresh_claims x now jti user_id expires_at version auth_time)))) (\<lambda>tok.
     bind_op (insert_op (\<lambda>d. \<exists>r\<in>set (refresh_tokens d). rt_id r = fresh)
                (\<lambda>d. \<not> user_exists user_id d)
                (\<lambda>d. d\<lparr>refresh_tokens := refresh_tokens d @
                   [\<lparr>rt_id = fresh, rt_user = user_id, rt_hash = hash_token x tok,
                     rt_expires = expires_at, rt_created = now, rt_revoked = None,
                     rt_retry_until = None, rt_retry_pair = None\<rparr>]\<rparr>)) (\<lambda>_.
     ret_op tok))"

definition user_session_version :: "uuid \<Rightarrow> int db_op" where
  "user_session_version user_id = (\<lambda>d.
     case sql_find (\<lambda>r. u_id r = user_id \<and> u_active r) (users d) of
       None \<Rightarrow> (Inl AuthenticationRequired, d)
     | Some r \<Rightarrow> (Inr (u_token_version r), d))"

text \<open>The random values of one issue: two token ids, the row id, the retry nonce.\<close>

record mint =
  mi_access_jti :: string
  mi_refresh_jti :: string
  mi_row :: uuid
  mi_nonce :: string

definition generate_refresh_token ::
  "externals \<Rightarrow> skey \<Rightarrow> int \<Rightarrow> mint \<Rightarrow> uuid \<Rightarrow> int \<Rightarrow> string db_op" where
  "generate_refresh_token x key now m user_id lifetime =
     bind_op (user_session_version user_id) (\<lambda>version.
     generate_refresh_token_for_session x key now (mi_refresh_jti m) (mi_row m) user_id
       (now + lifetime) (Some version) now)"

definition generate_token_pair_for_session ::
  "externals \<Rightarrow> skey \<Rightarrow> int \<Rightarrow> mint \<Rightarrow> uuid \<Rightarrow> string list \<Rightarrow> int \<Rightarrow> int option \<Rightarrow> int
     \<Rightarrow> token_pair db_op" where
  "generate_token_pair_for_session x key now m user_id rls expires_at version auth_time =
     (let remaining = expires_at - now in
      bind_op (require_op (0 < remaining) AuthenticationRequired) (\<lambda>_.
      bind_op (lift_op (generate_access_token_for_session x key now (mi_access_jti m) user_id rls
                          expires_at version auth_time)) (\<lambda>access.
      bind_op (generate_refresh_token_for_session x key now (mi_refresh_jti m) (mi_row m) user_id
                 expires_at version auth_time) (\<lambda>refresh.
      ret_op \<lparr>tk_access = access, tk_refresh = refresh,
              tk_expires_in = min ACCESS_TOKEN_LIFETIME remaining,
              tk_refresh_expires_in = remaining, tk_token_type = ''Bearer''\<rparr>))))"

definition generate_token_pair ::
  "externals \<Rightarrow> skey \<Rightarrow> int \<Rightarrow> mint \<Rightarrow> uuid \<Rightarrow> string list \<Rightarrow> token_pair db_op" where
  "generate_token_pair x key now m user_id rls =
     bind_op (gets_op (\<lambda>d. now + session_expiry_seconds d)) (\<lambda>expires_at.
     bind_op (user_session_version user_id) (\<lambda>version.
     generate_token_pair_for_session x key now m user_id rls expires_at (Some version) now))"

section \<open>Revocation\<close>

definition revoke_user_access_tokens :: "int \<Rightarrow> uuid \<Rightarrow> unit db_op" where
  "revoke_user_access_tokens now user_id =
     bind_op (modify_op (\<lambda>d. d\<lparr>users := sql_update (\<lambda>r. u_id r = user_id)
                (\<lambda>r. r\<lparr>u_token_version := u_token_version r + 1\<rparr>) (users d)\<rparr>)) (\<lambda>_.
     insert_op (\<lambda>d. False) (\<lambda>d. \<not> user_exists user_id d)
       (\<lambda>d. d\<lparr>revocations := sql_delete (\<lambda>r. fst r = user_id) (revocations d) @ [(user_id, now)]\<rparr>))"

definition revoke_all_user_tokens :: "int \<Rightarrow> uuid \<Rightarrow> unit db_op" where
  "revoke_all_user_tokens now user_id =
     bind_op (modify_op (\<lambda>d. d\<lparr>refresh_tokens :=
                sql_update (\<lambda>r. rt_user r = user_id \<and> rt_revoked r = None)
                  (\<lambda>r. r\<lparr>rt_revoked := Some now\<rparr>) (refresh_tokens d)\<rparr>)) (\<lambda>_.
     revoke_user_access_tokens now user_id)"

section \<open>Verification\<close>

definition session_validation :: jwt_validation where
  "session_validation =
     \<lparr>jv_leeway = 0, jv_required = [''sub'', ''exp'', ''iat'', ''jti'', ''typ'', ''iss'', ''aud''],
      jv_iss = Some [TOKEN_ISSUER], jv_aud = Some [TOKEN_AUDIENCE], jv_validate_aud = True, jv_validate_exp = True\<rparr>"

definition decode_claims :: "externals \<Rightarrow> skey \<Rightarrow> int \<Rightarrow> string \<Rightarrow> claims option" where
  "decode_claims x key now tok =
     do { j \<leftarrow> x_jwt_verify x key session_validation now tok; claims_of_json j }"

definition verify_user_session :: "uuid \<Rightarrow> int \<Rightarrow> int option \<Rightarrow> unit db_op" where
  "verify_user_session user_id issued_at session_version =
     bind_op (user_session_version user_id) (\<lambda>current_version.
     case session_version of
       Some version \<Rightarrow>
         (if version = current_version then ret_op () else raise_op AuthenticationRequired)
     | None \<Rightarrow>
         (if current_version \<noteq> 0 then raise_op AuthenticationRequired
          else bind_op (gets_op (\<lambda>d. sql_find (\<lambda>r. fst r = user_id) (revocations d))) (\<lambda>revocation.
            case revocation of
              Some r \<Rightarrow> (if issued_at \<le> snd r then raise_op AuthenticationRequired else ret_op ())
            | None \<Rightarrow> ret_op ())))"

definition verify_access_token :: "externals \<Rightarrow> skey \<Rightarrow> int \<Rightarrow> string \<Rightarrow> claims db_op" where
  "verify_access_token x key now tok =
     bind_op (ok_or_op AuthenticationRequired (decode_claims x key now tok)) (\<lambda>c.
     bind_op (require_op (c_typ c = ''access'') AuthenticationRequired) (\<lambda>_.
     bind_op (require_op (\<not> (c_exp c \<le> now \<or> (case c_session_exp c of Some e \<Rightarrow> e \<le> now | None \<Rightarrow> False)))
                AuthenticationRequired) (\<lambda>_.
     bind_op (ok_or_op (InternalError ''Invalid user ID in token'') (x_uuid_parse x (c_sub c)))
       (\<lambda>user_id.
     bind_op (verify_user_session user_id (c_iat c) (c_session_version c)) (\<lambda>_.
     bind_op (gets_op (user_get user_id)) (\<lambda>found.
     bind_op (ok_or_op AuthenticationRequired found) (\<lambda>u.
     bind_op (gets_op (user_get_roles (u_id u))) (\<lambda>rls.
     ret_op (c\<lparr>c_roles := rls\<rparr>)))))))))"

definition consume_refresh_token ::
  "externals \<Rightarrow> skey \<Rightarrow> int \<Rightarrow> string \<Rightarrow> (uuid \<times> claims) db_op" where
  "consume_refresh_token x key now tok =
     bind_op (ok_or_op AuthenticationRequired (decode_claims x key now tok)) (\<lambda>c.
     bind_op (require_op (c_typ c = ''refresh'') AuthenticationRequired) (\<lambda>_.
     bind_op (ok_or_op AuthenticationRequired (x_uuid_parse x (c_sub c))) (\<lambda>user_id.
     bind_op (user_session_version user_id) (\<lambda>version_before.
     bind_op (verify_user_session user_id (c_iat c) (c_session_version c)) (\<lambda>_.
     let c' = (if c_session_version c = None then c\<lparr>c_session_version := Some version_before\<rparr> else c);
         hash = hash_token x tok;
         live = (\<lambda>r. rt_hash r = hash \<and> rt_revoked r = None \<and> now < rt_expires r)
     in (\<lambda>d.
       let affected = sql_count live (refresh_tokens d);
           d1 = d\<lparr>refresh_tokens := sql_update live (\<lambda>r. r\<lparr>rt_revoked := Some now\<rparr>) (refresh_tokens d)\<rparr>
       in if affected \<noteq> 1
          then (case sql_find (\<lambda>r. rt_hash r = hash) (refresh_tokens d1) of
                  Some row \<Rightarrow> (Inl AuthenticationRequired, snd (revoke_all_user_tokens now (rt_user row) d1))
                | None \<Rightarrow> (Inl AuthenticationRequired, d1))
          else (Inr (user_id, c'), d1)))))))"

definition verify_and_revoke_refresh_token ::
  "externals \<Rightarrow> skey \<Rightarrow> int \<Rightarrow> string \<Rightarrow> uuid db_op" where
  "verify_and_revoke_refresh_token x key now tok =
     bind_op (consume_refresh_token x key now tok) (\<lambda>r. ret_op (fst r))"

section \<open>Rotation\<close>

definition rotated_deadline :: "claims \<Rightarrow> int" where
  "rotated_deadline c = min (case c_session_exp c of None \<Rightarrow> c_exp c | Some e \<Rightarrow> e) (c_exp c)"

definition rotated_auth_time :: "claims \<Rightarrow> int" where
  "rotated_auth_time c = (case c_auth_time c of None \<Rightarrow> c_iat c | Some t \<Rightarrow> t)"

definition rotate_token_pair ::
  "externals \<Rightarrow> skey \<Rightarrow> int \<Rightarrow> mint \<Rightarrow> string \<Rightarrow> token_pair db_op" where
  "rotate_token_pair x key now m tok =
     bind_op (consume_refresh_token x key now tok) (\<lambda>(user_id, c).
     bind_op (gets_op (user_get user_id)) (\<lambda>found.
     bind_op (ok_or_op AuthenticationRequired found) (\<lambda>u.
     bind_op (gets_op (user_get_roles (u_id u))) (\<lambda>rls.
     generate_token_pair_for_session x key now m user_id rls (rotated_deadline c)
       (c_session_version c) (rotated_auth_time c)))))"

definition browser_retry_key :: "externals \<Rightarrow> skey \<Rightarrow> string" where
  "browser_retry_key x key = x_sha256 x (''authere/browser-refresh-retry/v1'' @ [CHR 0x00] @ key)"

definition encrypt_browser_retry ::
  "externals \<Rightarrow> skey \<Rightarrow> string \<Rightarrow> token_pair \<Rightarrow> string result" where
  "encrypt_browser_retry x key nonce p =
     (case x_aead_encrypt x (browser_retry_key x key) nonce (x_json_print x (pair_to_json p)) of
        None \<Rightarrow> Inl (InternalError ''Failed to encrypt refresh retry'')
      | Some ct \<Rightarrow> Inr (nonce @ ct))"

definition decrypt_browser_retry :: "externals \<Rightarrow> skey \<Rightarrow> string \<Rightarrow> token_pair result" where
  "decrypt_browser_retry x key encrypted =
     (if length encrypted < 12 then Inl AuthenticationRequired
      else case x_aead_decrypt x (browser_retry_key x key) (take 12 encrypted) (drop 12 encrypted) of
          None \<Rightarrow> Inl AuthenticationRequired
        | Some plain \<Rightarrow>
            (case do { j \<leftarrow> x_json_parse x plain; pair_of_json j } of
               None \<Rightarrow> Inl AuthenticationRequired
             | Some p \<Rightarrow> Inr p))"

text \<open>
  The bounded walk along replacements that were themselves already rotated; \<open>fuel\<close> is the
  number of iterations left of the loop over \<open>0..16\<close>.
\<close>

fun follow_retry_chain ::
  "nat \<Rightarrow> externals \<Rightarrow> skey \<Rightarrow> int \<Rightarrow> token_pair \<Rightarrow> token_pair db_op" where
  "follow_retry_chain 0 x key now p = raise_op AuthenticationRequired"
| "follow_retry_chain (Suc fuel) x key now p =
     bind_op (verify_access_token x key now (tk_access p)) (\<lambda>_.
     bind_op (gets_op (\<lambda>d. sql_find (\<lambda>r. rt_hash r = hash_token x (tk_refresh p) \<and> now < rt_expires r)
                             (refresh_tokens d))) (\<lambda>replacement.
     case replacement of
       None \<Rightarrow> raise_op AuthenticationRequired
     | Some r \<Rightarrow>
         (case rt_revoked r of
            None \<Rightarrow> ret_op p
          | Some _ \<Rightarrow>
              (case (rt_retry_until r, rt_retry_pair r) of
                 (Some until, Some encrypted) \<Rightarrow>
                   (if now < until
                    then bind_op (lift_op (decrypt_browser_retry x key encrypted))
                           (\<lambda>p'. follow_retry_chain fuel x key now p')
                    else raise_op AuthenticationRequired)
               | _ \<Rightarrow> raise_op AuthenticationRequired))))"

definition clear_stale_retries :: "int \<Rightarrow> db \<Rightarrow> db" where
  "clear_stale_retries now d = d\<lparr>refresh_tokens :=
     sql_update (\<lambda>r. (case rt_retry_until r of None \<Rightarrow> False | Some t \<Rightarrow> t \<le> now) \<and> rt_retry_pair r \<noteq> None)
       (\<lambda>r. r\<lparr>rt_retry_pair := None\<rparr>) (refresh_tokens d)\<rparr>"

text \<open>The stored replacement of a consumed token, while its window is open.\<close>

definition open_retry :: "externals \<Rightarrow> int \<Rightarrow> string \<Rightarrow> db \<Rightarrow> string option" where
  "open_retry x now tok d =
     (case sql_find (\<lambda>r. rt_hash r = hash_token x tok \<and> rt_revoked r \<noteq> None \<and> now < rt_expires r)
             (refresh_tokens d) of
        None \<Rightarrow> None
      | Some r \<Rightarrow> (case (rt_retry_until r, rt_retry_pair r) of
          (Some until, Some encrypted) \<Rightarrow> (if now < until then Some encrypted else None)
        | _ \<Rightarrow> None))"

text \<open>
  The transaction commits on success and when rotation fails with \<open>AuthenticationRequired\<close>
  (so that a replay's revocation is kept); every other exit rolls back.
\<close>

definition rotate_browser_token_pair ::
  "externals \<Rightarrow> skey \<Rightarrow> int \<Rightarrow> mint \<Rightarrow> string \<Rightarrow> token_pair db_op" where
  "rotate_browser_token_pair x key now m tok = (\<lambda>d.
     case open_retry x now tok d of
       Some encrypted \<Rightarrow>
         tx_op (bind_op (lift_op (decrypt_browser_retry x key encrypted))
                 (follow_retry_chain 16 x key now)) d
     | None \<Rightarrow>
         (case rotate_token_pair x key now m tok d of
            (Inl AuthenticationRequired, d1) \<Rightarrow> (Inl AuthenticationRequired, d1)
          | (Inl other, _) \<Rightarrow> (Inl other, d)
          | (Inr p, d1) \<Rightarrow>
              (case encrypt_browser_retry x key (mi_nonce m) p of
                 Inl e \<Rightarrow> (Inl e, d)
               | Inr encrypted \<Rightarrow>
                   (Inr p, clear_stale_retries now (d1\<lparr>refresh_tokens :=
                      sql_update (\<lambda>r. rt_hash r = hash_token x tok)
                        (\<lambda>r. r\<lparr>rt_retry_until := Some (now + 5), rt_retry_pair := Some encrypted\<rparr>)
                        (refresh_tokens d1)\<rparr>)))))"

definition sweep_expired_sessions :: "int \<Rightarrow> unit db_op" where
  "sweep_expired_sessions now =
     bind_op (modify_op (clear_stale_retries now)) (\<lambda>_.
     bind_op (modify_op (\<lambda>d. d\<lparr>refresh_tokens := sql_delete (\<lambda>r. rt_expires r \<le> now) (refresh_tokens d)\<rparr>)) (\<lambda>_.
     modify_op (\<lambda>d. d\<lparr>handoffs := sql_delete (\<lambda>r. ho_expires r \<le> now) (handoffs d)\<rparr>)))"

end
