(* ===== verification/Single_Use.thy ===== *)
theory Single_Use
  imports Prelude "HOL-Library.Extended_Nat"
begin

text \<open>
  The contract of credentials with a limited number of uses. A presentation \<open>p\<close> of the credential
  \<open>cred p\<close> either succeeds or not and leaves a new state. Every credential has a budget; a
  success takes one from it, and nothing adds to it: no other presentation, and no other step of
  the server that does not issue this very credential. From these laws alone, any interleaving
  of presentations and other steps contains no more successes than the budget allows.
\<close>

locale bounded_use =
  fixes inv :: "'s \<Rightarrow> bool"
    and use :: "'p \<Rightarrow> 's \<Rightarrow> bool \<times> 's"
    and cred :: "'p \<Rightarrow> 'k"
    and budget :: "'k \<Rightarrow> 's \<Rightarrow> enat"
    and other :: "'k \<Rightarrow> 's \<Rightarrow> 's \<Rightarrow> bool"
  assumes success_pays: "inv s \<Longrightarrow> fst (use p s) \<Longrightarrow> budget (cred p) (snd (use p s)) + 1 \<le> budget (cred p) s"
    and use_no_gain: "inv s \<Longrightarrow> budget k (snd (use p s)) \<le> budget k s"
    and use_keeps_inv: "inv s \<Longrightarrow> inv (snd (use p s))"
    and other_no_gain: "inv s \<Longrightarrow> other k s t \<Longrightarrow> budget k t \<le> budget k s"
    and other_keeps_inv: "inv s \<Longrightarrow> other k s t \<Longrightarrow> inv t"
begin

text \<open>
  A run records every presentation with its outcome, oldest first; \<open>k\<close> is the credential that
  the other steps of the run do not issue.
\<close>

inductive run :: "'k \<Rightarrow> 's \<Rightarrow> ('p \<times> bool) list \<Rightarrow> 's \<Rightarrow> bool" for k where
  start: "run k s [] s"
| present: "run k s es t \<Longrightarrow> run k s (es @ [(p, fst (use p t))]) (snd (use p t))"
| other: "run k s es t \<Longrightarrow> other k t t' \<Longrightarrow> run k s es t'"

definition successes :: "'k \<Rightarrow> ('p \<times> bool) list \<Rightarrow> nat" where
  "successes k es = length (filter (\<lambda>e. cred (fst e) = k \<and> snd e) es)"

lemma run_pays:
  assumes "run k s es t" and "inv s"
  shows "inv t \<and> enat (successes k es) + budget k t \<le> budget k s"
  using assms
proof (induction rule: run.induct)
  case (start s)
  then show ?case by (simp add: successes_def zero_enat_def [symmetric])
next
  case (present s es t p)
  then have t: "inv t" and le: "enat (successes k es) + budget k t \<le> budget k s" by auto
  show ?case
  proof (cases "cred p = k \<and> fst (use p t)")
    case True
    let ?es = "es @ [(p, fst (use p t))]"
    have "enat (successes k ?es) + budget k (snd (use p t))
        = enat (successes k es) + (budget k (snd (use p t)) + 1)"
    proof -
      have "successes k ?es = Suc (successes k es)" using True by (simp add: successes_def)
      moreover have "enat (Suc n) = enat n + 1" for n by (simp add: one_enat_def)
      ultimately show ?thesis by (simp only: ac_simps)
    qed
    also have "\<dots> \<le> enat (successes k es) + budget k t"
      using True success_pays [OF t, of p] by (intro add_left_mono) simp
    finally show ?thesis using le t use_keeps_inv by auto
  next
    case False
    then have "successes k (es @ [(p, fst (use p t))]) = successes k es" by (simp add: successes_def)
    moreover have "enat (successes k es) + budget k (snd (use p t)) \<le> enat (successes k es) + budget k t"
      by (rule add_left_mono) (rule use_no_gain [OF t])
    ultimately show ?thesis using order_trans [OF _ le] use_keeps_inv [OF t] by simp
  qed
next
  case (other s es t t')
  then have t: "inv t" and le: "enat (successes k es) + budget k t \<le> budget k s" by auto
  have "enat (successes k es) + budget k t' \<le> enat (successes k es) + budget k t"
    by (rule add_left_mono) (rule other_no_gain [OF t other.hyps(2)])
  then show ?case using order_trans [OF _ le] other_keeps_inv [OF t other.hyps(2)] by simp
qed

theorem within_budget:
  assumes "run k s es t" and "inv s"
  shows "enat (successes k es) \<le> budget k s"
proof -
  have "enat (successes k es) \<le> enat (successes k es) + budget k t" by simp
  with run_pays [OF assms] show ?thesis by (meson order_trans)
qed

end

text \<open>One-time credentials: live ones have a budget of one.\<close>

locale single_use =
  fixes inv :: "'s \<Rightarrow> bool"
    and use :: "'p \<Rightarrow> 's \<Rightarrow> bool \<times> 's"
    and cred :: "'p \<Rightarrow> 'k"
    and live :: "'k \<Rightarrow> 's \<Rightarrow> bool"
    and other :: "'k \<Rightarrow> 's \<Rightarrow> 's \<Rightarrow> bool"
  assumes success_live: "inv s \<Longrightarrow> fst (use p s) \<Longrightarrow> live (cred p) s"
    and success_spends: "inv s \<Longrightarrow> fst (use p s) \<Longrightarrow> \<not> live (cred p) (snd (use p s))"
    and use_keeps_dead: "inv s \<Longrightarrow> \<not> live k s \<Longrightarrow> \<not> live k (snd (use p s))"
    and use_inv: "inv s \<Longrightarrow> inv (snd (use p s))"
    and other_keeps_dead: "inv s \<Longrightarrow> other k s t \<Longrightarrow> \<not> live k s \<Longrightarrow> \<not> live k t"
    and other_inv: "inv s \<Longrightarrow> other k s t \<Longrightarrow> inv t"

sublocale single_use \<subseteq> bounded_use inv use cred "\<lambda>k s. if live k s then 1 else 0" other
  using success_live success_spends use_keeps_dead use_inv other_keeps_dead other_inv
  by unfold_locales auto

context single_use
begin

theorem at_most_one_success:
  assumes "run k s es t" and "inv s"
  shows "successes k es \<le> 1"
proof -
  have "enat (successes k es) \<le> 1"
    using within_budget [OF assms] by (auto split: if_splits intro: order_trans)
  then show ?thesis by (simp add: one_enat_def)
qed

theorem spent_never_succeeds:
  assumes "run k s es t" and "inv s" and "\<not> live k s"
  shows "successes k es = 0"
  using within_budget [OF assms(1,2)] assms(3) by (simp add: zero_enat_def)

end

end
