(* ===== verification/Statements.thy ===== *)
theory Statements
  imports Single_Use
begin

text \<open>
  Requests at the grain of their SQL statements. A request that holds a connection without a
  transaction is a sequence of statements; between two of them, the statements of other requests
  may run. A statement or a transaction is atomic: SQLite serialises writers.
\<close>

datatype ('s, 'a) proc = Done 'a | Stmt "'s \<Rightarrow> ('s, 'a) proc \<times> 's"

text \<open>One statement, and sequencing with the early return of \<open>?\<close>.\<close>

definition atomic :: "('s, 'e, 'a) op \<Rightarrow> ('s, 'e + 'a) proc" where
  "atomic m = Stmt (\<lambda>s. map_prod Done id (m s))"

primrec then_do :: "('s, 'e + 'a) proc \<Rightarrow> ('a \<Rightarrow> ('s, 'e + 'b) proc) \<Rightarrow> ('s, 'e + 'b) proc" where
  "then_do (Done r) k = (case r of Inl e \<Rightarrow> Done (Inl e) | Inr v \<Rightarrow> k v)"
| "then_do (Stmt f) k = Stmt (map_prod (\<lambda>p. then_do p k) id \<circ> f)"

text \<open>Going on with the result, error or not.\<close>

primrec attempt :: "('s, 'a) proc \<Rightarrow> ('s, 'e + 'a) proc" where
  "attempt (Done r) = Done (Inr r)"
| "attempt (Stmt f) = Stmt (map_prod attempt id \<circ> f)"

text \<open>A request that runs alone.\<close>

primrec run_proc :: "('s, 'a) proc \<Rightarrow> 's \<Rightarrow> 'a \<times> 's" where
  "run_proc (Done a) = (\<lambda>s. (a, s))"
| "run_proc (Stmt f) = (\<lambda>s. case (map_prod run_proc id \<circ> f) s of (g, s') \<Rightarrow> g s')"

lemma proc_induct [case_names Done Stmt]:
  assumes "\<And>a. P (Done a)" and "\<And>f. (\<And>s. P (fst (f s))) \<Longrightarrow> P (Stmt f)"
  shows "P p"
proof (induction p)
  case (Stmt f)
  have "P (fst (f s))" for s by (rule Stmt [of "f s" "fst (f s)"]) (simp_all add: prod_set_defs)
  then show ?case by (rule assms(2))
qed (rule assms(1))

lemma atomic_eq: "atomic m = Stmt (\<lambda>s. (Done (fst (m s)), snd (m s)))"
  by (simp add: atomic_def map_prod_def case_prod_beta)

lemma then_do_Stmt: "then_do (Stmt f) k = Stmt (\<lambda>s. (then_do (fst (f s)) k, snd (f s)))"
  by (simp add: fun_eq_iff map_prod_def case_prod_beta)

lemma attempt_Stmt: "attempt (Stmt f) = Stmt (\<lambda>s. (attempt (fst (f s)), snd (f s)))"
  by (simp add: fun_eq_iff map_prod_def case_prod_beta)

lemma run_Stmt: "run_proc (Stmt f) s = run_proc (fst (f s)) (snd (f s))"
  by (simp add: map_prod_def case_prod_beta)

declare then_do.simps(2) [simp del] attempt.simps(2) [simp del] run_proc.simps(2) [simp del]

lemmas [simp] = then_do_Stmt attempt_Stmt run_Stmt

lemma run_atomic [simp]: "run_proc (atomic m) = m"
  by (simp add: atomic_eq fun_eq_iff)

lemma run_then_do [simp]: "run_proc (then_do p k) = bind_op (run_proc p) (\<lambda>v. run_proc (k v))"
proof (induction p rule: proc_induct)
  case (Done r)
  then show ?case by (cases r) (simp_all add: bind_op_def fun_eq_iff)
next
  case (Stmt f)
  then show ?case by (simp add: fun_eq_iff bind_op_def)
qed

lemma run_attempt [simp]: "run_proc (attempt p) = try_op (run_proc p)"
  by (induction p rule: proc_induct) (simp_all add: fun_eq_iff try_op_def)

lemma then_do_assoc: "then_do (then_do p k) l = then_do p (\<lambda>v. then_do (k v) l)"
proof (induction p rule: proc_induct)
  case (Done r)
  then show ?case by (cases r) simp_all
qed simp

section \<open>One request among others\<close>

text \<open>
  Before every statement and after the last, the others do what \<open>R\<close> allows; \<open>R\<close> is reflexive and
  transitive, so this stands for any number of their statements.
\<close>

inductive exec :: "('s \<Rightarrow> 's \<Rightarrow> bool) \<Rightarrow> ('s, 'a) proc \<Rightarrow> 's \<Rightarrow> 'a \<Rightarrow> 's \<Rightarrow> bool" for R where
  finished: "R s t \<Longrightarrow> exec R (Done a) s a t"
| statement: "R s s1 \<Longrightarrow> f s1 = (p, s2) \<Longrightarrow> exec R p s2 a t \<Longrightarrow> exec R (Stmt f) s a t"

inductive_simps exec_Done [simp]: "exec R (Done a) s b t"
inductive_simps exec_Stmt: "exec R (Stmt f) s b t"

lemma exec_atomic_then:
  "exec R (then_do (atomic m) k) s a t \<longleftrightarrow>
     (\<exists>s1. R s s1 \<and> (case fst (m s1) of
        Inl e \<Rightarrow> a = Inl e \<and> R (snd (m s1)) t
      | Inr v \<Rightarrow> exec R (k v) (snd (m s1)) a t))"
  by (auto simp: atomic_eq exec_Stmt split: sum.splits)

lemma exec_alone: "exec (\<lambda>s t. t = s) p s a t \<longleftrightarrow> run_proc p s = (a, t)"
  by (induction p arbitrary: s rule: proc_induct) (auto simp: exec_Stmt prod_eq_iff)

lemma exec_atomic_Inr:
  assumes "exec R (then_do (atomic m) k) s (Inr y) t"
  obtains s1 v where "R s s1" "fst (m s1) = Inr v" "exec R (k v) (snd (m s1)) (Inr y) t"
proof -
  from assms obtain s1 where s1: "R s s1" "case fst (m s1) of Inl e \<Rightarrow> Inr y = Inl e \<and> R (snd (m s1)) t
      | Inr v \<Rightarrow> exec R (k v) (snd (m s1)) (Inr y) t"
    unfolding exec_atomic_then by blast
  then show ?thesis using that by (cases "fst (m s1)") auto
qed

lemma exec_attempt_Inl: "\<not> exec R (then_do (attempt q) (\<lambda>_. Done (Inl e))) s (Inr r) t"
  by (induction q arbitrary: s rule: proc_induct) (simp_all add: exec_Stmt)

lemma exec_prefix:
  assumes "exec R p s1 a t" and "R s s1" and "transp R"
  shows "exec R p s a t"
  using assms(1,2) transpD [OF assms(3)] by (cases rule: exec.cases) (auto intro: exec.intros)

lemma exec_atomic: "R s s1 \<Longrightarrow> m s1 = (r, s2) \<Longrightarrow> R s2 t \<Longrightarrow> exec R (atomic m) s r t"
  by (auto simp: atomic_eq exec_Stmt)

lemma exec_seq:
  assumes "exec R p s r s1" and "r = Inr v" and "exec R (k v) s1 a t" and "transp R"
  shows "exec R (then_do p k) s a t"
  using assms
proof (induction rule: exec.induct)
  case (finished s t1 r)
  then show ?case using exec_prefix by fastforce
next
  case (statement s s1 f p s2 r t1)
  then show ?case by (auto simp: exec_Stmt)
qed

lemma exec_mono: "exec R p s a t \<Longrightarrow> (\<And>s t. R s t \<Longrightarrow> R' s t) \<Longrightarrow> exec R' p s a t"
  by (induction rule: exec.induct) (auto intro: exec.intros)

section \<open>Many requests\<close>

text \<open>Any of the requests may execute its next statement; \<open>R\<close> is what everything else may do.\<close>

inductive weaves :: "('s \<Rightarrow> 's \<Rightarrow> bool) \<Rightarrow> ('s, 'a) proc list \<Rightarrow> 's \<Rightarrow> ('s, 'a) proc list \<Rightarrow> 's \<Rightarrow> bool"
  for R ps s where
  idle: "weaves R ps s ps s"
| statement: "weaves R ps s qs t \<Longrightarrow> i < length qs \<Longrightarrow> qs ! i = Stmt f \<Longrightarrow> f t = (q, t')
    \<Longrightarrow> weaves R ps s (qs[i := q]) t'"
| environment: "weaves R ps s qs t \<Longrightarrow> R t t' \<Longrightarrow> weaves R ps s qs t'"

lemma weaves_length: "weaves R ps s qs t \<Longrightarrow> length qs = length ps"
  by (induction rule: weaves.induct) simp_all

text \<open>A schedule names, statement by statement, the request that is next.\<close>

primrec schedule :: "nat list \<Rightarrow> ('s, 'a) proc list \<Rightarrow> 's \<Rightarrow> ('s, 'a) proc list \<times> 's" where
  "schedule [] ps s = (ps, s)"
| "schedule (i # is) ps s = (case ps ! i of
     Done _ \<Rightarrow> schedule is ps s
   | Stmt f \<Rightarrow> (case f s of (p, s') \<Rightarrow> schedule is (ps[i := p]) s'))"

lemma schedule_weaves:
  assumes "weaves R ps s qs t" and "\<forall>i\<in>set is. i < length ps"
  shows "weaves R ps s (fst (schedule is qs t)) (snd (schedule is qs t))"
  using assms
proof (induction "is" arbitrary: qs t)
  case (Cons i "is")
  show ?case
  proof (cases "qs ! i")
    case (Stmt f)
    obtain q t' where f: "f t = (q, t')" by (cases "f t")
    have "weaves R ps s (qs[i := q]) t'"
      using Cons.prems weaves_length by (intro weaves.statement [OF Cons.prems(1) _ Stmt f]) fastforce
    from Cons.IH [OF this] Cons.prems(2) show ?thesis by (simp add: Stmt f)
  qed (use Cons in simp)
qed simp

section \<open>Racing for a credential\<close>

context single_use
begin

text \<open>
  A request that presents \<open>p\<close>: it may win only after a statement that uses \<open>p\<close> with success. All
  its other statements read, or change the state like any other step of the server.
\<close>

definition harmless :: "('s \<Rightarrow> 's) \<Rightarrow> bool" where
  "harmless g \<longleftrightarrow> (\<forall>s k. inv s \<longrightarrow> g s = s \<or> other k s (g s))"

inductive settled :: "('s, 'a) proc \<Rightarrow> bool" where
  settled_done: "settled (Done a)"
| settled_step: "harmless (snd \<circ> f) \<Longrightarrow> (\<And>s. settled (fst (f s))) \<Longrightarrow> settled (Stmt f)"

inductive claimant :: "'p \<Rightarrow> ('a \<Rightarrow> bool) \<Rightarrow> ('s, 'a) proc \<Rightarrow> bool" for p won where
  lost: "\<not> won a \<Longrightarrow> claimant p won (Done a)"
| step: "harmless (snd \<circ> f) \<Longrightarrow> (\<And>s. claimant p won (fst (f s))) \<Longrightarrow> claimant p won (Stmt f)"
| claim: "(\<And>s. snd (f s) = snd (use p s)) \<Longrightarrow> (\<And>s. fst (use p s) \<Longrightarrow> settled (fst (f s)))
    \<Longrightarrow> (\<And>s. \<not> fst (use p s) \<Longrightarrow> claimant p won (fst (f s))) \<Longrightarrow> claimant p won (Stmt f)"

lemma harmless_read: "(\<And>s. g s = s) \<Longrightarrow> harmless g"
  by (simp add: harmless_def)

lemma claimant_read:
  assumes "\<And>s. snd (m s) = s" and "\<And>e. \<not> won (Inl e)" and "\<And>v. claimant p won (k v)"
  shows "claimant p won (then_do (atomic m) k)"
  unfolding atomic_eq then_do_Stmt using assms
  by (intro step harmless_read) (auto split: sum.split intro: lost)

lemma claimant_use:
  assumes "\<And>s. m s = (Inr (fst (use p s)), snd (use p s))" and "settled (k True)" and "claimant p won (k False)"
  shows "claimant p won (then_do (atomic m) k)"
  unfolding atomic_eq then_do_Stmt using assms by (intro claim) simp_all

lemma settled_atomic: "harmless (\<lambda>s. snd (m s)) \<Longrightarrow> settled (atomic m)"
  unfolding atomic_eq by (intro settled_step) (simp_all add: comp_def settled_done)

lemma settled_then: "settled p \<Longrightarrow> (\<And>v. settled (k v)) \<Longrightarrow> settled (then_do p k)"
  by (induction rule: settled.induct) (auto simp: comp_def split: sum.split intro: settled.intros)

lemma claimant_attempt: "settled q \<Longrightarrow> (\<And>v. claimant p won (k v)) \<Longrightarrow> claimant p won (then_do (attempt q) k)"
  by (induction rule: settled.induct) (auto simp: comp_def intro: claimant.step)

text \<open>The threads in \<open>W\<close> have used the credential with success, and only they can win.\<close>

lemma weaves_claims:
  assumes "weaves R ps s qs t" and "inv s"
    and "\<And>i. i < length ps \<Longrightarrow> claimant (pr i) won (ps ! i)"
    and env: "\<And>s s'. inv s \<Longrightarrow> R s s' \<Longrightarrow> other k s s'"
  shows "\<exists>es W. run k s es t \<and> W \<subseteq> {..<length ps} \<and> card {i\<in>W. cred (pr i) = k} = successes k es
     \<and> (\<forall>i<length ps. if i \<in> W then settled (qs ! i) else claimant (pr i) won (qs ! i))"
  using assms(1)
proof (induction rule: weaves.induct)
  case idle
  show ?case
    by (intro exI [of _ "[]"] exI [of _ "{}"]) (simp add: start successes_def assms(3))
next
  case (environment qs t t')
  then obtain es where "run k s es t" by blast
  moreover from this have "inv t" using run_pays assms(2) by blast
  ultimately show ?case using environment env run.other by blast
next
  case (statement qs t i f q t')
  then obtain es W where r: "run k s es t" and W: "W \<subseteq> {..<length ps}" "card {i\<in>W. cred (pr i) = k} = successes k es"
    and st: "\<forall>i<length ps. if i \<in> W then settled (qs ! i) else claimant (pr i) won (qs ! i)" by blast
  have inv: "inv t" using run_pays [OF r assms(2)] by blast
  have n: "length qs = length ps" using weaves_length [OF statement.hyps(1)] .
  have keep: "if j \<in> W then settled (qs[i := q] ! j) else claimant (pr j) won (qs[i := q] ! j)"
    if "j < length ps" "j \<noteq> i" for j
    using st that by simp
  have harmless: ?case if "harmless (snd \<circ> f)" "if i \<in> W then settled q else claimant (pr i) won q"
  proof -
    have "t' = snd (f t)" by (simp add: statement.hyps(4))
    then have "t' = t \<or> other k t t'" using that(1) inv by (auto simp: harmless_def)
    then have "run k s es t'" using r run.other by blast
    moreover have "if j \<in> W then settled (qs[i := q] ! j) else claimant (pr j) won (qs[i := q] ! j)"
      if "j < length ps" for j
      using keep [OF that] \<open>if i \<in> W then settled q else claimant (pr i) won q\<close> n that by (cases "j = i") auto
    ultimately show ?thesis using W by blast
  qed
  show ?case
  proof (cases "i \<in> W")
    case True
    with st statement.hyps(2,3) n have "settled (Stmt f)" by metis
    then have "harmless (snd \<circ> f)" "settled (fst (f t))" by (auto elim: settled.cases)
    with True show ?thesis by (intro harmless) (simp_all add: statement.hyps(4))
  next
    case False
    with st statement.hyps(2,3) n have "claimant (pr i) won (Stmt f)" by metis
    then show ?thesis
    proof (cases rule: claimant.cases)
      case step
      then have "claimant (pr i) won (fst (f t))" by blast
      with step False show ?thesis by (intro harmless) (simp_all add: statement.hyps(4))
    next
      case claim
      from claim(1) have t': "t' = snd (use (pr i) t)" using statement.hyps(4) by (metis snd_conv)
      let ?es = "es @ [(pr i, fst (use (pr i) t))]"
      have r': "run k s ?es t'" unfolding t' by (rule run.present [OF r])
      show ?thesis
      proof (cases "fst (use (pr i) t)")
        case True
        with claim(2) have q: "settled q" using statement.hyps(4) by (metis fst_conv)
        let ?W = "insert i W"
        have "finite W" using W(1) finite_subset by blast
        then have size: "card {j\<in>?W. cred (pr j) = k} = successes k ?es"
        proof -
          have "{j\<in>?W. cred (pr j) = k} = (if cred (pr i) = k then insert i {j\<in>W. cred (pr j) = k} else {j\<in>W. cred (pr j) = k})"
            by auto
          then show ?thesis using False W(2) True \<open>finite W\<close> by (simp add: successes_def)
        qed
        have "if j \<in> ?W then settled (qs[i := q] ! j) else claimant (pr j) won (qs[i := q] ! j)"
          if "j < length ps" for j
          using keep [OF that] q n that by (cases "j = i") auto
        then have all: "\<forall>j<length ps. if j \<in> ?W then settled (qs[i := q] ! j) else claimant (pr j) won (qs[i := q] ! j)"
          by blast
        have "?W \<subseteq> {..<length ps}" using W(1) statement.hyps(2) n by simp
        with r' size all show ?thesis by blast
      next
        case lost: False
        with claim(3) have q: "claimant (pr i) won q" using statement.hyps(4) by (metis fst_conv)
        have "successes k ?es = successes k es" using lost by (simp add: successes_def)
        moreover have "if j \<in> W then settled (qs[i := q] ! j) else claimant (pr j) won (qs[i := q] ! j)"
          if "j < length ps" for j
          using keep [OF that] q False n that by (cases "j = i") auto
        ultimately show ?thesis using r' W by (intro exI [of _ ?es] exI [of _ W]) auto
      qed
    qed
  qed
qed

theorem one_winner:
  assumes "weaves R ps s qs t" and "inv s"
    and "\<And>i. i < length ps \<Longrightarrow> claimant (pr i) won (ps ! i)"
    and "\<And>s s'. inv s \<Longrightarrow> R s s' \<Longrightarrow> other k s s'"
  shows "card {i. i < length qs \<and> cred (pr i) = k \<and> (\<exists>a. qs ! i = Done a \<and> won a)} \<le> 1"
proof -
  from weaves_claims [OF assms(1-3) assms(4)] obtain es W where
    r: "run k s es t" and W: "W \<subseteq> {..<length ps}" "card {i\<in>W. cred (pr i) = k} = successes k es"
    and st: "\<forall>i<length ps. if i \<in> W then settled (qs ! i) else claimant (pr i) won (qs ! i)" by blast
  have "i \<in> W" if "i < length qs" "qs ! i = Done a" "won a" for i a
  proof (rule ccontr)
    assume "i \<notin> W"
    then have "claimant (pr i) won (Done a)" using st that weaves_length [OF assms(1)] by auto
    then show False using that(3) by (cases rule: claimant.cases) simp_all
  qed
  then have "{i. i < length qs \<and> cred (pr i) = k \<and> (\<exists>a. qs ! i = Done a \<and> won a)} \<subseteq> {i\<in>W. cred (pr i) = k}" by blast
  moreover have "finite W" using W(1) finite_subset by blast
  ultimately have "card {i. i < length qs \<and> cred (pr i) = k \<and> (\<exists>a. qs ! i = Done a \<and> won a)} \<le> successes k es"
    unfolding W(2) [symmetric] by (intro card_mono) simp_all
  then show ?thesis using at_most_one_success [OF r assms(2)] by linarith
qed

end

end
