(* ===== verification/Reference_Externals.thy ===== *)
theory Reference_Externals
  imports Externals "HOL-Library.Countable"
begin

text \<open>
  A concrete instance of the third-party interface for which every named hypothesis holds:
  a token is the text of its claims, encryption is the identity, hashing is the identity on
  text. It shows that the hypotheses are consistent, and the concrete runs of the development
  are computed with it.
\<close>

instance json :: countable
  by countable_datatype

definition json_text :: "json \<Rightarrow> string" where
  "json_text j = replicate (to_nat j) CHR ''j''"

definition json_untext :: "string \<Rightarrow> json option" where
  "json_untext s = (let j = from_nat (length s) in if json_text j = s then Some j else None)"

lemma json_untext_text [simp]: "json_untext (json_text j) = Some j"
  by (simp add: json_untext_def json_text_def)

lemma json_untext_Some: "json_untext s = Some j \<Longrightarrow> s = json_text j"
  by (auto simp: json_untext_def Let_def split: if_splits)

lemma json_text_inj [simp]: "json_text i = json_text j \<longleftrightarrow> i = j"
  by (metis json_untext_text option.inject)

definition ref_url :: "string \<Rightarrow> url option" where
  "ref_url s =
     (case strip_prefix ''https://'' s of
        None \<Rightarrow> None
      | Some rest \<Rightarrow>
          (let host = takeWhile (\<lambda>c. c \<noteq> CHR ''/'') rest;
               path = dropWhile (\<lambda>c. c \<noteq> CHR ''/'') rest
           in Some \<lparr>ur_text = s, ur_scheme = ''https'',
                ur_host_str = (if host = [] then None else Some host), ur_domain = (if host = [] then None else Some host), ur_host_port = host,
                ur_username = [], ur_password = None, ur_query = None, ur_fragment = None, ur_path = path,
                ur_before_path = path, ur_origin = ''https://'' @ host\<rparr>))"

definition ref_ext :: externals where
  "ref_ext = \<lparr>
     x_public_key = id,
     x_sha256 = id,
     x_hex_encode = id,
     x_hex_decode = Some,
     x_b64url = id,
     x_uuid_str = show_nat,
     x_uuid_parse = parse_digits,
     x_json_print = json_text,
     x_json_parse = json_untext,
     x_jwt_sign = (\<lambda>key hdr j. Inr (json_text j)),
     x_jwt_verify = (\<lambda>key v now tok. case json_untext tok of None \<Rightarrow> None
                       | Some j \<Rightarrow> (if jwt_accepts v now j then Some j else None)),
     x_aead_encrypt = (\<lambda>key nonce p. Some p),
     x_aead_decrypt = (\<lambda>key nonce c. Some c),
     x_argon2_hash = (\<lambda>salt p. Inr p),
     x_argon2_verify = (\<lambda>h p. h = p),
     x_hmac_sha1 = (\<lambda>key msg. replicate 20 CHR ''0''),
     x_regex = (\<lambda>pat s. Some (pat = s)),
     x_regex_valid = (\<lambda>pat. True),
     x_b64url_decode = Some,
     x_b64_decode = Some,
     x_url_parse = ref_url,
     x_url_encode = id,
     x_url_decode = Some,
     x_alphanumeric = (\<lambda>n. False),
     x_to_uppercase = (\<lambda>n. [])\<rparr>"

lemma ref_ext_sel [simp]:
  "x_sha256 ref_ext = id" "x_hex_encode ref_ext = id" "x_hex_decode ref_ext = Some"
  "x_b64url ref_ext = id"
  "x_uuid_str ref_ext = show_nat" "x_uuid_parse ref_ext = parse_digits"
  "x_json_print ref_ext = json_text" "x_json_parse ref_ext = json_untext"
  "x_jwt_sign ref_ext key hdr j = Inr (json_text j)"
  "x_jwt_verify ref_ext key v now (json_text j) = (if jwt_accepts v now j then Some j else None)"
  "x_aead_encrypt ref_ext key nonce p = Some p" "x_aead_decrypt ref_ext key nonce p = Some p"
  "x_argon2_hash ref_ext salt p = Inr p" "x_argon2_verify ref_ext h p \<longleftrightarrow> h = p"
  "x_public_key ref_ext = id"
  "x_regex ref_ext pat s = Some (pat = s)" "x_regex_valid ref_ext pat"
  "x_b64url_decode ref_ext = Some" "x_b64_decode ref_ext = Some"
  "x_url_parse ref_ext = ref_url" "x_url_encode ref_ext = id" "x_url_decode ref_ext = Some"
  "x_alphanumeric ref_ext n = False"
  by (simp_all add: ref_ext_def fun_eq_iff)

lemma sha256_hex_ref [simp]: "sha256_hex ref_ext s = s"
  by (simp add: sha256_hex_def)

lemma ref_hypotheses:
  "jwt_checks ref_ext" "jwt_roundtrip ref_ext" "jwt_authentic ref_ext" "jwt_payload_fixed ref_ext"
  "uuid_text ref_ext" "aead_roundtrip ref_ext" "json_roundtrip ref_ext"
  by (auto simp: jwt_checks_def jwt_roundtrip_def jwt_authentic_def jwt_payload_fixed_def
      uuid_text_def aead_roundtrip_def json_roundtrip_def ref_ext_def
      dest: json_untext_Some split: option.splits if_splits)

end
