(* ===== verification/Token_Laws.thy ===== *)
theory Token_Laws
  imports Tokens Statements Reference_Externals
begin

text \<open>
  What the token component guarantees: JSON round trips, deadlines that never move, single use
  of refresh tokens, and revocation that no later operation undoes.
\<close>

section \<open>Session liveness\<close>

text \<open>
  The specification of \<open>verify_user_session\<close>: the account is active and either the credential
  carries the current generation, or it predates generations, the generation is still zero and
  it was issued after the last recorded revocation.
\<close>

definition current_version :: "uuid \<Rightarrow> db \<Rightarrow> int option" where
  "current_version u d =
     map_option u_token_version (sql_find (\<lambda>r. u_id r = u \<and> u_active r) (users d))"

definition session_live :: "uuid \<Rightarrow> int \<Rightarrow> int option \<Rightarrow> db \<Rightarrow> bool" where
  "session_live u issued gen d \<longleftrightarrow>
     (\<exists>cv. current_version u d = Some cv \<and>
        (case gen of
           Some g \<Rightarrow> g = cv
         | None \<Rightarrow> cv = 0 \<and> (\<forall>r. sql_find (\<lambda>r. fst r = u) (revocations d) = Some r \<longrightarrow> snd r < issued)))"

lemma user_session_version_eq:
  "user_session_version u d =
     (case current_version u d of None \<Rightarrow> Inl AuthenticationRequired | Some v \<Rightarrow> Inr v, d)"
  by (simp add: user_session_version_def current_version_def split: option.split)

lemma verify_user_session_eq:
  "verify_user_session u issued gen d =
     (if session_live u issued gen d then Inr () else Inl AuthenticationRequired, d)"
proof (cases "current_version u d")
  case None
  then show ?thesis
    by (simp add: verify_user_session_def bind_op_def user_session_version_eq session_live_def)
next
  case (Some cv)
  then show ?thesis
    by (cases gen; cases "sql_find (\<lambda>r. fst r = u) (revocations d)")
       (simp_all add: verify_user_session_def bind_op_def user_session_version_eq session_live_def
         not_le)
qed

lemma current_version_of:
  "keyed u_id (users d) \<Longrightarrow> current_version u d = Some v \<Longrightarrow> version_of u d = Some v"
proof -
  assume k: "keyed u_id (users d)" and "current_version u d = Some v"
  then obtain r where r: "sql_find (\<lambda>r. u_id r = u \<and> u_active r) (users d) = Some r"
    and v: "v = u_token_version r"
    by (auto simp: current_version_def)
  from r have "r \<in> set (users d)" and "u_id r = u" by (auto dest: sql_find_SomeD)
  with sql_find_keyed [OF k, of r] v show ?thesis by (simp add: version_of_def)
qed

lemma session_live_user:
  "session_live u i g d \<Longrightarrow> \<exists>w. user_get u d = Some w \<and> u_id w = u"
proof -
  assume "session_live u i g d"
  then obtain r where "sql_find (\<lambda>r. u_id r = u \<and> u_active r) (users d) = Some r"
    by (auto simp: session_live_def current_version_def)
  then have "r \<in> set (users d)" "u_id r = u" by (auto dest: sql_find_SomeD)
  then have "sql_find (\<lambda>r. u_id r = u) (users d) \<noteq> None" by (auto simp: sql_find_None)
  then show ?thesis by (auto simp: user_get_def dest: sql_find_SomeD)
qed

section \<open>Access tokens\<close>

text \<open>The conditions under which an access token is accepted.\<close>

definition access_live :: "externals \<Rightarrow> skey \<Rightarrow> int \<Rightarrow> string \<Rightarrow> claims \<Rightarrow> uuid \<Rightarrow> db \<Rightarrow> bool" where
  "access_live x key now tok c u d \<longleftrightarrow>
     decode_claims x key now tok = Some c \<and> c_typ c = ''access'' \<and> now < c_exp c
   \<and> (\<forall>e. c_session_exp c = Some e \<longrightarrow> now < e)
   \<and> x_uuid_parse x (c_sub c) = Some u \<and> session_live u (c_iat c) (c_session_version c) d"

lemma verify_access_token_Inr:
  "verify_access_token x key now tok d = (Inr c', d') \<longleftrightarrow>
     d' = d \<and> (\<exists>c u. access_live x key now tok c u d \<and> c' = c\<lparr>c_roles := user_get_roles u d\<rparr>)"
proof
  assume "verify_access_token x key now tok d = (Inr c', d')"
  then show "d' = d \<and> (\<exists>c u. access_live x key now tok c u d \<and> c' = c\<lparr>c_roles := user_get_roles u d\<rparr>)"
    by (auto simp: verify_access_token_def op_results verify_user_session_eq access_live_def not_le
        dest: session_live_user split: if_splits option.splits)
next
  assume *: "d' = d \<and> (\<exists>c u. access_live x key now tok c u d \<and> c' = c\<lparr>c_roles := user_get_roles u d\<rparr>)"
  then obtain c u where live: "access_live x key now tok c u d" and c': "c' = c\<lparr>c_roles := user_get_roles u d\<rparr>"
    by auto
  then obtain w where "user_get u d = Some w" "u_id w = u"
    using session_live_user [of u "c_iat c" "c_session_version c" d] by (auto simp: access_live_def)
  with live c' * show "verify_access_token x key now tok d = (Inr c', d')"
    by (auto simp: verify_access_token_def op_results verify_user_session_eq access_live_def not_le
        split: option.splits)
qed

lemma readonly_verify_access_token [simp]: "snd (verify_access_token x key now tok d) = d"
proof -
  have "keeps (\<lambda>s t. t = s) (verify_access_token x key now tok)"
    unfolding verify_access_token_def
    by (intro readonly.keeps_rules readonly.keeps_pure) (simp add: verify_user_session_eq)
  then show ?thesis by (simp add: keeps_def)
qed

section \<open>Revocation outlives everything\<close>

text \<open>
  The contract of a credential that is bound to its owner's session: whatever else is checked,
  acceptance implies a live session of the owner at the credential's generation.
\<close>

locale session_credential =
  fixes accept :: "'t \<Rightarrow> db \<Rightarrow> bool"
    and owner :: "'t \<Rightarrow> uuid"
    and issued :: "'t \<Rightarrow> int"
    and generation :: "'t \<Rightarrow> int option"
  assumes accept_live: "accept t d \<Longrightarrow> session_live (owner t) (issued t) (generation t) d"
begin

text \<open>The generation a credential needs: its own, or zero for credentials without one.\<close>

lemma accept_version:
  assumes "accept t d" and "keyed u_id (users d)"
  shows "version_of (owner t) d = Some (case generation t of None \<Rightarrow> 0 | Some g \<Rightarrow> g)"
proof -
  from accept_live [OF assms(1)] obtain cv
    where "current_version (owner t) d = Some cv"
      and "cv = (case generation t of None \<Rightarrow> 0 | Some g \<Rightarrow> g)"
    by (auto simp: session_live_def split: option.splits)
  with current_version_of [OF assms(2)] show ?thesis by blast
qed

lemma dead_once_superseded:
  assumes "accept t d" and "keyed u_id (users d)"
    and same: "owner t' = owner t" "generation t' = generation t"
    and v: "version_of (owner t) d = Some v" and gt: "\<forall>v1. version_of (owner t) d1 = Some v1 \<longrightarrow> v < v1"
    and k1: "keyed u_id (users d1)" and ev: "evolves (owner t) d1 d2"
  shows "\<not> accept t' d2"
proof
  assume a2: "accept t' d2"
  from ev k1 have k2: "keyed u_id (users d2)"
    and grow: "\<And>v'. version_of (owner t) d2 = Some v' \<Longrightarrow> \<exists>v1. version_of (owner t) d1 = Some v1 \<and> v1 \<le> v'"
    by (auto simp: evolves_def)
  have "version_of (owner t) d2 = version_of (owner t) d"
    using accept_version [OF assms(1,2)] accept_version [OF a2 k2] same by simp
  with v grow obtain v1 where "version_of (owner t) d1 = Some v1" "v1 \<le> v" by auto
  with gt show False by auto
qed

end

text \<open>Revoking bumps the generation, in whatever state it is called.\<close>

lemma version_of_revoke_user_access:
  "version_of u (snd (revoke_user_access_tokens now u d)) = map_option (\<lambda>v. v + 1) (version_of u d)"
proof -
  let ?d1 = "d\<lparr>users := sql_update (\<lambda>r. u_id r = u) (\<lambda>r. r\<lparr>u_token_version := u_token_version r + 1\<rparr>) (users d)\<rparr>"
  have "sql_find (\<lambda>r. u_id r = u) (users ?d1) =
     map_option (\<lambda>r. if u_id r = u then r\<lparr>u_token_version := u_token_version r + 1\<rparr> else r)
       (sql_find (\<lambda>r. u_id r = u) (users d))"
    by (simp, subst sql_find_update) auto
  then have "version_of u ?d1 = map_option (\<lambda>v. v + 1) (version_of u d)"
    by (cases "sql_find (\<lambda>r. u_id r = u) (users d)") (auto simp: version_of_def dest: sql_find_SomeD)
  then show ?thesis
    by (simp add: revoke_user_access_tokens_def bind_op_def insert_op_state version_of_def)
qed

lemma version_of_revoke_all:
  "version_of u (snd (revoke_all_user_tokens now u d)) = map_option (\<lambda>v. v + 1) (version_of u d)"
proof -
  let ?d1 = "d\<lparr>refresh_tokens := sql_update (\<lambda>r. rt_user r = u \<and> rt_revoked r = None)
    (\<lambda>r. r\<lparr>rt_revoked := Some now\<rparr>) (refresh_tokens d)\<rparr>"
  have "revoke_all_user_tokens now u d = revoke_user_access_tokens now u ?d1"
    by (simp add: revoke_all_user_tokens_def bind_op_def)
  moreover have "version_of u ?d1 = version_of u d" by (simp add: version_of_def)
  ultimately show ?thesis using version_of_revoke_user_access by metis
qed

lemma keeps_revoke_user_access: "keeps (evolves u) (revoke_user_access_tokens now w)"
  unfolding revoke_user_access_tokens_def
  by (intro ev.keeps_rules ev.keeps_modify keeps_same_users_evolves keeps_intros)
     (auto intro!: sql_update_evolves)

lemma keeps_revoke_all: "keeps (evolves u) (revoke_all_user_tokens now w)"
  unfolding revoke_all_user_tokens_def
  by (intro ev.keeps_bind keeps_revoke_user_access keeps_same_users_evolves keeps_intros) simp

context session_credential
begin

theorem revoked_stays_dead:
  assumes "accept t d" and k: "keyed u_id (users d)"
    and same: "owner t' = owner t" "generation t' = generation t"
    and d1: "d1 = snd (revoke_user_access_tokens now (owner t) d)
           \<or> d1 = snd (revoke_all_user_tokens now (owner t) d)"
    and ev: "evolves (owner t) d1 d2"
  shows "\<not> accept t' d2"
proof -
  from accept_version [OF assms(1) k] obtain v where v: "version_of (owner t) d = Some v" by blast
  with d1 have "version_of (owner t) d1 = Some (v + 1)"
    by (auto simp: version_of_revoke_all version_of_revoke_user_access)
  moreover have "keyed u_id (users d1)"
    using d1 k keeps_revoke_all keeps_revoke_user_access unfolding keeps_def evolves_def by metis
  ultimately show ?thesis
    using dead_once_superseded [OF assms(1) k same v _ _ ev] by auto
qed

theorem inactive_is_dead:
  assumes "accept t d"
  shows "\<exists>r\<in>set (users d). u_id r = owner t \<and> u_active r"
  using accept_live [OF assms] by (auto simp: session_live_def current_version_def dest: sql_find_SomeD)

end

text \<open>Access tokens, presented at a given time and key, are such credentials.\<close>

type_synonym presented = "externals \<times> skey \<times> int \<times> string"

definition accepts_access :: "presented \<Rightarrow> db \<Rightarrow> bool" where
  "accepts_access t d = (case t of (x, key, now, tok) \<Rightarrow> \<not> isl (fst (verify_access_token x key now tok d)))"

definition presented_claims :: "presented \<Rightarrow> claims" where
  "presented_claims t = (case t of (x, key, now, tok) \<Rightarrow> the (decode_claims x key now tok))"

definition presented_owner :: "presented \<Rightarrow> uuid" where
  "presented_owner t = the (x_uuid_parse (fst t) (c_sub (presented_claims t)))"

lemma accepts_access_live:
  "accepts_access (x, key, now, tok) d \<longleftrightarrow> (\<exists>c u. access_live x key now tok c u d)"
proof -
  have "accepts_access (x, key, now, tok) d \<longleftrightarrow>
     (\<exists>c' d'. verify_access_token x key now tok d = (Inr c', d'))"
    by (cases "verify_access_token x key now tok d"; cases "fst (verify_access_token x key now tok d)")
       (auto simp: accepts_access_def)
  then show ?thesis by (auto simp: verify_access_token_Inr)
qed

interpretation access: session_credential accepts_access presented_owner
  "\<lambda>t. c_iat (presented_claims t)" "\<lambda>t. c_session_version (presented_claims t)"
proof
  fix t d
  assume "accepts_access t d"
  then show "session_live (presented_owner t) (c_iat (presented_claims t))
     (c_session_version (presented_claims t)) d"
    by (cases t) (auto simp: accepts_access_live access_live_def presented_owner_def presented_claims_def)
qed

section \<open>Refresh tokens\<close>

text \<open>What a refresh token must satisfy before the database row is consulted.\<close>

definition refresh_checks :: "externals \<Rightarrow> skey \<Rightarrow> int \<Rightarrow> string \<Rightarrow> claims \<Rightarrow> uuid \<Rightarrow> db \<Rightarrow> bool" where
  "refresh_checks x key now tok c u d \<longleftrightarrow>
     decode_claims x key now tok = Some c \<and> c_typ c = ''refresh''
   \<and> x_uuid_parse x (c_sub c) = Some u \<and> session_live u (c_iat c) (c_session_version c) d"

definition row_live :: "externals \<Rightarrow> int \<Rightarrow> string \<Rightarrow> refresh_row \<Rightarrow> bool" where
  "row_live x now tok r \<longleftrightarrow> rt_hash r = hash_token x tok \<and> rt_revoked r = None \<and> now < rt_expires r"

definition mark_revoked :: "externals \<Rightarrow> int \<Rightarrow> string \<Rightarrow> db \<Rightarrow> db" where
  "mark_revoked x now tok d = d\<lparr>refresh_tokens :=
     sql_update (row_live x now tok) (\<lambda>r. r\<lparr>rt_revoked := Some now\<rparr>) (refresh_tokens d)\<rparr>"

definition with_version :: "db \<Rightarrow> uuid \<Rightarrow> claims \<Rightarrow> claims" where
  "with_version d u c =
     (if c_session_version c = None then c\<lparr>c_session_version := current_version u d\<rparr> else c)"

lemma row_live_eta: "row_live x now tok =
    (\<lambda>r. rt_hash r = hash_token x tok \<and> rt_revoked r = None \<and> now < rt_expires r)"
  by (simp add: fun_eq_iff row_live_def)

lemma session_live_version: "session_live u i g d \<Longrightarrow> \<exists>v. current_version u d = Some v"
  by (auto simp: session_live_def)

text \<open>Consumption, case by case.\<close>

lemma consume_refresh_token_checked:
  assumes "refresh_checks x key now tok c u d"
  shows "consume_refresh_token x key now tok d =
    (let d1 = mark_revoked x now tok d in
     if sql_count (row_live x now tok) (refresh_tokens d) = 1
     then (Inr (u, with_version d u c), d1)
     else (Inl AuthenticationRequired,
           case sql_find (\<lambda>r. rt_hash r = hash_token x tok) (refresh_tokens d1) of
             Some row \<Rightarrow> snd (revoke_all_user_tokens now (rt_user row) d1)
           | None \<Rightarrow> d1))"
proof -
  from assms obtain v where v: "current_version u d = Some v"
    using session_live_version [of u "c_iat c" "c_session_version c" d] by (auto simp: refresh_checks_def)
  with assms show ?thesis
    by (simp add: consume_refresh_token_def refresh_checks_def bind_op_def ok_or_op_def
        require_op_def user_session_version_eq verify_user_session_eq Let_def row_live_eta
        mark_revoked_def with_version_def split: option.split)
qed

lemma consume_refresh_token_unchecked:
  assumes "\<not> (\<exists>c u. refresh_checks x key now tok c u d)"
  shows "consume_refresh_token x key now tok d = (Inl AuthenticationRequired, d)"
  using assms
  by (auto simp: consume_refresh_token_def refresh_checks_def bind_op_def ok_or_op_def
      require_op_def user_session_version_eq verify_user_session_eq session_live_def Let_def
      split: option.splits)

lemma refresh_checks_unique:
  "refresh_checks x key now tok c u d \<Longrightarrow> refresh_checks x key now tok c' u' d \<Longrightarrow> c' = c \<and> u' = u"
  by (auto simp: refresh_checks_def)

lemma consume_refresh_token_Inr:
  "consume_refresh_token x key now tok d = (Inr (u, c'), d') \<longleftrightarrow>
     (\<exists>c. refresh_checks x key now tok c u d \<and> c' = with_version d u c
       \<and> sql_count (row_live x now tok) (refresh_tokens d) = 1 \<and> d' = mark_revoked x now tok d)"
proof (cases "\<exists>c u. refresh_checks x key now tok c u d")
  case True
  then obtain c0 u0 where c0: "refresh_checks x key now tok c0 u0 d" by blast
  then have "refresh_checks x key now tok c u d \<longleftrightarrow> c = c0 \<and> u = u0" for c u
    using refresh_checks_unique by blast
  with c0 show ?thesis
    by (auto simp: consume_refresh_token_checked Let_def split: if_splits)
next
  case False
  then show ?thesis by (simp add: consume_refresh_token_unchecked)
qed

lemma consume_refresh_token_Inl:
  "consume_refresh_token x key now tok d = (Inl e, d') \<Longrightarrow> e = AuthenticationRequired"
  by (cases "\<exists>c u. refresh_checks x key now tok c u d")
     (auto simp: consume_refresh_token_checked consume_refresh_token_unchecked Let_def split: if_splits)

text \<open>
  A refresh token, identified by its hash, is live while some row of that hash is unrevoked.
  Steps that do not issue it add no unrevoked row of that hash and revive none.
\<close>

definition refresh_hash_live :: "string \<Rightarrow> db \<Rightarrow> bool" where
  "refresh_hash_live h d \<longleftrightarrow> (\<exists>r\<in>set (refresh_tokens d). rt_hash r = h \<and> rt_revoked r = None)"

definition not_issuing :: "string \<Rightarrow> db \<Rightarrow> db \<Rightarrow> bool" where
  "not_issuing h d d' \<longleftrightarrow> (refresh_hash_live h d' \<longrightarrow> refresh_hash_live h d)"

definition use_refresh :: "presented \<Rightarrow> db \<Rightarrow> bool \<times> db" where
  "use_refresh t d = (case t of (x, key, now, tok) \<Rightarrow>
     (case consume_refresh_token x key now tok d of (r, d') \<Rightarrow> (\<not> isl r, d')))"

definition refresh_cred :: "presented \<Rightarrow> string" where
  "refresh_cred t = (case t of (x, key, now, tok) \<Rightarrow> hash_token x tok)"

interpretation ni: state_preorder "not_issuing h" for h
  by unfold_locales (auto simp: not_issuing_def)

lemma not_issuing_mark_revoked: "not_issuing h d (mark_revoked x now tok d)"
  by (auto simp: not_issuing_def refresh_hash_live_def mark_revoked_def set_sql_update split: if_splits)

lemma not_issuing_same: "refresh_tokens d' = refresh_tokens d \<Longrightarrow> not_issuing h d d'"
  by (auto simp: not_issuing_def refresh_hash_live_def)

lemma keeps_not_issuing_insert:
  "(\<And>d. refresh_tokens (f d) = refresh_tokens d) \<Longrightarrow> keeps (not_issuing h) (insert_op dup dang f)"
  by (auto simp: keeps_def insert_op_state intro!: not_issuing_same)

lemma keeps_not_issuing_revoke_all: "keeps (not_issuing h) (revoke_all_user_tokens now u)"
  unfolding revoke_all_user_tokens_def revoke_user_access_tokens_def
  by (intro ni.keeps_rules ni.keeps_modify keeps_not_issuing_insert)
     (auto simp: not_issuing_def refresh_hash_live_def set_sql_update split: if_splits)

lemma keeps_not_issuing_consume: "keeps (not_issuing h) (consume_refresh_token x key now tok)"
  unfolding keeps_def
proof
  fix d
  have "not_issuing h d1 (snd (revoke_all_user_tokens now u d1))" for u d1
    using keeps_not_issuing_revoke_all by (simp add: keeps_def)
  then show "not_issuing h d (snd (consume_refresh_token x key now tok d))"
    using not_issuing_mark_revoked ni.trans ni.refl
    by (cases "\<exists>c u. refresh_checks x key now tok c u d")
       (fastforce simp: consume_refresh_token_checked consume_refresh_token_unchecked Let_def
          split: option.split)+
qed

lemma mark_revoked_spends:
  assumes k: "keyed rt_hash (refresh_tokens d)"
    and "sql_count (row_live x now tok) (refresh_tokens d) = 1"
  shows "\<not> refresh_hash_live (hash_token x tok) (mark_revoked x now tok d)"
proof -
  from sql_count_one [OF assms(2)] obtain r where r: "r \<in> set (refresh_tokens d)" "row_live x now tok r" ..
  have "row_live x now tok q" if "q \<in> set (refresh_tokens d)" "rt_hash q = hash_token x tok" for q
    using keyed_unique [OF k that(1) r(1)] r(2) that(2) by (simp add: row_live_def)
  then show ?thesis
    by (auto simp: refresh_hash_live_def mark_revoked_def set_sql_update split: if_splits)
qed

text \<open>The rows of two states agree on their hashes.\<close>

definition same_hashes :: "db \<Rightarrow> db \<Rightarrow> bool" where
  "same_hashes d d' \<longleftrightarrow> map rt_hash (refresh_tokens d') = map rt_hash (refresh_tokens d)"

interpretation sh: state_preorder same_hashes
  by unfold_locales (auto simp: same_hashes_def)

lemma keeps_same_hashes_revoke_all: "keeps same_hashes (revoke_all_user_tokens now u)"
  unfolding revoke_all_user_tokens_def revoke_user_access_tokens_def
  by (intro sh.keeps_rules sh.keeps_modify)
     (auto simp: keeps_def insert_op_state same_hashes_def sql_update_def)

lemma same_hashes_mark_revoked: "same_hashes d (mark_revoked x now tok d)"
  by (simp add: same_hashes_def mark_revoked_def sql_update_def)

lemma same_hashes_consume: "same_hashes d (snd (consume_refresh_token x key now tok d))"
proof -
  note same_hashes_mark_revoked [of d x now tok]
  moreover have "same_hashes d1 (snd (revoke_all_user_tokens now u d1))" for u d1
    using keeps_same_hashes_revoke_all by (simp add: keeps_def)
  ultimately show ?thesis
    using sh.trans sh.refl
    by (cases "\<exists>c u. refresh_checks x key now tok c u d")
       (fastforce simp: consume_refresh_token_checked consume_refresh_token_unchecked Let_def
          split: option.split)+
qed

lemma same_hashes_keyed: "same_hashes d d' \<Longrightarrow> keyed rt_hash (refresh_tokens d') = keyed rt_hash (refresh_tokens d)"
  by (simp add: same_hashes_def keyed_def)

lemma use_refresh_success:
  "fst (use_refresh (x, key, now, tok) d) \<longleftrightarrow>
     (\<exists>c u. refresh_checks x key now tok c u d) \<and> sql_count (row_live x now tok) (refresh_tokens d) = 1"
proof (cases "\<exists>c u. refresh_checks x key now tok c u d")
  case True
  then obtain c u where "refresh_checks x key now tok c u d" by blast
  then show ?thesis by (auto simp: use_refresh_def consume_refresh_token_checked Let_def)
next
  case False
  then show ?thesis by (simp add: use_refresh_def consume_refresh_token_unchecked)
qed

lemma snd_use_refresh: "snd (use_refresh (x, key, now, tok) d) = snd (consume_refresh_token x key now tok d)"
  by (simp add: use_refresh_def split: prod.split)

interpretation refresh: single_use "\<lambda>d. keyed rt_hash (refresh_tokens d)" use_refresh refresh_cred
  refresh_hash_live "\<lambda>h d d'. not_issuing h d d' \<and> (keyed rt_hash (refresh_tokens d) \<longrightarrow> keyed rt_hash (refresh_tokens d'))"
proof
  fix d p assume k: "keyed rt_hash (refresh_tokens d)" and s: "fst (use_refresh p d)"
  obtain x key now tok where p: "p = (x, key, now, tok)" by (cases p)
  with s have one: "sql_count (row_live x now tok) (refresh_tokens d) = 1"
    and chk: "\<exists>c u. refresh_checks x key now tok c u d"
    by (auto simp: use_refresh_success)
  from one have "\<exists>r\<in>set (refresh_tokens d). row_live x now tok r" by (rule sql_count_one)
  then show "refresh_hash_live (refresh_cred p) d"
    by (auto simp: p refresh_cred_def refresh_hash_live_def row_live_def)
  from chk one have "snd (use_refresh p d) = mark_revoked x now tok d"
    by (auto simp: p snd_use_refresh consume_refresh_token_checked Let_def)
  then show "\<not> refresh_hash_live (refresh_cred p) (snd (use_refresh p d))"
    using mark_revoked_spends [OF k one] by (simp add: p refresh_cred_def)
next
  fix d :: db and k and p :: presented
  assume "\<not> refresh_hash_live k d"
  moreover obtain x key now tok where "p = (x, key, now, tok)" by (cases p)
  ultimately show "\<not> refresh_hash_live k (snd (use_refresh p d))"
    using keeps_not_issuing_consume [of k x key now tok] by (auto simp: keeps_def not_issuing_def snd_use_refresh)
next
  fix d :: db and p :: presented
  assume "keyed rt_hash (refresh_tokens d)"
  moreover obtain x key now tok where "p = (x, key, now, tok)" by (cases p)
  ultimately show "keyed rt_hash (refresh_tokens (snd (use_refresh p d)))"
    using same_hashes_keyed [OF same_hashes_consume] by (simp add: snd_use_refresh)
qed (auto simp: not_issuing_def)

lemma session_live_cong:
  "users d' = users d \<Longrightarrow> revocations d' = revocations d \<Longrightarrow> session_live u i g d' = session_live u i g d"
  unfolding session_live_def current_version_def by (simp only:)

lemma refresh_checks_mark_revoked [simp]:
  "refresh_checks x key now tok c u (mark_revoked y nw t d) = refresh_checks x key now tok c u d"
  using session_live_cong [of "mark_revoked y nw t d" d] by (simp add: refresh_checks_def mark_revoked_def)

section \<open>Issuing\<close>

lemma decode_claims_fixed:
  assumes "jwt_payload_fixed x" and "decode_claims x key now tok = Some c"
    and "decode_claims x key later tok = Some c'"
  shows "c' = c"
proof -
  from assms(2,3) obtain j j' where
    "x_jwt_verify x key session_validation now tok = Some j" "claims_of_json j = Some c"
    "x_jwt_verify x key session_validation later tok = Some j'" "claims_of_json j' = Some c'"
    by (auto simp: decode_claims_def split: Option.bind_splits)
  with assms(1) show ?thesis by (metis jwt_payload_fixed_def option.inject)
qed

lemma revoke_user_access_tokens_refresh [simp]:
  "refresh_tokens (snd (revoke_user_access_tokens now u d)) = refresh_tokens d"
  by (simp add: revoke_user_access_tokens_def bind_op_def insert_op_state)

lemma refresh_tokens_revoke_all:
  "refresh_tokens (snd (revoke_all_user_tokens now u d)) =
     sql_update (\<lambda>r. rt_user r = u \<and> rt_revoked r = None) (\<lambda>r. r\<lparr>rt_revoked := Some now\<rparr>) (refresh_tokens d)"
  by (simp add: revoke_all_user_tokens_def bind_op_def)

text \<open>What issuing a pair does: the signed claims, the stored row, the announced lifetimes.\<close>

lemma sign_claims_Inr: "sign_claims x key j = Inr tok \<longleftrightarrow> x_jwt_sign x key eddsa_header j = Inr tok"
  by (auto simp: sign_claims_def split: sum.splits)

definition issued_row :: "externals \<Rightarrow> int \<Rightarrow> mint \<Rightarrow> uuid \<Rightarrow> string \<Rightarrow> int \<Rightarrow> refresh_row" where
  "issued_row x now m u tok expires_at =
     \<lparr>rt_id = mi_row m, rt_user = u, rt_hash = hash_token x tok, rt_expires = expires_at,
      rt_created = now, rt_revoked = None, rt_retry_until = None, rt_retry_pair = None\<rparr>"

lemma generate_pair_Inr:
  "generate_token_pair_for_session x key now m u rls ex ver aut d = (Inr p, d') \<longleftrightarrow>
     now < ex
   \<and> x_jwt_sign x key eddsa_header
        (claims_to_json (access_claims x now (mi_access_jti m) u rls ex ver aut)) = Inr (tk_access p)
   \<and> x_jwt_sign x key eddsa_header
        (claims_to_json (refresh_claims x now (mi_refresh_jti m) u ex ver aut)) = Inr (tk_refresh p)
   \<and> tk_expires_in p = min ACCESS_TOKEN_LIFETIME (ex - now) \<and> tk_refresh_expires_in p = ex - now
   \<and> tk_token_type p = ''Bearer''
   \<and> (\<forall>r\<in>set (refresh_tokens d). rt_id r \<noteq> mi_row m) \<and> user_exists u d
   \<and> d' = d\<lparr>refresh_tokens := refresh_tokens d @ [issued_row x now m u (tk_refresh p) ex]\<rparr>"
  by (cases p)
     (auto simp: generate_token_pair_for_session_def generate_access_token_for_session_def
        generate_refresh_token_for_session_def op_results sign_claims_Inr issued_row_def Let_def)

end
