(* ===== verification/Token_Browser.thy ===== *)
theory Token_Browser
  imports Token_Laws
begin

text \<open>
  The browser retry window, the signing key at rest, the JSON form of claims, and the frame
  facts of every token operation.
\<close>

section \<open>JSON round trips\<close>

lemma opt_field_jopt_JInt:
  "opt_i64 v \<Longrightarrow> (case jopt JInt v of JNull \<Rightarrow> Some None | w \<Rightarrow> map_option Some (as_i64 w)) = Some v"
  by (cases v) (auto simp: jopt_def opt_i64_def)

lemma pair_json_roundtrip:
  "in_i64 (tk_expires_in p) \<Longrightarrow> in_i64 (tk_refresh_expires_in p) \<Longrightarrow> pair_of_json (pair_to_json p) = Some p"
  by (simp add: pair_of_json_def pair_to_json_def req_field_def)

lemma claims_roundtrip: "claims_i64 c \<Longrightarrow> claims_of_json (claims_to_json c) = Some c"
  by (cases "c_session_exp c"; cases "c_session_version c"; cases "c_auth_time c")
     (simp_all add: claims_i64_def claims_of_json_def claims_to_json_def req_field_def opt_field_def
       jopt_def opt_i64_def)

lemma jwt_accepts_session:
  assumes "claims_i64 c" "c_iss c = TOKEN_ISSUER" "c_aud c = TOKEN_AUDIENCE" "now \<le> c_exp c"
  shows "jwt_accepts session_validation now (claims_to_json c)"
  using assms
  by (auto simp: jwt_accepts_def session_validation_def claims_to_json_def claim_str_def req_field_def
      claims_i64_def)

text \<open>A token signed by the server decodes to its claims until it expires.\<close>

lemma decode_signed:
  assumes "jwt_roundtrip x" "x_jwt_sign x key hdr (claims_to_json c) = Inr tok"
    and "claims_i64 c" "c_iss c = TOKEN_ISSUER" "c_aud c = TOKEN_AUDIENCE" "now \<le> c_exp c"
  shows "decode_claims x key now tok = Some c"
proof -
  have "x_jwt_verify x key session_validation now tok = Some (claims_to_json c)"
    using assms(1,2) jwt_accepts_session [OF assms(3-6)] by (auto simp: jwt_roundtrip_def)
  then show ?thesis by (simp add: decode_claims_def claims_roundtrip [OF assms(3)])
qed

section \<open>The browser retry window\<close>

lemma decrypt_encrypt_browser_retry:
  assumes "aead_roundtrip x" "json_roundtrip x" "length nonce = 12"
    and "in_i64 (tk_expires_in p)" "in_i64 (tk_refresh_expires_in p)"
    and "encrypt_browser_retry x key nonce p = Inr e"
  shows "decrypt_browser_retry x key e = Inr p"
proof -
  from assms(6) obtain ct where ct: "e = nonce @ ct"
    and "x_aead_encrypt x (browser_retry_key x key) nonce (x_json_print x (pair_to_json p)) = Some ct"
    by (auto simp: encrypt_browser_retry_def split: option.splits)
  then have "x_aead_decrypt x (browser_retry_key x key) nonce ct = Some (x_json_print x (pair_to_json p))"
    using assms(1) by (auto simp: aead_roundtrip_def)
  with assms(2-5) ct show ?thesis
    by (simp add: decrypt_browser_retry_def json_roundtrip_def pair_json_roundtrip)
qed

lemma rotate_browser_first:
  assumes "open_retry x now tok d = None"
    and "rotate_browser_token_pair x key now m tok d = (Inr p, d2)"
  obtains d1 e where "rotate_token_pair x key now m tok d = (Inr p, d1)"
    and "encrypt_browser_retry x key (mi_nonce m) p = Inr e"
    and "d2 = clear_stale_retries now (d1\<lparr>refresh_tokens :=
                      sql_update (\<lambda>r. rt_hash r = hash_token x tok)
                        (\<lambda>r. r\<lparr>rt_retry_until := Some (now + 5), rt_retry_pair := Some e\<rparr>)
                        (refresh_tokens d1)\<rparr>)"
  using assms
  by (auto simp: rotate_browser_token_pair_def split: prod.splits sum.splits app_error.splits)

lemma rotate_rows:
  assumes "rotate_token_pair x key now m tok d = (Inr p, d1)"
  obtains u ex where "refresh_tokens d1 = refresh_tokens (mark_revoked x now tok d)
      @ [issued_row x now m u (tk_refresh p) ex]"
    and "ex = now + tk_refresh_expires_in p"
    and "sql_count (row_live x now tok) (refresh_tokens d) = 1"
  using assms
  by (auto simp: rotate_token_pair_def op_results consume_refresh_token_Inr generate_pair_Inr
      split: prod.splits)

text \<open>After the first rotation the consumed row carries the replacement, the new row is untouched.\<close>

lemma retry_rows:
  assumes "refresh_tokens d1 = refresh_tokens (mark_revoked x now tok d) @ [nr]"
    and nr: "rt_hash nr \<noteq> hash_token x tok" "rt_retry_pair nr = None"
    and one: "sql_count (row_live x now tok) (refresh_tokens d) = 1"
    and d2: "d2 = clear_stale_retries now (d1\<lparr>refresh_tokens :=
        sql_update (\<lambda>r. rt_hash r = hash_token x tok)
          (\<lambda>r. r\<lparr>rt_retry_until := Some (now + 5), rt_retry_pair := Some e\<rparr>) (refresh_tokens d1)\<rparr>)"
  shows "nr \<in> set (refresh_tokens d2)"
    and "\<exists>r\<in>set (refresh_tokens d). row_live x now tok r \<and>
       r\<lparr>rt_revoked := Some now, rt_retry_until := Some (now + 5), rt_retry_pair := Some e\<rparr>
         \<in> set (refresh_tokens d2)"
proof -
  let ?mark = "\<lambda>r. if row_live x now tok r then r\<lparr>rt_revoked := Some now\<rparr> else r"
  let ?store = "\<lambda>r. if rt_hash r = hash_token x tok
     then r\<lparr>rt_retry_until := Some (now + 5), rt_retry_pair := Some e\<rparr> else r"
  let ?stale = "\<lambda>r. (case rt_retry_until r of None \<Rightarrow> False | Some t \<Rightarrow> t \<le> now) \<and> rt_retry_pair r \<noteq> None"
  let ?clear = "\<lambda>r. if ?stale r then r\<lparr>rt_retry_pair := None\<rparr> else r"
  have rows: "refresh_tokens d2 = map ?clear (map ?store (map ?mark (refresh_tokens d) @ [nr]))"
    using assms(1) d2 by (simp add: clear_stale_retries_def sql_update_def mark_revoked_def)
  show "nr \<in> set (refresh_tokens d2)" using nr by (simp add: rows)
  from sql_count_one [OF one] obtain r where r: "r \<in> set (refresh_tokens d)" "row_live x now tok r" ..
  have "?clear (?store (?mark r)) \<in> set (refresh_tokens d2)"
    unfolding rows using r(1) by (rule in_map3)
  moreover have "?clear (?store (?mark r)) =
      r\<lparr>rt_revoked := Some now, rt_retry_until := Some (now + 5), rt_retry_pair := Some e\<rparr>"
    using r(2) by (simp add: row_live_def)
  ultimately show "\<exists>r\<in>set (refresh_tokens d). row_live x now tok r \<and>
       r\<lparr>rt_revoked := Some now, rt_retry_until := Some (now + 5), rt_retry_pair := Some e\<rparr>
         \<in> set (refresh_tokens d2)"
    using r by metis
qed

section \<open>The signing key at rest\<close>

text \<open>What initialisation stores, loading returns, with the same secret.\<close>

lemma decrypt_encrypt_private_key:
  assumes "aead_roundtrip x" "length key = 32" "encrypt_private_key x nonce key kek = Inr (ct, nn)"
  shows "decrypt_private_key x ct nn kek = Inr key"
  using assms
  by (auto simp: encrypt_private_key_def decrypt_private_key_def aead_roundtrip_def split: option.splits)

section \<open>What token operations do to the table of users\<close>

lemma keeps_generate_pair_for_session:
  "keeps same_users (generate_token_pair_for_session x key now m u rls ex ver aut)"
  unfolding generate_token_pair_for_session_def generate_refresh_token_for_session_def Let_def
  by (intro su.keeps_rules keeps_intros) simp

lemma keeps_user_session_version: "keeps same_users (user_session_version u)"
  by (rule su.keeps_pure) (simp add: user_session_version_eq)

lemma keeps_generate_token_pair: "keeps same_users (generate_token_pair x key now m u rls)"
  unfolding generate_token_pair_def
  by (intro su.keeps_rules keeps_generate_pair_for_session keeps_user_session_version)

lemma keeps_consume: "keeps (evolves u) (consume_refresh_token x key now tok)"
  unfolding keeps_def
proof
  fix d
  have "evolves u d (mark_revoked x now tok d)"
    by (rule same_users_evolves) (simp add: same_users_def mark_revoked_def)
  moreover have "evolves u d1 (snd (revoke_all_user_tokens now w d1))" for w d1
    using keeps_revoke_all [of u now w] by (simp add: keeps_def)
  ultimately show "evolves u d (snd (consume_refresh_token x key now tok d))"
    using ev.trans ev.refl
    by (cases "\<exists>c u. refresh_checks x key now tok c u d")
       (fastforce simp: consume_refresh_token_checked consume_refresh_token_unchecked Let_def
          split: option.split)+
qed

lemma keeps_rotate: "keeps (evolves u) (rotate_token_pair x key now m tok)"
  unfolding rotate_token_pair_def
  by (intro ev.keeps_rules keeps_consume
      keeps_same_users_evolves [OF keeps_generate_pair_for_session])

lemma readonly_follow_retry_chain: "keeps (\<lambda>s t. t = s) (follow_retry_chain n x key now p)"
proof (induction n arbitrary: p)
  case (Suc n)
  have "keeps (\<lambda>s t. t = s) (verify_access_token x key now tok)" for tok
    by (rule readonly.keeps_pure) simp
  with Suc show ?case
    by (simp only: follow_retry_chain.simps) (intro readonly.keeps_rules)
qed (simp add: readonly.keeps_raise)

lemma keeps_rotate_browser: "keeps (evolves u) (rotate_browser_token_pair x key now m tok)"
  unfolding keeps_def
proof
  fix d
  have rot: "evolves u d (snd (rotate_token_pair x key now m tok d))"
    using keeps_rotate by (simp add: keeps_def)
  have fin: "evolves u d1 (clear_stale_retries now (d1\<lparr>refresh_tokens := rows\<rparr>))" for d1 rows
    by (rule same_users_evolves) (simp add: same_users_def clear_stale_retries_def)
  have follow: "snd (follow_retry_chain n x key now p d) = d" for n p
    using readonly_follow_retry_chain [of n x key now p] by (simp add: keeps_def)
  show "evolves u d (snd (rotate_browser_token_pair x key now m tok d))"
  proof (cases "open_retry x now tok d")
    case (Some e)
    then show ?thesis
      using follow
      by (simp add: rotate_browser_token_pair_def bind_op_def ev.refl split: sum.split)
  next
    case None
    then show ?thesis
      using rot ev.trans [OF rot fin] ev.refl
      by (auto simp: rotate_browser_token_pair_def split: prod.split sum.split app_error.split)
  qed
qed

lemma keeps_sweep: "keeps same_users (sweep_expired_sessions now)"
  unfolding sweep_expired_sessions_def
  by (intro su.keeps_rules keeps_intros) (simp_all add: clear_stale_retries_def)

lemma keeps_initialize: "keeps same_users (initialize x secret key fresh nonce)"
  unfolding initialize_def by (intro su.keeps_rules keeps_intros) simp

text \<open>
  The sweep only removes what can no longer be used: no row that is still within its lifetime
  disappears and no row is revived.
\<close>

lemma sweep_keeps_live:
  assumes "row_live x later tok r" "now \<le> later" "r \<in> set (refresh_tokens d)"
  shows "\<exists>r'\<in>set (refresh_tokens (snd (sweep_expired_sessions now d))). row_live x later tok r' \<and> rt_id r' = rt_id r"
proof
  let ?stale = "\<lambda>r. (case rt_retry_until r of None \<Rightarrow> False | Some t \<Rightarrow> t \<le> now) \<and> rt_retry_pair r \<noteq> None"
  let ?r = "if ?stale r then r\<lparr>rt_retry_pair := None\<rparr> else r"
  show "row_live x later tok ?r \<and> rt_id ?r = rt_id r"
    using assms(1) by (simp add: row_live_def)
  have "?r \<in> set (refresh_tokens (clear_stale_retries now d))"
    unfolding clear_stale_retries_def using assms(3)
    by (simp add: set_sql_update)
  then show "?r \<in> set (refresh_tokens (snd (sweep_expired_sessions now d)))"
    using assms(1,2) by (simp add: sweep_expired_sessions_def bind_op_def row_live_def)
qed

end
