(* ===== verification/Demo.thy ===== *)
theory Demo
  imports Token_Browser
begin

text \<open>
  A small concrete installation, with the reference instance of the third-party code: one
  active user with one session. The concrete runs of the development start from it.
\<close>

definition demo_user :: user_row where
  "demo_user = \<lparr>u_id = 7, u_username = ''alice'', u_name = ''Alice'', u_email = None, u_active = True,
     u_created_at = 100, u_updated_at = 100, u_token_version = 0\<rparr>"

definition demo_db :: db where
  "demo_db = empty_db\<lparr>users := [demo_user]\<rparr>"

definition demo_mint :: mint where
  "demo_mint = \<lparr>mi_access_jti = ''a'', mi_refresh_jti = ''r'', mi_row = 1, mi_nonce = ''123456789012''\<rparr>"

definition demo_access :: claims where
  "demo_access = access_claims ref_ext 1000 ''a'' 7 [] 605800 (Some 0) 1000"

definition demo_refresh :: claims where
  "demo_refresh = refresh_claims ref_ext 1000 ''r'' 7 605800 (Some 0) 1000"

definition demo_access_token :: string where
  "demo_access_token = json_text (claims_to_json demo_access)"

definition demo_refresh_token :: string where
  "demo_refresh_token = json_text (claims_to_json demo_refresh)"

definition demo_session :: db where
  "demo_session = demo_db\<lparr>refresh_tokens := [issued_row ref_ext 1000 demo_mint 7 demo_refresh_token 605800]\<rparr>"

lemmas demo_state_defs = demo_session_def demo_db_def demo_user_def empty_db_def issued_row_def
  demo_mint_def

lemmas demo_claim_defs = demo_access_def demo_refresh_def access_claims_def refresh_claims_def
  TOKEN_ISSUER_def TOKEN_AUDIENCE_def ACCESS_TOKEN_LIFETIME_def

lemma demo_claims_i64: "claims_i64 demo_access" "claims_i64 demo_refresh"
  by (simp_all add: claims_i64_def opt_i64_def in_i64_def demo_claim_defs)

lemma demo_decode_access [simp]:
  "now \<le> 1900 \<Longrightarrow> decode_claims ref_ext key now demo_access_token = Some demo_access"
  unfolding demo_access_token_def
  by (rule decode_signed [of _ _ eddsa_header])
     (simp_all add: ref_hypotheses demo_claims_i64, simp_all add: demo_claim_defs)

lemma demo_decode_refresh [simp]:
  "now \<le> 605800 \<Longrightarrow> decode_claims ref_ext key now demo_refresh_token = Some demo_refresh"
  unfolding demo_refresh_token_def
  by (rule decode_signed [of _ _ eddsa_header])
     (simp_all add: ref_hypotheses demo_claims_i64, simp_all add: demo_claim_defs)

lemma demo_keyed [simp]: "keyed u_id (users demo_session)" "keyed rt_hash (refresh_tokens demo_session)"
  by (simp_all add: demo_state_defs keyed_def)

lemma demo_access_live: "now < 1900 \<Longrightarrow> access_live ref_ext key now demo_access_token demo_access 7 demo_session"
  by (simp add: access_live_def session_live_def current_version_def demo_state_defs)
     (simp add: demo_claim_defs)

lemma demo_refresh_checks:
  "now \<le> 605800 \<Longrightarrow> refresh_checks ref_ext key now demo_refresh_token demo_refresh 7 demo_session"
  by (simp add: refresh_checks_def session_live_def current_version_def demo_state_defs)
     (simp add: demo_claim_defs)

definition demo_pair :: token_pair where
  "demo_pair = \<lparr>
     tk_access = json_text (claims_to_json (access_claims ref_ext 2000 ''a'' 7 [] 605800 (Some 0) 1000)),
     tk_refresh = json_text (claims_to_json (refresh_claims ref_ext 2000 ''r'' 7 605800 (Some 0) 1000)),
     tk_expires_in = 900, tk_refresh_expires_in = 603800, tk_token_type = ''Bearer''\<rparr>"

definition demo_mint2 :: mint where
  "demo_mint2 = demo_mint\<lparr>mi_row := 2\<rparr>"

definition demo_rotated :: db where
  "demo_rotated = (let d = mark_revoked ref_ext 2000 demo_refresh_token demo_session in
     d\<lparr>refresh_tokens := refresh_tokens d @ [issued_row ref_ext 2000 demo_mint2 7 (tk_refresh demo_pair) 605800]\<rparr>)"

lemma demo_rotate_pair:
  "rotate_token_pair ref_ext [] 2000 demo_mint2 demo_refresh_token demo_session = (Inr demo_pair, demo_rotated)"
proof -
  let ?d = "mark_revoked ref_ext 2000 demo_refresh_token demo_session"
  have "sql_count (row_live ref_ext 2000 demo_refresh_token) (refresh_tokens demo_session) = 1"
    by (simp add: demo_state_defs sql_count_def row_live_def)
  then have con: "consume_refresh_token ref_ext [] 2000 demo_refresh_token demo_session
      = (Inr (7, demo_refresh), ?d)"
    using demo_refresh_checks [of 2000 "[]"]
    by (auto simp: consume_refresh_token_Inr with_version_def demo_claim_defs)
  have get: "user_get 7 ?d = Some (user.truncate demo_user)" and rls: "user_get_roles 7 ?d = []"
    and id: "u_id demo_user = 7"
    by (simp_all add: user_get_def user_get_roles_def mark_revoked_def demo_state_defs)
  have "generate_token_pair_for_session ref_ext [] 2000 demo_mint2 7 [] 605800 (Some 0) 1000 ?d = (Inr demo_pair, demo_rotated)"
    by (simp add: generate_pair_Inr)
       (simp add: demo_pair_def demo_mint2_def demo_rotated_def mark_revoked_def demo_state_defs
          ACCESS_TOKEN_LIFETIME_def user_exists_def sql_update_def)
  moreover have "rotated_deadline demo_refresh = 605800" "rotated_auth_time demo_refresh = 1000"
    "c_session_version demo_refresh = Some 0"
    by (simp_all add: rotated_deadline_def rotated_auth_time_def demo_claim_defs)
  ultimately show ?thesis
    using con get rls id by (simp add: rotate_token_pair_def bind_op_def ok_or_op_def)
qed

lemma demo_tokens_differ: "demo_refresh_token \<noteq> tk_refresh demo_pair"
  by (simp add: demo_refresh_token_def demo_pair_def claims_to_json_def demo_claim_defs)

lemma demo_rotated_rows: "refresh_tokens demo_rotated =
   [(issued_row ref_ext 1000 demo_mint 7 demo_refresh_token 605800)\<lparr>rt_revoked := Some 2000\<rparr>,
    issued_row ref_ext 2000 demo_mint2 7 (tk_refresh demo_pair) 605800]"
  by (simp add: demo_rotated_def mark_revoked_def demo_session_def sql_update_def row_live_def issued_row_def)

text \<open>The state after the browser's first rotation.\<close>

definition demo_retry :: db where
  "demo_retry = snd (rotate_browser_token_pair ref_ext [] 2000 demo_mint2 demo_refresh_token demo_session)"

lemma demo_browser_rotate:
  "rotate_browser_token_pair ref_ext [] 2000 demo_mint2 demo_refresh_token demo_session = (Inr demo_pair, demo_retry)"
  "refresh_tokens demo_retry =
   [(issued_row ref_ext 1000 demo_mint 7 demo_refresh_token 605800)\<lparr>rt_revoked := Some 2000,
      rt_retry_until := Some 2005, rt_retry_pair := Some (mi_nonce demo_mint2 @ json_text (pair_to_json demo_pair))\<rparr>,
    issued_row ref_ext 2000 demo_mint2 7 (tk_refresh demo_pair) 605800]"
  "users demo_retry = users demo_session" "revocations demo_retry = revocations demo_session"
proof -
  have "open_retry ref_ext 2000 demo_refresh_token demo_session = None"
    by (simp add: open_retry_def demo_state_defs)
  then have *: "rotate_browser_token_pair ref_ext [] 2000 demo_mint2 demo_refresh_token demo_session =
     (Inr demo_pair, clear_stale_retries 2000 (demo_rotated\<lparr>refresh_tokens :=
        sql_update (\<lambda>r. rt_hash r = hash_token ref_ext demo_refresh_token)
          (\<lambda>r. r\<lparr>rt_retry_until := Some 2005, rt_retry_pair := Some (mi_nonce demo_mint2 @ json_text (pair_to_json demo_pair))\<rparr>)
          (refresh_tokens demo_rotated)\<rparr>))"
    by (simp add: rotate_browser_token_pair_def demo_rotate_pair encrypt_browser_retry_def)
  then show "rotate_browser_token_pair ref_ext [] 2000 demo_mint2 demo_refresh_token demo_session = (Inr demo_pair, demo_retry)"
    by (simp add: demo_retry_def)
  show "refresh_tokens demo_retry =
   [(issued_row ref_ext 1000 demo_mint 7 demo_refresh_token 605800)\<lparr>rt_revoked := Some 2000,
      rt_retry_until := Some 2005, rt_retry_pair := Some (mi_nonce demo_mint2 @ json_text (pair_to_json demo_pair))\<rparr>,
    issued_row ref_ext 2000 demo_mint2 7 (tk_refresh demo_pair) 605800]"
    using demo_tokens_differ
    by (simp add: demo_retry_def * clear_stale_retries_def demo_rotated_rows sql_update_def issued_row_def hash_token_def)
  show "users demo_retry = users demo_session" "revocations demo_retry = revocations demo_session"
    by (simp_all add: demo_retry_def * clear_stale_retries_def demo_rotated_def mark_revoked_def Let_def)
qed

end
