(* ===== verification/Token_Properties.thy ===== *)
theory Token_Properties
  imports Demo
begin

text \<open>
  The guarantees of the token component, each with a concrete run that meets its hypotheses.
\<close>

text \<open>
  C3. Revoking a user's sessions (logout, password change, detected replay) is final: an access
  token of that user which was accepted before is refused at every later time, in every state
  the database can evolve to without re-creating the same user id.
\<close>

theorem access_revocation_permanent:
  assumes "jwt_payload_fixed x" and "keyed u_id (users d)"
    and acc: "verify_access_token x key now tok d = (Inr c, d0)"
    and u: "x_uuid_parse x (c_sub c) = Some u"
    and rev: "revoke_all_user_tokens ta u d = (r, d1)"
    and ev: "evolves u d1 d2"
  shows "isl (fst (verify_access_token x key later tok d2))"
proof (rule ccontr)
  let ?t = "(x, key, now, tok)" and ?t' = "(x, key, later, tok)"
  assume "\<not> ?thesis"
  then have acc2: "accepts_access ?t' d2" by (simp add: accepts_access_def)
  from acc have acc1: "accepts_access ?t d" by (simp add: accepts_access_def)
  from acc obtain c0 u0 where c0: "access_live x key now tok c0 u0 d" and "c_sub c = c_sub c0"
    by (auto simp: verify_access_token_Inr)
  with u have own: "presented_owner ?t = u"
    by (auto simp: presented_owner_def presented_claims_def access_live_def)
  from acc2 obtain c2 u2 where "access_live x key later tok c2 u2 d2"
    by (auto simp: accepts_access_live)
  then have "presented_claims ?t' = presented_claims ?t"
    using decode_claims_fixed [OF assms(1), of key now tok c0 later c2] c0
    by (simp add: presented_claims_def access_live_def)
  then have "presented_owner ?t' = presented_owner ?t" by (simp add: presented_owner_def)
  with access.revoked_stays_dead [OF acc1 assms(2), of ?t' d1 ta d2] acc2 own rev ev
    \<open>presented_claims ?t' = presented_claims ?t\<close>
  show False by simp
qed

theorem access_revocation_permanent_witness:
  "isl (fst (verify_access_token ref_ext [] 1700 demo_access_token
     (snd (revoke_all_user_tokens 1600 7 demo_session))))"
proof -
  have "verify_access_token ref_ext [] 1500 demo_access_token demo_session
      = (Inr (demo_access\<lparr>c_roles := user_get_roles 7 demo_session\<rparr>), demo_session)"
    using demo_access_live [of 1500 "[]"] by (auto simp: verify_access_token_Inr)
  then show ?thesis
    by (rule access_revocation_permanent [OF ref_hypotheses(4) demo_keyed(1) _ _ prod.collapse [symmetric] ev.refl])
       (simp add: demo_claim_defs)
qed

text \<open>
  A refresh token is redeemed at most once, whatever the interleaving: in every run of
  redemption attempts and other steps that do not issue this very token, at most one attempt
  succeeds.
\<close>

theorem refresh_token_single_use:
  assumes "refresh.run h d es d'" and "keyed rt_hash (refresh_tokens d)"
  shows "refresh.successes h es \<le> 1"
  using refresh.at_most_one_success [OF assms] .

theorem refresh_token_single_use_witness:
  "refresh.successes demo_refresh_token
     [((ref_ext, [], 1500, demo_refresh_token), fst (use_refresh (ref_ext, [], 1500, demo_refresh_token) demo_session))] \<le> 1"
  using refresh_token_single_use [OF refresh.present [OF refresh.start] demo_keyed(2)] by simp

text \<open>The token of a completed rotation has no live row any more, if the replacement is another token.\<close>

lemma rotated_token_dead:
  assumes rot: "rotate_token_pair x key now m tok d = (Inr p, d1)" and other: "hash_token x (tk_refresh p) \<noteq> hash_token x tok"
    and r: "r \<in> set (refresh_tokens d1)" "rt_hash r = hash_token x tok" "rt_revoked r = None"
  shows "rt_expires r \<le> now"
proof -
  from rot obtain u ex where "refresh_tokens d1 = refresh_tokens (mark_revoked x now tok d) @ [issued_row x now m u (tk_refresh p) ex]"
    by (auto simp: rotate_token_pair_def op_results consume_refresh_token_Inr generate_pair_Inr)
  with r other have "r \<in> set (refresh_tokens (mark_revoked x now tok d))" by (auto simp: issued_row_def)
  with r show ?thesis by (auto simp: mark_revoked_def set_sql_update row_live_def)
qed

text \<open>
  C24. Replaying a refresh token that was already rotated is treated as theft. After a completed
  rotation, whatever happened in between (other rotations, logins, sweeps), as long as the row of
  the old token is still in the table and no new row was stored under its hash: a second
  presentation of the old token, while the token is otherwise valid (signature, expiry, session
  generation), is refused; it revokes every refresh token of the owner of that row, the
  replacements among them, and raises the owner's session generation, on which all access tokens
  of the owner rest. The replacement is assumed to differ from the token it replaces.
\<close>

theorem refresh_replay_revokes_all:
  assumes rot: "rotate_token_pair x key now m tok d = (Inr p, d1)"
    and other: "hash_token x (tk_refresh p) \<noteq> hash_token x tok"
    and kept: "\<exists>r\<in>set (refresh_tokens d2). rt_hash r = hash_token x tok"
    and none: "\<forall>r\<in>set (refresh_tokens d2). rt_hash r = hash_token x tok \<and> rt_revoked r = None \<longrightarrow>
        (\<exists>r1\<in>set (refresh_tokens d1). rt_hash r1 = hash_token x tok \<and> rt_revoked r1 = None \<and> rt_expires r1 = rt_expires r)"
    and later: "now \<le> later" and again: "refresh_checks x key later tok c2 u2 d2"
  shows "\<exists>row d3. row \<in> set (refresh_tokens d2) \<and> rt_hash row = hash_token x tok
     \<and> rotate_token_pair x key later m2 tok d2 = (Inl AuthenticationRequired, d3)
     \<and> version_of (rt_user row) d3 = map_option (\<lambda>v. v + 1) (version_of (rt_user row) d2)
     \<and> map (\<lambda>r. (rt_hash r, rt_user r)) (refresh_tokens d3) = map (\<lambda>r. (rt_hash r, rt_user r)) (refresh_tokens d2)
     \<and> (\<forall>r\<in>set (refresh_tokens d3). rt_user r = rt_user row \<longrightarrow> rt_revoked r \<noteq> None)"
proof -
  have dead: "\<not> row_live x later tok r" if "r \<in> set (refresh_tokens d2)" for r
  proof
    assume l: "row_live x later tok r"
    with none that obtain r1 where "r1 \<in> set (refresh_tokens d1)" "rt_hash r1 = hash_token x tok" "rt_revoked r1 = None"
      "rt_expires r1 = rt_expires r" by (auto simp: row_live_def)
    with rotated_token_dead [OF rot other] l later show False by (fastforce simp: row_live_def)
  qed
  then have cnt: "sql_count (row_live x later tok) (refresh_tokens d2) = 0" by simp
  have same: "mark_revoked x later tok d2 = d2"
    using dead by (simp add: mark_revoked_def sql_update_def map_idI)
  from sql_find_ex [OF kept]
  obtain row where row: "sql_find (\<lambda>r. rt_hash r = hash_token x tok) (refresh_tokens d2) = Some row" ..
  let ?d3 = "snd (revoke_all_user_tokens later (rt_user row) d2)"
  have "consume_refresh_token x key later tok d2 = (Inl AuthenticationRequired, ?d3)"
    using consume_refresh_token_checked [OF again] cnt same row by simp
  then have "rotate_token_pair x key later m2 tok d2 = (Inl AuthenticationRequired, ?d3)"
    by (simp add: rotate_token_pair_def bind_op_def)
  moreover have "map (\<lambda>r. (rt_hash r, rt_user r)) (refresh_tokens ?d3) = map (\<lambda>r. (rt_hash r, rt_user r)) (refresh_tokens d2)"
    by (simp add: refresh_tokens_revoke_all map_key_sql_update)
  moreover have "\<forall>r\<in>set (refresh_tokens ?d3). rt_user r = rt_user row \<longrightarrow> rt_revoked r \<noteq> None"
    by (auto simp: refresh_tokens_revoke_all set_sql_update)
  ultimately show ?thesis
    using row version_of_revoke_all by (intro exI [of _ row] exI [of _ ?d3]) (auto dest: sql_find_SomeD)
qed

text \<open>The old token of the example is presented again after its rotation and a sweep of the table.\<close>

theorem refresh_replay_revokes_all_witness:
  "\<exists>d3. rotate_token_pair ref_ext [] 2100 demo_mint2 demo_refresh_token (snd (sweep_expired_sessions 2050 demo_rotated))
       = (Inl AuthenticationRequired, d3)
     \<and> length (refresh_tokens d3) = 2 \<and> (\<forall>r\<in>set (refresh_tokens d3). rt_revoked r \<noteq> None)"
proof -
  let ?d2 = "snd (sweep_expired_sessions 2050 demo_rotated)"
  have rows: "refresh_tokens ?d2 =
     [(issued_row ref_ext 1000 demo_mint 7 demo_refresh_token 605800)\<lparr>rt_revoked := Some 2000\<rparr>,
      issued_row ref_ext 2000 demo_mint2 7 (tk_refresh demo_pair) 605800]"
    by (simp add: sweep_expired_sessions_def bind_op_def clear_stale_retries_def demo_rotated_rows issued_row_def
        sql_update_def sql_delete_def)
  have "users ?d2 = users demo_session" "revocations ?d2 = revocations demo_session"
    by (simp_all add: sweep_expired_sessions_def bind_op_def clear_stale_retries_def demo_rotated_def mark_revoked_def)
  then have again: "refresh_checks ref_ext [] 2100 demo_refresh_token demo_refresh 7 ?d2"
    using demo_refresh_checks [of 2100 "[]"] session_live_cong [of ?d2 demo_session] by (simp add: refresh_checks_def)
  have differ: "hash_token ref_ext (tk_refresh demo_pair) \<noteq> hash_token ref_ext demo_refresh_token"
    using demo_tokens_differ by (simp add: hash_token_def)
  have kept: "\<exists>r\<in>set (refresh_tokens ?d2). rt_hash r = hash_token ref_ext demo_refresh_token"
    by (simp add: rows issued_row_def)
  have none: "\<forall>r\<in>set (refresh_tokens ?d2). rt_hash r = hash_token ref_ext demo_refresh_token \<and> rt_revoked r = None \<longrightarrow>
      (\<exists>r1\<in>set (refresh_tokens demo_rotated). rt_hash r1 = hash_token ref_ext demo_refresh_token \<and> rt_revoked r1 = None
         \<and> rt_expires r1 = rt_expires r)"
    using differ by (simp add: rows issued_row_def)
  obtain row d3 where d3: "row \<in> set (refresh_tokens ?d2)"
    "rotate_token_pair ref_ext [] 2100 demo_mint2 demo_refresh_token ?d2 = (Inl AuthenticationRequired, d3)"
    "map (\<lambda>r. (rt_hash r, rt_user r)) (refresh_tokens d3) = map (\<lambda>r. (rt_hash r, rt_user r)) (refresh_tokens ?d2)"
    "\<forall>r\<in>set (refresh_tokens d3). rt_user r = rt_user row \<longrightarrow> rt_revoked r \<noteq> None"
    using refresh_replay_revokes_all [OF demo_rotate_pair differ kept none _ again, of demo_mint2] by auto
  from arg_cong [OF d3(3), of "map snd"] have "map rt_user (refresh_tokens d3) = [7, 7]"
    by (simp add: rows issued_row_def comp_def)
  then have "length (refresh_tokens d3) = 2" "\<forall>r\<in>set (refresh_tokens d3). rt_user r = 7"
    by (auto simp: map_eq_Cons_conv)
  moreover have "rt_user row = 7" using d3(1) by (auto simp: rows issued_row_def)
  ultimately show ?thesis using d3(2,4) by auto
qed

text \<open>
  Tokens issued at login stay within their limits: the access token expires after at most
  15 minutes and never after the session, the session lasts as long as the configured setting
  and between five minutes and one year, both tokens carry the user's current generation, and
  the refresh token is stored as a live row of that user.
\<close>

theorem login_pair_limits:
  assumes "generate_token_pair x key now m u rls d = (Inr p, d')"
  shows "\<exists>ca cr g. x_jwt_sign x key eddsa_header (claims_to_json ca) = Inr (tk_access p)
     \<and> x_jwt_sign x key eddsa_header (claims_to_json cr) = Inr (tk_refresh p)
     \<and> now < c_exp ca \<and> c_exp ca \<le> now + 900 \<and> c_exp ca \<le> c_exp cr
     \<and> c_exp cr = now + session_expiry_seconds d \<and> 300 \<le> c_exp cr - now \<and> c_exp cr - now \<le> 31536000
     \<and> c_session_exp ca = Some (c_exp cr) \<and> c_session_exp cr = Some (c_exp cr)
     \<and> current_version u d = Some g \<and> c_session_version ca = Some g \<and> c_session_version cr = Some g
     \<and> c_typ ca = ''access'' \<and> c_typ cr = ''refresh''
     \<and> tk_expires_in p = c_exp ca - now \<and> tk_refresh_expires_in p = c_exp cr - now
     \<and> (\<exists>r\<in>set (refresh_tokens d'). rt_user r = u \<and> rt_revoked r = None
          \<and> rt_hash r = hash_token x (tk_refresh p) \<and> rt_expires r = c_exp cr)"
proof -
  let ?ex = "now + session_expiry_seconds d"
  from assms obtain g where g: "current_version u d = Some g"
    and gen: "generate_token_pair_for_session x key now m u rls ?ex (Some g) now d = (Inr p, d')"
    by (auto simp: generate_token_pair_def op_results user_session_version_eq split: option.splits)
  let ?ca = "access_claims x now (mi_access_jti m) u rls ?ex (Some g) now"
  let ?cr = "refresh_claims x now (mi_refresh_jti m) u ?ex (Some g) now"
  from gen have row: "issued_row x now m u (tk_refresh p) ?ex \<in> set (refresh_tokens d')"
    by (simp add: generate_pair_Inr)
  show ?thesis
  proof (intro exI conjI)
    show "x_jwt_sign x key eddsa_header (claims_to_json ?ca) = Inr (tk_access p)"
      and "x_jwt_sign x key eddsa_header (claims_to_json ?cr) = Inr (tk_refresh p)"
      using gen by (auto simp: generate_pair_Inr)
    show "\<exists>r\<in>set (refresh_tokens d'). rt_user r = u \<and> rt_revoked r = None
          \<and> rt_hash r = hash_token x (tk_refresh p) \<and> rt_expires r = c_exp ?cr"
      using row by (rule bexI [rotated]) (simp add: issued_row_def refresh_claims_def)
  qed (use gen g session_expiry_seconds_range [of d] session_expiry_seconds_pos [of d] in
        \<open>auto simp: generate_pair_Inr access_claims_def refresh_claims_def ACCESS_TOKEN_LIFETIME_def
           session_expiry_limits\<close>)
qed

lemma demo_login:
  "generate_token_pair ref_ext [] 1000 demo_mint 7 [] demo_db =
     (Inr \<lparr>tk_access = demo_access_token, tk_refresh = demo_refresh_token, tk_expires_in = 900,
           tk_refresh_expires_in = 604800, tk_token_type = ''Bearer''\<rparr>, demo_session)"
proof -
  have "session_expiry_seconds demo_db = 604800"
    by (simp add: session_expiry_seconds_def get_setting_def demo_state_defs clamp_def session_expiry_limits)
  moreover have "current_version 7 demo_db = Some 0"
    by (simp add: current_version_def demo_state_defs)
  moreover have "generate_token_pair_for_session ref_ext [] 1000 demo_mint 7 [] 605800 (Some 0) 1000 demo_db =
     (Inr \<lparr>tk_access = demo_access_token, tk_refresh = demo_refresh_token, tk_expires_in = 900,
           tk_refresh_expires_in = 604800, tk_token_type = ''Bearer''\<rparr>, demo_session)"
    by (simp add: generate_pair_Inr)
       (simp add: demo_access_token_def demo_refresh_token_def demo_access_def demo_refresh_def
         demo_state_defs ACCESS_TOKEN_LIFETIME_def user_exists_def)
  ultimately show ?thesis
    by (simp add: generate_token_pair_def bind_op_def user_session_version_eq)
qed

theorem login_pair_limits_witness:
  "\<exists>r\<in>set (refresh_tokens demo_session). rt_user r = 7 \<and> rt_revoked r = None \<and> rt_hash r = demo_refresh_token"
  using login_pair_limits [OF demo_login] by (auto simp: hash_token_def)

text \<open>
  C25. Rotation never extends a session: the pair issued for a refresh token keeps the
  authentication time and the generation of the presented token, and neither of its deadlines
  lies after the deadline of the presented token.
\<close>

theorem rotation_keeps_deadline:
  assumes "rotate_token_pair x key now m tok d = (Inr p, d')"
  shows "\<exists>c u ca cr. refresh_checks x key now tok c u d
     \<and> x_jwt_sign x key eddsa_header (claims_to_json ca) = Inr (tk_access p)
     \<and> x_jwt_sign x key eddsa_header (claims_to_json cr) = Inr (tk_refresh p)
     \<and> c_exp ca \<le> c_exp cr \<and> c_exp ca \<le> now + 900 \<and> c_exp cr \<le> c_exp c
     \<and> (\<forall>e. c_session_exp c = Some e \<longrightarrow> c_exp cr \<le> e)
     \<and> now < c_exp cr
     \<and> c_session_version cr = c_session_version (with_version d u c)
     \<and> c_session_version ca = c_session_version cr
     \<and> c_auth_time ca = Some (case c_auth_time c of None \<Rightarrow> c_iat c | Some t \<Rightarrow> t)
     \<and> c_auth_time cr = c_auth_time ca
     \<and> c_sub ca = x_uuid_str x u \<and> c_sub cr = x_uuid_str x u
     \<and> \<not> (\<exists>r\<in>set (refresh_tokens d'). row_live x now tok r \<and> rt_hash r \<noteq> hash_token x (tk_refresh p))"
proof -
  from assms obtain u c' d1 w where con: "consume_refresh_token x key now tok d = (Inr (u, c'), d1)"
    and w: "user_get u d1 = Some w"
    and gen: "generate_token_pair_for_session x key now m u (user_get_roles (u_id w) d1)
       (rotated_deadline c') (c_session_version c') (rotated_auth_time c') d1 = (Inr p, d')"
    by (auto simp: rotate_token_pair_def op_results)
  from con obtain c where c: "refresh_checks x key now tok c u d" "c' = with_version d u c"
    and d1: "d1 = mark_revoked x now tok d"
    by (auto simp: consume_refresh_token_Inr)
  let ?ca = "access_claims x now (mi_access_jti m) u (user_get_roles (u_id w) d1) (rotated_deadline c')
     (c_session_version c') (rotated_auth_time c')"
  let ?cr = "refresh_claims x now (mi_refresh_jti m) u (rotated_deadline c') (c_session_version c')
     (rotated_auth_time c')"
  have same: "c_exp c' = c_exp c" "c_session_exp c' = c_session_exp c" "c_auth_time c' = c_auth_time c"
    "c_iat c' = c_iat c"
    using c by (auto simp: with_version_def)
  have dead: "\<not> row_live x now tok r" if "r \<in> set (refresh_tokens d1)" for r
    using that by (auto simp: d1 mark_revoked_def set_sql_update row_live_def split: if_splits)
  show ?thesis
  proof (intro exI conjI)
    show "refresh_checks x key now tok c u d" by fact
    show "x_jwt_sign x key eddsa_header (claims_to_json ?ca) = Inr (tk_access p)"
      and "x_jwt_sign x key eddsa_header (claims_to_json ?cr) = Inr (tk_refresh p)"
      using gen by (auto simp: generate_pair_Inr)
    show "\<not> (\<exists>r\<in>set (refresh_tokens d'). row_live x now tok r \<and> rt_hash r \<noteq> hash_token x (tk_refresh p))"
      using gen dead by (auto simp: generate_pair_Inr issued_row_def)
  qed (use gen same c in \<open>auto simp: generate_pair_Inr access_claims_def refresh_claims_def
        rotated_deadline_def rotated_auth_time_def ACCESS_TOKEN_LIFETIME_def split: option.splits\<close>)
qed

lemma demo_rotate:
  "\<exists>p d'. rotate_token_pair ref_ext [] 2000 (demo_mint\<lparr>mi_row := 2\<rparr>) demo_refresh_token demo_session = (Inr p, d')"
proof -
  have "sql_count (row_live ref_ext 2000 demo_refresh_token) (refresh_tokens demo_session) = 1"
    by (simp add: demo_state_defs sql_count_def row_live_def)
  then have "consume_refresh_token ref_ext [] 2000 demo_refresh_token demo_session
      = (Inr (7, demo_refresh), mark_revoked ref_ext 2000 demo_refresh_token demo_session)"
    using demo_refresh_checks [of 2000 "[]"]
    by (auto simp: consume_refresh_token_Inr with_version_def demo_claim_defs)
  then show ?thesis
    by (simp add: rotate_token_pair_def bind_op_def user_get_def mark_revoked_def demo_state_defs)
       (simp add: ok_or_op_def generate_token_pair_for_session_def generate_access_token_for_session_def
          generate_refresh_token_for_session_def sign_claims_def rotated_deadline_def rotated_auth_time_def
          bind_op_def require_op_def insert_op_def demo_claim_defs sql_update_def user_exists_def)
qed

theorem rotation_keeps_deadline_witness:
  "\<exists>p d' c u. rotate_token_pair ref_ext [] 2000 (demo_mint\<lparr>mi_row := 2\<rparr>) demo_refresh_token demo_session = (Inr p, d')
     \<and> refresh_checks ref_ext [] 2000 demo_refresh_token c u demo_session"
proof -
  from demo_rotate obtain p d' where
    r: "rotate_token_pair ref_ext [] 2000 (demo_mint\<lparr>mi_row := 2\<rparr>) demo_refresh_token demo_session = (Inr p, d')"
    by blast
  from rotation_keeps_deadline [OF r] r show ?thesis by blast
qed

text \<open>
  C26. Concurrent tabs agree: presenting the same browser refresh token again within five
  seconds of its rotation, while the replacement is still unused and valid, returns the
  identical pair and changes nothing in the database; it is not treated as a replay.
\<close>

theorem browser_retry_returns_same_pair:
  assumes ext: "aead_roundtrip x" "json_roundtrip x" and nonce: "length (mi_nonce m) = 12"
    and first: "open_retry x now tok d = None" "rotate_browser_token_pair x key now m tok d = (Inr p, d2)"
    and k: "keyed rt_hash (refresh_tokens d2)"
    and i64: "in_i64 (tk_expires_in p)" "in_i64 (tk_refresh_expires_in p)"
    and window: "now \<le> later" "later < now + 5"
    and alive: "\<forall>r\<in>set (refresh_tokens d2). rt_hash r \<in> {hash_token x tok, hash_token x (tk_refresh p)}
                  \<longrightarrow> later < rt_expires r"
    and valid: "verify_access_token x key later (tk_access p) d2 = (Inr c, d2)"
  shows "rotate_browser_token_pair x key later m' tok d2 = (Inr p, d2)"
proof -
  from rotate_browser_first [OF first] obtain d1 e where rot: "rotate_token_pair x key now m tok d = (Inr p, d1)"
    and enc: "encrypt_browser_retry x key (mi_nonce m) p = Inr e"
    and d2: "d2 = clear_stale_retries now (d1\<lparr>refresh_tokens :=
        sql_update (\<lambda>r. rt_hash r = hash_token x tok)
          (\<lambda>r. r\<lparr>rt_retry_until := Some (now + 5), rt_retry_pair := Some e\<rparr>) (refresh_tokens d1)\<rparr>)" .
  from rotate_rows [OF rot] obtain u ex where
    rows: "refresh_tokens d1 = refresh_tokens (mark_revoked x now tok d) @ [issued_row x now m u (tk_refresh p) ex]"
    and one: "sql_count (row_live x now tok) (refresh_tokens d) = 1" by metis
  let ?nr = "issued_row x now m u (tk_refresh p) ex"
  have "map rt_hash (refresh_tokens d2) = map rt_hash (refresh_tokens d) @ [rt_hash ?nr]"
    using rows same_hashes_mark_revoked [of d x now tok]
    by (simp add: d2 clear_stale_retries_def map_key_sql_update same_hashes_def)
  with k have distinct: "distinct (map rt_hash (refresh_tokens d) @ [rt_hash ?nr])" by (simp add: keyed_def)
  from sql_count_one [OF one] obtain q where q: "q \<in> set (refresh_tokens d)" "row_live x now tok q" ..
  have "rt_hash q \<in> rt_hash ` set (refresh_tokens d)" using q(1) by (rule imageI)
  then have "hash_token x tok \<in> rt_hash ` set (refresh_tokens d)"
    using q(2) unfolding row_live_def by (elim conjE) simp
  with distinct have neq: "rt_hash ?nr \<noteq> hash_token x tok" by auto
  have nohist: "rt_retry_pair ?nr = None" by (simp add: issued_row_def)
  note stored = retry_rows [OF rows neq nohist one d2]
  then obtain r0 where r0: "row_live x now tok r0"
    and old: "r0\<lparr>rt_revoked := Some now, rt_retry_until := Some (now + 5), rt_retry_pair := Some e\<rparr>
      \<in> set (refresh_tokens d2)" (is "?old \<in> _")
    by blast
  have hold: "rt_hash ?old = hash_token x tok" using r0 by (simp add: row_live_def)
  have "later < rt_expires ?old" using alive old hold by blast
  then have "sql_find (\<lambda>r. rt_hash r = hash_token x tok \<and> rt_revoked r \<noteq> None \<and> later < rt_expires r)
      (refresh_tokens d2) = Some ?old"
    using sql_find_keyed_and [OF k old, of "\<lambda>r. rt_revoked r \<noteq> None \<and> later < rt_expires r"] hold by simp
  then have open': "open_retry x later tok d2 = Some e"
    using window by (simp add: open_retry_def)
  have hnew: "rt_hash ?nr = hash_token x (tk_refresh p)" by (simp add: issued_row_def)
  have "later < rt_expires ?nr" using alive stored(1) hnew by blast
  then have "sql_find (\<lambda>r. rt_hash r = hash_token x (tk_refresh p) \<and> later < rt_expires r)
      (refresh_tokens d2) = Some ?nr"
    using sql_find_keyed_and [OF k stored(1), of "\<lambda>r. later < rt_expires r"] hnew by simp
  then have "follow_retry_chain 16 x key later p d2 = (Inr p, d2)"
    using valid by (simp add: eval_nat_numeral bind_op_def issued_row_def)
  then show ?thesis
    using open' decrypt_encrypt_browser_retry [OF ext nonce i64 enc]
    by (simp add: rotate_browser_token_pair_def tx_op_def bind_op_def)
qed

theorem browser_retry_returns_same_pair_witness:
  "rotate_browser_token_pair ref_ext [] 2003 demo_mint2 demo_refresh_token demo_retry = (Inr demo_pair, demo_retry)"
proof -
  let ?c = "access_claims ref_ext 2000 ''a'' 7 [] 605800 (Some 0) 1000"
  have "decode_claims ref_ext [] 2003 (tk_access demo_pair) = Some ?c"
    by (rule decode_signed [OF ref_hypotheses(2), of _ eddsa_header])
       (simp_all add: demo_pair_def claims_i64_def opt_i64_def in_i64_def demo_claim_defs)
  then have "access_live ref_ext [] 2003 (tk_access demo_pair) ?c 7 demo_retry"
    by (simp add: access_live_def session_live_def current_version_def demo_browser_rotate demo_state_defs)
       (simp add: demo_claim_defs)
  then have valid: "verify_access_token ref_ext [] 2003 (tk_access demo_pair) demo_retry
      = (Inr (?c\<lparr>c_roles := user_get_roles 7 demo_retry\<rparr>), demo_retry)"
    unfolding verify_access_token_Inr by blast
  show ?thesis
    by (rule browser_retry_returns_same_pair [OF ref_hypotheses(6,7) _ _ demo_browser_rotate(1) _ _ _ _ _ _ valid])
       (use demo_tokens_differ in \<open>simp_all add: open_retry_def demo_browser_rotate(2) keyed_def
          demo_pair_def in_i64_def demo_mint2_def demo_state_defs hash_token_def\<close>)
qed

text \<open>
  A session that was just opened works: the access token of the pair issued at login is
  accepted from the moment of issue until it expires, in every state whose accounts and
  revocations are those of the state after login, and it speaks for that user with the roles
  the user has then.
\<close>

theorem login_pair_accepted:
  assumes "jwt_roundtrip x" "uuid_text x"
    and login: "generate_token_pair x key now m u rls d = (Inr p, d')"
    and i64: "in_i64 now" "in_i64 (now + session_expiry_seconds d)" "in_i64 (the (current_version u d))"
    and t: "now \<le> t" "t < now + tk_expires_in p"
    and same: "users d2 = users d'" "revocations d2 = revocations d'"
  shows "\<exists>c. verify_access_token x key t (tk_access p) d2 = (Inr c, d2)
     \<and> c_sub c = x_uuid_str x u \<and> c_roles c = user_get_roles u d2"
proof -
  let ?ex = "now + session_expiry_seconds d"
  from login obtain g where g: "current_version u d = Some g"
    and gen: "generate_token_pair_for_session x key now m u rls ?ex (Some g) now d = (Inr p, d')"
    by (auto simp: generate_token_pair_def op_results user_session_version_eq split: option.splits)
  let ?c = "access_claims x now (mi_access_jti m) u rls ?ex (Some g) now"
  from gen have sign: "x_jwt_sign x key eddsa_header (claims_to_json ?c) = Inr (tk_access p)"
    and len: "tk_expires_in p = min ACCESS_TOKEN_LIFETIME (session_expiry_seconds d)"
    and d': "users d' = users d" "revocations d' = revocations d"
    by (auto simp: generate_pair_Inr)
  have lim: "0 < session_expiry_seconds d" by (rule session_expiry_seconds_pos)
  have ok: "claims_i64 ?c"
    using i64 g lim by (auto simp: claims_i64_def opt_i64_def access_claims_def in_i64_def
        ACCESS_TOKEN_LIFETIME_def min_def)
  have exp: "t < c_exp ?c" "t < ?ex" using t len by (auto simp: access_claims_def min_def split: if_splits)
  have "decode_claims x key t (tk_access p) = Some ?c"
    using decode_signed [OF assms(1) sign ok] exp by (simp add: access_claims_def)
  moreover have "session_live u now (Some g) d2"
    using g same d' by (simp add: session_live_def current_version_def)
  ultimately have "access_live x key t (tk_access p) ?c u d2"
    using assms(2) exp by (simp add: access_live_def uuid_text_def access_claims_def)
  then have "verify_access_token x key t (tk_access p) d2 = (Inr (?c\<lparr>c_roles := user_get_roles u d2\<rparr>), d2)"
    unfolding verify_access_token_Inr by blast
  then show ?thesis by (simp add: access_claims_def)
qed

theorem login_pair_accepted_witness:
  "\<exists>c. verify_access_token ref_ext [] 1500 demo_access_token demo_session = (Inr c, demo_session)"
proof -
  have "session_expiry_seconds demo_db = 604800" "current_version 7 demo_db = Some 0"
    by (simp_all add: session_expiry_seconds_def get_setting_def demo_state_defs clamp_def
        session_expiry_limits current_version_def)
  then show ?thesis
    using login_pair_accepted [OF ref_hypotheses(2) ref_hypotheses(5) demo_login, of 1500 demo_session]
    by (auto simp: in_i64_def)
qed

text \<open>
  The signing key survives at rest: after the first start has generated and encrypted a key,
  every later start with the same secret loads exactly that key, and initialising again changes
  nothing.
\<close>

theorem signing_key_roundtrip:
  assumes "aead_roundtrip x" "length key = 32" "length nonce = 12"
    and init: "try_initialize x secret key fresh nonce d = (Inr True, d')"
  shows "load_signing_key x secret n2 d' = (Inr key, d')
     \<and> try_initialize x secret2 key2 fresh2 nonce2 d' = (Inr False, d')"
proof
  from init obtain kek ct nn where none: "sql_find (\<lambda>r. ky_name r = ''default'') (keys d) = None"
    and kek: "get_kek x secret = Inr kek" and enc: "encrypt_private_key x nonce key kek = Inr (ct, nn)"
    and d': "d' = d\<lparr>keys := keys d @ [\<lparr>ky_id = fresh, ky_name = ''default'',
         ky_public = x_public_key x key, ky_private = ct, ky_nonce = Some nn\<rparr>]\<rparr>"
    by (auto simp: try_initialize_def initialize_def op_results lift_op_def split: option.splits prod.splits)
  from enc have "nn = nonce" by (auto simp: encrypt_private_key_def split: option.splits)
  with none kek d' decrypt_encrypt_private_key [OF assms(1,2) enc] assms(3)
  show "load_signing_key x secret n2 d' = (Inr key, d')"
    by (simp add: load_signing_key_def bind_op_def ok_or_op_def require_op_def sql_find_append)
  from none d' show "try_initialize x secret2 key2 fresh2 nonce2 d' = (Inr False, d')"
    by (simp add: try_initialize_def bind_op_def sql_find_append)
qed

lemma demo_initialize:
  "try_initialize ref_ext (Some (replicate 32 CHR ''k'')) (replicate 32 CHR ''s'') 5 ''123456789012'' demo_db =
     (Inr True, demo_db\<lparr>keys := [\<lparr>ky_id = 5, ky_name = ''default'', ky_public = replicate 32 CHR ''s'',
        ky_private = replicate 32 CHR ''s'', ky_nonce = Some ''123456789012''\<rparr>]\<rparr>)"
proof -
  have "get_kek ref_ext (Some (replicate 32 CHR ''k'')) = Inr (replicate 32 CHR ''k'')"
  proof -
    have "trim (replicate 32 CHR ''k'') = replicate 32 CHR ''k''"
      by (rule trim_graphic) (simp_all add: ascii_graphic_def byte_def)
    then show ?thesis by (simp add: get_kek_def)
  qed
  then show ?thesis
    by (simp add: try_initialize_def initialize_def bind_op_def encrypt_private_key_def insert_op_def
        demo_state_defs)
qed

theorem signing_key_roundtrip_witness:
  "load_signing_key ref_ext (Some (replicate 32 CHR ''k'')) []
     (snd (try_initialize ref_ext (Some (replicate 32 CHR ''k'')) (replicate 32 CHR ''s'') 5 ''123456789012'' demo_db))
   = (Inr (replicate 32 CHR ''s''),
      snd (try_initialize ref_ext (Some (replicate 32 CHR ''k'')) (replicate 32 CHR ''s'') 5 ''123456789012'' demo_db))"
  using signing_key_roundtrip [OF ref_hypotheses(6) _ _ demo_initialize, of "[]" None "[]" 0 "[]"]
  by (simp add: demo_initialize)

end
