(* ===== verification/Forward.thy ===== *)
theory Forward
  imports Demo
begin

text \<open>
  \<open>user/auth/forward.rs\<close>: the credentials of the reverse-proxy login flow. A handoff moves a
  login from the identity provider's origin to one protected application's origin; redeeming it
  yields a session credential that is valid at that origin only.
\<close>

section \<open>Credentials\<close>

definition SESSION_COOKIE :: string where "SESSION_COOKIE = ''__Host-authere_forward''"
definition STATE_COOKIE :: string where "STATE_COOKIE = ''__Host-authere_forward_state''"
definition FORWARD_ISSUER :: string where "FORWARD_ISSUER = ''authere-forward''"

record forward_session =
  fs_sub :: uuid
  fs_application_id :: uuid
  fs_iss :: string
  fs_aud :: string
  fs_iat :: int
  fs_exp :: int
  fs_session_version :: "int option"
  fs_typ :: string

record handoff =
  hf_session :: forward_session
  hf_state_hash :: string
  hf_redirect_path :: string
  hf_jti :: string
  hf_iss :: string
  hf_aud :: string
  hf_exp :: int
  hf_typ :: string

definition as_uuid :: "externals \<Rightarrow> json \<Rightarrow> uuid option" where
  "as_uuid x j = do { s \<leftarrow> as_str j; x_uuid_parse x s }"

definition forward_session_to_json :: "externals \<Rightarrow> forward_session \<Rightarrow> json" where
  "forward_session_to_json x s = JObj
     [(''sub'', JStr (x_uuid_str x (fs_sub s))),
      (''application_id'', JStr (x_uuid_str x (fs_application_id s))),
      (''iss'', JStr (fs_iss s)), (''aud'', JStr (fs_aud s)), (''iat'', JInt (fs_iat s)),
      (''exp'', JInt (fs_exp s)), (''session_version'', jopt JInt (fs_session_version s)),
      (''typ'', JStr (fs_typ s))]"

definition forward_session_of_json :: "externals \<Rightarrow> json \<Rightarrow> forward_session option" where
  "forward_session_of_json x j = do {
     sub \<leftarrow> req_field (as_uuid x) ''sub'' j;
     app \<leftarrow> req_field (as_uuid x) ''application_id'' j;
     iss \<leftarrow> req_field as_str ''iss'' j;
     aud \<leftarrow> req_field as_str ''aud'' j;
     iat \<leftarrow> req_field as_i64 ''iat'' j;
     ex \<leftarrow> req_field as_i64 ''exp'' j;
     ver \<leftarrow> opt_field as_i64 ''session_version'' j;
     typ \<leftarrow> req_field as_str ''typ'' j;
     Some \<lparr>fs_sub = sub, fs_application_id = app, fs_iss = iss, fs_aud = aud, fs_iat = iat,
           fs_exp = ex, fs_session_version = ver, fs_typ = typ\<rparr> }"

definition handoff_to_json :: "externals \<Rightarrow> handoff \<Rightarrow> json" where
  "handoff_to_json x h = JObj
     [(''session'', forward_session_to_json x (hf_session h)), (''state_hash'', JStr (hf_state_hash h)),
      (''redirect_path'', JStr (hf_redirect_path h)), (''jti'', JStr (hf_jti h)),
      (''iss'', JStr (hf_iss h)), (''aud'', JStr (hf_aud h)), (''exp'', JInt (hf_exp h)),
      (''typ'', JStr (hf_typ h))]"

definition handoff_of_json :: "externals \<Rightarrow> json \<Rightarrow> handoff option" where
  "handoff_of_json x j = do {
     s \<leftarrow> req_field (forward_session_of_json x) ''session'' j;
     sh \<leftarrow> req_field as_str ''state_hash'' j;
     rp \<leftarrow> req_field as_str ''redirect_path'' j;
     jti \<leftarrow> req_field as_str ''jti'' j;
     iss \<leftarrow> req_field as_str ''iss'' j;
     aud \<leftarrow> req_field as_str ''aud'' j;
     ex \<leftarrow> req_field as_i64 ''exp'' j;
     typ \<leftarrow> req_field as_str ''typ'' j;
     Some \<lparr>hf_session = s, hf_state_hash = sh, hf_redirect_path = rp, hf_jti = jti, hf_iss = iss,
           hf_aud = aud, hf_exp = ex, hf_typ = typ\<rparr> }"

section \<open>Operations\<close>

text \<open>\<open>new_state\<close> hex-encodes 32 random bytes, passed as an argument.\<close>

definition new_state :: "externals \<Rightarrow> string \<Rightarrow> string" where
  "new_state x random = x_hex_encode x random"

definition valid_state :: "string \<Rightarrow> bool" where
  "valid_state state \<longleftrightarrow> length state = 64 \<and> list_all is_ascii_hexdigit state"

definition state_hash :: "externals \<Rightarrow> string \<Rightarrow> string" where
  "state_hash x state = sha256_hex x state"

definition forward_sign :: "externals \<Rightarrow> skey \<Rightarrow> json \<Rightarrow> string result" where
  "forward_sign x key j =
     (case x_jwt_sign x key eddsa_header j of
        Inl e \<Rightarrow> Inl (InternalError (''Failed to sign forward credential: '' @ e))
      | Inr tok \<Rightarrow> Inr tok)"

definition forward_validation :: "string \<Rightarrow> jwt_validation" where
  "forward_validation origin =
     \<lparr>jv_leeway = 0, jv_required = [''iss'', ''aud'', ''exp''], jv_iss = Some [FORWARD_ISSUER],
      jv_aud = Some [origin], jv_validate_aud = True, jv_validate_exp = True\<rparr>"

definition issued_handoff ::
  "externals \<Rightarrow> int \<Rightarrow> string \<Rightarrow> claims \<Rightarrow> uuid \<Rightarrow> uuid \<Rightarrow> string \<Rightarrow> string \<Rightarrow> string \<Rightarrow> int \<Rightarrow> handoff" where
  "issued_handoff x now jti parent user_id application_id target_origin redirect_path state deadline =
     \<lparr>hf_session = \<lparr>fs_sub = user_id, fs_application_id = application_id, fs_iss = FORWARD_ISSUER,
        fs_aud = target_origin, fs_iat = c_iat parent, fs_exp = deadline,
        fs_session_version = c_session_version parent, fs_typ = ''forward-session''\<rparr>,
      hf_state_hash = state_hash x state, hf_redirect_path = redirect_path, hf_jti = jti,
      hf_iss = FORWARD_ISSUER, hf_aud = target_origin, hf_exp = min deadline (now + 60),
      hf_typ = ''forward-handoff''\<rparr>"

definition issue_handoff ::
  "externals \<Rightarrow> skey \<Rightarrow> int \<Rightarrow> string \<Rightarrow> claims \<Rightarrow> uuid \<Rightarrow> string \<Rightarrow> string \<Rightarrow> string \<Rightarrow> string db_op" where
  "issue_handoff x key now jti parent application_id target_origin redirect_path state =
     bind_op (require_op (valid_state state) (InputError [''Invalid forward login state''])) (\<lambda>_.
     bind_op (ok_or_op AuthenticationRequired (x_uuid_parse x (c_sub parent))) (\<lambda>user_id.
     let deadline = (case c_session_exp parent of None \<Rightarrow> c_exp parent | Some e \<Rightarrow> e) in
     bind_op (require_op (\<not> deadline \<le> now) AuthenticationRequired) (\<lambda>_.
     bind_op (verify_user_session user_id (c_iat parent) (c_session_version parent)) (\<lambda>_.
     let h = issued_handoff x now jti parent user_id application_id target_origin redirect_path state deadline in
     bind_op (lift_op (forward_sign x key (handoff_to_json x h))) (\<lambda>tok.
     bind_op (modify_op (\<lambda>d. d\<lparr>handoffs := sql_delete (\<lambda>r. ho_expires r \<le> now) (handoffs d)\<rparr>)) (\<lambda>_.
     bind_op (insert_op (\<lambda>d. \<exists>r\<in>set (handoffs d). ho_id r = hf_jti h) (\<lambda>d. \<not> user_exists user_id d)
                (\<lambda>d. d\<lparr>handoffs := handoffs d @
                   [\<lparr>ho_id = hf_jti h, ho_user = user_id, ho_expires = hf_exp h\<rparr>]\<rparr>)) (\<lambda>_.
     ret_op tok)))))))"

definition decode_handoff :: "externals \<Rightarrow> skey \<Rightarrow> int \<Rightarrow> string \<Rightarrow> string \<Rightarrow> handoff option" where
  "decode_handoff x key now origin tok =
     do { j \<leftarrow> x_jwt_verify x key (forward_validation origin) now tok; handoff_of_json x j }"

definition redeem_handoff ::
  "externals \<Rightarrow> skey \<Rightarrow> int \<Rightarrow> string \<Rightarrow> string \<Rightarrow> string \<Rightarrow> (string \<times> forward_session \<times> string) db_op" where
  "redeem_handoff x key now tok target_origin state =
     bind_op (ok_or_op AuthenticationRequired (decode_handoff x key now target_origin tok)) (\<lambda>h.
     bind_op (require_op (\<not> (hf_typ h \<noteq> ''forward-handoff'' \<or> \<not> valid_state state
                 \<or> hf_state_hash h \<noteq> state_hash x state \<or> fs_aud (hf_session h) \<noteq> target_origin
                 \<or> fs_exp (hf_session h) \<le> now)) AuthenticationRequired) (\<lambda>_.
     bind_op (verify_user_session (fs_sub (hf_session h)) (fs_iat (hf_session h))
                (fs_session_version (hf_session h))) (\<lambda>_.
     let open_row = (\<lambda>r. ho_id r = hf_jti h \<and> ho_user r = fs_sub (hf_session h) \<and> now < ho_expires r) in
     bind_op (gets_op (\<lambda>d. sql_count open_row (handoffs d))) (\<lambda>consumed.
     bind_op (modify_op (\<lambda>d. d\<lparr>handoffs := sql_delete open_row (handoffs d)\<rparr>)) (\<lambda>_.
     bind_op (require_op (consumed = 1) AuthenticationRequired) (\<lambda>_.
     bind_op (lift_op (forward_sign x key (forward_session_to_json x (hf_session h)))) (\<lambda>session_token.
     ret_op (session_token, hf_session h, hf_redirect_path h))))))))"

definition decode_forward_session ::
  "externals \<Rightarrow> skey \<Rightarrow> int \<Rightarrow> string \<Rightarrow> string \<Rightarrow> forward_session option" where
  "decode_forward_session x key now origin tok =
     do { j \<leftarrow> x_jwt_verify x key (forward_validation origin) now tok; forward_session_of_json x j }"

definition verify_session ::
  "externals \<Rightarrow> skey \<Rightarrow> int \<Rightarrow> string \<Rightarrow> string \<Rightarrow> forward_session db_op" where
  "verify_session x key now tok target_origin =
     bind_op (ok_or_op AuthenticationRequired (decode_forward_session x key now target_origin tok)) (\<lambda>s.
     bind_op (require_op (\<not> (fs_typ s \<noteq> ''forward-session'' \<or> fs_exp s \<le> now)) AuthenticationRequired) (\<lambda>_.
     bind_op (verify_user_session (fs_sub s) (fs_iat s) (fs_session_version s)) (\<lambda>_.
     ret_op s)))"

definition session_cookie :: "string \<Rightarrow> int \<Rightarrow> string" where
  "session_cookie tok lifetime = SESSION_COOKIE @ ''='' @ tok
     @ ''; HttpOnly; Secure; SameSite=Lax; Path=/; Max-Age='' @ show_int lifetime"

definition state_cookie :: "string \<Rightarrow> int \<Rightarrow> string" where
  "state_cookie state lifetime = STATE_COOKIE @ ''='' @ state
     @ ''; HttpOnly; Secure; SameSite=Lax; Path=/; Max-Age='' @ show_int lifetime"

section \<open>Acceptance, as specifications\<close>

definition handoff_checks ::
  "externals \<Rightarrow> skey \<Rightarrow> int \<Rightarrow> string \<Rightarrow> string \<Rightarrow> string \<Rightarrow> handoff \<Rightarrow> db \<Rightarrow> bool" where
  "handoff_checks x key now tok origin state h d \<longleftrightarrow>
     decode_handoff x key now origin tok = Some h \<and> hf_typ h = ''forward-handoff'' \<and> valid_state state
   \<and> hf_state_hash h = state_hash x state \<and> fs_aud (hf_session h) = origin \<and> now < fs_exp (hf_session h)
   \<and> session_live (fs_sub (hf_session h)) (fs_iat (hf_session h)) (fs_session_version (hf_session h)) d"

definition handoff_open :: "int \<Rightarrow> handoff \<Rightarrow> handoff_row \<Rightarrow> bool" where
  "handoff_open now h r \<longleftrightarrow> ho_id r = hf_jti h \<and> ho_user r = fs_sub (hf_session h) \<and> now < ho_expires r"

lemma redeem_handoff_checked:
  assumes "handoff_checks x key now tok origin state h d"
  shows "redeem_handoff x key now tok origin state d =
    (if sql_count (handoff_open now h) (handoffs d) = 1
     then (case forward_sign x key (forward_session_to_json x (hf_session h)) of
             Inl e \<Rightarrow> Inl e | Inr t \<Rightarrow> Inr (t, hf_session h, hf_redirect_path h))
     else Inl AuthenticationRequired,
     d\<lparr>handoffs := sql_delete (handoff_open now h) (handoffs d)\<rparr>)"
proof -
  have eta: "handoff_open now h =
     (\<lambda>r. ho_id r = hf_jti h \<and> ho_user r = fs_sub (hf_session h) \<and> now < ho_expires r)"
    by (simp add: fun_eq_iff handoff_open_def)
  show ?thesis
    using assms unfolding eta
    by (simp add: redeem_handoff_def handoff_checks_def bind_op_def ok_or_op_def require_op_def
        verify_user_session_eq Let_def not_le split: sum.split)
qed

lemma redeem_handoff_unchecked:
  assumes "\<not> (\<exists>h. handoff_checks x key now tok origin state h d)"
  shows "redeem_handoff x key now tok origin state d = (Inl AuthenticationRequired, d)"
  using assms
  by (auto simp: redeem_handoff_def handoff_checks_def bind_op_def ok_or_op_def require_op_def
      verify_user_session_eq Let_def not_le split: option.splits)

definition forward_live :: "externals \<Rightarrow> skey \<Rightarrow> int \<Rightarrow> string \<Rightarrow> string \<Rightarrow> forward_session \<Rightarrow> db \<Rightarrow> bool" where
  "forward_live x key now tok origin s d \<longleftrightarrow>
     decode_forward_session x key now origin tok = Some s \<and> fs_typ s = ''forward-session''
   \<and> now < fs_exp s \<and> session_live (fs_sub s) (fs_iat s) (fs_session_version s) d"

lemma verify_session_Inr:
  "verify_session x key now tok origin d = (Inr s, d') \<longleftrightarrow> d' = d \<and> forward_live x key now tok origin s d"
  by (auto simp: verify_session_def op_results verify_user_session_eq forward_live_def not_le split: if_splits)

lemma readonly_verify_session [simp]: "snd (verify_session x key now tok origin d) = d"
proof -
  have "keeps (\<lambda>s t. t = s) (verify_session x key now tok origin)"
    unfolding verify_session_def
    by (intro readonly.keeps_rules readonly.keeps_pure) (simp add: verify_user_session_eq)
  then show ?thesis by (simp add: keeps_def)
qed

section \<open>Contracts\<close>

text \<open>A presentation of a handoff: third-party code, key, time, token, origin, state.\<close>

type_synonym handoff_use = "externals \<times> skey \<times> int \<times> string \<times> string \<times> string"

definition use_handoff :: "handoff_use \<Rightarrow> db \<Rightarrow> bool \<times> db" where
  "use_handoff p d = (case p of (x, key, now, tok, origin, state) \<Rightarrow>
     (case redeem_handoff x key now tok origin state d of (r, d') \<Rightarrow> (\<not> isl r, d')))"

definition handoff_cred :: "handoff_use \<Rightarrow> string" where
  "handoff_cred p = (case p of (x, key, now, tok, origin, state) \<Rightarrow>
     (case decode_handoff x key now origin tok of None \<Rightarrow> [] | Some h \<Rightarrow> hf_jti h))"

definition handoff_id_live :: "string \<Rightarrow> db \<Rightarrow> bool" where
  "handoff_id_live i d \<longleftrightarrow> (\<exists>r\<in>set (handoffs d). ho_id r = i)"

lemma use_handoff_state:
  "snd (use_handoff p d) = d \<or> (\<exists>q. snd (use_handoff p d) = d\<lparr>handoffs := sql_delete q (handoffs d)\<rparr>)"
proof -
  obtain x key now tok origin state where p: "p = (x, key, now, tok, origin, state)" by (cases p)
  show ?thesis
    by (cases "\<exists>h. handoff_checks x key now tok origin state h d")
       (auto simp: p use_handoff_def redeem_handoff_checked redeem_handoff_unchecked)
qed

lemma use_handoff_success:
  assumes "fst (use_handoff (x, key, now, tok, origin, state) d)"
  obtains h where "handoff_checks x key now tok origin state h d"
    and "sql_count (handoff_open now h) (handoffs d) = 1"
    and "snd (use_handoff (x, key, now, tok, origin, state) d) = d\<lparr>handoffs := sql_delete (handoff_open now h) (handoffs d)\<rparr>"
proof -
  from assms have "\<exists>h. handoff_checks x key now tok origin state h d"
    by (rule contrapos_pp) (simp add: use_handoff_def redeem_handoff_unchecked)
  then obtain h where h: "handoff_checks x key now tok origin state h d" ..
  with assms that [OF h] show ?thesis
    by (auto simp: use_handoff_def redeem_handoff_checked [OF h] split: if_splits)
qed

interpretation handoff: single_use "\<lambda>d. keyed ho_id (handoffs d)" use_handoff handoff_cred handoff_id_live
  "\<lambda>i d d'. (handoff_id_live i d' \<longrightarrow> handoff_id_live i d) \<and> (keyed ho_id (handoffs d) \<longrightarrow> keyed ho_id (handoffs d'))"
proof
  fix d :: db and p
  assume k: "keyed ho_id (handoffs d)" and ok: "fst (use_handoff p d)"
  obtain x key now tok origin state where p: "p = (x, key, now, tok, origin, state)" by (cases p)
  from ok obtain h where h: "handoff_checks x key now tok origin state h d"
    and one: "sql_count (handoff_open now h) (handoffs d) = 1"
    and st: "snd (use_handoff p d) = d\<lparr>handoffs := sql_delete (handoff_open now h) (handoffs d)\<rparr>"
    unfolding p by (rule use_handoff_success)
  have cred: "handoff_cred p = hf_jti h" using h by (simp add: p handoff_cred_def handoff_checks_def)
  from sql_count_one [OF one] obtain r where r: "r \<in> set (handoffs d)" "handoff_open now h r" ..
  then show "handoff_id_live (handoff_cred p) d"
    by (auto simp: cred handoff_id_live_def handoff_open_def)
  have "handoff_open now h q" if "q \<in> set (handoffs d)" "ho_id q = hf_jti h" for q
    using keyed_unique [OF k that(1) r(1)] r(2) that(2) by (simp add: handoff_open_def)
  then show "\<not> handoff_id_live (handoff_cred p) (snd (use_handoff p d))"
    by (auto simp: st cred handoff_id_live_def)
next
  fix d :: db and i p
  assume "\<not> handoff_id_live i d"
  with use_handoff_state [of p d] show "\<not> handoff_id_live i (snd (use_handoff p d))"
    by (auto simp: handoff_id_live_def)
next
  fix d :: db and p
  assume "keyed ho_id (handoffs d)"
  with use_handoff_state [of p d] show "keyed ho_id (handoffs (snd (use_handoff p d)))"
    by (auto simp: keyed_sql_delete)
qed auto

text \<open>A forward session is bound to its owner's session.\<close>

type_synonym forward_use = "externals \<times> skey \<times> int \<times> string \<times> string"

definition accepts_forward :: "forward_use \<Rightarrow> db \<Rightarrow> bool" where
  "accepts_forward p d = (case p of (x, key, now, tok, origin) \<Rightarrow>
     \<not> isl (fst (verify_session x key now tok origin d)))"

definition forward_claims :: "forward_use \<Rightarrow> forward_session" where
  "forward_claims p = (case p of (x, key, now, tok, origin) \<Rightarrow> the (decode_forward_session x key now origin tok))"

lemma accepts_forward_live:
  "accepts_forward (x, key, now, tok, origin) d \<longleftrightarrow> (\<exists>s. forward_live x key now tok origin s d)"
proof -
  have "accepts_forward (x, key, now, tok, origin) d \<longleftrightarrow>
     (\<exists>s d'. verify_session x key now tok origin d = (Inr s, d'))"
    by (cases "verify_session x key now tok origin d"; cases "fst (verify_session x key now tok origin d)")
       (auto simp: accepts_forward_def)
  then show ?thesis by (auto simp: verify_session_Inr)
qed

interpretation fwd: session_credential accepts_forward "\<lambda>p. fs_sub (forward_claims p)"
  "\<lambda>p. fs_iat (forward_claims p)" "\<lambda>p. fs_session_version (forward_claims p)"
proof
  fix p d
  assume "accepts_forward p d"
  then show "session_live (fs_sub (forward_claims p)) (fs_iat (forward_claims p))
     (fs_session_version (forward_claims p)) d"
    by (cases p) (auto simp: accepts_forward_live forward_live_def forward_claims_def)
qed

section \<open>JSON round trips\<close>

definition forward_session_i64 :: "forward_session \<Rightarrow> bool" where
  "forward_session_i64 s \<longleftrightarrow> in_i64 (fs_iat s) \<and> in_i64 (fs_exp s) \<and> opt_i64 (fs_session_version s)"

lemma as_uuid_text: "uuid_text x \<Longrightarrow> as_uuid x (JStr (x_uuid_str x u)) = Some u"
  by (simp add: as_uuid_def uuid_text_def)

lemma forward_session_roundtrip:
  assumes "uuid_text x" "forward_session_i64 s"
  shows "forward_session_of_json x (forward_session_to_json x s) = Some s"
  using assms
  by (cases "fs_session_version s")
     (simp_all add: forward_session_of_json_def forward_session_to_json_def req_field_def opt_field_def
       jopt_def forward_session_i64_def opt_i64_def as_uuid_text)

lemma handoff_roundtrip:
  assumes "uuid_text x" "forward_session_i64 (hf_session h)" "in_i64 (hf_exp h)"
  shows "handoff_of_json x (handoff_to_json x h) = Some h"
proof -
  have "forward_session_of_json x (forward_session_to_json x (hf_session h)) = Some (hf_session h)"
    by (rule forward_session_roundtrip [OF assms(1,2)])
  with assms(3) show ?thesis
    by (simp add: handoff_of_json_def handoff_to_json_def req_field_def)
qed

lemma jwt_accepts_handoff:
  assumes "hf_iss h = FORWARD_ISSUER" "hf_aud h = origin" "in_i64 (hf_exp h)" "now \<le> hf_exp h"
  shows "jwt_accepts (forward_validation origin) now (handoff_to_json x h)"
  using assms by (simp add: jwt_accepts_def forward_validation_def handoff_to_json_def claim_str_def req_field_def)

lemma jwt_accepts_forward:
  assumes "fs_iss s = FORWARD_ISSUER" "fs_aud s = origin" "in_i64 (fs_exp s)" "now \<le> fs_exp s"
  shows "jwt_accepts (forward_validation origin) now (forward_session_to_json x s)"
  using assms by (simp add: jwt_accepts_def forward_validation_def forward_session_to_json_def claim_str_def req_field_def)

section \<open>Frames\<close>

lemma keeps_issue_handoff: "keeps same_users (issue_handoff x key now jti parent app origin path state)"
proof -
  have "keeps same_users (verify_user_session u i g)" for u i g
    by (rule su.keeps_pure) (simp add: verify_user_session_eq)
  then show ?thesis
    unfolding issue_handoff_def Let_def by (intro su.keeps_rules keeps_intros) simp_all
qed

lemma keeps_redeem_handoff: "keeps same_users (redeem_handoff x key now tok origin state)"
  unfolding keeps_def
proof
  fix d
  show "same_users d (snd (redeem_handoff x key now tok origin state d))"
    by (cases "\<exists>h. handoff_checks x key now tok origin state h d")
       (auto simp: redeem_handoff_checked redeem_handoff_unchecked same_users_def)
qed

end
