(* ===== verification/Forward_Properties.thy ===== *)
theory Forward_Properties
  imports Forward Token_Properties
begin

text \<open>
  The guarantees of the reverse-proxy login flow, each with a concrete run.
\<close>

definition demo_nonce :: string where
  "demo_nonce = replicate 64 CHR ''a''"

definition demo_origin :: string where
  "demo_origin = ''https://app.example''"

definition demo_handoff :: handoff where
  "demo_handoff = issued_handoff ref_ext 1500 ''j1'' demo_access 7 3 demo_origin ''/x'' demo_nonce 605800"

definition demo_handoff_token :: string where
  "demo_handoff_token = json_text (handoff_to_json ref_ext demo_handoff)"

definition demo_handed :: db where
  "demo_handed = demo_session\<lparr>handoffs := [\<lparr>ho_id = ''j1'', ho_user = 7, ho_expires = 1560\<rparr>]\<rparr>"

lemma demo_valid_state: "valid_state demo_nonce"
  by (simp add: valid_state_def demo_nonce_def list_all_iff is_ascii_hexdigit_def byte_def)

lemma demo_session_live: "session_live 7 1000 (Some 0) demo_session" "session_live 7 1000 (Some 0) demo_handed"
  by (simp_all add: session_live_def current_version_def demo_handed_def demo_state_defs)

lemma demo_issue_handoff:
  "issue_handoff ref_ext [] 1500 ''j1'' demo_access 3 demo_origin ''/x'' demo_nonce demo_session =
     (Inr demo_handoff_token, demo_handed)"
proof -
  have claims: "c_sub demo_access = show_nat 7" "c_session_exp demo_access = Some 605800"
    "c_iat demo_access = 1000" "c_session_version demo_access = Some 0"
    by (simp_all add: demo_claim_defs)
  have "hf_jti demo_handoff = ''j1''" "hf_exp demo_handoff = 1560"
    by (simp_all add: demo_handoff_def issued_handoff_def)
  then show ?thesis
    using demo_valid_state demo_session_live(1)
    by (simp add: issue_handoff_def bind_op_def require_op_def ok_or_op_def claims verify_user_session_eq
        Let_def)
       (simp add: forward_sign_def insert_op_def demo_handed_def demo_handoff_token_def
         user_exists_def demo_state_defs sql_delete_def demo_handoff_def issued_handoff_def)
qed

lemma demo_handoff_checks:
  "handoff_checks ref_ext [] 1510 demo_handoff_token demo_origin demo_nonce demo_handoff demo_handed"
proof -
  have "jwt_accepts (forward_validation demo_origin) 1510 (handoff_to_json ref_ext demo_handoff)"
    by (rule jwt_accepts_handoff) (simp_all add: demo_handoff_def issued_handoff_def in_i64_def)
  moreover have "handoff_of_json ref_ext (handoff_to_json ref_ext demo_handoff) = Some demo_handoff"
    by (rule handoff_roundtrip [OF ref_hypotheses(5)])
       (simp_all add: demo_handoff_def issued_handoff_def forward_session_i64_def opt_i64_def in_i64_def
          demo_claim_defs)
  ultimately have "decode_handoff ref_ext [] 1510 demo_origin demo_handoff_token = Some demo_handoff"
    by (simp add: decode_handoff_def demo_handoff_token_def)
  then show ?thesis
    using demo_valid_state demo_session_live(2)
    by (simp add: handoff_checks_def) (simp add: demo_handoff_def issued_handoff_def demo_claim_defs)
qed

lemma demo_keyed_handoffs: "keyed ho_id (handoffs demo_handed)"
  by (simp add: demo_handed_def keyed_def)

text \<open>
  A handoff is redeemed at most once: in every run of redemption attempts (with any tokens,
  states, origins and times) and other steps that do not issue this very handoff, at most one
  attempt with it succeeds.
\<close>

theorem handoff_single_use:
  assumes "handoff.run i d es d'" and "keyed ho_id (handoffs d)"
  shows "handoff.successes i es \<le> 1"
  using handoff.at_most_one_success [OF assms] .

theorem handoff_single_use_witness:
  "handoff.successes ''j1'' [((ref_ext, [], 1510, demo_handoff_token, demo_origin, demo_nonce),
      fst (use_handoff (ref_ext, [], 1510, demo_handoff_token, demo_origin, demo_nonce) demo_handed))] \<le> 1"
  using handoff_single_use [OF handoff.present [OF handoff.start] demo_keyed_handoffs] by simp

text \<open>The session of a redeemed handoff is accepted up to its deadline.\<close>

lemma delivered_session_accepted:
  fixes x key now jti parent u app origin path state dl
  defines "s \<equiv> hf_session (issued_handoff x now jti parent u app origin path state dl)"
  assumes ext: "jwt_roundtrip x" "uuid_text x"
    and st: "x_jwt_sign x key eddsa_header (forward_session_to_json x s) = Inr st"
    and i64: "forward_session_i64 s" and later: "later < fs_exp s"
    and live: "session_live u (c_iat parent) (c_session_version parent) d"
  shows "verify_session x key later st origin d = (Inr s, d)"
proof -
  have "jwt_accepts (forward_validation origin) later (forward_session_to_json x s)"
    using later i64 by (intro jwt_accepts_forward) (simp_all add: s_def issued_handoff_def forward_session_i64_def)
  with ext(1) st have "decode_forward_session x key later origin st = Some s"
    by (auto simp: jwt_roundtrip_def decode_forward_session_def forward_session_roundtrip [OF ext(2) i64])
  with live later show ?thesis
    by (simp add: verify_session_Inr forward_live_def) (simp add: s_def issued_handoff_def)
qed

text \<open>
  C32. The login handed over to a protected origin arrives there unchanged: a handoff redeemed
  with the same state at the same origin before it expires yields a session of the same user,
  application and generation that ends when the parent session ends, together with the requested
  path; the session credential is then accepted at that origin until that deadline.
\<close>

theorem handoff_delivers_session:
  assumes ext: "jwt_roundtrip x" "uuid_text x"
    and issue: "issue_handoff x key now jti parent app origin path state d = (Inr tok, d1)"
    and i64: "claims_i64 parent" "in_i64 (now + 60)" "in_i64 now"
    and t: "now \<le> t" "t < now + 60" "\<forall>e. c_session_exp parent = Some e \<longrightarrow> t < e" "t < c_exp parent"
    and signs: "\<forall>j. \<exists>tk. x_jwt_sign x key eddsa_header j = Inr tk"
    and k: "keyed ho_id (handoffs d)"
  shows "\<exists>st s d2. redeem_handoff x key t tok origin state d1 = (Inr (st, s, path), d2)
     \<and> x_uuid_parse x (c_sub parent) = Some (fs_sub s) \<and> fs_application_id s = app \<and> fs_aud s = origin
     \<and> fs_exp s = (case c_session_exp parent of None \<Rightarrow> c_exp parent | Some e \<Rightarrow> e)
     \<and> fs_session_version s = c_session_version parent
     \<and> (\<forall>later. later < fs_exp s \<longrightarrow> verify_session x key later st origin d2 = (Inr s, d2))"
proof -
  let ?dl = "case c_session_exp parent of None \<Rightarrow> c_exp parent | Some e \<Rightarrow> e"
  from issue obtain u where u: "x_uuid_parse x (c_sub parent) = Some u" and vs: "valid_state state"
    and live: "session_live u (c_iat parent) (c_session_version parent) d"
    and sign: "x_jwt_sign x key eddsa_header (handoff_to_json x
        (issued_handoff x now jti parent u app origin path state ?dl)) = Inr tok"
    and fresh: "\<forall>r\<in>set (sql_delete (\<lambda>r. ho_expires r \<le> now) (handoffs d)). ho_id r \<noteq> jti"
    and d1: "d1 = d\<lparr>handoffs := sql_delete (\<lambda>r. ho_expires r \<le> now) (handoffs d) @
         [\<lparr>ho_id = jti, ho_user = u, ho_expires = min ?dl (now + 60)\<rparr>]\<rparr>"
    by (auto simp: issue_handoff_def op_results verify_user_session_eq forward_sign_def Let_def
        issued_handoff_def split: if_splits sum.splits)
  let ?h = "issued_handoff x now jti parent u app origin path state ?dl"
  have tdl: "t < ?dl" using t(3,4) by (auto split: option.split)
  have i64h: "forward_session_i64 (hf_session ?h)" "in_i64 (hf_exp ?h)"
    using i64 by (auto simp: issued_handoff_def forward_session_i64_def claims_i64_def opt_i64_def
        in_i64_def min_def split: option.splits)
  have "jwt_accepts (forward_validation origin) t (handoff_to_json x ?h)"
    using tdl t(2) i64h(2) by (intro jwt_accepts_handoff) (simp_all add: issued_handoff_def)
  with ext(1) sign have "x_jwt_verify x key (forward_validation origin) t tok = Some (handoff_to_json x ?h)"
    by (auto simp: jwt_roundtrip_def)
  then have dec: "decode_handoff x key t origin tok = Some ?h"
    by (simp add: decode_handoff_def handoff_roundtrip [OF ext(2) i64h])
  have live1: "session_live u (c_iat parent) (c_session_version parent) d1"
    using live session_live_cong [of d1 d] by (simp add: d1)
  have chk: "handoff_checks x key t tok origin state ?h d1"
    using dec vs live1 tdl by (simp add: handoff_checks_def issued_handoff_def)
  have "sql_count (handoff_open t ?h) (handoffs d1) = 1"
    using fresh tdl t(2) by (auto simp: d1 sql_count_def handoff_open_def issued_handoff_def filter_empty_conv)
  moreover obtain st where st: "x_jwt_sign x key eddsa_header (forward_session_to_json x (hf_session ?h)) = Inr st"
    using signs by blast
  ultimately have red: "redeem_handoff x key t tok origin state d1 =
      (Inr (st, hf_session ?h, path), d1\<lparr>handoffs := sql_delete (handoff_open t ?h) (handoffs d1)\<rparr>)" (is "_ = (_, ?d2)")
    by (simp add: redeem_handoff_checked [OF chk] forward_sign_def) (simp add: issued_handoff_def)
  have "session_live u (c_iat parent) (c_session_version parent) ?d2"
    using live1 session_live_cong [of ?d2 d1] by simp
  then have "verify_session x key later st origin ?d2 = (Inr (hf_session ?h), ?d2)"
    if "later < fs_exp (hf_session ?h)" for later
    using that by (intro delivered_session_accepted [OF ext st i64h(1)])
  then show ?thesis
    using red u by (intro exI [of _ st] exI [of _ "hf_session ?h"] exI [of _ ?d2]) (simp add: issued_handoff_def)
qed

theorem handoff_delivers_session_witness:
  "\<exists>st s d2. redeem_handoff ref_ext [] 1510 demo_handoff_token demo_origin demo_nonce demo_handed = (Inr (st, s, ''/x''), d2)"
proof -
  have "keyed ho_id (handoffs demo_session)" by (simp add: demo_state_defs)
  then show ?thesis
    using handoff_delivers_session [OF ref_hypotheses(2,5) demo_issue_handoff demo_claims_i64(1), of 1510]
    by (auto simp: in_i64_def demo_claim_defs)
qed

text \<open>What the issuer and audience checks leave of two decodings of one token.\<close>

lemma decode_forward_issuer:
  assumes "jwt_checks x" "decode_forward_session x key now origin tok = Some s"
  shows "fs_aud s = origin \<and> fs_iss s = FORWARD_ISSUER"
proof -
  from assms(2) obtain j where j: "x_jwt_verify x key (forward_validation origin) now tok = Some j"
    and s: "forward_session_of_json x j = Some s"
    by (auto simp: decode_forward_session_def split: Option.bind_splits)
  have "claim_str ''aud'' j = Some origin" "claim_str ''iss'' j = Some FORWARD_ISSUER"
    using jwt_checks_aud [OF assms(1) j] jwt_checks_iss [OF assms(1) j]
    by (auto simp: forward_validation_def)
  with s show ?thesis
    by (auto simp: forward_session_of_json_def claim_str_def split: Option.bind_splits)
qed

lemma forward_not_session_token:
  assumes "jwt_checks x" "jwt_payload_fixed x" "decode_forward_session x key now origin tok = Some s"
  shows "decode_claims x key t tok = None"
proof (rule ccontr)
  assume "\<not> ?thesis"
  then obtain j' where j': "x_jwt_verify x key session_validation t tok = Some j'"
    by (auto simp: decode_claims_def split: Option.bind_splits)
  from assms(3) obtain j where j: "x_jwt_verify x key (forward_validation origin) now tok = Some j"
    by (auto simp: decode_forward_session_def split: Option.bind_splits)
  have "j' = j" using assms(2) j j' by (metis jwt_payload_fixed_def)
  then show False
    using jwt_checks_iss [OF assms(1) j] jwt_checks_iss [OF assms(1) j']
    by (auto simp: forward_validation_def session_validation_def FORWARD_ISSUER_def TOKEN_ISSUER_def)
qed

lemma decode_forward_fixed:
  assumes "jwt_payload_fixed x" "decode_forward_session x key now origin tok = Some s"
    "decode_forward_session x key later origin' tok = Some s'"
  shows "s' = s"
proof -
  from assms(2,3) obtain j j' where
    "x_jwt_verify x key (forward_validation origin) now tok = Some j" "forward_session_of_json x j = Some s"
    "x_jwt_verify x key (forward_validation origin') later tok = Some j'" "forward_session_of_json x j' = Some s'"
    by (auto simp: decode_forward_session_def split: Option.bind_splits)
  with assms(1) show ?thesis by (metis jwt_payload_fixed_def option.inject)
qed

text \<open>
  What a protected application receives is worthless elsewhere: a credential accepted as a
  forward session at one origin is bound to that origin, is refused as a forward session at every
  other origin, and is refused by the server's own API both as an access token and as a refresh
  token, at all times and in all states.
\<close>

theorem forward_session_confined:
  assumes ext: "jwt_checks x" "jwt_payload_fixed x"
    and ok: "verify_session x key now tok origin d = (Inr s, d')"
  shows "fs_aud s = origin
     \<and> (origin' \<noteq> origin \<longrightarrow> isl (fst (verify_session x key t tok origin' d2)))
     \<and> isl (fst (verify_access_token x key t tok d2))
     \<and> isl (fst (consume_refresh_token x key t tok d2))"
proof -
  from ok have dec: "decode_forward_session x key now origin tok = Some s"
    by (simp add: verify_session_Inr forward_live_def)
  have aud: "fs_aud s = origin" using decode_forward_issuer [OF ext(1) dec] by simp
  have none: "decode_claims x key t tok = None" by (rule forward_not_session_token [OF ext dec])
  have "isl (fst (verify_session x key t tok origin' d2))" if "origin' \<noteq> origin"
  proof (rule ccontr)
    assume "\<not> ?thesis"
    then obtain s' where dec': "decode_forward_session x key t origin' tok = Some s'"
      using accepts_forward_live [of x key t tok origin' d2] by (auto simp: accepts_forward_def forward_live_def)
    then show False
      using decode_forward_fixed [OF ext(2) dec dec'] decode_forward_issuer [OF ext(1) dec'] aud that by simp
  qed
  moreover have "isl (fst (verify_access_token x key t tok d2))"
    using none by (simp add: verify_access_token_def bind_op_def ok_or_op_def)
  moreover have "isl (fst (consume_refresh_token x key t tok d2))"
    using none by (simp add: consume_refresh_token_def bind_op_def ok_or_op_def)
  ultimately show ?thesis using aud by blast
qed

lemma demo_forward_session:
  "verify_session ref_ext [] 1600 (json_text (forward_session_to_json ref_ext (hf_session demo_handoff)))
     demo_origin demo_session = (Inr (hf_session demo_handoff), demo_session)"
proof -
  have "forward_session_i64 (hf_session demo_handoff)"
    by (simp add: demo_handoff_def issued_handoff_def forward_session_i64_def opt_i64_def in_i64_def demo_claim_defs)
  moreover have "jwt_accepts (forward_validation demo_origin) 1600 (forward_session_to_json ref_ext (hf_session demo_handoff))"
    by (rule jwt_accepts_forward) (simp_all add: demo_handoff_def issued_handoff_def in_i64_def)
  ultimately show ?thesis
    using demo_session_live(1)
    by (simp add: verify_session_Inr forward_live_def decode_forward_session_def
        forward_session_roundtrip [OF ref_hypotheses(5)])
       (simp add: demo_handoff_def issued_handoff_def demo_claim_defs)
qed

theorem forward_session_confined_witness:
  "isl (fst (verify_session ref_ext [] 1600 (json_text (forward_session_to_json ref_ext (hf_session demo_handoff)))
     ''https://other.example'' demo_session))"
  using forward_session_confined [OF ref_hypotheses(1,4) demo_forward_session,
      of "''https://other.example''" 1600 demo_session]
  by (simp add: demo_origin_def)

text \<open>
  Revocation reaches protected applications: once a user's sessions are revoked, a forward
  session of that user accepted before is refused at every later time, in every state the
  database can evolve to without re-creating the same user id; the same holds when only the
  user's access tokens are revoked.
\<close>

theorem forward_revocation_permanent:
  assumes "jwt_payload_fixed x" and k: "keyed u_id (users d)"
    and acc: "verify_session x key now tok origin d = (Inr s, d0)"
    and rev: "d1 = snd (revoke_user_access_tokens ta (fs_sub s) d) \<or> d1 = snd (revoke_all_user_tokens ta (fs_sub s) d)"
    and ev: "evolves (fs_sub s) d1 d2"
  shows "isl (fst (verify_session x key later tok origin d2))"
proof (rule ccontr)
  let ?t = "(x, key, now, tok, origin)" and ?t' = "(x, key, later, tok, origin)"
  assume "\<not> ?thesis"
  then have acc2: "accepts_forward ?t' d2" by (simp add: accepts_forward_def)
  from acc have acc1: "accepts_forward ?t d" by (simp add: accepts_forward_def)
  from acc have dec: "decode_forward_session x key now origin tok = Some s"
    by (simp add: verify_session_Inr forward_live_def)
  from acc2 obtain s' where "decode_forward_session x key later origin tok = Some s'"
    by (auto simp: accepts_forward_live forward_live_def)
  with dec decode_forward_fixed [OF assms(1) dec] have "forward_claims ?t' = s" "forward_claims ?t = s"
    by (auto simp: forward_claims_def)
  with fwd.revoked_stays_dead [OF acc1 k, of ?t' d1 ta d2] acc2 rev ev show False by simp
qed

theorem forward_revocation_permanent_witness:
  "isl (fst (verify_session ref_ext [] 1700 (json_text (forward_session_to_json ref_ext (hf_session demo_handoff)))
     demo_origin (snd (revoke_all_user_tokens 1650 7 demo_session))))"
proof -
  have "fs_sub (hf_session demo_handoff) = 7" by (simp add: demo_handoff_def issued_handoff_def)
  then show ?thesis
    using forward_revocation_permanent [OF ref_hypotheses(4) demo_keyed(1) demo_forward_session _ ev.refl] by metis
qed

end
