(* ===== verification/Ip_Addr.thy ===== *)
theory Ip_Addr
  imports Rust_Str "HOL-Library.Word"
begin

text \<open>
  \<open>std::net::IpAddr\<close> with its text syntax, as the standard library parses and prints it. A
  reader consumes a prefix of its input and returns the rest, or fails and consumes nothing.
\<close>

datatype ip_addr = V4 "32 word" | V6 "128 word"

section \<open>Parsing\<close>

type_synonym 'a reader = "string \<Rightarrow> ('a \<times> string) option"

definition hex_digit :: "char \<Rightarrow> nat option" where
  "hex_digit c =
     (let b = byte c in
      if is_ascii_digit c then Some (b - 48)
      else if 97 \<le> b \<and> b \<le> 102 then Some (b - 87)
      else if 65 \<le> b \<and> b \<le> 70 then Some (b - 55) else None)"

definition radix_digit :: "nat \<Rightarrow> char \<Rightarrow> nat option" where
  "radix_digit radix c = (case hex_digit c of None \<Rightarrow> None | Some v \<Rightarrow> (if v < radix then Some v else None))"

fun digits_of :: "nat \<Rightarrow> string \<Rightarrow> string" where
  "digits_of radix [] = []"
| "digits_of radix (c # cs) = (if radix_digit radix c = None then [] else c # digits_of radix cs)"

fun number_value :: "nat \<Rightarrow> nat \<Rightarrow> string \<Rightarrow> nat" where
  "number_value radix acc [] = acc"
| "number_value radix acc (c # cs) =
     number_value radix (acc * radix + (case radix_digit radix c of None \<Rightarrow> 0 | Some v \<Rightarrow> v)) cs"

text \<open>\<open>read_number\<close>: all digits that follow, at most \<open>limit\<close>, with or without leading zeros, below \<open>bound\<close>.\<close>

definition read_number :: "nat \<Rightarrow> nat \<Rightarrow> bool \<Rightarrow> nat \<Rightarrow> nat reader" where
  "read_number radix limit zeros bound s =
     (let ds = digits_of radix s; v = number_value radix 0 ds in
      if ds = [] \<or> limit < length ds \<or> bound \<le> v \<or> (\<not> zeros \<and> 1 < length ds \<and> hd ds = CHR ''0'')
      then None else Some (v, drop (length ds) s))"

definition read_char :: "char \<Rightarrow> unit reader" where
  "read_char c s = (case s of [] \<Rightarrow> None | x # xs \<Rightarrow> (if x = c then Some ((), xs) else None))"

definition read_separator :: "char \<Rightarrow> nat \<Rightarrow> 'a reader \<Rightarrow> 'a reader" where
  "read_separator sep i inner s =
     (if 0 < i then (case read_char sep s of None \<Rightarrow> None | Some (_, r) \<Rightarrow> inner r) else inner s)"

fun read_octets :: "nat \<Rightarrow> nat \<Rightarrow> nat \<Rightarrow> nat reader" where
  "read_octets i 0 acc s = Some (acc, s)"
| "read_octets i (Suc n) acc s =
     (case read_separator CHR ''.'' i (read_number 10 3 False 256) s of
        None \<Rightarrow> None | Some (v, r) \<Rightarrow> read_octets (Suc i) n (acc * 256 + v) r)"

definition read_ipv4 :: "nat reader" where
  "read_ipv4 s = read_octets 0 4 0 s"

text \<open>
  \<open>read_groups\<close>: up to \<open>n\<close> more 16-bit groups, the last two possibly written as an IPv4 address;
  returns the groups, whether they end with an IPv4 part, and the rest of the input.
\<close>

fun read_groups :: "nat \<Rightarrow> nat \<Rightarrow> string \<Rightarrow> nat list \<times> bool \<times> string" where
  "read_groups i 0 s = ([], False, s)"
| "read_groups i (Suc n) s =
     (case (if 0 < n then read_separator CHR '':'' i read_ipv4 s else None) of
        Some (v, r) \<Rightarrow> ([v div 65536, v mod 65536], True, r)
      | None \<Rightarrow>
          (case read_separator CHR '':'' i (read_number 16 4 True 65536) s of
             None \<Rightarrow> ([], False, s)
           | Some (g, r) \<Rightarrow> (case read_groups (Suc i) n r of (gs, v4, r') \<Rightarrow> (g # gs, v4, r'))))"

definition groups_value :: "nat list \<Rightarrow> nat" where
  "groups_value gs = foldl (\<lambda>acc g. acc * 65536 + g) 0 gs"

definition read_ipv6 :: "nat reader" where
  "read_ipv6 s =
     (case read_groups 0 8 s of (head, v4, r) \<Rightarrow>
        if length head = 8 then Some (groups_value head, r)
        else if v4 then None
        else (case read_char CHR '':'' r of None \<Rightarrow> None | Some (_, r1) \<Rightarrow>
          (case read_char CHR '':'' r1 of None \<Rightarrow> None | Some (_, r2) \<Rightarrow>
            (case read_groups 0 (8 - (length head + 1)) r2 of (tail, _, r3) \<Rightarrow>
               Some (groups_value (head @ replicate (8 - length head - length tail) 0 @ tail), r3)))))"

definition parse_ip :: "string \<Rightarrow> ip_addr option" where
  "parse_ip s =
     (case read_ipv4 s of
        Some (v, r) \<Rightarrow> (if r = [] then Some (V4 (word_of_nat v)) else None)
      | None \<Rightarrow> (case read_ipv6 s of
          Some (v, r) \<Rightarrow> (if r = [] then Some (V6 (word_of_nat v)) else None)
        | None \<Rightarrow> None))"

section \<open>Printing\<close>

definition octets :: "nat \<Rightarrow> nat list" where
  "octets v = [v div 16777216, v div 65536 mod 256, v div 256 mod 256, v mod 256]"

definition show_ipv4 :: "nat \<Rightarrow> string" where
  "show_ipv4 v = join_str ''.'' (map show_nat (octets v))"

definition segments :: "nat \<Rightarrow> nat list" where
  "segments v = map (\<lambda>i. v div 65536 ^ i mod 65536) [7, 6, 5, 4, 3, 2, 1, 0]"

definition hex_char :: "nat \<Rightarrow> char" where
  "hex_char n = char_of (if n < 10 then 48 + n else 87 + n)"

definition show_hex16 :: "nat \<Rightarrow> string" where
  "show_hex16 v =
     (let ds = [v div 4096, v div 256 mod 16, v div 16 mod 16, v mod 16]
      in map hex_char (case dropWhile (\<lambda>d. d = 0) ds of [] \<Rightarrow> [0] | d # r \<Rightarrow> d # r))"

text \<open>The first longest run of zero segments: its start and length.\<close>

fun zero_run :: "nat \<Rightarrow> nat list \<Rightarrow> nat \<times> nat \<Rightarrow> nat \<times> nat \<Rightarrow> nat \<times> nat" where
  "zero_run i [] cur best = best"
| "zero_run i (g # gs) (cs, cl) best =
     (if g = 0
      then let cs' = (if cl = 0 then i else cs); cur = (cs', cl + 1)
           in zero_run (Suc i) gs cur (if snd best < cl + 1 then cur else best)
      else zero_run (Suc i) gs (0, 0) best)"

definition show_ipv6 :: "nat \<Rightarrow> string" where
  "show_ipv6 v =
     (let gs = segments v in
      if v div 2 ^ 32 = 0xFFFF then ''::ffff:'' @ show_ipv4 (v mod 2 ^ 32)
      else case zero_run 0 gs (0, 0) (0, 0) of (start, len) \<Rightarrow>
        if 1 < len
        then join_str '':'' (map show_hex16 (take start gs)) @ ''::''
             @ join_str '':'' (map show_hex16 (drop (start + len) gs))
        else join_str '':'' (map show_hex16 gs))"

fun show_ip :: "ip_addr \<Rightarrow> string" where
  "show_ip (V4 a) = show_ipv4 (unat a)"
| "show_ip (V6 a) = show_ipv6 (unat a)"

end
