(* ===== verification/Audit_Log.thy ===== *)
theory Audit_Log
  imports Reference_Externals Database Ip_Addr
begin

text \<open>
  \<open>audit.rs\<close>: audit events, the request context they record, saving and querying the log.
\<close>

section \<open>Events\<close>

datatype audit_event_type =
    LoginSuccess | LoginFailed | Logout | TokenRefresh
  | UserCreated | UserUpdated | UserDeleted | PasswordChanged
  | RoleAssigned | RoleRemoved | MfaEnabled | MfaDisabled
  | PasskeyCreated | PasskeyDeleted | AdminCreateUser | AdminUpdateUser
  | AdminDeleteUser | AdminPasswordReset | AdminRoleAssigned | AdminRoleRemoved
  | UserRegistered | InvitationCreated | InvitationDeleted | InvitationConsumed
  | SettingsUpdated | SystemRestarted | LdapBindSuccess | LdapBindFailed
  | LdapBindRejectedMfaRequired | LdapBindPasswordRotated | AppPasswordCreated | AppPasswordDeleted
  | AdminAppPasswordDeleted | ApplicationCreated | ApplicationUpdated | ApplicationDeleted
  | OidcAuthorizeSuccess | OidcAuthorizeDenied | OidcTokenIssued | OidcTokenRejected
  | OidcUserinfoAccessed | OidcLogout | RoleCreated | RoleDeleted

fun event_str :: "audit_event_type \<Rightarrow> string" where
  "event_str LoginSuccess = ''login_success''"
| "event_str LoginFailed = ''login_failed''"
| "event_str Logout = ''logout''"
| "event_str TokenRefresh = ''token_refresh''"
| "event_str UserCreated = ''user_created''"
| "event_str UserUpdated = ''user_updated''"
| "event_str UserDeleted = ''user_deleted''"
| "event_str PasswordChanged = ''password_changed''"
| "event_str RoleAssigned = ''role_assigned''"
| "event_str RoleRemoved = ''role_removed''"
| "event_str MfaEnabled = ''mfa_enabled''"
| "event_str MfaDisabled = ''mfa_disabled''"
| "event_str PasskeyCreated = ''passkey_created''"
| "event_str PasskeyDeleted = ''passkey_deleted''"
| "event_str AdminCreateUser = ''admin_create_user''"
| "event_str AdminUpdateUser = ''admin_update_user''"
| "event_str AdminDeleteUser = ''admin_delete_user''"
| "event_str AdminPasswordReset = ''admin_password_reset''"
| "event_str AdminRoleAssigned = ''admin_role_assigned''"
| "event_str AdminRoleRemoved = ''admin_role_removed''"
| "event_str UserRegistered = ''user_registered''"
| "event_str InvitationCreated = ''invitation_created''"
| "event_str InvitationDeleted = ''invitation_deleted''"
| "event_str InvitationConsumed = ''invitation_consumed''"
| "event_str SettingsUpdated = ''settings_updated''"
| "event_str SystemRestarted = ''system_restarted''"
| "event_str LdapBindSuccess = ''ldap_bind_success''"
| "event_str LdapBindFailed = ''ldap_bind_failed''"
| "event_str LdapBindRejectedMfaRequired = ''ldap_bind_rejected_mfa_required''"
| "event_str LdapBindPasswordRotated = ''ldap_bind_password_rotated''"
| "event_str AppPasswordCreated = ''app_password_created''"
| "event_str AppPasswordDeleted = ''app_password_deleted''"
| "event_str AdminAppPasswordDeleted = ''admin_app_password_deleted''"
| "event_str ApplicationCreated = ''application_created''"
| "event_str ApplicationUpdated = ''application_updated''"
| "event_str ApplicationDeleted = ''application_deleted''"
| "event_str OidcAuthorizeSuccess = ''oidc_authorize_success''"
| "event_str OidcAuthorizeDenied = ''oidc_authorize_denied''"
| "event_str OidcTokenIssued = ''oidc_token_issued''"
| "event_str OidcTokenRejected = ''oidc_token_rejected''"
| "event_str OidcUserinfoAccessed = ''oidc_userinfo_accessed''"
| "event_str OidcLogout = ''oidc_logout''"
| "event_str RoleCreated = ''role_created''"
| "event_str RoleDeleted = ''role_deleted''"

definition all_event_types :: "audit_event_type list" where
  "all_event_types =
     [LoginSuccess, LoginFailed, Logout, TokenRefresh,
      UserCreated, UserUpdated, UserDeleted, PasswordChanged,
      RoleAssigned, RoleRemoved, MfaEnabled, MfaDisabled,
      PasskeyCreated, PasskeyDeleted, AdminCreateUser, AdminUpdateUser,
      AdminDeleteUser, AdminPasswordReset, AdminRoleAssigned, AdminRoleRemoved,
      UserRegistered, InvitationCreated, InvitationDeleted, InvitationConsumed,
      SettingsUpdated, SystemRestarted, LdapBindSuccess, LdapBindFailed,
      LdapBindRejectedMfaRequired, LdapBindPasswordRotated, AppPasswordCreated, AppPasswordDeleted,
      AdminAppPasswordDeleted, ApplicationCreated, ApplicationUpdated, ApplicationDeleted,
      OidcAuthorizeSuccess, OidcAuthorizeDenied, OidcTokenIssued, OidcTokenRejected,
      OidcUserinfoAccessed, OidcLogout, RoleCreated, RoleDeleted]"

definition event_of_str :: "string \<Rightarrow> audit_event_type option" where
  "event_of_str s = find (\<lambda>t. event_str t = s) all_event_types"

section \<open>The request context\<close>

text \<open>\<open>AUTHERE_TRUSTED_PROXIES\<close> is the argument \<open>var\<close>; \<open>None\<close> when it is not set.\<close>

fun filter_map :: "('a \<Rightarrow> 'b option) \<Rightarrow> 'a list \<Rightarrow> 'b list" where
  "filter_map f [] = []"
| "filter_map f (v # vs) = (case f v of None \<Rightarrow> filter_map f vs | Some w \<Rightarrow> w # filter_map f vs)"

definition trusted_proxies :: "string option \<Rightarrow> ip_addr list" where
  "trusted_proxies var =
     filter_map (\<lambda>s. parse_ip (trim s)) (split_char CHR '','' (case var of None \<Rightarrow> [] | Some v \<Rightarrow> v))"

definition extract_client_ip :: "ip_addr list \<Rightarrow> string option \<Rightarrow> ip_addr \<Rightarrow> ip_addr" where
  "extract_client_ip trusted xff peer =
     (if trusted = [] then peer
      else if peer \<notin> set trusted then peer
      else case xff of
          None \<Rightarrow> peer
        | Some v \<Rightarrow>
            (case find (\<lambda>a. case parse_ip a of None \<Rightarrow> False | Some ip \<Rightarrow> ip \<notin> set trusted)
                    (rev (map trim (split_char CHR '','' v))) of
               None \<Rightarrow> peer
             | Some a \<Rightarrow> the (parse_ip a)))"

record audit_context =
  ax_ip :: ip_addr
  ax_ip_address :: "string option"
  ax_user_agent :: "string option"

text \<open>The peer address, the forwarding header and the user agent of one request.\<close>

definition audit_context_of ::
  "ip_addr list \<Rightarrow> ip_addr option \<Rightarrow> string option \<Rightarrow> string option \<Rightarrow> audit_context" where
  "audit_context_of trusted peer xff ua =
     (case peer of
        Some p \<Rightarrow> (let resolved = extract_client_ip trusted xff p
                   in \<lparr>ax_ip = resolved, ax_ip_address = Some (show_ip resolved), ax_user_agent = ua\<rparr>)
      | None \<Rightarrow> \<lparr>ax_ip = V4 0, ax_ip_address = None, ax_user_agent = ua\<rparr>)"

section \<open>Entries\<close>

record audit_entry =
  ae_event :: audit_event_type
  ae_user :: "uuid option"
  ae_actor :: "uuid option"
  ae_ip :: "string option"
  ae_user_agent :: "string option"
  ae_details :: "json option"

definition audit :: "audit_event_type \<Rightarrow> audit_entry" where
  "audit ev = \<lparr>ae_event = ev, ae_user = None, ae_actor = None, ae_ip = None, ae_user_agent = None,
     ae_details = None\<rparr>"

definition audit_user :: "uuid \<Rightarrow> audit_entry \<Rightarrow> audit_entry" where
  "audit_user u e = e\<lparr>ae_user := Some u\<rparr>"

definition audit_actor :: "uuid option \<Rightarrow> audit_entry \<Rightarrow> audit_entry" where
  "audit_actor a e = (case a of None \<Rightarrow> e | Some i \<Rightarrow> e\<lparr>ae_actor := Some i\<rparr>)"

definition audit_ctx :: "audit_context \<Rightarrow> audit_entry \<Rightarrow> audit_entry" where
  "audit_ctx c e =
     (let e1 = (case ax_ip_address c of None \<Rightarrow> e | Some ip \<Rightarrow> e\<lparr>ae_ip := Some ip\<rparr>)
      in case ax_user_agent c of None \<Rightarrow> e1 | Some ua \<Rightarrow> e1\<lparr>ae_user_agent := Some ua\<rparr>)"

definition audit_ip :: "string \<Rightarrow> audit_entry \<Rightarrow> audit_entry" where
  "audit_ip ip e = e\<lparr>ae_ip := Some ip\<rparr>"

definition audit_details :: "json \<Rightarrow> audit_entry \<Rightarrow> audit_entry" where
  "audit_details j e = e\<lparr>ae_details := Some j\<rparr>"

definition audit_row_of :: "externals \<Rightarrow> uuid \<Rightarrow> int \<Rightarrow> audit_entry \<Rightarrow> audit_row" where
  "audit_row_of x fresh now e =
     \<lparr>al_id = fresh, al_timestamp = now, al_event_type = event_str (ae_event e), al_user = ae_user e,
      al_actor = ae_actor e, al_ip = ae_ip e, al_user_agent = ae_user_agent e,
      al_details = map_option (x_json_print x) (ae_details e)\<rparr>"

definition audit_save :: "externals \<Rightarrow> uuid \<Rightarrow> int \<Rightarrow> audit_entry \<Rightarrow> unit db_op" where
  "audit_save x fresh now e =
     insert_op (\<lambda>d. \<exists>r\<in>set (audit_log d). al_id r = fresh)
       (\<lambda>d. (case ae_user e of None \<Rightarrow> False | Some u \<Rightarrow> \<not> user_exists u d)
           \<or> (case ae_actor e of None \<Rightarrow> False | Some u \<Rightarrow> \<not> user_exists u d))
       (\<lambda>d. d\<lparr>audit_log := audit_log d @ [audit_row_of x fresh now e]\<rparr>)"

text \<open>The handlers' \<open>let _ = audit(...).save(...).await\<close>.\<close>

definition audited :: "externals \<Rightarrow> uuid \<Rightarrow> int \<Rightarrow> audit_entry \<Rightarrow> (db, 'e, unit) op" where
  "audited x fresh now e = ignore_op (audit_save x fresh now e)"

text \<open>An object built by \<open>json!\<close> keeps its keys sorted.\<close>

definition login_failed_entry :: "string \<Rightarrow> uuid option \<Rightarrow> audit_context \<Rightarrow> audit_entry" where
  "login_failed_entry username user_id c =
     (let details = (case user_id of
              Some _ \<Rightarrow> JObj [(''username'', JStr username)]
            | None \<Rightarrow> JObj [(''user_exists'', JBool False), (''username'', JStr username)]);
          e = audit_details details (audit_ctx c (audit LoginFailed))
      in case user_id of None \<Rightarrow> e | Some u \<Rightarrow> audit_user u e)"

definition log_login_failed ::
  "externals \<Rightarrow> uuid \<Rightarrow> int \<Rightarrow> string \<Rightarrow> uuid option \<Rightarrow> audit_context \<Rightarrow> unit db_op" where
  "log_login_failed x fresh now username user_id c =
     audit_save x fresh now (login_failed_entry username user_id c)"

definition ldap_bind_entry ::
  "audit_event_type \<Rightarrow> uuid option \<Rightarrow> string \<Rightarrow> (string \<times> json) list \<Rightarrow> audit_entry" where
  "ldap_bind_entry ev user_id ip kvs =
     (let e = audit_details (JObj kvs) (audit_ip ip (audit ev))
      in case user_id of None \<Rightarrow> e | Some u \<Rightarrow> audit_user u e)"

definition log_ldap_bind_success ::
  "externals \<Rightarrow> uuid \<Rightarrow> int \<Rightarrow> uuid option \<Rightarrow> string \<Rightarrow> string \<Rightarrow> string \<Rightarrow> string \<Rightarrow> unit db_op" where
  "log_ldap_bind_success x fresh now user_id dn ip mode credential =
     audit_save x fresh now (ldap_bind_entry LdapBindSuccess user_id ip
       [(''credential'', JStr credential), (''dn'', JStr dn), (''mode'', JStr mode)])"

definition log_ldap_bind_failed ::
  "externals \<Rightarrow> uuid \<Rightarrow> int \<Rightarrow> uuid option \<Rightarrow> string \<Rightarrow> string \<Rightarrow> string \<Rightarrow> string \<Rightarrow> unit db_op" where
  "log_ldap_bind_failed x fresh now user_id dn ip mode reason =
     audit_save x fresh now (ldap_bind_entry LdapBindFailed user_id ip
       [(''dn'', JStr dn), (''mode'', JStr mode), (''reason'', JStr reason)])"

definition log_ldap_bind_rejected_mfa_required ::
  "externals \<Rightarrow> uuid \<Rightarrow> int \<Rightarrow> uuid \<Rightarrow> string \<Rightarrow> string \<Rightarrow> string \<Rightarrow> unit db_op" where
  "log_ldap_bind_rejected_mfa_required x fresh now user_id dn ip mode =
     audit_save x fresh now (ldap_bind_entry LdapBindRejectedMfaRequired (Some user_id) ip
       [(''dn'', JStr dn), (''mode'', JStr mode)])"

section \<open>Queries\<close>

record audit_query =
  aq_user :: "uuid option"
  aq_actor :: "uuid option"
  aq_event_types :: "audit_event_type list option"
  aq_since :: "int option"
  aq_until :: "int option"
  aq_limit :: "int option"
  aq_offset :: "int option"

definition opt_holds :: "('a \<Rightarrow> bool) \<Rightarrow> 'a option \<Rightarrow> bool" where
  "opt_holds P v = (case v of None \<Rightarrow> True | Some w \<Rightarrow> P w)"

definition matches_filters :: "audit_query \<Rightarrow> audit_row \<Rightarrow> bool" where
  "matches_filters q r \<longleftrightarrow>
     opt_holds (\<lambda>u. al_user r = Some u) (aq_user q)
   \<and> opt_holds (\<lambda>a. al_actor r = Some a) (aq_actor q)
   \<and> opt_holds (\<lambda>ts. ts = [] \<or> al_event_type r \<in> set (map event_str ts)) (aq_event_types q)
   \<and> opt_holds (\<lambda>t. t \<le> al_timestamp r) (aq_since q)
   \<and> opt_holds (\<lambda>t. al_timestamp r \<le> t) (aq_until q)"

record audit_record = audit_row +
  al_username :: "string option"
  al_actor_username :: "string option"

definition username_of :: "uuid option \<Rightarrow> db \<Rightarrow> string option" where
  "username_of u d = (case u of None \<Rightarrow> None
     | Some i \<Rightarrow> map_option u_username (sql_find (\<lambda>r. u_id r = i) (users d)))"

definition audit_record_of :: "db \<Rightarrow> audit_row \<Rightarrow> audit_record" where
  "audit_record_of d r = audit_row.extend r
     \<lparr>al_username = username_of (al_user r) d, al_actor_username = username_of (al_actor r) d\<rparr>"

text \<open>
  A negative LIMIT is no limit and a negative OFFSET is zero. OFFSET without LIMIT is not a
  statement SQLite accepts.
\<close>

definition sql_limit :: "int option \<Rightarrow> 'a list \<Rightarrow> 'a list" where
  "sql_limit n rows = (case n of None \<Rightarrow> rows | Some k \<Rightarrow> (if k < 0 then rows else take (nat k) rows))"

definition audit_execute :: "audit_query \<Rightarrow> audit_record list db_op" where
  "audit_execute q = (\<lambda>d.
     if aq_limit q = None \<and> aq_offset q \<noteq> None
     then (Inl (DbError (DatabaseOther ''near OFFSET: syntax error'')), d)
     else (Inr (map (audit_record_of d) (sql_limit (aq_limit q)
                (drop (nat (case aq_offset q of None \<Rightarrow> 0 | Some k \<Rightarrow> k))
                  (sort_key (\<lambda>r. - al_timestamp r) (filter (matches_filters q) (audit_log d)))))), d))"

definition audit_count :: "audit_query \<Rightarrow> int db_op" where
  "audit_count q = gets_op (\<lambda>d. int (sql_count (matches_filters q) (audit_log d)))"


section \<open>Facts\<close>

lemma keeps_audit_save: "keeps same_users (audit_save x fresh now e)"
  unfolding audit_save_def by (intro keeps_intros) simp

lemma keeps_audited: "keeps same_users (audited x fresh now e)"
  unfolding audited_def by (intro su.keeps_ignore keeps_audit_save)

lemma audit_save_frame:
  "users (snd (audit_save x f n e d)) = users d" "revocations (snd (audit_save x f n e d)) = revocations d"
  "refresh_tokens (snd (audit_save x f n e d)) = refresh_tokens d"
  "oidc_codes (snd (audit_save x f n e d)) = oidc_codes d" "handoffs (snd (audit_save x f n e d)) = handoffs d"
  "settings (snd (audit_save x f n e d)) = settings d" "roles (snd (audit_save x f n e d)) = roles d"
  "user_roles (snd (audit_save x f n e d)) = user_roles d"
  "applications (snd (audit_save x f n e d)) = applications d"
  "authenticators (snd (audit_save x f n e d)) = authenticators d"
  "totps (snd (audit_save x f n e d)) = totps d" "recovery_codes (snd (audit_save x f n e d)) = recovery_codes d"
  "invitations (snd (audit_save x f n e d)) = invitations d"
  "app_passwords (snd (audit_save x f n e d)) = app_passwords d"
  by (simp_all add: audit_save_def insert_op_state)

lemma audited_apply: "audited x f n e d = (Inr (), snd (audit_save x f n e d))"
  by (simp add: audited_def)

text \<open>
  The stored name of an event type identifies it: reading back the name of any event type
  gives that event type, so the lookup table is complete and without duplicates.
\<close>

theorem event_type_roundtrip: "event_of_str (event_str t) = Some t"
  by (cases t) (simp_all add: event_of_str_def all_event_types_def)

lemma find_append_None: "find P xs = None \<Longrightarrow> find P (xs @ ys) = find P ys"
  by (induction xs) auto

lemma find_append_Some: "find P xs = Some v \<Longrightarrow> find P (xs @ ys) = Some v"
  by (induction xs) auto

text \<open>
  C38. The client address cannot be forged through the forwarding header. A peer that is not a
  trusted proxy is taken as the client, whatever the header says and whether there is one or not.
  Behind a trusted proxy the entries are read from the right: entries that are no addresses or
  that are trusted proxies themselves are skipped, any number of them, and the first other
  address is the client, whatever a client has put in front of it. Without such an entry, and
  without a header, the peer is the client.
\<close>

theorem client_ip_not_spoofable:
  "(peer \<notin> set trusted \<longrightarrow> extract_client_ip trusted xff peer = peer)
   \<and> extract_client_ip trusted None peer = peer
   \<and> (peer \<in> set trusted \<longrightarrow>
       (\<forall>front real hops ip. split_char CHR '','' v = front @ real # hops
          \<and> parse_ip (trim real) = Some ip \<and> ip \<notin> set trusted
          \<and> (\<forall>hop\<in>set hops. \<forall>a. parse_ip (trim hop) = Some a \<longrightarrow> a \<in> set trusted)
          \<longrightarrow> extract_client_ip trusted (Some v) peer = ip)
     \<and> ((\<forall>hop\<in>set (split_char CHR '','' v). \<forall>a. parse_ip (trim hop) = Some a \<longrightarrow> a \<in> set trusted)
          \<longrightarrow> extract_client_ip trusted (Some v) peer = peer))"
proof -
  let ?ok = "\<lambda>a. case parse_ip a of None \<Rightarrow> False | Some ip \<Rightarrow> ip \<notin> set trusted"
  have skip: "find ?ok (rev (map trim hops)) = None"
    if "\<forall>hop\<in>set hops. \<forall>a. parse_ip (trim hop) = Some a \<longrightarrow> a \<in> set trusted" for hops
    using that by (auto simp: find_None_iff split: option.splits)
  have "find ?ok (rev (map trim (front @ real # hops))) = Some (trim real)"
    if "parse_ip (trim real) = Some ip" "ip \<notin> set trusted"
      "\<forall>hop\<in>set hops. \<forall>a. parse_ip (trim hop) = Some a \<longrightarrow> a \<in> set trusted" for front real hops ip
    using find_append_None [OF skip [OF that(3)], of "trim real # rev (map trim front)"] that(1,2) by simp
  then show ?thesis using skip by (auto simp: extract_client_ip_def)
qed

lemma parse_ip_example: "parse_ip ''9.9.9.9'' = Some (V4 0x09090909)"
proof -
  have four: "4 = Suc (Suc (Suc (Suc 0)))" by simp
  show ?thesis
    unfolding parse_ip_def read_ipv4_def four
    by (simp add: read_separator_def read_number_def radix_digit_def hex_digit_def is_ascii_digit_def
        byte_def read_char_def)
qed

text \<open>
  Behind the proxies 0.0.0.1 and 9.9.9.8: a forged entry, the client and the inner proxy.
\<close>

theorem client_ip_not_spoofable_witness:
  "extract_client_ip [V4 1, V4 0x09090908] (Some ''10.0.0.1,9.9.9.9,9.9.9.8'') (V4 1) = V4 0x09090909"
proof -
  have four: "4 = Suc (Suc (Suc (Suc 0)))" by simp
  have hop: "parse_ip ''9.9.9.8'' = Some (V4 0x09090908)"
    unfolding parse_ip_def read_ipv4_def four
    by (simp add: read_separator_def read_number_def radix_digit_def hex_digit_def is_ascii_digit_def
        byte_def read_char_def)
  have trims: "trim ''9.9.9.9'' = ''9.9.9.9''" "trim ''9.9.9.8'' = ''9.9.9.8''"
    by (rule trim_graphic; simp add: ascii_graphic_def byte_def)+
  have pieces: "split_char CHR '','' ''10.0.0.1,9.9.9.9,9.9.9.8'' = [''10.0.0.1''] @ ''9.9.9.9'' # [''9.9.9.8'']"
    by simp
  show ?thesis
    by (rule client_ip_not_spoofable [of "V4 1" "[V4 1, V4 0x09090908]" None "''10.0.0.1,9.9.9.9,9.9.9.8''",
          THEN conjunct2, THEN conjunct2, THEN mp, THEN conjunct1, rule_format])
       (simp, intro conjI, rule pieces, simp_all add: parse_ip_example hop trims)
qed

text \<open>
  Paging through the audit log loses nothing: the rows of an unlimited query are exactly the
  matching rows, newest first, as many as the count says, and page \<open>k\<close> of size \<open>n\<close> is the
  \<open>k\<close>-th slice of length \<open>n\<close> of that list.
\<close>

theorem audit_pages_partition:
  assumes "aq_limit q = None" and "aq_offset q = None"
  shows "\<exists>rows. audit_execute q d = (Inr rows, d) \<and> audit_count q d = (Inr (int (length rows)), d)
     \<and> sorted (map (\<lambda>r. - al_timestamp r) rows)
     \<and> (\<forall>r\<in>set (audit_log d). matches_filters q r \<longleftrightarrow> audit_record_of d r \<in> set rows)
     \<and> audit_execute (q\<lparr>aq_limit := Some (int n), aq_offset := Some (int (k * n))\<rparr>) d
         = (Inr (take n (drop (k * n) rows)), d)"
proof -
  let ?hits = "sort_key (\<lambda>r. - al_timestamp r) (filter (matches_filters q) (audit_log d))"
  let ?q = "q\<lparr>aq_limit := Some (int n), aq_offset := Some (int (k * n))\<rparr>"
  have ts: "al_timestamp (audit_record_of d r) = al_timestamp r" for r
    by (simp add: audit_record_of_def audit_row.extend_def)
  have inj: "inj (audit_record_of d)"
  proof (rule injI)
    fix r r' assume "audit_record_of d r = audit_record_of d r'"
    from arg_cong [OF this, of audit_row.truncate] show "r = r'"
      by (simp add: audit_record_of_def audit_row.extend_def audit_row.truncate_def)
  qed
  have "matches_filters ?q = matches_filters q" by (simp add: fun_eq_iff matches_filters_def)
  then have page: "audit_execute ?q d = (Inr (take n (drop (k * n) (map (audit_record_of d) ?hits))), d)"
    by (simp add: audit_execute_def sql_limit_def take_map drop_map nat_mult_distrib)
  let ?rows = "map (audit_record_of d) ?hits"
  have all: "audit_execute q d = (Inr ?rows, d)"
    using assms by (simp add: audit_execute_def sql_limit_def)
  have count: "audit_count q d = (Inr (int (length ?rows)), d)"
    by (simp add: audit_count_def sql_count_def)
  have sorted: "sorted (map (\<lambda>r. - al_timestamp r) ?rows)"
    using sorted_sort_key [of "\<lambda>r. - al_timestamp r" "filter (matches_filters q) (audit_log d)"]
    by (simp add: comp_def ts)
  have "\<forall>r\<in>set (audit_log d). matches_filters q r \<longleftrightarrow> audit_record_of d r \<in> set ?rows"
    using inj_image_mem_iff [OF inj] by simp
  with all count sorted page show ?thesis by blast
qed

definition demo_query :: audit_query where
  "demo_query = \<lparr>aq_user = None, aq_actor = None, aq_event_types = None, aq_since = None, aq_until = None,
     aq_limit = None, aq_offset = None\<rparr>"

theorem audit_pages_partition_witness:
  "\<exists>rows. audit_execute demo_query empty_db = (Inr rows, empty_db)
     \<and> audit_count demo_query empty_db = (Inr (int (length rows)), empty_db)"
  using audit_pages_partition [of demo_query empty_db 1 0] by (auto simp: demo_query_def)

end
