(* ===== verification/Rate_Limit.thy ===== *)
theory Rate_Limit
  imports Ip_Addr
begin

text \<open>
  \<open>rate_limit.rs\<close>: the in-memory fixed-window limiter. Instants and durations are nanosecond
  counts, so the saturating \<open>duration_since\<close> is subtraction on the naturals; the counter is the
  \<open>u32\<close> of the code and wraps.
\<close>

section \<open>State and operations\<close>

record rate_limit_config =
  max_requests :: "32 word"
  rl_window :: nat

definition default_rate_limit_config :: rate_limit_config where
  "default_rate_limit_config = \<lparr>max_requests = 5, rl_window = 60 * 1000000000\<rparr>"

record rate_limit_entry =
  re_count :: "32 word"
  re_start :: nat

type_synonym rate_entries = "ip_addr \<Rightarrow> rate_limit_entry option"

text \<open>The shared beginning of \<open>check\<close> and \<open>record_failure\<close>: find or create, reset when expired.\<close>

definition current_entry :: "rate_limit_config \<Rightarrow> nat \<Rightarrow> ip_addr \<Rightarrow> rate_entries \<Rightarrow> rate_limit_entry" where
  "current_entry cfg now ip es =
     (let entry = (case es ip of None \<Rightarrow> \<lparr>re_count = 0, re_start = now\<rparr> | Some e \<Rightarrow> e)
      in if rl_window cfg \<le> now - re_start entry
         then entry\<lparr>re_count := 0, re_start := now\<rparr> else entry)"

definition rl_check ::
  "rate_limit_config \<Rightarrow> nat \<Rightarrow> ip_addr \<Rightarrow> rate_entries \<Rightarrow> (nat + 32 word) \<times> rate_entries" where
  "rl_check cfg now ip es =
     (let entry = current_entry cfg now ip es in
      if max_requests cfg \<le> re_count entry
      then (Inl (rl_window cfg - (now - re_start entry)), es(ip \<mapsto> entry))
      else let entry' = entry\<lparr>re_count := re_count entry + 1\<rparr>
           in (Inr (max_requests cfg - re_count entry'), es(ip \<mapsto> entry')))"

definition record_failure ::
  "rate_limit_config \<Rightarrow> nat \<Rightarrow> ip_addr \<Rightarrow> rate_entries \<Rightarrow> rate_entries" where
  "record_failure cfg now ip es =
     (let entry = current_entry cfg now ip es
      in es(ip \<mapsto> entry\<lparr>re_count := re_count entry + 1\<rparr>))"

definition rl_cleanup :: "rate_limit_config \<Rightarrow> nat \<Rightarrow> rate_entries \<Rightarrow> rate_entries" where
  "rl_cleanup cfg now es = (\<lambda>ip. case es ip of None \<Rightarrow> None
     | Some e \<Rightarrow> (if now - re_start e < rl_window cfg then Some e else None))"

definition new_limiter :: rate_entries where
  "new_limiter = (\<lambda>ip. None)"

section \<open>Histories\<close>

datatype rate_event = Check ip_addr | Failure ip_addr | Cleanup

text \<open>
  A run of the limiter on a monotone clock, with a ghost record of every allowed request of
  one address: the start of its window and the time it was allowed. The natural number counts
  the events so far.
\<close>

inductive rate_run ::
  "rate_limit_config \<Rightarrow> ip_addr \<Rightarrow> nat \<Rightarrow> nat \<Rightarrow> rate_entries \<Rightarrow> (nat \<times> nat) list \<Rightarrow> bool"
  for cfg ip where
  start: "rate_run cfg ip t 0 new_limiter []"
| allowed: "rate_run cfg ip t n es h \<Longrightarrow> t \<le> now \<Longrightarrow> rl_check cfg now ip es = (Inr k, es')
    \<Longrightarrow> rate_run cfg ip now (Suc n) es' ((re_start (the (es' ip)), now) # h)"
| refused: "rate_run cfg ip t n es h \<Longrightarrow> t \<le> now \<Longrightarrow> rl_check cfg now ip es = (Inl r, es')
    \<Longrightarrow> rate_run cfg ip now (Suc n) es' h"
| other: "rate_run cfg ip t n es h \<Longrightarrow> t \<le> now \<Longrightarrow> q \<noteq> ip \<Longrightarrow> rl_check cfg now q es = (r, es')
    \<Longrightarrow> rate_run cfg ip now (Suc n) es' h"
| failure: "rate_run cfg ip t n es h \<Longrightarrow> t \<le> now
    \<Longrightarrow> rate_run cfg ip now (Suc n) (record_failure cfg now q es) h"
| cleanup: "rate_run cfg ip t n es h \<Longrightarrow> t \<le> now
    \<Longrightarrow> rate_run cfg ip now (Suc n) (rl_cleanup cfg now es) h"

text \<open>Requests allowed in the window that started at \<open>w\<close>.\<close>

definition in_window :: "nat \<Rightarrow> (nat \<times> nat) list \<Rightarrow> nat" where
  "in_window w h = length (filter (\<lambda>e. fst e = w) h)"

text \<open>
  Every recorded request lies in its window, windows of different requests do not overlap, and
  no window holds more than the maximum.
\<close>

definition windows_ok :: "rate_limit_config \<Rightarrow> (nat \<times> nat) list \<Rightarrow> bool" where
  "windows_ok cfg h \<longleftrightarrow>
     (\<forall>(w, t)\<in>set h. w \<le> t \<and> t < w + rl_window cfg)
   \<and> (\<forall>(w, _)\<in>set h. \<forall>(w', _)\<in>set h. w < w' \<longrightarrow> w + rl_window cfg \<le> w')
   \<and> (\<forall>w. in_window w h \<le> unat (max_requests cfg))"

text \<open>
  The entry of the address, if any, accounts for the requests of its window and follows every
  other window; without an entry every window has ended.
\<close>

definition entry_ok ::
  "rate_limit_config \<Rightarrow> nat \<Rightarrow> nat \<Rightarrow> rate_limit_entry option \<Rightarrow> (nat \<times> nat) list \<Rightarrow> bool" where
  "entry_ok cfg t n e h \<longleftrightarrow>
     (case e of
        None \<Rightarrow> (\<forall>(w, _)\<in>set h. w + rl_window cfg \<le> t)
      | Some e \<Rightarrow> re_start e \<le> t \<and> unat (re_count e) \<le> n \<and> in_window (re_start e) h \<le> unat (re_count e)
          \<and> (\<forall>(w, _)\<in>set h. w \<noteq> re_start e \<longrightarrow> w + rl_window cfg \<le> re_start e))"

lemma in_window_0: "(\<And>w' t. (w', t) \<in> set h \<Longrightarrow> w' \<noteq> w) \<Longrightarrow> in_window w h = 0"
  by (force simp: in_window_def filter_empty_conv)

lemma entry_expired:
  assumes "entry_ok cfg t n (Some e) h" "t \<le> now" "0 < rl_window cfg" "rl_window cfg \<le> now - re_start e"
  shows "\<forall>(w, _)\<in>set h. w + rl_window cfg \<le> now"
proof -
  have "w + rl_window cfg \<le> now" if "(w, u) \<in> set h" for w u
    using assms that by (cases "w = re_start e") (fastforce simp: entry_ok_def)+
  then show ?thesis by auto
qed

lemma entry_ok_current:
  assumes "entry_ok cfg t n (es ip) h" and "t \<le> now" and "0 < rl_window cfg"
  shows "entry_ok cfg now n (Some (current_entry cfg now ip es)) h"
    and "now < re_start (current_entry cfg now ip es) + rl_window cfg"
proof -
  show "now < re_start (current_entry cfg now ip es) + rl_window cfg"
    using assms(3) by (auto simp: current_entry_def Let_def split: option.split)
  have fresh: "entry_ok cfg now n (Some e) h" if "re_count e = 0" "re_start e = now"
    "\<forall>(w, _)\<in>set h. w + rl_window cfg \<le> now" for e
  proof -
    have "in_window now h = 0" using that(3) assms(3) by (intro in_window_0) fastforce
    with that show ?thesis by (auto simp: entry_ok_def)
  qed
  show "entry_ok cfg now n (Some (current_entry cfg now ip es)) h"
  proof (cases "es ip")
    case None
    with assms have "\<forall>(w, _)\<in>set h. w + rl_window cfg \<le> now" by (fastforce simp: entry_ok_def)
    with None assms(3) show ?thesis by (intro fresh) (auto simp: current_entry_def)
  next
    case (Some e)
    show ?thesis
    proof (cases "rl_window cfg \<le> now - re_start e")
      case True
      have "\<forall>(w, _)\<in>set h. w + rl_window cfg \<le> now"
        using entry_expired [of cfg t n e h now] Some assms True by simp
      with Some True show ?thesis by (intro fresh) (auto simp: current_entry_def)
    next
      case False
      with Some assms(1,2) show ?thesis by (auto simp: current_entry_def entry_ok_def)
    qed
  qed
qed

lemma word_Suc_unat: "unat c < n \<Longrightarrow> n < 2 ^ 32 \<Longrightarrow> unat (c + 1 :: 32 word) = Suc (unat c)"
  by (simp add: unat_plus_simple unat_word_ariths)

text \<open>The invariant of a run, for as long as the counter cannot have wrapped.\<close>

lemma rate_run_invariant:
  assumes "rate_run cfg ip t n es h" and "n < 2 ^ 32" and W: "0 < rl_window cfg"
  shows "windows_ok cfg h \<and> entry_ok cfg t n (es ip) h"
  using assms(1,2)
proof (induction rule: rate_run.induct)
  case (start t)
  then show ?case by (simp add: windows_ok_def entry_ok_def new_limiter_def in_window_def)
next
  case (allowed t n es h now k es')
  let ?e = "current_entry cfg now ip es"
  from allowed have ok: "windows_ok cfg h" and e: "entry_ok cfg now n (Some ?e) h"
    and lt: "now < re_start ?e + rl_window cfg"
    using entry_ok_current [OF _ _ W] by auto
  from allowed have under: "re_count ?e < max_requests cfg"
    and es': "es' = es(ip \<mapsto> ?e\<lparr>re_count := re_count ?e + 1\<rparr>)"
    by (auto simp: rl_check_def Let_def not_le split: if_splits)
  have c: "unat (re_count ?e + 1) = Suc (unat (re_count ?e))"
    using e allowed.prems by (intro word_Suc_unat [of _ "Suc n"]) (auto simp: entry_ok_def)
  have u: "unat (re_count ?e) < unat (max_requests cfg)" using under by (simp add: word_less_nat_alt)
  have "windows_ok cfg ((re_start ?e, now) # h)"
    using ok e lt u by (fastforce simp: windows_ok_def entry_ok_def in_window_def)
  moreover have "entry_ok cfg now (Suc n) (es' ip) ((re_start ?e, now) # h)"
    using e c by (auto simp: entry_ok_def es' in_window_def)
  ultimately show ?case by (simp add: es')
next
  case (refused t n es h now r es')
  then have "entry_ok cfg now n (Some (current_entry cfg now ip es)) h"
    using entry_ok_current(1) [OF _ _ W] by auto
  with refused show ?case
    by (auto simp: rl_check_def Let_def entry_ok_def split: if_splits)
next
  case (other t n es h now q r es')
  then have "es' ip = es ip" by (auto simp: rl_check_def Let_def split: if_splits)
  with other show ?case by (fastforce simp: entry_ok_def split: option.splits)
next
  case (failure t n es h now q)
  let ?e = "current_entry cfg now ip es"
  show ?case
  proof (cases "q = ip")
    case True
    have e: "entry_ok cfg now n (Some ?e) h" using failure entry_ok_current(1) [OF _ _ W] by auto
    then have "unat (re_count ?e + 1) = Suc (unat (re_count ?e))"
      using failure.prems by (intro word_Suc_unat [of _ "Suc n"]) (auto simp: entry_ok_def)
    with e True failure show ?thesis by (auto simp: record_failure_def entry_ok_def Let_def)
  next
    case False
    with failure show ?thesis by (fastforce simp: record_failure_def entry_ok_def Let_def split: option.splits)
  qed
next
  case (cleanup t n es h now)
  show ?case
  proof (cases "es ip")
    case None
    with cleanup show ?thesis by (fastforce simp: rl_cleanup_def entry_ok_def)
  next
    case (Some e)
    with cleanup have "entry_ok cfg t n (Some e) h" "windows_ok cfg h" by auto
    then show ?thesis
      using Some entry_expired [of cfg t n e h now] cleanup W
      by (fastforce simp: rl_cleanup_def entry_ok_def not_less)
  qed
qed

lemma same_window_count:
  assumes "windows_ok cfg h" and "\<forall>e\<in>set h. \<forall>e'\<in>set h. P e \<longrightarrow> P e' \<longrightarrow> fst e = fst e'"
  shows "length (filter P h) \<le> unat (max_requests cfg)"
proof (cases "filter P h")
  case (Cons e0 xs)
  then have "e0 \<in> set (filter P h)" by simp
  then have e0: "e0 \<in> set h" "P e0" by simp_all
  have same: "fst e = fst e0" if "e \<in> set h" "P e" for e
    using assms(2) e0 that by blast
  then have "length (filter P h) \<le> in_window (fst e0) h"
    unfolding in_window_def by (induction h) auto
  also have "\<dots> \<le> unat (max_requests cfg)" using assms(1) by (simp add: windows_ok_def)
  finally show ?thesis .
qed simp

text \<open>
  C18. The limiter bounds the rate of every address: in any run on a monotone clock, with any
  mix of checks, recorded failures and cleanups, and as long as fewer than 2^32 events have
  occurred, at most \<open>max_requests\<close> requests of an address are allowed in each of its windows and
  at most twice that in any stretch of time of one window's length.
\<close>

theorem rate_limit_bound:
  assumes "rate_run cfg ip t n es h" and "n < 2 ^ 32" and "0 < rl_window cfg"
  shows "length (filter (\<lambda>e. fst e = w) h) \<le> unat (max_requests cfg)
     \<and> length (filter (\<lambda>e. a \<le> snd e \<and> snd e < a + rl_window cfg) h) \<le> 2 * unat (max_requests cfg)"
proof
  have ok: "windows_ok cfg h" using rate_run_invariant [OF assms] by simp
  then show "length (filter (\<lambda>e. fst e = w) h) \<le> unat (max_requests cfg)"
    by (simp add: windows_ok_def in_window_def)
  let ?P = "\<lambda>e. a \<le> snd e \<and> snd e < a + rl_window cfg"
  let ?early = "\<lambda>e. ?P e \<and> fst e \<le> a" and ?late = "\<lambda>e. ?P e \<and> \<not> fst e \<le> a"
  have sep: "fst e = fst e'" if "e \<in> set h" "e' \<in> set h"
    "fst e < fst e' + rl_window cfg" "fst e' < fst e + rl_window cfg" for e e'
    using ok that by (cases "fst e < fst e'"; cases "fst e' < fst e") (fastforce simp: windows_ok_def)+
  have inside: "fst e \<le> snd e \<and> snd e < fst e + rl_window cfg" if "e \<in> set h" for e
    using ok that by (auto simp: windows_ok_def)
  have "length (filter ?early h) \<le> unat (max_requests cfg)"
    by (rule same_window_count [OF ok]) (use inside in \<open>fastforce intro!: sep\<close>)
  moreover have "length (filter ?late h) \<le> unat (max_requests cfg)"
    by (rule same_window_count [OF ok]) (use inside in \<open>fastforce intro!: sep\<close>)
  moreover have "length (filter ?P h) = length (filter ?early h) + length (filter ?late h)"
    using sum_length_filter_compl [of "\<lambda>e. fst e \<le> a" "filter ?P h"] by (simp add: conj_commute)
  ultimately show "length (filter ?P h) \<le> 2 * unat (max_requests cfg)" by simp
qed

definition demo_ip :: ip_addr where
  "demo_ip = V4 0x7F000001"

definition demo_limit :: rate_limit_config where
  "demo_limit = \<lparr>max_requests = 1, rl_window = 60\<rparr>"

lemma demo_rate_run: "rate_run demo_limit demo_ip 105 2
   (new_limiter(demo_ip \<mapsto> \<lparr>re_count = 1, re_start = 100\<rparr>)) [(100, 100)]"
proof -
  let ?es = "new_limiter(demo_ip \<mapsto> \<lparr>re_count = 1, re_start = 100\<rparr>)"
  have "rl_check demo_limit 100 demo_ip new_limiter = (Inr 0, ?es)"
    by (simp add: rl_check_def current_entry_def demo_limit_def new_limiter_def)
  from rate_run.allowed [OF rate_run.start _ this, of 0]
  have "rate_run demo_limit demo_ip 100 1 ?es [(100, 100)]" by simp
  moreover have "rl_check demo_limit 105 demo_ip ?es = (Inl 55, ?es)"
    by (simp add: rl_check_def current_entry_def demo_limit_def)
  ultimately show ?thesis
    using rate_run.refused [of demo_limit demo_ip 100 1 ?es] by (simp add: numeral_2_eq_2)
qed

theorem rate_limit_bound_witness: "length (filter (\<lambda>e. fst e = 100) [(100::nat, 100::nat)]) \<le> 1"
  using rate_limit_bound [OF demo_rate_run, of 100] by (simp add: demo_limit_def)

text \<open>
  A refused client is told how long to wait, and the wait is honest: the announced delay is
  positive and no longer than the window, and the first request of the address after the delay
  (with no request of it in between) is allowed.
\<close>

theorem rate_limit_retry_after:
  assumes "rl_check cfg now ip es = (Inl wait, es')" and "0 < max_requests cfg" and "0 < rl_window cfg"
    and "re_start (current_entry cfg now ip es) \<le> now" and "now + wait \<le> later"
  shows "0 < wait \<and> wait \<le> rl_window cfg
     \<and> rl_check cfg later ip es' = (Inr (max_requests cfg - 1), es'(ip \<mapsto> \<lparr>re_count = 1, re_start = later\<rparr>))"
proof -
  let ?e = "current_entry cfg now ip es"
  have es': "es' = es(ip \<mapsto> ?e)" and wait: "wait = rl_window cfg - (now - re_start ?e)"
    using assms(1) by (auto simp: rl_check_def Let_def split: if_splits)
  have lt: "now - re_start ?e < rl_window cfg"
    using assms(3) by (auto simp: current_entry_def Let_def split: option.split)
  then have "current_entry cfg later ip es' = \<lparr>re_count = 0, re_start = later\<rparr>"
    using wait assms(4,5) by (cases ?e) (auto simp: current_entry_def es' Let_def)
  then show ?thesis
    using wait lt assms(2) by (simp add: rl_check_def not_le word_greater_zero_iff linorder_not_le)
qed

theorem rate_limit_retry_after_witness:
  "0 < (55 :: nat) \<and> rl_check demo_limit 160 demo_ip (new_limiter(demo_ip \<mapsto> \<lparr>re_count = 1, re_start = 100\<rparr>))
     = (Inr 0, new_limiter(demo_ip \<mapsto> \<lparr>re_count = 1, re_start = 160\<rparr>))"
proof -
  let ?es = "new_limiter(demo_ip \<mapsto> \<lparr>re_count = 1, re_start = 100\<rparr>)"
  have "rl_check demo_limit 105 demo_ip ?es = (Inl 55, ?es)"
    by (simp add: rl_check_def current_entry_def demo_limit_def)
  from rate_limit_retry_after [OF this, of 160] show ?thesis
    by (simp add: demo_limit_def current_entry_def)
qed

text \<open>
  The periodic cleanup is invisible: at every later time a check gives the same answer, and
  leaves the same entry for the checked address, whether or not the cleanup ran.
\<close>

theorem rate_limit_cleanup_invisible:
  assumes "now \<le> later" and "0 < rl_window cfg"
  shows "fst (rl_check cfg later ip (rl_cleanup cfg now es)) = fst (rl_check cfg later ip es)
     \<and> snd (rl_check cfg later ip (rl_cleanup cfg now es)) ip = snd (rl_check cfg later ip es) ip"
proof -
  have "current_entry cfg later ip (rl_cleanup cfg now es) = current_entry cfg later ip es"
    using assms by (cases "es ip") (auto simp: current_entry_def rl_cleanup_def)
  then show ?thesis by (simp add: rl_check_def Let_def)
qed

theorem rate_limit_cleanup_invisible_witness:
  "fst (rl_check demo_limit 170 demo_ip (rl_cleanup demo_limit 165 (new_limiter(demo_ip \<mapsto> \<lparr>re_count = 1, re_start = 100\<rparr>))))
     = fst (rl_check demo_limit 170 demo_ip (new_limiter(demo_ip \<mapsto> \<lparr>re_count = 1, re_start = 100\<rparr>)))"
  using rate_limit_cleanup_invisible [of 165 170 demo_limit] by (simp add: demo_limit_def)

end
