(* ===== verification/Http.thy ===== *)
theory Http
  imports Token_Browser Audit_Log Rate_Limit Demo
begin

text \<open>
  \<open>lib.rs\<close>, \<open>handlers/mod.rs\<close>, \<open>auth_middleware.rs\<close> and \<open>browser_security.rs\<close>: the state shared
  by the handlers, requests and responses, cookies, the authenticated-user extractors and the
  browser protection in front of every route.
\<close>

section \<open>Headers\<close>

text \<open>A header map: lower-case names with their values in order of arrival.\<close>

type_synonym headers = "(string \<times> string) list"

text \<open>\<open>HeaderValue::to_str\<close> accepts visible ASCII, space and tab.\<close>

definition visible_ascii :: "char \<Rightarrow> bool" where
  "visible_ascii c \<longleftrightarrow> 32 \<le> byte c \<and> byte c < 127 \<or> byte c = 9"

definition to_str :: "string \<Rightarrow> string option" where
  "to_str v = (if list_all visible_ascii v then Some v else None)"

text \<open>\<open>HeaderValue::from_str\<close> also accepts bytes above ASCII.\<close>

definition valid_header_byte :: "char \<Rightarrow> bool" where
  "valid_header_byte c \<longleftrightarrow> 32 \<le> byte c \<and> byte c \<noteq> 127 \<or> byte c = 9"

definition header_value :: "string \<Rightarrow> string option" where
  "header_value s = (if list_all valid_header_byte s then Some s else None)"

definition h_get_all :: "string \<Rightarrow> headers \<Rightarrow> string list" where
  "h_get_all k hs = map snd (filter (\<lambda>h. fst h = k) hs)"

definition h_get :: "string \<Rightarrow> headers \<Rightarrow> string option" where
  "h_get k hs = (case h_get_all k hs of [] \<Rightarrow> None | v # _ \<Rightarrow> Some v)"

definition h_insert :: "string \<Rightarrow> string \<Rightarrow> headers \<Rightarrow> headers" where
  "h_insert k v hs = filter (\<lambda>h. fst h \<noteq> k) hs @ [(k, v)]"

definition h_append :: "string \<Rightarrow> string \<Rightarrow> headers \<Rightarrow> headers" where
  "h_append k v hs = hs @ [(k, v)]"

lemma h_get_all_insert:
  "h_get_all k (h_insert k' v hs) = (if k = k' then [v] else h_get_all k hs)"
  by (auto simp: h_get_all_def h_insert_def filter_empty_conv intro!: arg_cong [of _ _ "map snd"] filter_cong)

lemma h_get_insert: "h_get k (h_insert k' v hs) = (if k = k' then Some v else h_get k hs)"
  by (simp add: h_get_def h_get_all_insert)

lemma h_get_all_append:
  "h_get_all k (h_append k' v hs) = h_get_all k hs @ (if k = k' then [v] else [])"
  by (simp add: h_get_all_def h_append_def)

section \<open>Requests and responses\<close>

record request =
  rq_method :: string
  rq_path :: string
  rq_headers :: headers

text \<open>The body's kind determines the content type that the framework adds.\<close>

datatype body = NoBody | Text string | Html string | Json json

record response =
  rs_status :: nat
  rs_headers :: headers
  rs_body :: body

definition plain :: "nat \<Rightarrow> headers \<Rightarrow> body \<Rightarrow> response" where
  "plain st hs b = \<lparr>rs_status = st, rs_headers = hs, rs_body = b\<rparr>"

text \<open>\<open>AppError\<close> as a response.\<close>

definition app_error_response :: "app_error \<Rightarrow> response" where
  "app_error_response e = (case error_response e of (st, msg) \<Rightarrow> plain st [] (Text msg))"

text \<open>
  A status with an array of header pairs: each value must be a valid header value, otherwise
  the response is an internal error.
\<close>

definition header_array_response :: "nat \<Rightarrow> headers \<Rightarrow> response" where
  "header_array_response st hs =
     (if list_all (\<lambda>h. header_value (snd h) \<noteq> None) hs
      then plain st (foldl (\<lambda>acc h. h_insert (fst h) (snd h) acc) [] hs) NoBody
      else plain 500 [] (Text ''failed to parse header value''))"

section \<open>Shared state\<close>

text \<open>
  \<open>AppState\<close>: the database and the four limiters change; the rest is fixed per process. The
  environment of one request adds the clocks and the random values drawn while it is handled.
\<close>

record app_state =
  st_db :: db
  st_login_limiter :: rate_entries
  st_register_limiter :: rate_entries
  st_ldap_bind_limiter :: rate_entries
  st_oidc_token_limiter :: rate_entries

record env =
  ev_ext :: externals
  ev_key :: skey
  ev_kid :: string
  ev_origin :: string
  ev_login_limit :: rate_limit_config
  ev_register_limit :: rate_limit_config
  ev_ldap_bind_limit :: rate_limit_config
  ev_oidc_token_limit :: rate_limit_config
  ev_key_secret :: "string option"
  ev_totp_issuer :: "string option"
  ev_sock :: "string \<Rightarrow> string + string"
  ev_now :: int
  ev_instant :: nat
  ev_mint :: mint
  ev_draws :: "nat list"
  ev_uuid :: "nat \<Rightarrow> uuid"
  ev_random :: "nat \<Rightarrow> string"

type_synonym ('e, 'a) state_op = "(app_state, 'e, 'a) op"

text \<open>A database operation run by a handler.\<close>

definition on_db :: "(db, 'e, 'a) op \<Rightarrow> ('e, 'a) state_op" where
  "on_db m = (\<lambda>s. case m (st_db s) of (r, d) \<Rightarrow> (r, s\<lparr>st_db := d\<rparr>))"

definition check_login_limit :: "env \<Rightarrow> ip_addr \<Rightarrow> (nat, 32 word) state_op" where
  "check_login_limit e ip = (\<lambda>s.
     case rl_check (ev_login_limit e) (ev_instant e) ip (st_login_limiter s) of
       (r, l) \<Rightarrow> (r, s\<lparr>st_login_limiter := l\<rparr>))"

definition check_register_limit :: "env \<Rightarrow> ip_addr \<Rightarrow> (nat, 32 word) state_op" where
  "check_register_limit e ip = (\<lambda>s.
     case rl_check (ev_register_limit e) (ev_instant e) ip (st_register_limiter s) of
       (r, l) \<Rightarrow> (r, s\<lparr>st_register_limiter := l\<rparr>))"

definition check_ldap_bind_limit :: "env \<Rightarrow> ip_addr \<Rightarrow> (nat, 32 word) state_op" where
  "check_ldap_bind_limit e ip = (\<lambda>s.
     case rl_check (ev_ldap_bind_limit e) (ev_instant e) ip (st_ldap_bind_limiter s) of
       (r, l) \<Rightarrow> (r, s\<lparr>st_ldap_bind_limiter := l\<rparr>))"

definition check_oidc_token_limit :: "env \<Rightarrow> ip_addr \<Rightarrow> (nat, 32 word) state_op" where
  "check_oidc_token_limit e ip = (\<lambda>s.
     case rl_check (ev_oidc_token_limit e) (ev_instant e) ip (st_oidc_token_limiter s) of
       (r, l) \<Rightarrow> (r, s\<lparr>st_oidc_token_limiter := l\<rparr>))"

text \<open>Saving an audit entry, the \<open>n\<close>-th of the request, and ignoring its outcome.\<close>

definition note_audit :: "env \<Rightarrow> nat \<Rightarrow> audit_entry \<Rightarrow> (db, 'e, unit) op" where
  "note_audit e n entry = audited (ev_ext e) (ev_uuid e n) (ev_now e) entry"

section \<open>Cookies and redirects\<close>

definition AUTH_COOKIE_NAME :: string where "AUTH_COOKIE_NAME = ''__Host-authere_token''"
definition REFRESH_COOKIE_NAME :: string where "REFRESH_COOKIE_NAME = ''__Host-authere_refresh''"

text \<open>The texts \<open>location\<close>, \<open>cookie\<close> and so on are header names.\<close>

definition is_local_redirect :: "string \<Rightarrow> bool" where
  "is_local_redirect path \<longleftrightarrow>
     prefix ''/'' path \<and> \<not> prefix ''//'' path \<and> CHR 0x5C \<notin> set path
   \<and> \<not> list_ex is_control (chars path)"

definition build_auth_cookie :: "string \<Rightarrow> int \<Rightarrow> string" where
  "build_auth_cookie tok max_age_secs =
     AUTH_COOKIE_NAME @ ''='' @ tok @ ''; HttpOnly; Secure; SameSite=Lax; Path=/; Max-Age='' @ show_int max_age_secs"

definition build_refresh_cookie :: "string \<Rightarrow> int \<Rightarrow> string" where
  "build_refresh_cookie tok max_age_secs =
     REFRESH_COOKIE_NAME @ ''='' @ tok @ ''; HttpOnly; Secure; SameSite=Lax; Path=/; Max-Age='' @ show_int max_age_secs"

definition clear_auth_cookies :: "string list" where
  "clear_auth_cookies =
     [AUTH_COOKIE_NAME @ ''=; HttpOnly; Secure; SameSite=Lax; Path=/; Max-Age=0'',
      REFRESH_COOKIE_NAME @ ''=; HttpOnly; Secure; SameSite=Lax; Path=/; Max-Age=0'']"

text \<open>
  The first cookie of the first Cookie header with this prefix. Header values that are not
  visible ASCII do not decode.
\<close>

definition first_cookie :: "string \<Rightarrow> headers \<Rightarrow> string option" where
  "first_cookie pre hs =
     (case h_get ''cookie'' hs of
        None \<Rightarrow> None
      | Some v \<Rightarrow> (case to_str v of
          None \<Rightarrow> None
        | Some cookies \<Rightarrow>
            (case find (prefix pre) (map trim (split_char CHR '';'' cookies)) of
               None \<Rightarrow> None
             | Some s \<Rightarrow> strip_prefix pre s)))"

section \<open>Authenticated users\<close>

definition extract_token :: "headers \<Rightarrow> string option" where
  "extract_token hs =
     (case (case h_get ''authorization'' hs of
              None \<Rightarrow> None
            | Some v \<Rightarrow> (case to_str v of None \<Rightarrow> None | Some s \<Rightarrow> strip_prefix ''Bearer '' s)) of
        Some bearer \<Rightarrow> Some bearer
      | None \<Rightarrow> first_cookie ''__Host-authere_token='' hs)"

record auth_user =
  au_user_id :: uuid
  au_roles :: "string list"

definition has_role :: "string \<Rightarrow> auth_user \<Rightarrow> bool" where
  "has_role role a \<longleftrightarrow> list_ex (\<lambda>r. r = role) (au_roles a)"

definition is_admin :: "auth_user \<Rightarrow> bool" where
  "is_admin a \<longleftrightarrow> has_role ROLE_ADMIN a"

definition require_auth :: "env \<Rightarrow> headers \<Rightarrow> auth_user db_op" where
  "require_auth e hs =
     bind_op (ok_or_op AuthenticationRequired (extract_token hs)) (\<lambda>tok.
     bind_op (verify_access_token (ev_ext e) (ev_key e) (ev_now e) tok) (\<lambda>claims.
     bind_op (ok_or_op (InternalError ''Invalid user ID in token'') (x_uuid_parse (ev_ext e) (c_sub claims)))
       (\<lambda>user_id. ret_op \<lparr>au_user_id = user_id, au_roles = c_roles claims\<rparr>)))"

definition require_admin :: "env \<Rightarrow> headers \<Rightarrow> auth_user db_op" where
  "require_admin e hs =
     bind_op (require_auth e hs) (\<lambda>a.
     bind_op (require_op (is_admin a) Forbidden) (\<lambda>_. ret_op a))"

section \<open>Browser protection\<close>

definition safe_method :: "string \<Rightarrow> bool" where
  "safe_method m \<longleftrightarrow> m = ''GET'' \<or> m = ''HEAD'' \<or> m = ''OPTIONS''"

definition origin_allowed :: "string list \<Rightarrow> headers \<Rightarrow> bool" where
  "origin_allowed allowed hs =
     (case h_get ''origin'' hs of
        Some v \<Rightarrow> (case to_str v of
            None \<Rightarrow> False
          | Some origin \<Rightarrow> origin \<noteq> ''null'' \<and> list_ex (\<lambda>a. a = origin) allowed)
      | None \<Rightarrow> (case h_get ''sec-fetch-site'' hs of
            None \<Rightarrow> True
          | Some v \<Rightarrow> v = ''same-origin'' \<or> v = ''none''))"

definition sensitive_path :: "string \<Rightarrow> bool" where
  "sensitive_path p \<longleftrightarrow> prefix ''/api/'' p \<or> prefix ''/oauth/'' p \<or> prefix ''/.authere/'' p"

definition protective_headers :: "bool \<Rightarrow> headers \<Rightarrow> headers" where
  "protective_headers sensitive hs =
     (let h1 = h_insert ''x-content-type-options'' ''nosniff'' hs;
          h2 = h_insert ''x-frame-options'' ''DENY'' h1;
          h3 = h_insert ''referrer-policy'' ''no-referrer'' h2
      in if sensitive then h_insert ''pragma'' ''no-cache'' (h_insert ''cache-control'' ''no-store'' h3) else h3)"

definition protect_browser_requests ::
  "string list \<Rightarrow> (request \<Rightarrow> 's \<Rightarrow> response \<times> 's) \<Rightarrow> request \<Rightarrow> 's \<Rightarrow> response \<times> 's" where
  "protect_browser_requests allowed next rq s =
     (let oidc_logout = (rq_method rq = ''POST'' \<and> rq_path rq = ''/oauth/end_session'') in
      if \<not> safe_method (rq_method rq) \<and> \<not> oidc_logout \<and> \<not> origin_allowed allowed (rq_headers rq)
      then (plain 403 [] (Text ''Untrusted request origin''), s)
      else case next rq s of (rs, s') \<Rightarrow>
             (rs\<lparr>rs_headers := protective_headers (sensitive_path (rq_path rq)) (rs_headers rs)\<rparr>, s'))"

section \<open>Facts\<close>

lemma on_db_apply: "on_db m s = (fst (m (st_db s)), s\<lparr>st_db := snd (m (st_db s))\<rparr>)"
  by (simp add: on_db_def split: prod.split)

text \<open>The extractors read the database only, and succeed exactly for a live session.\<close>

lemma require_auth_Inr:
  "require_auth e hs d = (Inr a, d') \<longleftrightarrow>
     d' = d \<and> (\<exists>tok c. extract_token hs = Some tok
        \<and> access_live (ev_ext e) (ev_key e) (ev_now e) tok c (au_user_id a) d
        \<and> au_roles a = user_get_roles (au_user_id a) d)"
proof
  assume "require_auth e hs d = (Inr a, d')"
  then obtain tok c where t: "extract_token hs = Some tok"
    and v: "verify_access_token (ev_ext e) (ev_key e) (ev_now e) tok d = (Inr c, d')"
    and a: "x_uuid_parse (ev_ext e) (c_sub c) = Some (au_user_id a)" "au_roles a = c_roles c"
    by (auto simp: require_auth_def op_results)
  from v obtain c0 u where d: "d' = d" and c: "access_live (ev_ext e) (ev_key e) (ev_now e) tok c0 u d"
    "c = c0\<lparr>c_roles := user_get_roles u d\<rparr>" by (auto simp: verify_access_token_Inr)
  then have "u = au_user_id a" using a(1) by (auto simp: access_live_def)
  then show "d' = d \<and> (\<exists>tok c. extract_token hs = Some tok
        \<and> access_live (ev_ext e) (ev_key e) (ev_now e) tok c (au_user_id a) d
        \<and> au_roles a = user_get_roles (au_user_id a) d)"
    using t d c a(2) by auto
next
  assume "d' = d \<and> (\<exists>tok c. extract_token hs = Some tok
        \<and> access_live (ev_ext e) (ev_key e) (ev_now e) tok c (au_user_id a) d
        \<and> au_roles a = user_get_roles (au_user_id a) d)"
  then obtain tok c where t: "extract_token hs = Some tok" and d: "d' = d"
    and c: "access_live (ev_ext e) (ev_key e) (ev_now e) tok c (au_user_id a) d"
    and r: "au_roles a = user_get_roles (au_user_id a) d" by auto
  have "verify_access_token (ev_ext e) (ev_key e) (ev_now e) tok d
      = (Inr (c\<lparr>c_roles := user_get_roles (au_user_id a) d\<rparr>), d)"
    using c by (auto simp: verify_access_token_Inr)
  moreover have "x_uuid_parse (ev_ext e) (c_sub c) = Some (au_user_id a)"
    using c by (simp add: access_live_def)
  ultimately show "require_auth e hs d = (Inr a, d')"
    using t d r by (simp add: require_auth_def bind_op_def ok_or_op_def)
qed

lemma readonly_require_auth [simp]: "snd (require_auth e hs d) = d"
proof -
  have "keeps (\<lambda>s t. t = s) (require_auth e hs)"
    unfolding require_auth_def by (intro readonly.keeps_rules readonly.keeps_pure) simp
  then show ?thesis by (simp add: keeps_def)
qed

lemma readonly_require_admin [simp]: "snd (require_admin e hs d) = d"
proof -
  have "keeps (\<lambda>s t. t = s) (require_admin e hs)"
    unfolding require_admin_def by (intro readonly.keeps_rules readonly.keeps_pure) simp
  then show ?thesis by (simp add: keeps_def)
qed

section \<open>Properties\<close>

text \<open>
  Administrative access is decided by the present: a request passes the administrator check
  exactly when it carries a token whose session is live (signature, expiry, revocation and
  session generation all checked) and the database now assigns its user the role \<open>admin\<close>; the
  roles written into the token do not count. The check itself changes nothing.
\<close>

theorem admin_access_current:
  "require_admin e hs d = (Inr a, d') \<longleftrightarrow>
     d' = d \<and> (\<exists>tok c. extract_token hs = Some tok
        \<and> access_live (ev_ext e) (ev_key e) (ev_now e) tok c (au_user_id a) d
        \<and> au_roles a = user_get_roles (au_user_id a) d
        \<and> ''admin'' \<in> set (user_get_roles (au_user_id a) d))"
proof -
  have "is_admin a \<longleftrightarrow> ''admin'' \<in> set (au_roles a)"
    by (auto simp: is_admin_def has_role_def ROLE_ADMIN_def list_ex_iff)
  moreover have "require_admin e hs d = (Inr a, d') \<longleftrightarrow> require_auth e hs d = (Inr a, d') \<and> is_admin a"
    by (auto simp: require_admin_def op_results)
  ultimately show ?thesis by (auto simp: require_auth_Inr)
qed

text \<open>
  C31. A page of a foreign origin cannot change anything: a request with a state-changing method,
  other than a logout started by a relying party, whose Origin header is not on the list is
  answered with 403 before any handler runs, whatever its cookies say; so is one without Origin
  that the browser marks as coming from another site. The origin \<open>null\<close> is never accepted.
\<close>

theorem cross_origin_writes_blocked:
  assumes "rq_method rq \<notin> {''GET'', ''HEAD'', ''OPTIONS''}"
    and "\<not> (rq_method rq = ''POST'' \<and> rq_path rq = ''/oauth/end_session'')"
    and "(\<exists>org. h_get ''origin'' (rq_headers rq) = Some org \<and> (org \<notin> set allowed \<or> org = ''null''))
       \<or> h_get ''origin'' (rq_headers rq) = None
         \<and> (\<exists>v. h_get ''sec-fetch-site'' (rq_headers rq) = Some v \<and> v \<notin> {''same-origin'', ''none''})"
  shows "protect_browser_requests allowed next rq s = (plain 403 [] (Text ''Untrusted request origin''), s)"
proof -
  have "\<not> origin_allowed allowed (rq_headers rq)"
    using assms(3) by (auto simp: origin_allowed_def to_str_def list_ex_iff split: option.split)
  then show ?thesis using assms(1,2) by (simp add: protect_browser_requests_def safe_method_def Let_def)
qed

theorem cross_origin_writes_blocked_witness:
  "protect_browser_requests [''https://auth.example''] (\<lambda>rq s. (plain 204 [] NoBody, s + (1 :: nat)))
     \<lparr>rq_method = ''POST'', rq_path = ''/api/auth/browser-logout'',
      rq_headers = [(''cookie'', ''__Host-authere_refresh=t''), (''origin'', ''https://evil.example'')]\<rparr> 0
   = (plain 403 [] (Text ''Untrusted request origin''), 0)"
  by (rule cross_origin_writes_blocked) (simp_all add: h_get_def h_get_all_def)

lemma protective_headers_all:
  "h_get_all ''x-content-type-options'' (protective_headers b hs) = [''nosniff'']"
  "h_get_all ''x-frame-options'' (protective_headers b hs) = [''DENY'']"
  "h_get_all ''referrer-policy'' (protective_headers b hs) = [''no-referrer'']"
  "b \<Longrightarrow> h_get_all ''cache-control'' (protective_headers b hs) = [''no-store'']"
  "k \<notin> {''x-content-type-options'', ''x-frame-options'', ''referrer-policy'', ''cache-control'', ''pragma''}
     \<Longrightarrow> h_get_all k (protective_headers b hs) = h_get_all k hs"
  by (simp_all add: protective_headers_def Let_def h_get_all_insert)

lemma safe_requests_pass:
  "safe_method (rq_method rq) \<or> origin_allowed allowed (rq_headers rq) \<Longrightarrow>
     snd (protect_browser_requests allowed next rq s) = snd (next rq s)
   \<and> rs_status (fst (protect_browser_requests allowed next rq s)) = rs_status (fst (next rq s))"
  by (auto simp: protect_browser_requests_def Let_def split: prod.split)

section \<open>A concrete environment\<close>

definition demo_env :: env where
  "demo_env = \<lparr>ev_ext = ref_ext, ev_key = [], ev_kid = ''kid'', ev_origin = ''https://auth.example'',
     ev_login_limit = default_rate_limit_config, ev_register_limit = default_rate_limit_config,
     ev_ldap_bind_limit = default_rate_limit_config, ev_oidc_token_limit = default_rate_limit_config,
     ev_key_secret = Some (replicate 32 CHR ''0''), ev_totp_issuer = None, ev_sock = Inr, ev_now = 1500,
     ev_instant = 0, ev_mint = demo_mint2, ev_draws = replicate 24 0, ev_uuid = (\<lambda>n. 100 + n), ev_random = (\<lambda>n. ''random'')\<rparr>"

definition demo_state :: app_state where
  "demo_state = \<lparr>st_db = demo_session, st_login_limiter = new_limiter, st_register_limiter = new_limiter,
     st_ldap_bind_limiter = new_limiter, st_oidc_token_limiter = new_limiter\<rparr>"

lemma demo_env_sel [simp]:
  "ev_ext demo_env = ref_ext" "ev_key demo_env = []" "ev_kid demo_env = ''kid''"
  "ev_origin demo_env = ''https://auth.example''" "ev_now demo_env = 1500" "ev_instant demo_env = 0"
  "ev_mint demo_env = demo_mint2" "ev_uuid demo_env n = 100 + n" "ev_random demo_env n = ''random''"
  "ev_sock demo_env = Inr" "ev_login_limit demo_env = default_rate_limit_config"
  "ev_register_limit demo_env = default_rate_limit_config"
  "ev_ldap_bind_limit demo_env = default_rate_limit_config"
  "ev_oidc_token_limit demo_env = default_rate_limit_config"
  "ev_key_secret demo_env = Some (replicate 32 CHR ''0'')" "ev_totp_issuer demo_env = None"
  by (simp_all add: demo_env_def)

lemma demo_state_sel [simp]: "st_db demo_state = demo_session"
  by (simp add: demo_state_def)

end
