(* ===== verification/Totp_Factor.thy ===== *)
theory Totp_Factor
  imports Tokens Statements Demo "HOL-Library.Word"
begin

unbundle bit_operations_syntax

text \<open>
  \<open>user/auth/totp.rs\<close>: time-based one-time codes, the encrypted secret, recovery codes and the
  database operations of the second factor.
\<close>

section \<open>Codes\<close>

definition TOTP_DIGITS :: nat where "TOTP_DIGITS = 6"
definition TOTP_PERIOD :: int where "TOTP_PERIOD = 30"
definition RECOVERY_CODE_COUNT :: nat where "RECOVERY_CODE_COUNT = 10"
definition RECOVERY_CODE_LEN :: nat where "RECOVERY_CODE_LEN = 10"

definition BASE32_ALPHABET :: string where
  "BASE32_ALPHABET = ''ABCDEFGHIJKLMNOPQRSTUVWXYZ234567''"

definition u32_of_byte :: "char \<Rightarrow> 32 word" where
  "u32_of_byte c = word_of_nat (byte c)"

definition base32_char :: "32 word \<Rightarrow> char" where
  "base32_char v = BASE32_ALPHABET ! unat (v AND 0x1f)"

text \<open>The inner \<open>while bits >= 5\<close>: the remaining bits and the characters pushed.\<close>

function base32_drain :: "32 word \<Rightarrow> nat \<Rightarrow> nat \<times> string" where
  "base32_drain buf bits =
     (if 5 \<le> bits
      then (case base32_drain buf (bits - 5) of
              (r, out) \<Rightarrow> (r, base32_char (drop_bit (bits - 5) buf) # out))
      else (bits, []))"
  by pat_completeness auto
termination
  by (relation "measure snd") auto

declare base32_drain.simps [simp del]

fun base32_loop :: "32 word \<Rightarrow> nat \<Rightarrow> string \<Rightarrow> string" where
  "base32_loop buf bits [] =
     (if 0 < bits then [base32_char (push_bit (5 - bits) buf)] else [])"
| "base32_loop buf bits (b # bs) =
     (let buf' = push_bit 8 buf OR u32_of_byte b
      in case base32_drain buf' (bits + 8) of (bits', out) \<Rightarrow> out @ base32_loop buf' bits' bs)"

definition encode_base32 :: "string \<Rightarrow> string" where
  "encode_base32 bs = base32_loop 0 0 bs"

definition build_otpauth_uri :: "externals \<Rightarrow> string \<Rightarrow> string \<Rightarrow> string \<Rightarrow> string" where
  "build_otpauth_uri x issuer account secret =
     (let issuer_enc = x_url_encode x issuer; account_enc = x_url_encode x account
      in ''otpauth://totp/'' @ issuer_enc @ '':'' @ account_enc @ ''?secret='' @ encode_base32 secret
         @ ''&issuer='' @ issuer_enc @ ''&algorithm=SHA1&digits='' @ show_nat TOTP_DIGITS
         @ ''&period='' @ show_int TOTP_PERIOD)"

definition be_bytes64 :: "int \<Rightarrow> string" where
  "be_bytes64 n = map (\<lambda>i. char_of (nat (n div 256 ^ i mod 256))) [7, 6, 5, 4, 3, 2, 1, 0]"

text \<open>The HMAC-SHA1 digest has 20 bytes, so the offset leaves room for four of them.\<close>

definition hotp :: "externals \<Rightarrow> string \<Rightarrow> int \<Rightarrow> 32 word" where
  "hotp x secret counter =
     (let result = x_hmac_sha1 x secret (be_bytes64 counter);
          offset = unat (u32_of_byte (result ! 19) AND 0x0f);
          code = push_bit 24 (u32_of_byte (result ! offset) AND 0x7f)
               OR push_bit 16 (u32_of_byte (result ! (offset + 1)))
               OR push_bit 8 (u32_of_byte (result ! (offset + 2)))
               OR u32_of_byte (result ! (offset + 3))
      in code mod 10 ^ TOTP_DIGITS)"

text \<open>The loop over the steps -1, 0, +1.\<close>

fun match_step :: "externals \<Rightarrow> string \<Rightarrow> 32 word \<Rightarrow> int \<Rightarrow> int option \<Rightarrow> int list \<Rightarrow> int option" where
  "match_step x secret code current used [] = None"
| "match_step x secret code current used (delta # ds) =
     (let step = current + delta in
      if step < 0 then match_step x secret code current used ds
      else if (case used of Some l \<Rightarrow> step \<le> l | None \<Rightarrow> False) then match_step x secret code current used ds
      else if hotp x secret step = code then Some step
      else match_step x secret code current used ds)"

definition verify_code :: "externals \<Rightarrow> string \<Rightarrow> string \<Rightarrow> int \<Rightarrow> int option \<Rightarrow> int option" where
  "verify_code x secret code_str now last_used_step =
     (let trimmed = trim code_str in
      if length trimmed \<noteq> TOTP_DIGITS \<or> \<not> list_all is_ascii_digit trimmed then None
      else case parse_digits trimmed of
          None \<Rightarrow> None
        | Some code \<Rightarrow>
            (if 10 ^ TOTP_DIGITS \<le> code then None
             else if now < 0 then None
             else match_step x secret (word_of_nat code) (now div TOTP_PERIOD) last_used_step [-1, 0, 1]))"

section \<open>The secret at rest\<close>

text \<open>The file has its own copy of the key lookup, with other messages.\<close>

definition totp_get_kek :: "externals \<Rightarrow> string option \<Rightarrow> string result" where
  "totp_get_kek x secret =
     (case secret of
        None \<Rightarrow> Inl (InternalError ''AUTHERE_KEY_SECRET environment variable is required'')
      | Some s \<Rightarrow> (case x_hex_decode x (trim s) of
          None \<Rightarrow> Inl (InternalError ''AUTHERE_KEY_SECRET must be hex-encoded'')
        | Some bs \<Rightarrow> (if length bs = 32 then Inr bs
                     else Inl (InternalError ''AUTHERE_KEY_SECRET must be 32 bytes''))))"

definition encrypt_secret :: "externals \<Rightarrow> string option \<Rightarrow> string \<Rightarrow> string \<Rightarrow> string result" where
  "encrypt_secret x env nonce secret =
     (case totp_get_kek x env of
        Inl e \<Rightarrow> Inl e
      | Inr kek \<Rightarrow> (case x_aead_encrypt x kek nonce secret of
          None \<Rightarrow> Inl (InternalError ''TOTP secret encryption failed: aead::Error'')
        | Some ct \<Rightarrow> Inr (x_hex_encode x nonce @ '':'' @ x_hex_encode x ct)))"

definition decrypt_secret :: "externals \<Rightarrow> string option \<Rightarrow> string \<Rightarrow> string result" where
  "decrypt_secret x env blob =
     (case split_once_char CHR '':'' blob of
        None \<Rightarrow> Inl (InternalError ''TOTP secret malformed'')
      | Some (nonce_hex, ct_hex) \<Rightarrow>
          (case x_hex_decode x nonce_hex of
             None \<Rightarrow> Inl (InternalError ''TOTP secret nonce not hex'')
           | Some nonce \<Rightarrow>
               (case x_hex_decode x ct_hex of
                  None \<Rightarrow> Inl (InternalError ''TOTP secret ciphertext not hex'')
                | Some ct \<Rightarrow>
                    (if length nonce \<noteq> 12 then Inl (InternalError ''TOTP secret nonce wrong length'')
                     else case totp_get_kek x env of
                         Inl e \<Rightarrow> Inl e
                       | Inr kek \<Rightarrow>
                           (case x_aead_decrypt x kek nonce ct of
                              None \<Rightarrow> Inl (InternalError ''TOTP secret decryption failed'')
                            | Some p \<Rightarrow> Inr p)))))"

section \<open>Recovery codes\<close>

text \<open>Each code is made from seven random bytes.\<close>

definition recovery_code_of :: "string \<Rightarrow> string" where
  "recovery_code_of bs =
     (let trimmed = take RECOVERY_CODE_LEN (encode_base32 bs) in take 5 trimmed @ ''-'' @ drop 5 trimmed)"

definition generate_recovery_codes :: "string list \<Rightarrow> string list" where
  "generate_recovery_codes randoms = map recovery_code_of (take RECOVERY_CODE_COUNT randoms)"

text \<open>\<open>char::is_whitespace\<close> on scalar values.\<close>

definition is_whitespace_char :: "nat \<Rightarrow> bool" where
  "is_whitespace_char n \<longleftrightarrow>
     9 \<le> n \<and> n \<le> 13 \<or> n = 32 \<or> n = 133 \<or> n = 160 \<or> n = 5760 \<or> 8192 \<le> n \<and> n \<le> 8202
     \<or> n = 8232 \<or> n = 8233 \<or> n = 8239 \<or> n = 8287 \<or> n = 12288"

definition to_uppercase :: "externals \<Rightarrow> nat \<Rightarrow> string" where
  "to_uppercase x n =
     (if n < 128 then [char_of (if 97 \<le> n \<and> n \<le> 122 then n - 32 else n)] else x_to_uppercase x n)"

definition canonicalize_recovery_code :: "externals \<Rightarrow> string \<Rightarrow> string" where
  "canonicalize_recovery_code x code =
     concat (map (to_uppercase x) (filter (\<lambda>c. \<not> is_whitespace_char c \<and> c \<noteq> 45) (chars code)))"

definition hash_recovery_code :: "externals \<Rightarrow> string \<Rightarrow> string" where
  "hash_recovery_code x code = sha256_hex x (canonicalize_recovery_code x code)"

section \<open>Database operations\<close>

definition is_activated :: "totp_row \<Rightarrow> bool" where
  "is_activated r \<longleftrightarrow> tp_activated r \<noteq> None"

definition totp_get :: "uuid \<Rightarrow> db \<Rightarrow> totp_row option" where
  "totp_get u d = sql_find (\<lambda>r. tp_user r = u) (totps d)"

text \<open>INSERT ... ON CONFLICT(user_id) DO UPDATE ... WHERE activated_at IS NULL, in a transaction.\<close>

definition upsert_pending :: "int \<Rightarrow> uuid \<Rightarrow> string \<Rightarrow> unit db_op" where
  "upsert_pending now u secret = tx_op (
     bind_op (\<lambda>d.
       case totp_get u d of
         None \<Rightarrow>
           (if \<not> user_exists u d then (Inl fk_violation, d)
            else (Inr (1 :: nat), d\<lparr>totps := totps d @ [\<lparr>tp_user = u, tp_secret = secret, tp_last_step = None,
                     tp_activated = None, tp_created = now, tp_updated = now\<rparr>]\<rparr>))
       | Some _ \<Rightarrow>
           (Inr (sql_count (\<lambda>r. tp_user r = u \<and> tp_activated r = None) (totps d)),
            d\<lparr>totps := sql_update (\<lambda>r. tp_user r = u \<and> tp_activated r = None)
                 (\<lambda>r. r\<lparr>tp_secret := secret, tp_last_step := None, tp_activated := None, tp_updated := now\<rparr>)
                 (totps d)\<rparr>)) (\<lambda>affected.
     bind_op (require_op (affected = 1)
                (UniqueError ''TOTP is already enabled. Disable it first to re-enroll.'')) (\<lambda>_.
     modify_op (\<lambda>d. d\<lparr>recovery_codes := sql_delete (\<lambda>r. rc_user r = u) (recovery_codes d)\<rparr>))))"

definition totp_activate :: "int \<Rightarrow> uuid \<Rightarrow> string \<Rightarrow> int \<Rightarrow> bool db_op" where
  "totp_activate now u secret step = (\<lambda>d.
     let pending = (\<lambda>r. tp_user r = u \<and> tp_secret r = secret \<and> tp_activated r = None)
     in (Inr (sql_count pending (totps d) = 1),
         d\<lparr>totps := sql_update pending
              (\<lambda>r. r\<lparr>tp_activated := Some now, tp_last_step := Some step, tp_updated := now\<rparr>) (totps d)\<rparr>))"

definition step_fresh :: "uuid \<Rightarrow> string \<Rightarrow> int \<Rightarrow> totp_row \<Rightarrow> bool" where
  "step_fresh u secret step r \<longleftrightarrow>
     tp_user r = u \<and> tp_secret r = secret \<and> tp_activated r \<noteq> None
   \<and> (case tp_last_step r of None \<Rightarrow> True | Some l \<Rightarrow> l < step)"

definition record_step :: "int \<Rightarrow> uuid \<Rightarrow> string \<Rightarrow> int \<Rightarrow> bool db_op" where
  "record_step now u secret step = (\<lambda>d.
     (Inr (sql_count (step_fresh u secret step) (totps d) = 1),
      d\<lparr>totps := sql_update (step_fresh u secret step)
           (\<lambda>r. r\<lparr>tp_last_step := Some step, tp_updated := now\<rparr>) (totps d)\<rparr>))"

definition totp_delete :: "uuid \<Rightarrow> bool db_op" where
  "totp_delete u = (\<lambda>d.
     (Inr (0 < sql_count (\<lambda>r. tp_user r = u) (totps d)),
      d\<lparr>totps := sql_delete (\<lambda>r. tp_user r = u) (totps d),
        recovery_codes := sql_delete (\<lambda>r. rc_user r = u) (recovery_codes d)\<rparr>))"

definition is_activated_for :: "uuid \<Rightarrow> db \<Rightarrow> bool" where
  "is_activated_for u d \<longleftrightarrow> 0 < sql_count (\<lambda>r. tp_user r = u \<and> tp_activated r \<noteq> None) (totps d)"

text \<open>One INSERT per code; the ids are the fresh UUIDs of the loop.\<close>

fun insert_recovery_codes :: "externals \<Rightarrow> int \<Rightarrow> uuid \<Rightarrow> (uuid \<times> string) list \<Rightarrow> unit db_op" where
  "insert_recovery_codes x now u [] = ret_op ()"
| "insert_recovery_codes x now u ((fresh, code) # rest) =
     bind_op (insert_op
        (\<lambda>d. \<exists>r\<in>set (recovery_codes d). rc_id r = fresh \<or> rc_hash r = hash_recovery_code x code)
        (\<lambda>d. \<not> user_exists u d)
        (\<lambda>d. d\<lparr>recovery_codes := recovery_codes d @
           [\<lparr>rc_id = fresh, rc_user = u, rc_hash = hash_recovery_code x code, rc_used = None,
             rc_created = now\<rparr>]\<rparr>)) (\<lambda>_.
     insert_recovery_codes x now u rest)"

definition store_recovery_codes :: "externals \<Rightarrow> int \<Rightarrow> uuid list \<Rightarrow> uuid \<Rightarrow> string list \<Rightarrow> unit db_op" where
  "store_recovery_codes x now fresh u codes =
     bind_op (modify_op (\<lambda>d. d\<lparr>recovery_codes := sql_delete (\<lambda>r. rc_user r = u) (recovery_codes d)\<rparr>)) (\<lambda>_.
     insert_recovery_codes x now u (zip fresh codes))"

definition recovery_unused :: "externals \<Rightarrow> uuid \<Rightarrow> string \<Rightarrow> recovery_row \<Rightarrow> bool" where
  "recovery_unused x u code r \<longleftrightarrow> rc_user r = u \<and> rc_hash r = hash_recovery_code x code \<and> rc_used r = None"

definition consume_recovery_code :: "externals \<Rightarrow> int \<Rightarrow> uuid \<Rightarrow> string \<Rightarrow> bool db_op" where
  "consume_recovery_code x now u code = (\<lambda>d.
     (Inr (0 < sql_count (recovery_unused x u code) (recovery_codes d)),
      d\<lparr>recovery_codes := sql_update (recovery_unused x u code) (\<lambda>r. r\<lparr>rc_used := Some now\<rparr>) (recovery_codes d)\<rparr>))"

section \<open>Contracts\<close>

text \<open>A step of one factor is accepted at most once.\<close>

definition use_step :: "int \<times> uuid \<times> string \<times> int \<Rightarrow> db \<Rightarrow> bool \<times> db" where
  "use_step p d = (case p of (now, u, secret, step) \<Rightarrow>
     (case record_step now u secret step d of (r, d') \<Rightarrow> (r = Inr True, d')))"

definition step_live :: "uuid \<times> string \<times> int \<Rightarrow> db \<Rightarrow> bool" where
  "step_live k d = (case k of (u, secret, step) \<Rightarrow> \<exists>r\<in>set (totps d). step_fresh u secret step r)"

lemma use_step_simp: "use_step (now, u, secret, step) d =
   (sql_count (step_fresh u secret step) (totps d) = 1,
    d\<lparr>totps := sql_update (step_fresh u secret step)
         (\<lambda>r. r\<lparr>tp_last_step := Some step, tp_updated := now\<rparr>) (totps d)\<rparr>)"
  by (simp add: use_step_def record_step_def)

interpretation totp_step: single_use "\<lambda>d. keyed tp_user (totps d)" use_step "\<lambda>p. snd p" step_live
  "\<lambda>k d d'. (step_live k d' \<longrightarrow> step_live k d) \<and> (keyed tp_user (totps d) \<longrightarrow> keyed tp_user (totps d'))"
proof
  fix d :: db and p :: "int \<times> uuid \<times> string \<times> int"
  assume k: "keyed tp_user (totps d)" and ok: "fst (use_step p d)"
  obtain now u secret step where p: "p = (now, u, secret, step)" by (cases p)
  from ok have "sql_count (step_fresh u secret step) (totps d) = 1" by (simp add: p use_step_simp)
  then have "\<exists>r\<in>set (totps d). step_fresh u secret step r" by (rule sql_count_one)
  then show "step_live (snd p) d" by (simp add: p step_live_def)
  show "\<not> step_live (snd p) (snd (use_step p d))"
    by (auto simp: p step_live_def use_step_simp set_sql_update step_fresh_def split: if_splits option.splits)
next
  fix d :: db and k and p :: "int \<times> uuid \<times> string \<times> int"
  assume "\<not> step_live k d"
  moreover obtain now u secret step where "p = (now, u, secret, step)" by (cases p)
  ultimately show "\<not> step_live k (snd (use_step p d))"
    by (cases k) (fastforce simp: step_live_def use_step_simp set_sql_update step_fresh_def
        split: if_splits option.splits)
next
  fix d :: db and p :: "int \<times> uuid \<times> string \<times> int"
  assume "keyed tp_user (totps d)"
  then show "keyed tp_user (totps (snd (use_step p d)))"
    by (cases p) (simp add: use_step_simp keyed_sql_update)
qed auto

text \<open>A recovery code of one user is accepted at most once.\<close>

definition use_recovery :: "externals \<times> int \<times> uuid \<times> string \<Rightarrow> db \<Rightarrow> bool \<times> db" where
  "use_recovery p d = (case p of (x, now, u, code) \<Rightarrow>
     (case consume_recovery_code x now u code d of (r, d') \<Rightarrow> (r = Inr True, d')))"

definition recovery_cred :: "externals \<times> int \<times> uuid \<times> string \<Rightarrow> uuid \<times> string" where
  "recovery_cred p = (case p of (x, now, u, code) \<Rightarrow> (u, hash_recovery_code x code))"

definition recovery_live :: "uuid \<times> string \<Rightarrow> db \<Rightarrow> bool" where
  "recovery_live k d \<longleftrightarrow> (\<exists>r\<in>set (recovery_codes d). rc_user r = fst k \<and> rc_hash r = snd k \<and> rc_used r = None)"

lemma use_recovery_simp: "use_recovery (x, now, u, code) d =
   (0 < sql_count (recovery_unused x u code) (recovery_codes d),
    d\<lparr>recovery_codes := sql_update (recovery_unused x u code) (\<lambda>r. r\<lparr>rc_used := Some now\<rparr>) (recovery_codes d)\<rparr>)"
  by (simp add: use_recovery_def consume_recovery_code_def)

lemma use_recovery_rows: "recovery_codes (snd (use_recovery (x, now, u, code) d)) =
    map (\<lambda>r. if recovery_unused x u code r then r\<lparr>rc_used := Some now\<rparr> else r) (recovery_codes d)"
  unfolding use_recovery_simp by (simp add: sql_update_def)

interpretation recovery: single_use "\<lambda>d. True" use_recovery recovery_cred recovery_live
  "\<lambda>k d d'. recovery_live k d' \<longrightarrow> recovery_live k d"
proof
  fix d :: db and p :: "externals \<times> int \<times> uuid \<times> string"
  assume ok: "fst (use_recovery p d)"
  obtain x now u code where p: "p = (x, now, u, code)" by (cases p)
  from ok have "0 < sql_count (recovery_unused x u code) (recovery_codes d)"
    unfolding p use_recovery_simp by simp
  then have "\<exists>r\<in>set (recovery_codes d). recovery_unused x u code r" unfolding sql_count_pos .
  then show "recovery_live (recovery_cred p) d"
    by (auto simp: p recovery_cred_def recovery_live_def recovery_unused_def)
  show "\<not> recovery_live (recovery_cred p) (snd (use_recovery p d))"
  proof
    assume "recovery_live (recovery_cred p) (snd (use_recovery p d))"
    then obtain r where r: "rc_user (if recovery_unused x u code r then r\<lparr>rc_used := Some now\<rparr> else r) = u"
      "rc_hash (if recovery_unused x u code r then r\<lparr>rc_used := Some now\<rparr> else r) = hash_recovery_code x code"
      "rc_used (if recovery_unused x u code r then r\<lparr>rc_used := Some now\<rparr> else r) = None"
      unfolding recovery_live_def p use_recovery_rows recovery_cred_def by fastforce
    show False
    proof (cases "recovery_unused x u code r")
      case False
      with r have "rc_user r = u" "rc_hash r = hash_recovery_code x code" "rc_used r = None" by simp_all
      with False show False by (simp add: recovery_unused_def)
    qed (use r(3) in simp)
  qed
next
  fix d :: db and k and p :: "externals \<times> int \<times> uuid \<times> string"
  assume "\<not> recovery_live k d"
  then show "\<not> recovery_live k (snd (use_recovery p d))"
    by (cases p) (auto simp: recovery_live_def use_recovery_rows split: if_splits)
qed auto

section \<open>Frames\<close>

lemma keeps_totp_ops:
  "keeps same_users (upsert_pending now u s)" "keeps same_users (totp_activate now u s st)"
  "keeps same_users (record_step now u s st)" "keeps same_users (totp_delete u)"
  "keeps same_users (consume_recovery_code x now u c)"
proof -
  show "keeps same_users (upsert_pending now u s)"
    unfolding upsert_pending_def
    by (intro su.keeps_rules keeps_intros)
       (auto simp: keeps_def same_users_def split: option.split)
qed (simp_all add: keeps_def totp_activate_def record_step_def totp_delete_def consume_recovery_code_def
      same_users_def Let_def)

lemma keeps_store_recovery: "keeps same_users (store_recovery_codes x now fresh u codes)"
proof -
  have "keeps same_users (insert_recovery_codes x now u ps)" for ps
  proof (induction ps)
    case Nil
    show ?case unfolding insert_recovery_codes.simps by (rule su.keeps_ret)
  next
    case (Cons p ps)
    then show ?case
      by (cases p) (simp only: insert_recovery_codes.simps, intro su.keeps_rules keeps_intros, simp_all)
  qed
  then show ?thesis
    unfolding store_recovery_codes_def by (intro su.keeps_rules keeps_intros) simp_all
qed
end
