(* ===== verification/Totp_Properties.thy ===== *)
theory Totp_Properties
  imports Totp_Factor
begin

text \<open>
  What the second factor promises: the accepted time window, replay protection, the enrolment
  life cycle and the recovery codes.
\<close>

section \<open>The window\<close>

definition totp_code :: "string \<Rightarrow> nat option" where
  "totp_code s = (let t = trim s in
     if length t = TOTP_DIGITS \<and> list_all is_ascii_digit t then parse_digits t else None)"

definition step_after :: "int option \<Rightarrow> int \<Rightarrow> bool" where
  "step_after used step \<longleftrightarrow> (case used of None \<Rightarrow> True | Some l \<Rightarrow> l < step)"

lemma digits_value_bound:
  assumes "digits_value a s = Some n"
  shows "n < (a + 1) * 10 ^ length s"
  using assms
proof (induction s arbitrary: a)
  case (Cons c s)
  let ?a = "a * 10 + (byte c - 48)"
  from Cons.prems have d: "is_ascii_digit c" and r: "digits_value ?a s = Some n"
    by (auto split: if_splits)
  have "byte c - 48 \<le> 9" using d by (auto simp: is_ascii_digit_def)
  then have "?a + 1 \<le> 10 * (a + 1)" by simp
  then have "(?a + 1) * 10 ^ length s \<le> 10 * (a + 1) * 10 ^ length s" by (rule mult_le_mono1)
  with Cons.IH [OF r] show ?case by (simp add: algebra_simps)
qed simp

lemma first_of_window:
  "(if P (c - 1) then Some (c - 1) else if P c then Some c else if P (c + 1) then Some (c + 1) else None)
     = Some s \<longleftrightarrow>
   s \<in> {c - 1, c, c + 1} \<and> P s \<and> \<not> (\<exists>e. c - 1 \<le> e \<and> e < s \<and> P e)" for c s :: int
proof -
  have "\<not> (\<exists>e. c - 1 \<le> e \<and> e < c - 1 \<and> P e)" by auto
  moreover have "(\<exists>e. c - 1 \<le> e \<and> e < c \<and> P e) \<longleftrightarrow> P (c - 1)"
  proof
    assume "\<exists>e. c - 1 \<le> e \<and> e < c \<and> P e"
    then obtain e where "c - 1 \<le> e" "e < c" "P e" by blast
    moreover from this have "e = c - 1" by linarith
    ultimately show "P (c - 1)" by blast
  qed (intro exI [of _ "c - 1"], simp)
  moreover have "(\<exists>e. c - 1 \<le> e \<and> e < c + 1 \<and> P e) \<longleftrightarrow> P (c - 1) \<or> P c"
  proof
    assume "\<exists>e. c - 1 \<le> e \<and> e < c + 1 \<and> P e"
    then obtain e where "c - 1 \<le> e" "e < c + 1" "P e" by blast
    moreover from this have "e = c - 1 \<or> e = c" by linarith
    ultimately show "P (c - 1) \<or> P c" by blast
  next
    assume "P (c - 1) \<or> P c"
    then show "\<exists>e. c - 1 \<le> e \<and> e < c + 1 \<and> P e" 
      by (elim disjE) (intro exI [of _ "c - 1"], simp, intro exI [of _ c], simp)
  qed
  ultimately show ?thesis by auto
qed

lemma match_step_window:
  "match_step x secret code c used [-1, 0, 1] =
     (let P = (\<lambda>e. 0 \<le> e \<and> step_after used e \<and> hotp x secret e = code)
      in if P (c - 1) then Some (c - 1) else if P c then Some c else if P (c + 1) then Some (c + 1) else None)"
proof -
  have "match_step x secret code c used (d # ds) =
      (if 0 \<le> c + d \<and> step_after used (c + d) \<and> hotp x secret (c + d) = code
       then Some (c + d) else match_step x secret code c used ds)" for d ds
    by (auto simp: step_after_def Let_def split: option.split)
  then show ?thesis by (simp add: Let_def del: match_step.simps(2))
qed

text \<open>
  C23. A one-time code is accepted exactly when it is six digits (surrounding space ignored) that
  the shared secret yields for the current 30-second step or one of its neighbours, later than
  the step last used; the step reported is the earliest such one. So no code is accepted for a
  step at or before the last one used, and none more than one step away from the clock.
\<close>

theorem verify_code_window:
  "verify_code x secret s now used = Some step \<longleftrightarrow>
     (\<exists>n. totp_code s = Some n \<and> 0 \<le> now \<and> 0 \<le> step
        \<and> step \<in> {now div 30 - 1, now div 30, now div 30 + 1} \<and> step_after used step
        \<and> hotp x secret step = word_of_nat n
        \<and> \<not> (\<exists>e. now div 30 - 1 \<le> e \<and> e < step \<and> 0 \<le> e \<and> step_after used e
               \<and> hotp x secret e = word_of_nat n))"
proof (cases "totp_code s")
  case None
  then show ?thesis by (auto simp: verify_code_def totp_code_def Let_def split: if_splits)
next
  case (Some n)
  then have "digits_value 0 (trim s) = Some n" "length (trim s) = 6"
    by (auto simp: totp_code_def Let_def parse_digits_def TOTP_DIGITS_def split: if_splits)
  then have "n < 10 ^ TOTP_DIGITS" using digits_value_bound [of 0 "trim s" n] by (simp add: TOTP_DIGITS_def)
  then have "verify_code x secret s now used =
      (if now < 0 then None else match_step x secret (word_of_nat n) (now div 30) used [-1, 0, 1])"
    using Some by (auto simp: verify_code_def totp_code_def Let_def TOTP_PERIOD_def split: if_splits)
  moreover have "match_step x secret (word_of_nat n) (now div 30) used [-1, 0, 1] = Some step \<longleftrightarrow>
      step \<in> {now div 30 - 1, now div 30, now div 30 + 1}
    \<and> (0 \<le> step \<and> step_after used step \<and> hotp x secret step = word_of_nat n)
    \<and> \<not> (\<exists>e. now div 30 - 1 \<le> e \<and> e < step
         \<and> (0 \<le> e \<and> step_after used e \<and> hotp x secret e = word_of_nat n))"
    unfolding match_step_window Let_def by (rule first_of_window)
  ultimately show ?thesis using Some by (simp only: option.inject) (auto simp del: match_step.simps)
qed

section \<open>Replay\<close>

text \<open>
  C22. Replay protection. In every run of step recordings and other database steps that do not
  re-open the factor, a given step of a given secret is recorded successfully at most once, so
  of any number of concurrent sign-ins with the same code at most one passes.
\<close>

theorem totp_step_single_use:
  assumes "totp_step.run (u, secret, step) d es d'" and "keyed tp_user (totps d)"
  shows "totp_step.successes (u, secret, step) es \<le> 1"
  using totp_step.at_most_one_success [OF assms] .

definition demo_totp :: db where
  "demo_totp = demo_session\<lparr>totps := [\<lparr>tp_user = 7, tp_secret = ''ct'', tp_last_step = Some 10,
     tp_activated = Some 300, tp_created = 200, tp_updated = 300\<rparr>]\<rparr>"

lemma demo_totp_keyed: "keyed tp_user (totps demo_totp)"
  by (simp add: demo_totp_def keyed_def)

theorem totp_step_single_use_witness:
  "let d1 = snd (use_step (600, 7, ''ct'', 20) demo_totp)
   in fst (use_step (600, 7, ''ct'', 20) demo_totp)
    \<and> totp_step.successes (7, ''ct'', 20)
        [((600, 7, ''ct'', 20), True), ((601, 7, ''ct'', 20), fst (use_step (601, 7, ''ct'', 20) d1))] \<le> 1"
proof -
  let ?p = "(600, 7, ''ct'', 20) :: int \<times> uuid \<times> string \<times> int"
  have ok: "fst (use_step ?p demo_totp)"
    by (simp add: use_step_simp demo_totp_def sql_count_def step_fresh_def)
  show ?thesis
    using ok totp_step_single_use [OF totp_step.present [OF totp_step.present [OF totp_step.start, of _ _ ?p]]
        demo_totp_keyed] by (simp add: Let_def)
qed

section \<open>Enrolment\<close>

lemma keyed_count:
  assumes "keyed key rows"
  shows "sql_count (\<lambda>r. key r = k \<and> P r) rows =
    (case sql_find (\<lambda>r. key r = k) rows of None \<Rightarrow> 0 | Some r \<Rightarrow> if P r then 1 else 0)"
  using assms
proof (induction rows)
  case (Cons a rows)
  show ?case
  proof (cases "key a = k")
    case True
    then have "\<forall>r\<in>set rows. key r \<noteq> k" using Cons.prems by (auto simp: keyed_def image_iff)
    then have "sql_count (\<lambda>r. key r = k \<and> P r) rows = 0" by simp
    with True show ?thesis by (simp add: sql_count_def)
  qed (use Cons in \<open>simp add: sql_count_def keyed_def\<close>)
qed (simp add: sql_count_def)

lemma sql_update_none: "\<forall>r\<in>set rows. \<not> p r \<Longrightarrow> sql_update p f rows = rows"
  by (auto simp: sql_update_def map_idI)

lemma totp_get_user: "totp_get u d = Some r \<Longrightarrow> tp_user r = u"
  by (auto simp: totp_get_def dest: sql_find_SomeD)

lemma is_activated_for_get:
  "keyed tp_user (totps d) \<Longrightarrow>
     is_activated_for u d \<longleftrightarrow> (case totp_get u d of Some r \<Rightarrow> is_activated r | None \<Rightarrow> False)"
  by (simp add: is_activated_for_def keyed_count totp_get_def is_activated_def split: option.split)

text \<open>Both operations in terms of the user's row.\<close>

lemma totp_activate_cases:
  assumes k: "keyed tp_user (totps d)"
  shows "case totp_get u d of
      Some r \<Rightarrow> (if tp_secret r = s \<and> \<not> is_activated r
         then fst (totp_activate now u s step d) = Inr True
            \<and> totp_get u (snd (totp_activate now u s step d))
                = Some (r\<lparr>tp_activated := Some now, tp_last_step := Some step, tp_updated := now\<rparr>)
         else totp_activate now u s step d = (Inr False, d))
    | None \<Rightarrow> totp_activate now u s step d = (Inr False, d)"
proof -
  let ?p = "\<lambda>r. tp_user r = u \<and> tp_secret r = s \<and> tp_activated r = None"
  have c: "sql_count ?p (totps d) =
      (case totp_get u d of None \<Rightarrow> 0 | Some r \<Rightarrow> if tp_secret r = s \<and> tp_activated r = None then 1 else 0)"
    unfolding totp_get_def by (rule keyed_count [OF k])
  have stay: "totp_activate now u s step d = (Inr False, d)" if "sql_count ?p (totps d) = 0"
  proof -
    have "sql_update ?p f (totps d) = totps d" for f using that by (simp add: sql_update_none)
    then show ?thesis by (simp only: totp_activate_def Let_def that) simp
  qed
  have "totp_get u (snd (totp_activate now u s step d)) = map_option (\<lambda>r. if ?p r
      then r\<lparr>tp_activated := Some now, tp_last_step := Some step, tp_updated := now\<rparr> else r) (totp_get u d)"
    by (simp add: totp_get_def totp_activate_def Let_def, rule sql_find_update) simp
  then show ?thesis
    using c stay by (auto simp: is_activated_def totp_activate_def dest: totp_get_user split: option.splits)
qed

lemma totp_activate_keyed: "keyed tp_user (totps d) \<Longrightarrow> keyed tp_user (totps (snd (totp_activate now u s step d)))"
  by (simp add: totp_activate_def Let_def keyed_sql_update)

lemma upsert_pending_cases:
  assumes k: "keyed tp_user (totps d)" and u: "user_exists u d"
  shows "if is_activated_for u d
    then upsert_pending now u s d = (Inl (UniqueError ''TOTP is already enabled. Disable it first to re-enroll.''), d)
    else fst (upsert_pending now u s d) = Inr ()
      \<and> (\<exists>r. totp_get u (snd (upsert_pending now u s d)) = Some r \<and> tp_secret r = s \<and> \<not> is_activated r)
      \<and> keyed tp_user (totps (snd (upsert_pending now u s d)))
      \<and> (\<forall>r\<in>set (recovery_codes (snd (upsert_pending now u s d))). rc_user r \<noteq> u)"
proof (cases "totp_get u d")
  case None
  then have n: "\<forall>r\<in>set (totps d). tp_user r \<noteq> u" by (simp add: totp_get_def sql_find_None)
  show ?thesis
    using None n k u unfolding is_activated_for_get [OF k]
    by (simp add: upsert_pending_def bind_op_def tx_op_def require_op_def keyed_append is_activated_def)
       (auto simp: totp_get_def sql_find_append split: option.split dest: sql_find_SomeD)
next
  case (Some r)
  let ?p = "\<lambda>r. tp_user r = u \<and> tp_activated r = None"
  have c: "sql_count ?p (totps d) = (if is_activated r then 0 else 1)"
    using keyed_count [OF k, of u "\<lambda>r. tp_activated r = None"] Some
    by (simp add: totp_get_def is_activated_def)
  have g: "sql_find (\<lambda>r. tp_user r = u) (sql_update ?p f (totps d)) = map_option (\<lambda>r. if ?p r then f r else r) (totp_get u d)"
    if "\<And>r. tp_user (f r) = tp_user r" for f
    unfolding totp_get_def by (rule sql_find_update) (simp add: that)
  show ?thesis
    using Some c totp_get_user [OF Some] k unfolding is_activated_for_get [OF k]
    by (simp add: upsert_pending_def bind_op_def tx_op_def require_op_def keyed_sql_update)
       (simp add: totp_get_def g is_activated_def)
qed

text \<open>
  Enrolment. Starting one for a user whose factor is active is refused and changes nothing;
  otherwise it stores the new secret as the user's only factor, not active, and discards old
  recovery codes. Confirming it activates exactly the secret that was stored, records the step,
  and an outdated confirmation (another secret, or a factor already active) changes nothing.
\<close>

theorem totp_enrolment:
  assumes "keyed tp_user (totps d)" and "user_exists u d"
  shows "(is_activated_for u d \<longrightarrow> upsert_pending now u s d
            = (Inl (UniqueError ''TOTP is already enabled. Disable it first to re-enroll.''), d))
       \<and> (\<not> is_activated_for u d \<longrightarrow>
            (let d1 = snd (upsert_pending now u s d); d2 = snd (totp_activate na u s step d1)
             in fst (upsert_pending now u s d) = Inr () \<and> \<not> is_activated_for u d1
              \<and> (\<forall>r\<in>set (recovery_codes d1). rc_user r \<noteq> u)
              \<and> (\<forall>s'. s' \<noteq> s \<longrightarrow> totp_activate na u s' step d1 = (Inr False, d1))
              \<and> fst (totp_activate na u s step d1) = Inr True \<and> is_activated_for u d2
              \<and> map_option tp_secret (totp_get u d2) = Some s
              \<and> map_option tp_last_step (totp_get u d2) = Some (Some step)
              \<and> totp_activate nb u s step' d2 = (Inr False, d2)))"
proof (cases "is_activated_for u d")
  case False
  let ?d1 = "snd (upsert_pending now u s d)"
  let ?d2 = "snd (totp_activate na u s step ?d1)"
  from upsert_pending_cases [OF assms, of now s] False obtain r where
    f: "fst (upsert_pending now u s d) = Inr ()" "\<forall>r\<in>set (recovery_codes ?d1). rc_user r \<noteq> u"
    and r: "totp_get u ?d1 = Some r" "tp_secret r = s" "\<not> is_activated r" and k1: "keyed tp_user (totps ?d1)"
    by auto
  let ?r = "r\<lparr>tp_activated := Some na, tp_last_step := Some step, tp_updated := na\<rparr>"
  have k2: "keyed tp_user (totps ?d2)" by (rule totp_activate_keyed [OF k1])
  have a: "fst (totp_activate na u s step ?d1) = Inr True" "totp_get u ?d2 = Some ?r"
    using totp_activate_cases [OF k1, where u = u and s = s and now = na and step = step] r by simp_all
  have "totp_activate na u s' step ?d1 = (Inr False, ?d1)" if "s' \<noteq> s" for s'
    using totp_activate_cases [OF k1, where u = u and s = s' and now = na and step = step] r that by simp
  moreover have "totp_activate nb u s step' ?d2 = (Inr False, ?d2)"
    using totp_activate_cases [OF k2, where u = u and s = s and now = nb and step = step'] a(2) by (simp add: is_activated_def)
  ultimately show ?thesis
    using False f r a by (simp add: Let_def is_activated_for_get [OF k1] is_activated_for_get [OF k2])
      (simp add: is_activated_def)
qed (use upsert_pending_cases [OF assms, of now s] in simp)

theorem totp_enrolment_witness:
  "fst (totp_activate 1010 7 ''ct'' 33 (snd (upsert_pending 1000 7 ''ct'' demo_session))) = Inr True
   \<and> is_activated_for 7 (snd (totp_activate 1010 7 ''ct'' 33 (snd (upsert_pending 1000 7 ''ct'' demo_session))))"
proof -
  have "keyed tp_user (totps demo_session)" "user_exists 7 demo_session" "\<not> is_activated_for 7 demo_session"
    by (simp_all add: demo_state_defs user_exists_def is_activated_for_def sql_count_def)
  then show ?thesis
    using totp_enrolment [where d = demo_session and u = 7 and now = 1000 and s = "''ct''" and na = 1010
        and step = 33] by (simp add: Let_def)
qed

section \<open>Recovery codes\<close>

lemma insert_recovery_codes_ok:
  assumes "insert_recovery_codes x now u ps d = (Inr (), d')"
  shows "\<exists>new. recovery_codes d' = recovery_codes d @ new \<and> map rc_hash new = map (hash_recovery_code x \<circ> snd) ps
     \<and> (\<forall>r\<in>set new. rc_user r = u \<and> rc_used r = None)"
  using assms
proof (induction ps arbitrary: d)
  case (Cons p ps)
  obtain fresh code where p: "p = (fresh, code)" by (cases p)
  let ?r = "\<lparr>rc_id = fresh, rc_user = u, rc_hash = hash_recovery_code x code, rc_used = None, rc_created = now\<rparr>"
  from Cons.prems p have "insert_recovery_codes x now u ps (d\<lparr>recovery_codes := recovery_codes d @ [?r]\<rparr>) = (Inr (), d')"
    by (auto simp: bind_op_def insert_op_def split: if_splits)
  from Cons.IH [OF this] obtain new where
    "recovery_codes d' = (recovery_codes d @ [?r]) @ new" "map rc_hash new = map (hash_recovery_code x \<circ> snd) ps"
    "\<forall>r\<in>set new. rc_user r = u \<and> rc_used r = None" by auto
  then show ?case by (intro exI [of _ "?r # new"]) (simp add: p)
qed simp

lemma store_recovery_codes_live:
  assumes "store_recovery_codes x now fresh u codes d = (Inr (), d')" and "length codes \<le> length fresh"
  shows "recovery_live (u, h) d' \<longleftrightarrow> h \<in> hash_recovery_code x ` set codes"
proof -
  from assms(1) obtain new where n: "recovery_codes d' = sql_delete (\<lambda>r. rc_user r = u) (recovery_codes d) @ new"
    "map rc_hash new = map (hash_recovery_code x \<circ> snd) (zip fresh codes)"
    "\<forall>r\<in>set new. rc_user r = u \<and> rc_used r = None"
    using insert_recovery_codes_ok [of x now u "zip fresh codes"]
    by (fastforce simp: store_recovery_codes_def bind_op_def)
  have "map (hash_recovery_code x \<circ> snd) (zip fresh codes) = map (hash_recovery_code x) codes"
    using assms(2) map_snd_zip_take [of fresh codes] by (simp flip: map_map)
  then have "rc_hash ` set new = hash_recovery_code x ` set codes"
    using n(2) by (metis image_set)
  moreover have "recovery_live (u, h) d' \<longleftrightarrow> h \<in> rc_hash ` set new"
    using n(1,3) by (auto simp: recovery_live_def)
  ultimately show ?thesis by simp
qed

lemma consume_recovery_code_iff:
  "fst (consume_recovery_code x now u code d) = Inr True \<longleftrightarrow> recovery_live (u, hash_recovery_code x code) d"
  by (auto simp: consume_recovery_code_def sql_count_pos recovery_live_def recovery_unused_def)

lemma consume_recovery_code_total: "\<exists>b. fst (consume_recovery_code x now u code d) = Inr b"
  by (simp add: consume_recovery_code_def)

lemma recovery_live_after:
  "recovery_live k (snd (consume_recovery_code x now u code d)) \<longleftrightarrow>
     recovery_live k d \<and> k \<noteq> (u, hash_recovery_code x code)"
  by (cases k) (auto simp: consume_recovery_code_def recovery_live_def recovery_unused_def set_sql_update)

text \<open>
  Recovery codes. After a set of codes was stored, exactly those codes are accepted for the
  user, in any spelling with the same canonical form (case, blanks and dashes do not matter);
  each of them once: using it spends it in every spelling and leaves all the others usable.
\<close>

theorem recovery_codes_once:
  assumes "store_recovery_codes x now fresh u codes d = (Inr (), d1)" and "length codes \<le> length fresh"
    and "inj_on (sha256_hex x) (canonicalize_recovery_code x ` (set codes \<union> {c, c'}))"
  shows "(fst (consume_recovery_code x t u c d1) = Inr True \<longleftrightarrow>
            canonicalize_recovery_code x c \<in> canonicalize_recovery_code x ` set codes)
       \<and> (fst (consume_recovery_code x t' u c' (snd (consume_recovery_code x t u c d1))) = Inr True \<longleftrightarrow>
            canonicalize_recovery_code x c' \<in> canonicalize_recovery_code x ` set codes
          \<and> canonicalize_recovery_code x c' \<noteq> canonicalize_recovery_code x c)"
proof -
  have h: "hash_recovery_code x a = hash_recovery_code x b \<longleftrightarrow>
      canonicalize_recovery_code x a = canonicalize_recovery_code x b"
    if "a \<in> set codes \<union> {c, c'}" "b \<in> set codes \<union> {c, c'}" for a b
    unfolding hash_recovery_code_def by (rule inj_on_eq_iff [OF assms(3)]) (rule imageI, fact that)+
  then have "hash_recovery_code x a \<in> hash_recovery_code x ` set codes \<longleftrightarrow>
      canonicalize_recovery_code x a \<in> canonicalize_recovery_code x ` set codes" if "a \<in> {c, c'}" for a
    using that by (auto simp: image_iff)
  then show ?thesis
    by (simp add: consume_recovery_code_iff recovery_live_after store_recovery_codes_live [OF assms(1,2)] h)
qed

theorem recovery_codes_once_witness:
  "fst (consume_recovery_code ref_ext 2000 7 ''ab cde''
      (snd (store_recovery_codes ref_ext 1000 [1, 2] 7 [''ABC-DE'', ''XYZ''] demo_session))) = Inr True"
proof -
  have "canonicalize_recovery_code ref_ext ''ABC-DE'' = ''ABCDE''" "canonicalize_recovery_code ref_ext ''XYZ'' = ''XYZ''"
    "canonicalize_recovery_code ref_ext ''ab cde'' = ''ABCDE''"
    unfolding canonicalize_recovery_code_def
    by (subst chars_ascii, simp add: is_ascii_string_def byte_def, simp add: is_whitespace_char_def to_uppercase_def byte_def,
        simp add: char_of_def bit_0)+
  note c = this
  have s: "store_recovery_codes ref_ext 1000 [1, 2] 7 [''ABC-DE'', ''XYZ''] demo_session =
      (Inr (), snd (store_recovery_codes ref_ext 1000 [1, 2] 7 [''ABC-DE'', ''XYZ''] demo_session))"
    by (simp add: store_recovery_codes_def bind_op_def insert_op_def demo_state_defs user_exists_def
        hash_recovery_code_def c)
  show ?thesis
    using recovery_codes_once [OF s, where c = "''ab cde''" and c' = "''ab cde''" and t = 2000]
    by (simp add: c)
qed

end
