(* ===== verification/Invitations.thy ===== *)
theory Invitations
  imports Users Statements Demo
begin

text \<open>
  \<open>invitation.rs\<close> and \<open>app_passwords.rs\<close>: invitations with a use limit, and the secondary
  passwords for LDAP clients.
\<close>

section \<open>Invitations\<close>

record create_invitation_input =
  ci_label :: "string option"
  ci_max_uses :: "int option"
  ci_expires_at :: "int option"

definition new_invitation :: "externals \<Rightarrow> string \<Rightarrow> int \<Rightarrow> create_invitation_input \<Rightarrow> uuid \<Rightarrow> invitation" where
  "new_invitation x random now i created_by =
     \<lparr>in_id = x_hex_encode x random, in_created_by = created_by, in_label = ci_label i,
      in_max_uses = ci_max_uses i, in_uses = 0, in_expires_at = ci_expires_at i, in_created_at = now\<rparr>"

definition not_expired :: "int \<Rightarrow> invitation \<Rightarrow> bool" where
  "not_expired now i \<longleftrightarrow> (case in_expires_at i of None \<Rightarrow> True | Some e \<Rightarrow> now < e)"

definition not_exhausted :: "invitation \<Rightarrow> bool" where
  "not_exhausted i \<longleftrightarrow> (case in_max_uses i of None \<Rightarrow> True | Some m \<Rightarrow> in_uses i < m)"

definition invitation_is_valid :: "int \<Rightarrow> invitation \<Rightarrow> bool" where
  "invitation_is_valid now i \<longleftrightarrow> not_expired now i \<and> not_exhausted i"

definition invitation_save :: "invitation \<Rightarrow> unit db_op" where
  "invitation_save i = insert_op
     (\<lambda>d. \<exists>r\<in>set (invitations d). in_id r = in_id i)
     (\<lambda>d. \<not> user_exists (in_created_by i) d)
     (\<lambda>d. d\<lparr>invitations := invitations d @ [i]\<rparr>)"

record invitation_status = invitation +
  in_created_by_username :: "string option"
  in_status :: string

definition invitation_status_of :: "int \<Rightarrow> db \<Rightarrow> invitation \<Rightarrow> invitation_status" where
  "invitation_status_of now d i = invitation.extend i
     \<lparr>in_created_by_username = map_option u_username (sql_find (\<lambda>u. u_id u = in_created_by i) (users d)),
      in_status = (if \<not> not_expired now i then ''expired''
                   else if \<not> not_exhausted i then ''exhausted'' else ''active'')\<rparr>"

definition invitation_list :: "int \<Rightarrow> db \<Rightarrow> invitation_status list" where
  "invitation_list now d = map (invitation_status_of now d) (sort_key (\<lambda>i. - in_created_at i) (invitations d))"

definition invitation_get :: "string \<Rightarrow> db \<Rightarrow> invitation option" where
  "invitation_get i d = sql_find (\<lambda>r. in_id r = i) (invitations d)"

definition invitation_delete :: "string \<Rightarrow> bool db_op" where
  "invitation_delete i = (\<lambda>d. (Inr (0 < sql_count (\<lambda>r. in_id r = i) (invitations d)),
     d\<lparr>invitations := sql_delete (\<lambda>r. in_id r = i) (invitations d)\<rparr>))"

text \<open>UPDATE ... RETURNING: the row after the update, if one matched.\<close>

definition invitation_open :: "int \<Rightarrow> string \<Rightarrow> invitation \<Rightarrow> bool" where
  "invitation_open now i r \<longleftrightarrow> in_id r = i
     \<and> (case in_max_uses r of None \<Rightarrow> True | Some m \<Rightarrow> in_uses r < m)
     \<and> (case in_expires_at r of None \<Rightarrow> True | Some e \<Rightarrow> now < e)"

definition count_use :: "invitation \<Rightarrow> invitation" where
  "count_use r = r\<lparr>in_uses := in_uses r + 1\<rparr>"

definition invitation_consume :: "int \<Rightarrow> string \<Rightarrow> invitation option db_op" where
  "invitation_consume now i = (\<lambda>d.
     (Inr (map_option count_use (sql_find (invitation_open now i) (invitations d))),
      d\<lparr>invitations := sql_update (invitation_open now i) count_use (invitations d)\<rparr>))"

definition validate_invitation :: "int \<Rightarrow> create_invitation_input \<Rightarrow> unit result" where
  "validate_invitation now i =
     (let errors =
        (case ci_max_uses i of None \<Rightarrow> [] | Some m \<Rightarrow> (if m < 1 then [''max_uses must be at least 1''] else []))
        @ (case ci_expires_at i of None \<Rightarrow> [] | Some e \<Rightarrow>
             (if e \<le> now then [''expires_at must be in the future''] else []))
        @ (case ci_label i of None \<Rightarrow> [] | Some l \<Rightarrow>
             (if 128 < length l then [''label must be 128 characters or fewer''] else []))
      in if errors = [] then Inr () else Inl (InputError errors))"

section \<open>App passwords\<close>

definition APP_MIN_NAME_LEN :: nat where "APP_MIN_NAME_LEN = 1"
definition APP_MAX_NAME_LEN :: nat where "APP_MAX_NAME_LEN = 64"
definition PASSWORD_LEN :: nat where "PASSWORD_LEN = 24"
definition CHARSET :: string where
  "CHARSET = ''ABCDEFGHJKLMNPQRSTUVWXYZabcdefghijkmnpqrstuvwxyz23456789''"

record app_password =
  apw_id :: uuid
  apw_user_id :: uuid
  apw_name :: string
  apw_created_at :: int
  apw_last_used_at :: "int option"

definition validate_app_name :: "string \<Rightarrow> string + unit" where
  "validate_app_name name =
     (let trimmed = trim name in
      if length trimmed < APP_MIN_NAME_LEN then Inl ''Name cannot be empty''
      else if APP_MAX_NAME_LEN < length trimmed
      then Inl (''Name must be '' @ show_nat APP_MAX_NAME_LEN @ '' characters or fewer'')
      else Inr ())"

text \<open>One index below the length of the alphabet is drawn per character.\<close>

definition generate_password :: "nat list \<Rightarrow> string" where
  "generate_password draws = map (\<lambda>i. CHARSET ! i) (take PASSWORD_LEN draws)"

definition app_password_create ::
  "externals \<Rightarrow> int \<Rightarrow> uuid \<Rightarrow> nat list \<Rightarrow> string \<Rightarrow> uuid \<Rightarrow> string \<Rightarrow> (app_password \<times> string) db_op" where
  "app_password_create x now fresh draws salt user_id name =
     (case validate_app_name name of
        Inl e \<Rightarrow> raise_op (InputError [e])
      | Inr _ \<Rightarrow>
          (let cleartext = generate_password draws in
           case x_argon2_hash x salt cleartext of
             Inl e \<Rightarrow> raise_op (InternalError (''Failed to hash password: '' @ e))
           | Inr hash \<Rightarrow>
               (let rec = \<lparr>apw_id = fresh, apw_user_id = user_id, apw_name = trim name,
                           apw_created_at = now, apw_last_used_at = None\<rparr>
                in bind_op (insert_op
                     (\<lambda>d. \<exists>r\<in>set (app_passwords d). pw_id r = fresh)
                     (\<lambda>d. \<not> user_exists user_id d)
                     (\<lambda>d. d\<lparr>app_passwords := app_passwords d @
                        [\<lparr>pw_id = fresh, pw_user = user_id, pw_name = apw_name rec, pw_hash = hash,
                          pw_created = now, pw_last_used = None\<rparr>]\<rparr>))
                   (\<lambda>_. ret_op (rec, cleartext)))))"

definition app_password_of_row :: "app_password_row \<Rightarrow> app_password" where
  "app_password_of_row r = \<lparr>apw_id = pw_id r, apw_user_id = pw_user r, apw_name = pw_name r,
     apw_created_at = pw_created r, apw_last_used_at = pw_last_used r\<rparr>"

definition app_password_list_for_user :: "uuid \<Rightarrow> db \<Rightarrow> app_password list" where
  "app_password_list_for_user u d = map app_password_of_row
     (sort_key (\<lambda>r. - pw_created r) (filter (\<lambda>r. pw_user r = u) (app_passwords d)))"

definition app_password_delete_for_user :: "uuid \<Rightarrow> uuid \<Rightarrow> bool db_op" where
  "app_password_delete_for_user i u = (\<lambda>d.
     (Inr (0 < sql_count (\<lambda>r. pw_id r = i \<and> pw_user r = u) (app_passwords d)),
      d\<lparr>app_passwords := sql_delete (\<lambda>r. pw_id r = i \<and> pw_user r = u) (app_passwords d)\<rparr>))"

text \<open>The first stored hash that verifies wins; a malformed hash is skipped.\<close>

definition app_password_verify_for_user :: "externals \<Rightarrow> int \<Rightarrow> uuid \<Rightarrow> string \<Rightarrow> uuid option db_op" where
  "app_password_verify_for_user x now u cleartext = (\<lambda>d.
     case sql_find (\<lambda>r. pw_user r = u \<and> x_argon2_verify x (pw_hash r) cleartext) (app_passwords d) of
       None \<Rightarrow> (Inr None, d)
     | Some r \<Rightarrow> (Inr (Some (pw_id r)),
         d\<lparr>app_passwords := sql_update (\<lambda>q. pw_id q = pw_id r) (\<lambda>q. q\<lparr>pw_last_used := Some now\<rparr>) (app_passwords d)\<rparr>))"

section \<open>Frames\<close>

lemma keeps_invitation_ops:
  "keeps same_users (invitation_save i)" "keeps same_users (invitation_delete k)"
  "keeps same_users (invitation_consume now k)"
proof -
  show "keeps same_users (invitation_save i)"
    unfolding invitation_save_def by (intro keeps_intros) simp
qed (simp_all add: keeps_def invitation_delete_def invitation_consume_def same_users_def)

lemma keeps_app_password_ops:
  "keeps same_users (app_password_create x now fresh draws salt u name)"
  "keeps same_users (app_password_delete_for_user i u)"
  "keeps same_users (app_password_verify_for_user x now u pw)"
proof -
  show "keeps same_users (app_password_create x now fresh draws salt u name)"
    unfolding app_password_create_def Let_def
    by (intro su.keeps_rules keeps_intros) simp
qed (simp_all add: keeps_def app_password_delete_for_user_def app_password_verify_for_user_def same_users_def
      split: option.split)

section \<open>Use limits\<close>

definition uses_left :: "string \<Rightarrow> db \<Rightarrow> enat" where
  "uses_left k d =
     (case invitation_get k d of
        None \<Rightarrow> 0
      | Some i \<Rightarrow> (case in_max_uses i of None \<Rightarrow> \<infinity> | Some m \<Rightarrow> enat (nat (m - in_uses i))))"

definition use_invitation :: "int \<times> string \<Rightarrow> db \<Rightarrow> bool \<times> db" where
  "use_invitation p d = (case invitation_consume (fst p) (snd p) d of
     (r, d') \<Rightarrow> (case r of Inr (Some _) \<Rightarrow> True | _ \<Rightarrow> False, d'))"

lemma use_invitation_simp:
  "fst (use_invitation (now, k) d) \<longleftrightarrow> sql_find (invitation_open now k) (invitations d) \<noteq> None"
  "snd (use_invitation (now, k) d) =
     d\<lparr>invitations := sql_update (invitation_open now k) count_use (invitations d)\<rparr>"
  by (auto simp: use_invitation_def invitation_consume_def split: option.splits)

lemma invitation_get_consume:
  "invitation_get j (snd (use_invitation (now, k) d)) =
     map_option (\<lambda>r. if invitation_open now k r then count_use r else r) (invitation_get j d)"
  unfolding invitation_get_def use_invitation_simp by (simp, rule sql_find_update) (simp add: count_use_def)

lemma invitation_open_get:
  assumes "keyed in_id (invitations d)" and "sql_find (invitation_open now k) (invitations d) \<noteq> None"
  obtains r where "invitation_get k d = Some r" "invitation_open now k r"
proof -
  from assms(2) obtain r where "r \<in> set (invitations d)" "invitation_open now k r"
    by (auto simp: sql_find_None)
  moreover from this have "in_id r = k" by (simp add: invitation_open_def)
  ultimately show thesis
    using that [of r] sql_find_keyed [OF assms(1)] by (auto simp: invitation_get_def)
qed

lemma uses_left_count:
  "invitation_open now k r \<Longrightarrow> case in_max_uses r of None \<Rightarrow> True
     | Some m \<Rightarrow> nat (m - in_uses (count_use r)) + 1 = nat (m - in_uses r)"
  by (auto simp: invitation_open_def count_use_def split: option.splits)

interpretation invite: bounded_use "\<lambda>d. keyed in_id (invitations d)" use_invitation snd uses_left
  "\<lambda>k d d'. uses_left k d' \<le> uses_left k d \<and> (keyed in_id (invitations d) \<longrightarrow> keyed in_id (invitations d'))"
proof
  fix d :: db and p :: "int \<times> string"
  assume k: "keyed in_id (invitations d)" and ok: "fst (use_invitation p d)"
  obtain now i where p: "p = (now, i)" by (cases p)
  with ok have "sql_find (invitation_open now i) (invitations d) \<noteq> None"
    using use_invitation_simp(1) by blast
  from invitation_open_get [OF k this] obtain r where r: "invitation_get i d = Some r" "invitation_open now i r" .
  then show "uses_left (snd p) (snd (use_invitation p d)) + 1 \<le> uses_left (snd p) d"
    using uses_left_count [OF r(2)]
    by (auto simp: p uses_left_def invitation_get_consume one_enat_def count_use_def split: option.splits)
next
  fix d :: db and k and p :: "int \<times> string"
  obtain now i where p: "p = (now, i)" by (cases p)
  show "uses_left k (snd (use_invitation p d)) \<le> uses_left k d"
    by (auto simp: p uses_left_def invitation_get_consume count_use_def split: option.splits)
next
  fix d :: db and p :: "int \<times> string"
  assume "keyed in_id (invitations d)"
  then show "keyed in_id (invitations (snd (use_invitation p d)))"
    by (cases p) (simp add: use_invitation_simp keyed_sql_update count_use_def)
qed auto

text \<open>
  C37. An invitation admits no more registrations than it was created for, however concurrent
  registrations interleave: in every run of consuming statements and of other steps that do not
  re-issue it, an invitation limited to \<open>m\<close> uses is consumed successfully at most \<open>m\<close> times.
\<close>

theorem invitation_use_limit:
  assumes "invite.run k d es d'" and "keyed in_id (invitations d)"
    and "invitation_get k d = Some i" and "in_max_uses i = Some m" and "0 \<le> in_uses i"
  shows "int (invite.successes k es) \<le> max 0 (m - in_uses i)"
proof -
  have "enat (invite.successes k es) \<le> uses_left k d" by (rule invite.within_budget [OF assms(1,2)])
  then show ?thesis using assms(3,4) by (simp add: uses_left_def)
qed

definition demo_invite :: db where
  "demo_invite = demo_session\<lparr>invitations := [\<lparr>in_id = ''i'', in_created_by = 7, in_label = None,
     in_max_uses = Some 1, in_uses = 0, in_expires_at = None, in_created_at = 0\<rparr>]\<rparr>"

theorem invitation_use_limit_witness:
  "int (invite.successes ''i''
     [((5, ''i''), fst (use_invitation (5, ''i'') demo_invite)),
      ((6, ''i''), fst (use_invitation (6, ''i'') (snd (use_invitation (5, ''i'') demo_invite))))]) \<le> 1"
  using invitation_use_limit [OF invite.present [OF invite.present [OF invite.start, where p = "(5, ''i'')"], where p = "(6, ''i'')"],
      where k = "''i''" and d = demo_invite and i = "\<lparr>in_id = ''i'', in_created_by = 7, in_label = None,
     in_max_uses = Some 1, in_uses = 0, in_expires_at = None, in_created_at = 0\<rparr>" and m = 1]
  by (simp add: demo_invite_def invitation_get_def keyed_def)

text \<open>
  App passwords. A password that was just created verifies for its user, and for nobody
  else's passwords; deleting it revokes exactly that one: it is refused afterwards unless another
  of the user's passwords matches too, and every other password keeps working. Only its owner's
  id deletes it.
\<close>

theorem app_password_lifecycle:
  assumes created: "app_password_create x now fresh draws salt u name d = (Inr (p, pw), d1)"
    and hash: "\<And>h s q. x_argon2_hash x s q = Inr h \<Longrightarrow> x_argon2_verify x h q"
  shows "(\<exists>i. fst (app_password_verify_for_user x t u pw d1) = Inr (Some i))
     \<and> p \<in> set (app_password_list_for_user u d1)
     \<and> (v \<noteq> u \<longrightarrow> app_password_delete_for_user (apw_id p) v d1 = (Inr False, d1))
     \<and> fst (app_password_delete_for_user (apw_id p) u d1) = Inr True
     \<and> app_passwords (snd (app_password_delete_for_user (apw_id p) u d1)) = app_passwords d"
proof -
  from created obtain h where h: "x_argon2_hash x salt pw = Inr h"
    and p: "apw_id p = fresh" "apw_user_id p = u" "apw_created_at p = now" "apw_last_used_at p = None"
    and n: "\<forall>r\<in>set (app_passwords d). pw_id r \<noteq> fresh"
    and d1: "d1 = d\<lparr>app_passwords := app_passwords d @ [\<lparr>pw_id = fresh, pw_user = u, pw_name = apw_name p,
        pw_hash = h, pw_created = now, pw_last_used = None\<rparr>]\<rparr>"
    by (auto simp: app_password_create_def Let_def op_results split: sum.splits)
  let ?r = "\<lparr>pw_id = fresh, pw_user = u, pw_name = apw_name p, pw_hash = h, pw_created = now, pw_last_used = None\<rparr>"
  have "\<exists>r\<in>set (app_passwords d1). pw_user r = u \<and> x_argon2_verify x (pw_hash r) pw"
    using hash [OF h] by (auto simp: d1)
  from sql_find_ex [OF this] have v: "\<exists>i. fst (app_password_verify_for_user x t u pw d1) = Inr (Some i)"
    by (auto simp: app_password_verify_for_user_def)
  have "app_password_of_row ?r = p" using p by (simp add: app_password_of_row_def)
  then have l: "p \<in> set (app_password_list_for_user u d1)"
    by (force simp: app_password_list_for_user_def d1 image_iff)
  have del: "sql_delete (\<lambda>r. pw_id r = fresh \<and> pw_user r = u) (app_passwords d) = app_passwords d"
    using n by (auto simp: sql_delete_def filter_id_conv)
  have none: "sql_delete (\<lambda>r. pw_id r = fresh \<and> pw_user r = v) (app_passwords d1) = app_passwords d1"
    "sql_count (\<lambda>r. pw_id r = fresh \<and> pw_user r = v) (app_passwords d1) = 0" if "v \<noteq> u"
    using n that by (auto simp: sql_delete_def d1 filter_id_conv)
  show ?thesis
    using v l del none by (auto simp: app_password_delete_for_user_def p sql_count_pos)
      (simp_all add: d1 sql_delete_def)
qed

theorem app_password_lifecycle_witness:
  "\<exists>p pw d1. app_password_create ref_ext 50 9 [0, 1, 2] ''salt'' 7 ''mail client'' demo_session = (Inr (p, pw), d1)
     \<and> (\<exists>i. fst (app_password_verify_for_user ref_ext 60 7 pw d1) = Inr (Some i))"
proof -
  have t: "trim ''mail client'' = ''mail client''"
    by (rule trim_graphic) (simp_all add: ascii_graphic_def byte_def)
  have "\<exists>p pw d1. app_password_create ref_ext 50 9 [0, 1, 2] ''salt'' 7 ''mail client'' demo_session = (Inr (p, pw), d1)"
    by (simp add: app_password_create_def validate_app_name_def t APP_MIN_NAME_LEN_def APP_MAX_NAME_LEN_def
        bind_op_def insert_op_def demo_state_defs user_exists_def Let_def)
  then obtain p pw d1 where
    c: "app_password_create ref_ext 50 9 [0, 1, 2] ''salt'' 7 ''mail client'' demo_session = (Inr (p, pw), d1)"
    by blast
  then show ?thesis using app_password_lifecycle [OF c, where t = 60] by auto
qed

end
