(* ===== verification/Session_Handlers.thy ===== *)
theory Session_Handlers
  imports Http Totp_Properties Token_Browser Invitations Settings
begin

text \<open>
  The first half of \<open>handlers/auth.rs\<close> (sign-in, refresh and sign-out, for API clients and for
  browsers) and \<open>handlers/registration.rs\<close>.
\<close>

section \<open>Second factor\<close>

definition nonblank :: "string option \<Rightarrow> string option" where
  "nonblank code = (case code of None \<Rightarrow> None | Some c \<Rightarrow> (if trim c = [] then None else Some (trim c)))"

definition enforce_mfa :: "env \<Rightarrow> uuid \<Rightarrow> string option \<Rightarrow> (db, login_error, unit) op" where
  "enforce_mfa e user_id given =
     bind_op (gets_op (totp_get user_id)) (\<lambda>row.
     case row of
       None \<Rightarrow> ret_op ()
     | Some t \<Rightarrow>
         (if \<not> is_activated t then ret_op ()
          else case nonblank given of
              None \<Rightarrow> raise_op MfaRequired
            | Some code \<Rightarrow>
                bind_op (map_err_op LoginApp (lift_op (decrypt_secret (ev_ext e) (ev_key_secret e) (tp_secret t)))) (\<lambda>secret.
                case verify_code (ev_ext e) secret code (ev_now e) (tp_last_step t) of
                  Some step \<Rightarrow>
                    bind_op (map_err_op LoginApp (record_step (ev_now e) user_id (tp_secret t) step)) (\<lambda>recorded.
                    if recorded then ret_op () else raise_op MfaInvalid)
                | None \<Rightarrow>
                    bind_op (map_err_op LoginApp (consume_recovery_code (ev_ext e) (ev_now e) user_id code)) (\<lambda>used.
                    if used then ret_op () else raise_op MfaInvalid))))"

section \<open>Signing in\<close>

definition valid_or :: "string + unit \<Rightarrow> (db, login_error, unit) op" where
  "valid_or r = (case r of Inl msg \<Rightarrow> raise_op (LoginApp (InputError [msg])) | Inr _ \<Rightarrow> ret_op ())"

text \<open>The password step: an unknown name and a wrong password are logged and answered alike.\<close>

definition password_step :: "env \<Rightarrow> audit_context \<Rightarrow> login_input \<Rightarrow> (db, login_error, user) op" where
  "password_step e ctx i =
     bind_op (try_op (user_login (ev_ext e) i)) (\<lambda>r.
     case r of
       Inr u \<Rightarrow> ret_op u
     | Inl err \<Rightarrow>
         bind_op (gets_op (user_get_by_username (li_username i))) (\<lambda>failed.
         bind_op (ignore_op (log_login_failed (ev_ext e) (ev_uuid e 0) (ev_now e) (li_username i)
                    (map_option u_id failed) ctx)) (\<lambda>_.
         raise_op (LoginApp err))))"

definition mfa_step :: "env \<Rightarrow> audit_context \<Rightarrow> login_input \<Rightarrow> user \<Rightarrow> (db, login_error, unit) op" where
  "mfa_step e ctx i u =
     bind_op (try_op (enforce_mfa e (u_id u) (li_totp_code i))) (\<lambda>r.
     case r of
       Inr _ \<Rightarrow> ret_op ()
     | Inl err \<Rightarrow>
         (if err = MfaRequired then raise_op MfaRequired
          else bind_op (ignore_op (log_login_failed (ev_ext e) (ev_uuid e 0) (ev_now e) (li_username i)
                  (Some (u_id u)) ctx)) (\<lambda>_. raise_op err)))"

text \<open>What both sign-in handlers do after the rate limit.\<close>

definition open_session :: "env \<Rightarrow> audit_context \<Rightarrow> login_input \<Rightarrow> (db, login_error, token_pair) op" where
  "open_session e ctx i =
     bind_op (valid_or (validate_username (li_username i))) (\<lambda>_.
     bind_op (valid_or (validate_password (li_password i))) (\<lambda>_.
     bind_op (password_step e ctx i) (\<lambda>u.
     bind_op (mfa_step e ctx i u) (\<lambda>_.
     bind_op (gets_op (user_get_roles (u_id u))) (\<lambda>rls.
     bind_op (map_err_op LoginApp (generate_token_pair (ev_ext e) (ev_key e) (ev_now e) (ev_mint e) (u_id u) rls)) (\<lambda>pair.
     bind_op (note_audit e 1 (audit_ctx ctx (audit_user (u_id u) (audit LoginSuccess)))) (\<lambda>_.
     ret_op pair)))))))"

definition login :: "env \<Rightarrow> audit_context \<Rightarrow> login_input \<Rightarrow> (login_error, token_pair) state_op" where
  "login e ctx i =
     bind_op (map_err_op LoginRateLimit (check_login_limit e (ax_ip ctx))) (\<lambda>_. on_db (open_session e ctx i))"

section \<open>Refreshing and signing out\<close>

text \<open>The checks that both refresh handlers make on the new pair, and the audit entry.\<close>

definition note_refresh :: "env \<Rightarrow> audit_context \<Rightarrow> token_pair \<Rightarrow> unit db_op" where
  "note_refresh e ctx pair =
     bind_op (verify_access_token (ev_ext e) (ev_key e) (ev_now e) (tk_access pair)) (\<lambda>claims.
     bind_op (ok_or_op AuthenticationRequired (x_uuid_parse (ev_ext e) (c_sub claims))) (\<lambda>user_id.
     note_audit e 0 (audit_ctx ctx (audit_user user_id (audit TokenRefresh)))))"

definition refresh_token :: "env \<Rightarrow> audit_context \<Rightarrow> string \<Rightarrow> token_pair db_op" where
  "refresh_token e ctx tok =
     bind_op (rotate_token_pair (ev_ext e) (ev_key e) (ev_now e) (ev_mint e) tok) (\<lambda>pair.
     bind_op (note_refresh e ctx pair) (\<lambda>_. ret_op pair))"

text \<open>The status code of the response.\<close>

definition logout :: "env \<Rightarrow> audit_context \<Rightarrow> string \<Rightarrow> nat db_op" where
  "logout e ctx tok =
     bind_op (verify_and_revoke_refresh_token (ev_ext e) (ev_key e) (ev_now e) tok) (\<lambda>user_id.
     bind_op (revoke_user_access_tokens (ev_now e) user_id) (\<lambda>_.
     bind_op (note_audit e 0 (audit_ctx ctx (audit_user user_id (audit Logout)))) (\<lambda>_.
     ret_op 204)))"

section \<open>Browser sessions\<close>

definition session_cookies :: "token_pair \<Rightarrow> headers" where
  "session_cookies p =
     h_append ''set-cookie'' (build_refresh_cookie (tk_refresh p) (tk_refresh_expires_in p))
       (h_insert ''set-cookie'' (build_auth_cookie (tk_access p) (tk_expires_in p)) [])"

text \<open>A redirect to a local path, if one was asked for, else the given body.\<close>

definition redirect_or :: "string option \<Rightarrow> headers \<Rightarrow> body \<Rightarrow> response result" where
  "redirect_or redirect_uri hs b =
     (case redirect_uri of
        Some uri \<Rightarrow>
          (if is_local_redirect uri
           then (case header_value uri of
                   None \<Rightarrow> Inl (InputError [''Invalid redirect_uri''])
                 | Some v \<Rightarrow> Inr (plain 303 (h_insert ''location'' v hs) NoBody))
           else Inr (plain 200 hs b))
      | None \<Rightarrow> Inr (plain 200 hs b))"

definition browser_login_response :: "token_pair \<Rightarrow> string option \<Rightarrow> response result" where
  "browser_login_response p redirect_uri =
     redirect_or redirect_uri (session_cookies p)
       (Json (JObj [(''success'', JBool True), (''redirect_uri'', JNull)]))"

definition browser_login ::
  "env \<Rightarrow> audit_context \<Rightarrow> string option \<Rightarrow> login_input \<Rightarrow> (login_error, response) state_op" where
  "browser_login e ctx redirect_uri i =
     bind_op (map_err_op LoginRateLimit (check_login_limit e (ax_ip ctx))) (\<lambda>_.
     bind_op (on_db (open_session e ctx i)) (\<lambda>pair.
     map_err_op LoginApp (lift_op (browser_login_response pair redirect_uri))))"

text \<open>The last of several matching cookies makes the value ambiguous: then there is none.\<close>

definition cookie_value :: "string \<Rightarrow> headers \<Rightarrow> string option" where
  "cookie_value name hs =
     (let pairs = concat (map (\<lambda>v. case to_str v of
                    None \<Rightarrow> []
                  | Some s \<Rightarrow> filter_map (\<lambda>c. split_once_char CHR ''='' (trim c)) (split_char CHR '';'' s))
                (h_get_all ''cookie'' hs));
          values = map snd (filter (\<lambda>kv. fst kv = name) pairs)
      in case values of [v] \<Rightarrow> Some v | _ \<Rightarrow> None)"

text \<open>An authentication failure is swallowed, any other error is passed on.\<close>

definition unless_unauthenticated :: "'a db_op \<Rightarrow> 'a option db_op" where
  "unless_unauthenticated m =
     bind_op (try_op m) (\<lambda>r.
     case r of
       Inr v \<Rightarrow> ret_op (Some v)
     | Inl err \<Rightarrow> (if err = AuthenticationRequired then ret_op None else raise_op err))"

definition logout_by_refresh :: "env \<Rightarrow> headers \<Rightarrow> uuid option db_op" where
  "logout_by_refresh e hs =
     (case first_cookie ''__Host-authere_refresh='' hs of
        None \<Rightarrow> ret_op None
      | Some tok \<Rightarrow> unless_unauthenticated (verify_and_revoke_refresh_token (ev_ext e) (ev_key e) (ev_now e) tok))"

definition logout_by_access :: "env \<Rightarrow> headers \<Rightarrow> uuid option db_op" where
  "logout_by_access e hs =
     (case cookie_value AUTH_COOKIE_NAME hs of
        None \<Rightarrow> ret_op None
      | Some tok \<Rightarrow>
          bind_op (unless_unauthenticated (verify_access_token (ev_ext e) (ev_key e) (ev_now e) tok)) (\<lambda>c.
          ret_op (case c of None \<Rightarrow> None | Some claims \<Rightarrow> x_uuid_parse (ev_ext e) (c_sub claims))))"

definition browser_logout :: "env \<Rightarrow> audit_context \<Rightarrow> headers \<Rightarrow> string option \<Rightarrow> response db_op" where
  "browser_logout e ctx hs redirect_uri =
     bind_op (logout_by_refresh e hs) (\<lambda>by_refresh.
     bind_op (case by_refresh of Some u \<Rightarrow> ret_op (Some u) | None \<Rightarrow> logout_by_access e hs) (\<lambda>logout_user.
     bind_op (case logout_user of
                None \<Rightarrow> ret_op ()
              | Some u \<Rightarrow>
                  bind_op (revoke_all_user_tokens (ev_now e) u) (\<lambda>_.
                  note_audit e 0 (audit_ctx ctx (audit_user u (audit Logout))))) (\<lambda>_.
     lift_op (redirect_or redirect_uri
       (h_append ''set-cookie'' (clear_auth_cookies ! 1) (h_insert ''set-cookie'' (clear_auth_cookies ! 0) []))
       (Json (JObj [(''success'', JBool True)]))))))"

definition browser_refresh :: "env \<Rightarrow> audit_context \<Rightarrow> headers \<Rightarrow> response db_op" where
  "browser_refresh e ctx hs =
     bind_op (ok_or_op AuthenticationRequired (first_cookie ''__Host-authere_refresh='' hs)) (\<lambda>tok.
     bind_op (rotate_browser_token_pair (ev_ext e) (ev_key e) (ev_now e) (ev_mint e) tok) (\<lambda>pair.
     bind_op (note_refresh e ctx pair) (\<lambda>_.
     ret_op (plain 200 (session_cookies pair) (Json (JObj [(''ok'', JBool True)]))))))"

section \<open>Registration\<close>

record register_input =
  ri_username :: string
  ri_name :: string
  ri_email :: "string option"
  ri_password :: string
  ri_confirm_password :: string
  ri_invite_code :: "string option"

definition invite_error :: app_error where
  "invite_error = InputError [''Invitation is invalid or expired'']"

definition register_checks :: "env \<Rightarrow> register_input \<Rightarrow> db \<Rightarrow> bool result" where
  "register_checks e i d =
     (if ri_password i \<noteq> ri_confirm_password i then Inl (InputError [''Passwords do not match''])
      else case validate_create_input \<lparr>cu_username = ri_username i, cu_name = ri_name i,
                  cu_password = ri_password i, cu_email = ri_email i\<rparr> of
          Inl err \<Rightarrow> Inl err
        | Inr _ \<Rightarrow>
            (if open_registration_enabled d then Inr True
             else case ri_invite_code i of
                 None \<Rightarrow> Inl (InputError [''Registration is by invitation only''])
               | Some code \<Rightarrow>
                   (case invitation_get code d of
                      None \<Rightarrow> Inl invite_error
                    | Some iv \<Rightarrow> (if invitation_is_valid (ev_now e) iv then Inr False else Inl invite_error))))"

text \<open>The transaction: consume the invitation, then create the account with its password and role.\<close>

definition register_tx :: "env \<Rightarrow> register_input \<Rightarrow> bool \<Rightarrow> user \<Rightarrow> authenticator \<Rightarrow> invitation option db_op" where
  "register_tx e i opn u a = tx_op (
     bind_op (if opn then ret_op None
              else bind_op (invitation_consume (ev_now e) (case ri_invite_code i of Some c \<Rightarrow> c | None \<Rightarrow> [])) (\<lambda>consumed.
                case consumed of None \<Rightarrow> raise_op invite_error | Some iv \<Rightarrow> ret_op (Some iv))) (\<lambda>invite.
     bind_op (user_save u) (\<lambda>_.
     bind_op (authenticator_save a) (\<lambda>_.
     bind_op (gets_op (role_get_by_name ROLE_USER)) (\<lambda>r.
     bind_op (case r of None \<Rightarrow> ret_op () | Some ro \<Rightarrow> userrole_assign (u_id u) (ro_id ro)) (\<lambda>_.
     ret_op invite))))))"

definition register_body :: "env \<Rightarrow> audit_context \<Rightarrow> register_input \<Rightarrow> response db_op" where
  "register_body e ctx i =
     bind_op (\<lambda>d. (register_checks e i d, d)) (\<lambda>opn.
     let u = new_user (ev_uuid e 0) (ev_now e) (ri_username i) (ri_name i) (ri_email i) in
     case new_password (ev_ext e) (ev_random e 0) (ev_uuid e 1) (ri_password i) (u_id u) of
       Inl msg \<Rightarrow> raise_op (InternalError (''Failed to create authenticator ('' @ msg @ '')''))
     | Inr a \<Rightarrow>
         bind_op (register_tx e i opn u a) (\<lambda>invite.
         bind_op (note_audit e 2 (audit_details
             (JObj (case invite of
                Some iv \<Rightarrow> [(''invite_id'', JStr (in_id iv)), (''invite_used'', JBool True)]
              | None \<Rightarrow> [(''invite_used'', JBool False)]))
             (audit_ctx ctx (audit_user (u_id u) (audit UserRegistered))))) (\<lambda>_.
         bind_op (case invite of
             None \<Rightarrow> ret_op ()
           | Some iv \<Rightarrow> note_audit e 3 (audit_details (JObj [(''invite_id'', JStr (in_id iv))])
               (audit_ctx ctx (audit_user (u_id u) (audit InvitationConsumed))))) (\<lambda>_.
         bind_op (generate_token_pair (ev_ext e) (ev_key e) (ev_now e) (ev_mint e) (u_id u) [ROLE_USER]) (\<lambda>pair.
         ret_op (plain 200 (session_cookies pair)
           (Json (JObj [(''success'', JBool True), (''redirect_uri'', JStr ''/account'')]))))))))"

definition register :: "env \<Rightarrow> audit_context \<Rightarrow> register_input \<Rightarrow> (register_error, response) state_op" where
  "register e ctx i =
     bind_op (map_err_op RegisterRateLimit (check_register_limit e (ax_ip ctx))) (\<lambda>_.
     on_db (map_err_op RegisterApp (register_body e ctx i)))"

definition validate_invite :: "env \<Rightarrow> string \<Rightarrow> db \<Rightarrow> bool" where
  "validate_invite e code d =
     (case invitation_get code d of Some iv \<Rightarrow> invitation_is_valid (ev_now e) iv | None \<Rightarrow> False)"

end
