(* ===== verification/Applications.thy ===== *)
theory Applications
  imports Users Reference_Externals "HOL-Library.List_Lexorder" "HOL-Library.Char_ord"
    "HOL-Library.Multiset"
begin

text \<open>
  \<open>application.rs\<close>: registered applications, the choice of the forward-auth policy that
  governs a request, role checks, and OIDC client data.
\<close>

section \<open>Data\<close>

datatype app_type = ForwardAuth | Oidc

fun app_type_str :: "app_type \<Rightarrow> string" where
  "app_type_str ForwardAuth = ''forward_auth''"
| "app_type_str Oidc = ''oidc''"

definition app_type_of_str :: "string \<Rightarrow> app_type option" where
  "app_type_of_str s =
     (if s = ''forward_auth'' then Some ForwardAuth else if s = ''oidc'' then Some Oidc else None)"

record application =
  ap_id :: uuid
  ap_name :: string
  ap_slug :: string
  ap_type :: app_type
  ap_host_pattern :: "string option"
  ap_path_prefix :: "string option"
  ap_required_roles :: "string list"
  ap_enabled :: bool
  ap_client_id :: "string option"
  ap_redirect_uris :: "string list"
  ap_post_logout_uris :: "string list"
  ap_confidential :: bool
  ap_created_at :: int
  ap_updated_at :: int
  ap_secret_hash :: "string option"

record create_application_input =
  ca_name :: string
  ca_slug :: string
  ca_type :: "app_type option"
  ca_host_pattern :: "string option"
  ca_path_prefix :: "string option"
  ca_required_roles :: "string list option"
  ca_enabled :: "bool option"
  ca_redirect_uris :: "string list option"
  ca_post_logout_uris :: "string list option"
  ca_confidential :: "bool option"

record update_application_input =
  up_name :: "string option"
  up_host_pattern :: "string option"
  up_path_prefix :: "string option"
  up_required_roles :: "string list option"
  up_enabled :: "bool option"
  up_redirect_uris :: "string list option"
  up_post_logout_uris :: "string list option"

definition unwrap_or :: "'a \<Rightarrow> 'a option \<Rightarrow> 'a" where
  "unwrap_or d v = (case v of None \<Rightarrow> d | Some x \<Rightarrow> x)"

lemma unwrap_or_simps [simp]: "unwrap_or d None = d" "unwrap_or d (Some v) = v"
  by (simp_all add: unwrap_or_def)

text \<open>A column holding a JSON array of strings; anything else reads as empty.\<close>

definition str_list_column :: "externals \<Rightarrow> string option \<Rightarrow> string list" where
  "str_list_column x col =
     unwrap_or [] (do { s \<leftarrow> col; j \<leftarrow> x_json_parse x s; as_str_list j })"

definition application_of_row :: "externals \<Rightarrow> application_row \<Rightarrow> application" where
  "application_of_row x r =
     \<lparr>ap_id = ar_id r, ap_name = ar_name r, ap_slug = ar_slug r,
      ap_type = unwrap_or ForwardAuth (app_type_of_str (ar_app_type r)),
      ap_host_pattern = ar_host_pattern r, ap_path_prefix = ar_path_prefix r,
      ap_required_roles = str_list_column x (ar_required_roles r), ap_enabled = (ar_enabled r \<noteq> 0),
      ap_client_id = ar_client_id r, ap_redirect_uris = str_list_column x (ar_redirect_uris r),
      ap_post_logout_uris = str_list_column x (ar_post_logout_uris r),
      ap_confidential = (ar_secret_hash r \<noteq> None), ap_created_at = ar_created_at r,
      ap_updated_at = ar_updated_at r, ap_secret_hash = ar_secret_hash r\<rparr>"

section \<open>Construction\<close>

definition hash_secret :: "externals \<Rightarrow> string \<Rightarrow> string" where
  "hash_secret x secret = sha256_hex x secret"

text \<open>Random bytes are arguments.\<close>

definition generate_client_id :: "externals \<Rightarrow> string \<Rightarrow> string" where
  "generate_client_id x random16 = x_hex_encode x random16"

definition generate_client_secret :: "externals \<Rightarrow> string \<Rightarrow> string \<times> string" where
  "generate_client_secret x random32 =
     (let plaintext = x_hex_encode x random32 in (plaintext, hash_secret x plaintext))"

definition new_application :: "uuid \<Rightarrow> int \<Rightarrow> create_application_input \<Rightarrow> application" where
  "new_application fresh now i =
     \<lparr>ap_id = fresh, ap_name = ca_name i, ap_slug = ca_slug i,
      ap_type = unwrap_or ForwardAuth (ca_type i), ap_host_pattern = ca_host_pattern i,
      ap_path_prefix = ca_path_prefix i, ap_required_roles = unwrap_or [] (ca_required_roles i),
      ap_enabled = unwrap_or True (ca_enabled i), ap_client_id = None,
      ap_redirect_uris = unwrap_or [] (ca_redirect_uris i),
      ap_post_logout_uris = unwrap_or [] (ca_post_logout_uris i), ap_confidential = False,
      ap_created_at = now, ap_updated_at = now, ap_secret_hash = None\<rparr>"

definition new_oidc ::
  "externals \<Rightarrow> uuid \<Rightarrow> int \<Rightarrow> string \<Rightarrow> string \<Rightarrow> create_application_input \<Rightarrow> application \<times> string option" where
  "new_oidc x fresh now random16 random32 input =
     (let i = input\<lparr>ca_type := Some Oidc\<rparr>;
          confidential = unwrap_or True (ca_confidential i);
          app = (new_application fresh now i)\<lparr>ap_client_id := Some (generate_client_id x random16)\<rparr>
      in if confidential
         then (case generate_client_secret x random32 of (plain, hash) \<Rightarrow>
                (app\<lparr>ap_secret_hash := Some hash, ap_confidential := True\<rparr>, Some plain))
         else (app\<lparr>ap_confidential := False\<rparr>, None))"

section \<open>Queries\<close>

definition application_list :: "externals \<Rightarrow> db \<Rightarrow> application list" where
  "application_list x d = map (application_of_row x) (sort_key ar_name (applications d))"

definition application_list_enabled :: "externals \<Rightarrow> db \<Rightarrow> application list" where
  "application_list_enabled x d =
     map (application_of_row x) (sort_key ar_name (filter (\<lambda>r. ar_enabled r = 1) (applications d)))"

definition application_get :: "externals \<Rightarrow> uuid \<Rightarrow> db \<Rightarrow> application option" where
  "application_get x i d = map_option (application_of_row x) (sql_find (\<lambda>r. ar_id r = i) (applications d))"

definition get_by_slug :: "externals \<Rightarrow> string \<Rightarrow> db \<Rightarrow> application option" where
  "get_by_slug x slug d = map_option (application_of_row x) (sql_find (\<lambda>r. ar_slug r = slug) (applications d))"

definition get_by_oidc_client_id :: "externals \<Rightarrow> string \<Rightarrow> db \<Rightarrow> application option" where
  "get_by_oidc_client_id x cid d = map_option (application_of_row x)
     (sql_find (\<lambda>r. ar_client_id r = Some cid \<and> ar_app_type r = ''oidc'') (applications d))"

section \<open>Policy selection\<close>

definition literal_host_pattern :: "string \<Rightarrow> bool" where
  "literal_host_pattern p \<longleftrightarrow> p \<noteq> [] \<and> list_all (\<lambda>b. is_ascii_alphanumeric b \<or> b \<in> set ''.-:_'') p"

definition host_matches :: "externals \<Rightarrow> string \<Rightarrow> string \<Rightarrow> bool" where
  "host_matches x pattern host =
     (if literal_host_pattern pattern then eq_ignore_ascii_case pattern host
      else case x_regex x (''^(?:'' @ pattern @ '')$'') host of Some b \<Rightarrow> b | None \<Rightarrow> False)"

definition application_matches :: "externals \<Rightarrow> application \<Rightarrow> string \<Rightarrow> string \<Rightarrow> bool" where
  "application_matches x app host path =
     ((case ap_host_pattern app of None \<Rightarrow> True | Some pattern \<Rightarrow> host_matches x pattern host)
      \<and> (case ap_path_prefix app of None \<Rightarrow> True | Some pre \<Rightarrow> prefix pre path))"

text \<open>Tuples compare lexicographically, \<open>false\<close> before \<open>true\<close>.\<close>

type_synonym app_rank = "nat \<times> bool"

definition policy_rank :: "application \<Rightarrow> app_rank" where
  "policy_rank app =
     (case ap_path_prefix app of None \<Rightarrow> 0 | Some p \<Rightarrow> length p,
      case ap_host_pattern app of None \<Rightarrow> False | Some p \<Rightarrow> literal_host_pattern p)"

definition rank_less :: "app_rank \<Rightarrow> app_rank \<Rightarrow> bool" where
  "rank_less a b \<longleftrightarrow> fst a < fst b \<or> fst a = fst b \<and> \<not> snd a \<and> snd b"

text \<open>The loop of \<open>find_matching\<close>: the selected application with its rank, and the ambiguity flag.\<close>

fun select_policy ::
  "externals \<Rightarrow> string \<Rightarrow> string \<Rightarrow> (application \<times> app_rank) option \<Rightarrow> bool \<Rightarrow> application list
     \<Rightarrow> application option \<times> bool" where
  "select_policy x host path sel ambiguous [] = (map_option fst sel, ambiguous)"
| "select_policy x host path sel ambiguous (app # apps) =
     (if ap_type app \<noteq> ForwardAuth \<or> \<not> application_matches x app host path
      then select_policy x host path sel ambiguous apps
      else let rank = policy_rank app in
        case sel of
          Some (_, previous) \<Rightarrow>
            (if rank_less rank previous then select_policy x host path sel ambiguous apps
             else if rank = previous then select_policy x host path sel True apps
             else select_policy x host path (Some (app, rank)) False apps)
        | None \<Rightarrow> select_policy x host path (Some (app, rank)) False apps)"

definition find_matching :: "externals \<Rightarrow> string \<Rightarrow> string \<Rightarrow> db \<Rightarrow> application option result" where
  "find_matching x host path d =
     (case select_policy x host path None False (application_list x d) of
        (selected, ambiguous) \<Rightarrow>
          (if ambiguous then Inl Forbidden
           else Inr (case selected of None \<Rightarrow> None
                     | Some app \<Rightarrow> (if ap_enabled app then Some app else None))))"

section \<open>Access\<close>

definition check_access :: "application \<Rightarrow> string list \<Rightarrow> bool" where
  "check_access app names \<longleftrightarrow>
     ap_required_roles app = [] \<or> list_ex (\<lambda>r. r \<in> set names) (ap_required_roles app)"

fun required_names :: "externals \<Rightarrow> db \<Rightarrow> string list \<Rightarrow> string list" where
  "required_names x d [] = []"
| "required_names x d (entry # rest) =
     (case x_uuid_parse x entry of
        Some i \<Rightarrow> (case role_get i d of
            Some r \<Rightarrow> ro_name r # required_names x d rest
          | None \<Rightarrow> required_names x d rest)
      | None \<Rightarrow> entry # required_names x d rest)"

definition check_access_resolved :: "externals \<Rightarrow> application \<Rightarrow> string list \<Rightarrow> db \<Rightarrow> bool" where
  "check_access_resolved x app names d \<longleftrightarrow>
     ap_required_roles app = []
   \<or> list_ex (\<lambda>n. n \<in> set names) (required_names x d (ap_required_roles app))"

definition verify_client_secret :: "externals \<Rightarrow> application \<Rightarrow> string \<Rightarrow> bool" where
  "verify_client_secret x app presented =
     (case ap_secret_hash app of None \<Rightarrow> False | Some hash \<Rightarrow> hash_secret x presented = hash)"

definition validate_redirect_uri :: "application \<Rightarrow> string \<Rightarrow> bool" where
  "validate_redirect_uri app uri \<longleftrightarrow> list_ex (\<lambda>u. u = uri) (ap_redirect_uris app)"

definition validate_post_logout_redirect_uri :: "application \<Rightarrow> string \<Rightarrow> bool" where
  "validate_post_logout_redirect_uri app uri \<longleftrightarrow> list_ex (\<lambda>u. u = uri) (ap_post_logout_uris app)"

section \<open>Changes\<close>

definition row_of_application :: "externals \<Rightarrow> application \<Rightarrow> application_row" where
  "row_of_application x a =
     \<lparr>ar_id = ap_id a, ar_name = ap_name a, ar_slug = ap_slug a, ar_host_pattern = ap_host_pattern a,
      ar_path_prefix = ap_path_prefix a,
      ar_required_roles = Some (x_json_print x (jstrs (ap_required_roles a))),
      ar_enabled = (if ap_enabled a then 1 else 0), ar_created_at = ap_created_at a,
      ar_updated_at = ap_updated_at a, ar_app_type = app_type_str (ap_type a),
      ar_client_id = ap_client_id a, ar_secret_hash = ap_secret_hash a,
      ar_redirect_uris = Some (x_json_print x (jstrs (ap_redirect_uris a))),
      ar_post_logout_uris = Some (x_json_print x (jstrs (ap_post_logout_uris a)))\<rparr>"

definition application_save :: "externals \<Rightarrow> application \<Rightarrow> unit db_op" where
  "application_save x a =
     insert_op (\<lambda>d. \<exists>r\<in>set (applications d). ar_id r = ap_id a \<or> ar_slug r = ap_slug a
                 \<or> ap_client_id a \<noteq> None \<and> ar_client_id r = ap_client_id a) (\<lambda>d. False)
       (\<lambda>d. d\<lparr>applications := applications d @ [row_of_application x a]\<rparr>)"

definition apply_update :: "int \<Rightarrow> update_application_input \<Rightarrow> application \<Rightarrow> application" where
  "apply_update now i a =
     a\<lparr>ap_name := unwrap_or (ap_name a) (up_name i),
       ap_host_pattern := (case up_host_pattern i of None \<Rightarrow> ap_host_pattern a | Some h \<Rightarrow> Some h),
       ap_path_prefix := (case up_path_prefix i of None \<Rightarrow> ap_path_prefix a | Some p \<Rightarrow> Some p),
       ap_required_roles := unwrap_or (ap_required_roles a) (up_required_roles i),
       ap_enabled := unwrap_or (ap_enabled a) (up_enabled i),
       ap_redirect_uris := unwrap_or (ap_redirect_uris a) (up_redirect_uris i),
       ap_post_logout_uris := unwrap_or (ap_post_logout_uris a) (up_post_logout_uris i),
       ap_updated_at := now\<rparr>"

definition application_update ::
  "externals \<Rightarrow> int \<Rightarrow> update_application_input \<Rightarrow> application \<Rightarrow> application db_op" where
  "application_update x now i self =
     (let a = apply_update now i self; row = row_of_application x a in
      bind_op (modify_op (\<lambda>d. d\<lparr>applications := sql_update (\<lambda>r. ar_id r = ap_id a)
         (\<lambda>r. r\<lparr>ar_name := ar_name row, ar_host_pattern := ar_host_pattern row,
                ar_path_prefix := ar_path_prefix row, ar_required_roles := ar_required_roles row,
                ar_enabled := ar_enabled row, ar_updated_at := ar_updated_at row,
                ar_redirect_uris := ar_redirect_uris row,
                ar_post_logout_uris := ar_post_logout_uris row\<rparr>) (applications d)\<rparr>))
      (\<lambda>_. ret_op a))"

text \<open>Authorization codes of the application go with it.\<close>

definition application_delete :: "uuid \<Rightarrow> bool db_op" where
  "application_delete i = (\<lambda>d.
     (Inr (0 < sql_count (\<lambda>r. ar_id r = i) (applications d)),
      d\<lparr>applications := sql_delete (\<lambda>r. ar_id r = i) (applications d),
        oidc_codes := sql_delete (\<lambda>r. cd_application r = i) (oidc_codes d)\<rparr>))"

section \<open>Validation\<close>

definition validate_oidc_redirect_uri :: "externals \<Rightarrow> string \<Rightarrow> string + unit" where
  "validate_oidc_redirect_uri x uri =
     (case x_url_parse x uri of
        None \<Rightarrow> Inl (''redirect_uri is not a valid URL: '' @ uri)
      | Some u \<Rightarrow>
          (if ur_fragment u \<noteq> None then Inl (''redirect_uri must not contain a fragment: '' @ uri)
           else let host = unwrap_or [] (ur_host_str u) in
             if ur_scheme u = ''https'' then Inr ()
             else if ur_scheme u = ''http''
             then (if host = ''localhost'' \<or> host = ''127.0.0.1'' \<or> host = ''[::1]'' then Inr ()
                   else Inl (''http:// redirect_uris are only allowed for localhost: '' @ uri))
             else if ur_scheme u \<noteq> [] then Inr ()
             else Inl (''redirect_uri has no scheme: '' @ uri)))"

definition validate_input :: "externals \<Rightarrow> create_application_input \<Rightarrow> unit result" where
  "validate_input x i =
     (let e1 = (if ca_name i = [] \<or> 128 < length (ca_name i)
                then [''Application name must be between 1 and 128 characters''] else []);
          e2 = (if ca_slug i = [] \<or> 64 < length (ca_slug i)
                then [''Slug must be between 1 and 64 characters''] else []);
          e3 = (if \<not> list_all (\<lambda>c. is_alphanumeric x c \<or> c = 45 \<or> c = 95) (chars (ca_slug i))
                then [''Slug must contain only alphanumeric characters, hyphens, and underscores''] else []);
          e4 = (case unwrap_or ForwardAuth (ca_type i) of
                  ForwardAuth \<Rightarrow>
                    (if unwrap_or [] (ca_host_pattern i) = []
                     then [''Forward-auth apps require a host pattern''] else [])
                    @ (case ca_host_pattern i of None \<Rightarrow> []
                       | Some p \<Rightarrow> (if p \<noteq> [] \<and> \<not> x_regex_valid x (''^(?:'' @ p @ '')$'')
                                   then [''Invalid host pattern regex''] else []))
                | Oidc \<Rightarrow>
                    (let uris = unwrap_or [] (ca_redirect_uris i) in
                     (if uris = [] then [''OIDC apps require at least one redirect URI''] else [])
                     @ lefts (map (validate_oidc_redirect_uri x) uris)
                     @ map (\<lambda>e. ''post-logout: '' @ e)
                         (lefts (map (validate_oidc_redirect_uri x) (unwrap_or [] (ca_post_logout_uris i))))));
          errors = e1 @ e2 @ e3 @ e4
      in if errors = [] then Inr () else Inl (InputError errors))"

section \<open>The selection, declaratively\<close>

definition candidate :: "externals \<Rightarrow> string \<Rightarrow> string \<Rightarrow> application \<Rightarrow> bool" where
  "candidate x host path app \<longleftrightarrow> ap_type app = ForwardAuth \<and> application_matches x app host path"

text \<open>The candidates that no candidate outranks.\<close>

definition top_policies :: "externals \<Rightarrow> string \<Rightarrow> string \<Rightarrow> application list \<Rightarrow> application list" where
  "top_policies x host path apps =
     (let cs = filter (candidate x host path) apps
      in filter (\<lambda>a. \<forall>b\<in>set cs. \<not> rank_less (policy_rank a) (policy_rank b)) cs)"

lemma rank_less_irrefl [simp]: "\<not> rank_less r r"
  by (simp add: rank_less_def)

lemma rank_less_trans: "rank_less a b \<Longrightarrow> rank_less b c \<Longrightarrow> rank_less a c"
  by (auto simp: rank_less_def)

lemma rank_less_linear: "rank_less a b \<or> a = b \<or> rank_less b a"
  by (cases a; cases b) (auto simp: rank_less_def)

lemma top_policies_same_rank:
  assumes "a \<in> set (top_policies x h p apps)" and "b \<in> set (top_policies x h p apps)"
  shows "policy_rank a = policy_rank b"
proof -
  have "\<not> rank_less (policy_rank a) (policy_rank b)" "\<not> rank_less (policy_rank b) (policy_rank a)"
    using assms by (auto simp: top_policies_def)
  then show ?thesis using rank_less_linear by blast
qed

lemma ex_max_rank:
  "xs \<noteq> [] \<Longrightarrow> \<exists>a\<in>set xs. \<forall>b\<in>set xs. \<not> rank_less (policy_rank a) (policy_rank b)"
proof (induction xs)
  case (Cons y ys)
  show ?case
  proof (cases "ys = []")
    case False
    with Cons.IH obtain a where a: "a \<in> set ys" "\<forall>b\<in>set ys. \<not> rank_less (policy_rank a) (policy_rank b)" by blast
    show ?thesis
    proof (cases "rank_less (policy_rank a) (policy_rank y)")
      case True
      then have "\<not> rank_less (policy_rank y) (policy_rank b)" if "b \<in> set ys" for b
        using a(2) that rank_less_trans by blast
      then show ?thesis by auto
    qed (use a in auto)
  qed simp
qed simp

lemma top_policies_Nil: "top_policies x h p apps = [] \<longleftrightarrow> filter (candidate x h p) apps = []"
proof
  assume "top_policies x h p apps = []"
  then show "filter (candidate x h p) apps = []"
    using ex_max_rank [of "filter (candidate x h p) apps"]
    by (auto simp: top_policies_def filter_empty_conv)
qed (simp add: top_policies_def)

lemma top_policies_max:
  assumes "a \<in> set (top_policies x h p apps)" and "b \<in> set apps" and "candidate x h p b"
  shows "\<not> rank_less (policy_rank a) (policy_rank b)"
  using assms by (auto simp: top_policies_def)

lemma top_policies_snoc:
  "top_policies x h p (seen @ [app]) =
     (if \<not> candidate x h p app then top_policies x h p seen
      else case top_policies x h p seen of
          [] \<Rightarrow> [app]
        | a # _ \<Rightarrow>
            (if rank_less (policy_rank app) (policy_rank a) then top_policies x h p seen
             else if policy_rank app = policy_rank a then top_policies x h p seen @ [app]
             else [app]))"
proof (cases "candidate x h p app")
  case True
  let ?cs = "filter (candidate x h p) seen" and ?top = "top_policies x h p seen"
  have split: "top_policies x h p (seen @ [app]) =
      filter (\<lambda>a. \<not> rank_less (policy_rank a) (policy_rank app)) ?top
      @ (if \<forall>b\<in>set ?cs. \<not> rank_less (policy_rank app) (policy_rank b) then [app] else [])"
    using True by (auto simp: top_policies_def intro: filter_cong)
  show ?thesis
  proof (cases ?top)
    case Nil
    then have "?cs = []" by (simp add: top_policies_Nil)
    with split Nil True show ?thesis by simp
  next
    case (Cons a rest)
    then have a: "a \<in> set ?top" by simp
    have rank: "policy_rank c = policy_rank a" if "c \<in> set ?top" for c
      using top_policies_same_rank [OF that a] .
    have "(\<forall>b\<in>set ?cs. \<not> rank_less (policy_rank app) (policy_rank b)) \<longleftrightarrow>
        \<not> rank_less (policy_rank app) (policy_rank a)"
    proof
      assume "\<forall>b\<in>set ?cs. \<not> rank_less (policy_rank app) (policy_rank b)"
      moreover have "a \<in> set ?cs" using a by (simp add: top_policies_def)
      ultimately show "\<not> rank_less (policy_rank app) (policy_rank a)" by blast
    next
      assume *: "\<not> rank_less (policy_rank app) (policy_rank a)"
      have "\<not> rank_less (policy_rank app) (policy_rank b)" if "b \<in> set ?cs" for b
      proof -
        have "\<not> rank_less (policy_rank a) (policy_rank b)"
          using top_policies_max [OF a, of b] that by simp
        with * show ?thesis
          using rank_less_linear [of "policy_rank app" "policy_rank a"] rank_less_trans
          by metis
      qed
      then show "\<forall>b\<in>set ?cs. \<not> rank_less (policy_rank app) (policy_rank b)" by blast
    qed
    moreover have "filter (\<lambda>c. \<not> rank_less (policy_rank c) (policy_rank app)) ?top =
        (if rank_less (policy_rank a) (policy_rank app) then [] else ?top)"
      using rank by (auto simp: filter_empty_conv filter_id_conv)
    ultimately show ?thesis
      using True Cons split rank_less_linear [of "policy_rank app" "policy_rank a"] rank_less_trans
      by (auto simp: rank_less_def)
  qed
qed (simp add: top_policies_def)

lemma select_policy_top:
  "select_policy x h p (case top_policies x h p seen of [] \<Rightarrow> None | a # _ \<Rightarrow> Some (a, policy_rank a))
      (1 < length (top_policies x h p seen)) apps =
   (case top_policies x h p (seen @ apps) of [] \<Rightarrow> None | a # _ \<Rightarrow> Some a,
    1 < length (top_policies x h p (seen @ apps)))"
proof (induction apps arbitrary: seen)
  case Nil
  then show ?case by (simp split: list.split)
next
  case (Cons app apps)
  have "select_policy x h p (case top_policies x h p seen of [] \<Rightarrow> None | a # _ \<Rightarrow> Some (a, policy_rank a))
      (1 < length (top_policies x h p seen)) (app # apps) =
    select_policy x h p (case top_policies x h p (seen @ [app]) of [] \<Rightarrow> None | a # _ \<Rightarrow> Some (a, policy_rank a))
      (1 < length (top_policies x h p (seen @ [app]))) apps"
    by (auto simp: top_policies_snoc candidate_def Let_def split: list.splits)
  then show ?case using Cons.IH [of "seen @ [app]"] by simp
qed

lemma find_matching_top:
  "find_matching x h p d =
     (case top_policies x h p (application_list x d) of
        [] \<Rightarrow> Inr None
      | [app] \<Rightarrow> Inr (if ap_enabled app then Some app else None)
      | _ \<Rightarrow> Inl Forbidden)"
  using select_policy_top [of x h p "[]" "application_list x d"]
  by (auto simp: find_matching_def top_policies_def split: list.splits)


section \<open>Properties of policy selection\<close>

lemma filter_singleton:
  "filter P xs = [a] \<longleftrightarrow> (\<exists>pre post. xs = pre @ a # post \<and> P a \<and> (\<forall>b\<in>set (pre @ post). \<not> P b))"
proof
  assume "filter P xs = [a]"
  then obtain pre post where "xs = pre @ a # post" "\<forall>u\<in>set pre. \<not> P u" "P a" "filter P post = []"
    by (auto simp: filter_eq_Cons_iff)
  then show "\<exists>pre post. xs = pre @ a # post \<and> P a \<and> (\<forall>b\<in>set (pre @ post). \<not> P b)"
    by (auto simp: filter_empty_conv)
next
  assume "\<exists>pre post. xs = pre @ a # post \<and> P a \<and> (\<forall>b\<in>set (pre @ post). \<not> P b)"
  then obtain pre post where "xs = pre @ a # post" "P a" "\<forall>b\<in>set (pre @ post). \<not> P b" by blast
  moreover from this have "filter P pre = []" "filter P post = []" by (auto simp: filter_empty_conv)
  ultimately show "filter P xs = [a]" by simp
qed

lemma top_policies_filter:
  "top_policies x h p apps =
     filter (\<lambda>a. candidate x h p a \<and> (\<forall>b\<in>set apps. candidate x h p b \<longrightarrow> \<not> rank_less (policy_rank a) (policy_rank b))) apps"
  by (auto simp: top_policies_def conj_commute intro: filter_cong)

lemma check_access_resolved_iff:
  "check_access_resolved x app names d \<longleftrightarrow> ap_required_roles app = []
     \<or> (\<exists>required\<in>set (ap_required_roles app). \<exists>name\<in>set names.
          case x_uuid_parse x required of None \<Rightarrow> name = required | Some i \<Rightarrow> \<exists>r. role_get i d = Some r \<and> name = ro_name r)"
proof -
  have "list_ex (\<lambda>n. n \<in> set names) (required_names x d es) \<longleftrightarrow> (\<exists>required\<in>set es. \<exists>name\<in>set names.
      case x_uuid_parse x required of None \<Rightarrow> name = required | Some i \<Rightarrow> \<exists>r. role_get i d = Some r \<and> name = ro_name r)" for es
    by (induction es) (auto split: option.splits)
  then show ?thesis by (simp add: check_access_resolved_def)
qed

lemma find_matching_Some:
  "find_matching x host path d = Inr (Some app) \<longleftrightarrow>
     ap_enabled app \<and> ap_type app = ForwardAuth \<and> application_matches x app host path
   \<and> (\<exists>pre post. application_list x d = pre @ app # post
        \<and> (\<forall>b\<in>set (pre @ post). ap_type b = ForwardAuth \<and> application_matches x b host path
             \<longrightarrow> rank_less (policy_rank b) (policy_rank app)))"
proof -
  let ?apps = "application_list x d" and ?c = "candidate x host path"
  let ?P = "\<lambda>a. ?c a \<and> (\<forall>b\<in>set ?apps. ?c b \<longrightarrow> \<not> rank_less (policy_rank a) (policy_rank b))"
  have "find_matching x host path d = Inr (Some app) \<longleftrightarrow> ap_enabled app \<and> filter ?P ?apps = [app]"
    by (auto simp: find_matching_top top_policies_filter split: list.splits if_splits)
  also have "filter ?P ?apps = [app] \<longleftrightarrow> ?c app
      \<and> (\<exists>pre post. ?apps = pre @ app # post \<and> (\<forall>b\<in>set (pre @ post). ?c b \<longrightarrow> rank_less (policy_rank b) (policy_rank app)))"
  proof -
    have "(?P app \<and> (\<forall>b\<in>set (pre @ post). \<not> ?P b)) \<longleftrightarrow>
        ?c app \<and> (\<forall>b\<in>set (pre @ post). ?c b \<longrightarrow> rank_less (policy_rank b) (policy_rank app))"
      if apps: "?apps = pre @ app # post" for pre post
    proof
      assume l: "?P app \<and> (\<forall>b\<in>set (pre @ post). \<not> ?P b)"
      have "rank_less (policy_rank b) (policy_rank app)" if b: "b \<in> set (pre @ post)" "?c b" for b
      proof (rule ccontr)
        assume n: "\<not> ?thesis"
        have "\<not> rank_less (policy_rank app) (policy_rank b)" using l b apps by auto
        with n have "policy_rank b = policy_rank app" using rank_less_linear by blast
        with l b have "?P b" by simp
        with l b show False by blast
      qed
      with l show "?c app \<and> (\<forall>b\<in>set (pre @ post). ?c b \<longrightarrow> rank_less (policy_rank b) (policy_rank app))" by blast
    next
      assume r: "?c app \<and> (\<forall>b\<in>set (pre @ post). ?c b \<longrightarrow> rank_less (policy_rank b) (policy_rank app))"
      then have "\<not> rank_less (policy_rank app) (policy_rank b)" if "b \<in> set ?apps" "?c b" for b
        using that apps rank_less_trans [of "policy_rank app" "policy_rank b" "policy_rank app"] by auto
      moreover have "app \<in> set ?apps" using apps by simp
      ultimately show "?P app \<and> (\<forall>b\<in>set (pre @ post). \<not> ?P b)" using r by blast
    qed
    then show ?thesis unfolding filter_singleton by blast
  qed
  finally show ?thesis by (auto simp: candidate_def)
qed

text \<open>
  C27. The policy that governs a request is the single most specific one: \<open>find_matching\<close> returns
  an application exactly when it is enabled, is a forward-auth application whose host pattern and
  path prefix match, and every other matching forward-auth application, enabled or not, is
  strictly less specific (shorter path prefix, or equal and only a pattern instead of a literal
  host). Otherwise the request is refused or matches nothing.
\<close>

theorem find_matching_most_specific:
  "find_matching x host path d = Inr (Some app) \<longleftrightarrow>
     ap_enabled app \<and> ap_type app = ForwardAuth \<and> application_matches x app host path
   \<and> (\<exists>pre post. application_list x d = pre @ app # post
        \<and> (\<forall>b\<in>set (pre @ post). ap_type b = ForwardAuth \<and> application_matches x b host path
             \<longrightarrow> rank_less (policy_rank b) (policy_rank app)))"
  by (rule find_matching_Some)

definition demo_app :: "uuid \<Rightarrow> string \<Rightarrow> string \<Rightarrow> bool \<Rightarrow> application" where
  "demo_app i nm pre en = \<lparr>ap_id = i, ap_name = nm, ap_slug = nm, ap_type = ForwardAuth,
     ap_host_pattern = Some ''a.example'', ap_path_prefix = Some pre, ap_required_roles = [],
     ap_enabled = en, ap_client_id = None, ap_redirect_uris = [], ap_post_logout_uris = [],
     ap_confidential = False, ap_created_at = 0, ap_updated_at = 0, ap_secret_hash = None\<rparr>"

definition demo_apps_db :: db where
  "demo_apps_db = empty_db\<lparr>applications := map (row_of_application ref_ext)
     [demo_app 1 ''broad'' ''/'' True, demo_app 2 ''narrow'' ''/in'' True]\<rparr>"

lemma application_row_roundtrip:
  assumes "json_roundtrip x" and "ap_confidential a \<longleftrightarrow> ap_secret_hash a \<noteq> None"
  shows "application_of_row x (row_of_application x a) = a"
proof -
  have "str_list_column x (Some (x_json_print x (jstrs ss))) = ss" for ss
    using assms(1) by (simp add: str_list_column_def json_roundtrip_def)
  moreover have "app_type_of_str (app_type_str t) = Some t" for t
    by (cases t) (simp_all add: app_type_of_str_def)
  ultimately show ?thesis
    using assms(2) by (simp add: application_of_row_def row_of_application_def)
qed

lemma demo_apps_list: "application_list ref_ext demo_apps_db = [demo_app 1 ''broad'' ''/'' True, demo_app 2 ''narrow'' ''/in'' True]"
proof -
  have "sort_key ar_name (applications demo_apps_db) = map (row_of_application ref_ext)
     [demo_app 1 ''broad'' ''/'' True, demo_app 2 ''narrow'' ''/in'' True]"
    by (simp add: demo_apps_db_def empty_db_def row_of_application_def demo_app_def)
  then show ?thesis
    by (simp add: application_list_def application_row_roundtrip [OF ref_hypotheses(7)] demo_app_def)
qed

lemma demo_apps_match:
  "application_matches ref_ext (demo_app i nm pre en) ''a.example'' ''/in/x'' \<longleftrightarrow> prefix pre ''/in/x''"
  by (simp add: application_matches_def demo_app_def host_matches_def literal_host_pattern_def
      is_ascii_alphanumeric_def is_ascii_lower_def byte_def)

theorem find_matching_most_specific_witness:
  "find_matching ref_ext ''a.example'' ''/in/x'' demo_apps_db = Inr (Some (demo_app 2 ''narrow'' ''/in'' True))"
proof -
  let ?pre = "[demo_app 1 ''broad'' ''/'' True]" and ?a = "demo_app 2 ''narrow'' ''/in'' True"
  have "application_list ref_ext demo_apps_db = ?pre @ ?a # []" by (simp add: demo_apps_list)
  moreover have "\<forall>b\<in>set (?pre @ []). rank_less (policy_rank b) (policy_rank ?a)"
    by (simp add: demo_app_def policy_rank_def rank_less_def)
  moreover have "ap_enabled ?a" "ap_type ?a = ForwardAuth" by (simp_all add: demo_app_def)
  moreover have "application_matches ref_ext ?a ''a.example'' ''/in/x''" by (simp add: demo_apps_match)
  ultimately show ?thesis unfolding find_matching_most_specific by blast
qed

text \<open>
  The choice does not depend on the order of the table: two databases with the same
  applications, in whatever order, give every request the same answer.
\<close>

theorem find_matching_order_independent:
  assumes "mset (applications d') = mset (applications d)"
  shows "find_matching x host path d' = find_matching x host path d"
proof -
  have same: "mset (application_list x d') = mset (application_list x d)"
    using assms by (simp add: application_list_def)
  then have "set (application_list x d') = set (application_list x d)" by (rule mset_eq_setD)
  with same have tops: "mset (top_policies x host path (application_list x d')) =
      mset (top_policies x host path (application_list x d))"
    by (simp add: top_policies_filter)
  show ?thesis
  proof (cases "top_policies x host path (application_list x d)")
    case Nil
    with tops show ?thesis by (simp add: find_matching_top)
  next
    case (Cons a rest)
    show ?thesis
    proof (cases rest)
      case Nil
      with Cons tops have "top_policies x host path (application_list x d') = [a]" by simp
      with Cons Nil show ?thesis by (simp add: find_matching_top)
    next
      case (Cons b rest')
      with \<open>top_policies x host path (application_list x d) = a # rest\<close> tops
      have "length (top_policies x host path (application_list x d')) = Suc (Suc (length rest'))"
        by (metis length_Cons size_mset)
      then show ?thesis
        using Cons \<open>top_policies x host path (application_list x d) = a # rest\<close>
        by (auto simp: find_matching_top split: list.splits)
    qed
  qed
qed

theorem find_matching_order_independent_witness:
  "find_matching ref_ext ''a.example'' ''/in/x'' (demo_apps_db\<lparr>applications := rev (applications demo_apps_db)\<rparr>)
     = find_matching ref_ext ''a.example'' ''/in/x'' demo_apps_db"
  by (rule find_matching_order_independent) simp

text \<open>
  A registered application reads back unchanged: after a successful save, looking it up by
  id, by slug and (for an OIDC client) by client id returns the very application that was saved,
  and a confidential client created by \<open>new_oidc\<close> authenticates with the secret handed out.
\<close>

theorem application_saved_reads_back:
  assumes "json_roundtrip x" and new: "new_oidc x fresh now r16 r32 input = (a, secret)"
    and save: "application_save x a d = (Inr (), d')"
  shows "application_get x fresh d' = Some a \<and> get_by_slug x (ca_slug input) d' = Some a
     \<and> get_by_oidc_client_id x (generate_client_id x r16) d' = Some a
     \<and> (case secret of None \<Rightarrow> \<not> ap_confidential a | Some s \<Rightarrow> ap_confidential a \<and> verify_client_secret x a s)"
proof -
  from new have a: "ap_id a = fresh" "ap_slug a = ca_slug input" "ap_type a = Oidc"
    "ap_client_id a = Some (generate_client_id x r16)" "ap_confidential a \<longleftrightarrow> ap_secret_hash a \<noteq> None"
    "case secret of None \<Rightarrow> \<not> ap_confidential a | Some s \<Rightarrow> ap_confidential a \<and> verify_client_secret x a s"
    by (auto simp: new_oidc_def new_application_def generate_client_secret_def verify_client_secret_def
        Let_def split: if_splits)
  from save have d': "d' = d\<lparr>applications := applications d @ [row_of_application x a]\<rparr>"
    and fresh: "\<forall>r\<in>set (applications d). ar_id r \<noteq> ap_id a \<and> ar_slug r \<noteq> ap_slug a \<and> ar_client_id r \<noteq> ap_client_id a"
    using a(4) by (auto simp: application_save_def op_results)
  have rt: "application_of_row x (row_of_application x a) = a"
    by (rule application_row_roundtrip [OF assms(1) a(5)])
  have none: "sql_find P (applications d) = None" if "\<forall>r\<in>set (applications d). \<not> P r" for P
    using that by (simp add: sql_find_None)
  have "application_get x fresh d' = Some a"
    using fresh rt a(1) none [of "\<lambda>r. ar_id r = fresh"]
    by (simp add: application_get_def d' sql_find_append row_of_application_def)
  moreover have "get_by_slug x (ca_slug input) d' = Some a"
    using fresh rt a(2) none [of "\<lambda>r. ar_slug r = ca_slug input"]
    by (simp add: get_by_slug_def d' sql_find_append row_of_application_def)
  moreover have "get_by_oidc_client_id x (generate_client_id x r16) d' = Some a"
    using fresh rt a(3,4) none [of "\<lambda>r. ar_client_id r = Some (generate_client_id x r16) \<and> ar_app_type r = ''oidc''"]
    by (simp add: get_by_oidc_client_id_def d' sql_find_append row_of_application_def)
  ultimately show ?thesis using a(6) by blast
qed

definition demo_client_input :: create_application_input where
  "demo_client_input = \<lparr>ca_name = ''Wiki'', ca_slug = ''wiki'', ca_type = None, ca_host_pattern = None,
     ca_path_prefix = None, ca_required_roles = None, ca_enabled = None,
     ca_redirect_uris = Some [''https://wiki.example/cb''], ca_post_logout_uris = None, ca_confidential = None\<rparr>"

theorem application_saved_reads_back_witness:
  "get_by_slug ref_ext ''wiki'' (snd (application_save ref_ext
     (fst (new_oidc ref_ext 9 100 ''cid'' ''secret'' demo_client_input)) demo_apps_db))
   = Some (fst (new_oidc ref_ext 9 100 ''cid'' ''secret'' demo_client_input))"
proof -
  let ?a = "fst (new_oidc ref_ext 9 100 ''cid'' ''secret'' demo_client_input)"
  have "application_save ref_ext ?a demo_apps_db = (Inr (), snd (application_save ref_ext ?a demo_apps_db))"
    by (simp add: application_save_def insert_op_def demo_apps_db_def empty_db_def row_of_application_def
        demo_app_def new_oidc_def new_application_def demo_client_input_def generate_client_secret_def Let_def)
  from application_saved_reads_back [OF ref_hypotheses(7) prod.collapse [symmetric] this]
  show ?thesis by (simp add: demo_client_input_def)
qed

section \<open>Frames\<close>

lemma keeps_application_ops:
  "keeps same_users (application_save x a)" "keeps same_users (application_update x now i a)"
  "keeps same_users (application_delete j)"
proof -
  show "keeps same_users (application_save x a)"
    unfolding application_save_def by (intro keeps_intros) simp
  show "keeps same_users (application_update x now i a)"
    unfolding application_update_def Let_def by (intro su.keeps_rules keeps_intros) simp
qed (simp add: keeps_def application_delete_def same_users_def)

end
