(* ===== verification/Denied_Page.thy ===== *)
theory Denied_Page
  imports Http
begin

text \<open>
  The page that \<open>handlers/auth.rs\<close> shows when the reverse proxy must refuse access: escaping,
  the parts that depend on the request, and the fixed markup around them.
\<close>

section \<open>Escaping\<close>

text \<open>\<open>str::replace\<close> with a character pattern.\<close>

definition replace_char :: "char \<Rightarrow> string \<Rightarrow> string \<Rightarrow> string" where
  "replace_char c by s = concat (map (\<lambda>x. if x = c then by else [x]) s)"

definition html_escape :: "string \<Rightarrow> string" where
  "html_escape s =
     replace_char CHR 0x27 ''&#39;''
       (replace_char CHR 0x22 ''&quot;''
         (replace_char CHR ''>'' ''&gt;''
           (replace_char CHR ''<'' ''&lt;''
             (replace_char CHR ''&'' ''&amp;'' s))))"

section \<open>The page\<close>

definition app_block :: "string option \<Rightarrow> string" where
  \<open>app_block app_name = (case app_name of
       Some name \<Rightarrow>
         (if name \<noteq> [] then ''<div class="row"><span class="label">Application</span><span class="value">''
              @ html_escape name @ ''</span></div>'' else [])
     | None \<Rightarrow> [])\<close>

definition roles_block :: "string list \<Rightarrow> string" where
  \<open>roles_block required_roles =
     (if required_roles = [] then []
      else ''<div class="row"><span class="label">Required roles</span><span class="value chips">''
           @ concat (map (\<lambda>r. ''<span class="chip">'' @ html_escape r @ ''</span>'') required_roles)
           @ ''</span></div>'')\<close>

definition details_block :: "string \<Rightarrow> string \<Rightarrow> string" where
  \<open>details_block app rls =
     (if app = [] \<and> rls = [] then [] else ''<div class="details">'' @ app @ rls @ ''</div>'')\<close>

definition denied_head :: string where
  \<open>denied_head = join_str [CHR 0x0A]
    [''<!doctype html>'',
     ''<html lang="en">'',
     ''<head>'',
     ''<meta charset="utf-8">'',
     ''<meta name="viewport" content="width=device-width, initial-scale=1">'',
     ''<title>Access denied</title>'',
     ''<style>'',
     ''  *, *::before, *::after { box-sizing: border-box; margin: 0; padding: 0; }'',
     ''  html, body { height: 100%; }'',
     ''  body {'',
     ''    background: #05080f;'',
     ''    color: #f4f6fa;'',
     ''    font-family: '' @ [CHR 0x27] @ ''IBM Plex Sans'' @ [CHR 0x27] @ '', system-ui, -apple-system, Segoe UI, Roboto, sans-serif;'',
     ''    font-size: 14px;'',
     ''    line-height: 1.5;'',
     ''    -webkit-font-smoothing: antialiased;'',
     ''    background-image: radial-gradient(circle, rgba(255,255,255,0.04) 1px, transparent 1px);'',
     ''    background-size: 24px 24px;'',
     ''  }'',
     ''  .wrap {'',
     ''    min-height: 100%;'',
     ''    display: flex;'',
     ''    align-items: center;'',
     ''    justify-content: center;'',
     ''    padding: 32px;'',
     ''  }'',
     ''  .card {'',
     ''    width: 100%;'',
     ''    max-width: 440px;'',
     ''    background: #0a0f1c;'',
     ''    border: 1px solid rgba(255,255,255,0.10);'',
     ''    border-radius: 2px;'',
     ''    padding: 32px;'',
     ''    display: flex;'',
     ''    flex-direction: column;'',
     ''    gap: 24px;'',
     ''  }'',
     ''  @media (max-width: 639.98px) {'',
     ''    .wrap { padding: 16px; }'',
     ''    .card { padding: 24px 16px; }'',
     ''  }'',
     ''  .header { display: flex; flex-direction: column; gap: 8px; }'',
     ''  .logo {'',
     ''    display: flex;'',
     ''    align-items: center;'',
     ''    gap: 8px;'',
     ''    color: #f4f6fa;'',
     ''    margin-bottom: 8px;'',
     ''    font-size: 15px;'',
     ''    font-weight: 600;'',
     ''  }'',
     ''  h1 {'',
     ''    font-size: 18px;'',
     ''    line-height: 1.3;'',
     ''    letter-spacing: -0.005em;'',
     ''    font-weight: 600;'',
     ''    color: #f4f6fa;'',
     ''  }'',
     ''  .subtle { font-size: 13px; line-height: 1.45; color: #b4bcd0; }'',
     ''  .alert {'',
     ''    display: flex;'',
     ''    align-items: center;'',
     ''    gap: 8px;'',
     ''    color: #ef4444;'',
     ''    background: #2d0a0a;'',
     ''    border: 1px solid rgba(239,68,68,0.2);'',
     ''    border-radius: 2px;'',
     ''    padding: 8px 12px;'',
     ''    font-size: 13px;'',
     ''  }'',
     ''  .alert::before {'',
     ''    content: "";'',
     ''    width: 14px;'',
     ''    height: 14px;'',
     ''    flex: 0 0 14px;'',
     ''    background: #ef4444;'',
     ''    -webkit-mask: url("data:image/svg+xml;utf8,<svg xmlns='' @ [CHR 0x27] @ ''http://www.w3.org/2000/svg'' @ [CHR 0x27] @ '' viewBox='' @ [CHR 0x27] @ ''0 0 16 16'' @ [CHR 0x27] @ ''><path fill='' @ [CHR 0x27] @ ''black'' @ [CHR 0x27] @ '' d='' @ [CHR 0x27] @ ''M7.001 2a1 1 0 0 1 1.998 0l-.25 7a.75.75 0 0 1-1.498 0L7.001 2zm.999 12a1.25 1.25 0 1 1 0-2.5 1.25 1.25 0 0 1 0 2.5z'' @ [CHR 0x27] @ ''/></svg>") center/contain no-repeat;'',
     ''            mask: url("data:image/svg+xml;utf8,<svg xmlns='' @ [CHR 0x27] @ ''http://www.w3.org/2000/svg'' @ [CHR 0x27] @ '' viewBox='' @ [CHR 0x27] @ ''0 0 16 16'' @ [CHR 0x27] @ ''><path fill='' @ [CHR 0x27] @ ''black'' @ [CHR 0x27] @ '' d='' @ [CHR 0x27] @ ''M7.001 2a1 1 0 0 1 1.998 0l-.25 7a.75.75 0 0 1-1.498 0L7.001 2zm.999 12a1.25 1.25 0 1 1 0-2.5 1.25 1.25 0 0 1 0 2.5z'' @ [CHR 0x27] @ ''/></svg>") center/contain no-repeat;'',
     ''  }'',
     ''  .details {'',
     ''    display: flex;'',
     ''    flex-direction: column;'',
     ''    gap: 8px;'',
     ''    padding: 12px;'',
     ''    border: 1px solid rgba(255,255,255,0.06);'',
     ''    border-radius: 2px;'',
     ''    background: #0f1524;'',
     ''  }'',
     ''  .row { display: flex; flex-direction: column; gap: 4px; }'',
     ''  .label {'',
     ''    font-family: '' @ [CHR 0x27] @ ''IBM Plex Mono'' @ [CHR 0x27] @ '', ui-monospace, monospace;'',
     ''    font-size: 11px;'',
     ''    text-transform: uppercase;'',
     ''    letter-spacing: 0.08em;'',
     ''    color: #8390ad;'',
     ''  }'',
     ''  .value { color: #dce1ed; font-size: 13px; word-break: break-word; }'',
     ''  .chips { display: flex; flex-wrap: wrap; gap: 4px; }'',
     ''  .chip {'',
     ''    display: inline-flex;'',
     ''    align-items: center;'',
     ''    padding: 2px 8px;'',
     ''    border: 1px solid rgba(255,255,255,0.10);'',
     ''    border-radius: 2px;'',
     ''    background: #141b2d;'',
     ''    font-family: '' @ [CHR 0x27] @ ''IBM Plex Mono'' @ [CHR 0x27] @ '', ui-monospace, monospace;'',
     ''    font-size: 12px;'',
     ''    color: #dce1ed;'',
     ''  }'',
     ''  .actions { display: flex; flex-direction: column; gap: 8px; }'',
     ''  .btn {'',
     ''    display: inline-flex;'',
     ''    align-items: center;'',
     ''    justify-content: center;'',
     ''    height: 40px;'',
     ''    padding: 0 16px;'',
     ''    border-radius: 2px;'',
     ''    font-size: 14px;'',
     ''    font-weight: 500;'',
     ''    text-decoration: none;'',
     ''    border: 1px solid transparent;'',
     ''    cursor: pointer;'',
     ''    transition: background-color 140ms cubic-bezier(0.2, 0, 0, 1);'',
     ''  }'',
     ''  .btn-primary { background: #3b82f6; color: #ffffff; }'',
     ''  .btn-primary:hover { background: #2563eb; }'',
     ''  .btn-ghost {'',
     ''    background: transparent;'',
     ''    color: #dce1ed;'',
     ''    border-color: rgba(255,255,255,0.10);'',
     ''  }'',
     ''  .btn-ghost:hover { background: #141b2d; }'',
     ''</style>'',
     ''</head>'',
     ''<body>'',
     ''  <div class="wrap">'',
     ''    <div class="card">'',
     ''      <div class="header">'',
     ''        <div class="logo">'',
     ''          <svg width="28" height="28" viewBox="0 0 28 28" fill="none" xmlns="http://www.w3.org/2000/svg" aria-hidden="true">'',
     ''            <rect width="28" height="28" rx="4" fill="#3B82F6" fill-opacity="0.15"/>'',
     ''            <path d="M14 5L21 9.5v9L14 23l-7-4.5v-9L14 5z" stroke="#3B82F6" stroke-width="1.5" stroke-linejoin="round" fill="none"/>'',
     ''            <circle cx="14" cy="14" r="2.5" fill="#3B82F6"/>'',
     ''          </svg>'',
     ''          <span>authere</span>'',
     ''        </div>'',
     ''        <h1>Access denied</h1>'',
     ''        <p class="subtle">You'' @ [CHR 0x27] @ ''re signed in, but your account doesn'' @ [CHR 0x27] @ ''t have permission to view this page.</p>'',
     ''      </div>'',
     '''',
     ''      <div class="alert" role="alert">Your roles don'' @ [CHR 0x27] @ ''t grant access to this application.</div>'',
     '''',
     ''      '']\<close>

definition denied_middle :: string where
  \<open>denied_middle = join_str [CHR 0x0A]
    ['''',
     '''',
     ''      <div class="actions">'',
     ''        <a class="btn btn-primary" href="'']\<close>

definition denied_tail :: string where
  \<open>denied_tail = join_str [CHR 0x0A]
    [''">Sign in as a different user</a>'',
     ''        <a class="btn btn-ghost" href="javascript:history.back()">Go back</a>'',
     ''      </div>'',
     ''    </div>'',
     ''  </div>'',
     ''</body>'',
     ''</html>'',
     '''']\<close>

definition denied_page :: "string \<Rightarrow> string option \<Rightarrow> string list \<Rightarrow> string" where
  "denied_page switch_user_url app_name required_roles =
     denied_head @ details_block (app_block app_name) (roles_block required_roles)
     @ denied_middle @ html_escape switch_user_url @ denied_tail"

section \<open>Facts\<close>

definition escape_char :: "char \<Rightarrow> string" where
  "escape_char c =
     (if c = CHR ''&'' then ''&amp;'' else if c = CHR ''<'' then ''&lt;'' else if c = CHR ''>'' then ''&gt;''
      else if c = CHR 0x22 then ''&quot;'' else if c = CHR 0x27 then ''&#39;'' else [c])"

lemma replace_char_simps [simp]:
  "replace_char c by [] = []"
  "replace_char c by (x # xs) = (if x = c then by else [x]) @ replace_char c by xs"
  "replace_char c by (xs @ ys) = replace_char c by xs @ replace_char c by ys"
  by (simp_all add: replace_char_def)

text \<open>The five passes over the text amount to one: no pass touches what an earlier one wrote.\<close>

lemma html_escape_concat: "html_escape s = concat (map escape_char s)"
  by (induction s) (simp_all add: html_escape_def escape_char_def)

fun html_unescape :: "string \<Rightarrow> string" where
  "html_unescape [] = []"
| "html_unescape (c # s) =
     (if c = CHR ''&'' then
        (if prefix ''amp;'' s then CHR ''&'' # html_unescape (drop 4 s)
         else if prefix ''lt;'' s then CHR ''<'' # html_unescape (drop 3 s)
         else if prefix ''gt;'' s then CHR ''>'' # html_unescape (drop 3 s)
         else if prefix ''quot;'' s then CHR 0x22 # html_unescape (drop 5 s)
         else if prefix ''#39;'' s then CHR 0x27 # html_unescape (drop 4 s)
         else c # html_unescape s)
      else c # html_unescape s)"

text \<open>
  C40. Escaping is safe and loses nothing: whatever the text, the escaped text contains none of
  the characters that open or close markup or an attribute value, and a reader who resolves
  the entities gets the original back.
\<close>

theorem html_escape_safe_roundtrip:
  "set (html_escape s) \<inter> {CHR ''<'', CHR ''>'', CHR 0x22, CHR 0x27} = {} \<and> html_unescape (html_escape s) = s"
proof
  show "set (html_escape s) \<inter> {CHR ''<'', CHR ''>'', CHR 0x22, CHR 0x27} = {}"
    unfolding html_escape_concat by (auto simp: escape_char_def split: if_splits)
  show "html_unescape (html_escape s) = s"
    unfolding html_escape_concat by (induction s) (simp_all add: escape_char_def)
qed

end
