(* ===== verification/Forward_Handlers.thy ===== *)
theory Forward_Handlers
  imports Session_Handlers Applications Forward Denied_Page
begin

text \<open>
  The second half of \<open>handlers/auth.rs\<close>: what the reverse proxy asks (\<open>verify_auth\<close>) and the
  browser's way from a protected origin to the login and back.
\<close>

section \<open>Paths\<close>

definition safe_local_path :: "string \<Rightarrow> bool" where
  "safe_local_path path \<longleftrightarrow>
     prefix ''/'' path \<and> \<not> prefix ''//'' path
   \<and> \<not> list_ex (\<lambda>b. b = CHR 0x5C \<or> is_ascii_control b) path"

text \<open>At most five rounds of percent decoding, ending early when nothing changes.\<close>

fun decode_rounds :: "externals \<Rightarrow> nat \<Rightarrow> string \<Rightarrow> string option" where
  "decode_rounds x 0 decoded = Some decoded"
| "decode_rounds x (Suc n) decoded =
     (case x_url_decode x decoded of
        None \<Rightarrow> None
      | Some nxt \<Rightarrow> (if nxt = decoded then Some decoded else decode_rounds x n nxt))"

fun resolve_segments :: "string list \<Rightarrow> string list \<Rightarrow> string list" where
  "resolve_segments acc [] = acc"
| "resolve_segments acc (s # rest) =
     (if s = [] \<or> s = ''.'' then resolve_segments acc rest
      else if s = ''..'' then resolve_segments (butlast acc) rest
      else resolve_segments (acc @ [s]) rest)"

definition contains_str :: "string \<Rightarrow> string \<Rightarrow> bool" where
  "contains_str needle s \<longleftrightarrow> find_str needle s \<noteq> None"

definition normalize_policy_path :: "externals \<Rightarrow> string \<Rightarrow> string result" where
  "normalize_policy_path x path =
     (case decode_rounds x 5 path of
        None \<Rightarrow> Inl (InputError [''Invalid URL path''])
      | Some decoded \<Rightarrow>
          (if \<not> safe_local_path decoded \<or> CHR ''%'' \<in> set decoded \<or> contains_str ''//'' decoded
           then Inl (InputError [''Ambiguous URL path''])
           else let segments = resolve_segments [] (split_char CHR ''/'' decoded);
                    normalized = ''/'' @ join_str ''/'' segments
                in Inr (if suffix ''/'' decoded \<and> normalized \<noteq> ''/'' then normalized @ ''/'' else normalized)))"

section \<open>Targets\<close>

record forward_target =
  ft_url :: url
  ft_host :: string
  ft_policy_path :: string

definition invalid_target :: app_error where
  "invalid_target = InputError [''Invalid HTTPS forward-auth target'']"

text \<open>The second piece of \<open>split\<close> with a string pattern, if there is one.\<close>

definition second_piece :: "string \<Rightarrow> string \<Rightarrow> string option" where
  "second_piece sep s =
     (case find_str sep s of
        None \<Rightarrow> None
      | Some i \<Rightarrow>
          (let rest = drop (i + length sep) s in
           Some (case find_str sep rest of None \<Rightarrow> rest | Some j \<Rightarrow> take j rest)))"

definition userinfo_in_authority :: "string \<Rightarrow> bool" where
  "userinfo_in_authority input =
     (case second_piece ''://'' input of
        None \<Rightarrow> False
      | Some s \<Rightarrow> CHR ''@'' \<in> set (takeWhile (\<lambda>c. c \<notin> set ''/?#'') s))"

definition target_parse :: "externals \<Rightarrow> string \<Rightarrow> forward_target result" where
  "target_parse x input =
     (if list_ex (\<lambda>b. is_ascii_control b \<or> is_ascii_whitespace b \<or> b = CHR 0x5C) input then Inl invalid_target
      else case x_url_parse x input of
          None \<Rightarrow> Inl invalid_target
        | Some parsed \<Rightarrow>
            (if ur_scheme parsed \<noteq> ''https'' \<or> ur_host_str parsed = None \<or> ur_username parsed \<noteq> []
                \<or> ur_password parsed \<noteq> None \<or> ur_fragment parsed \<noteq> None \<or> userinfo_in_authority input
             then Inl invalid_target
             else case normalize_policy_path x (ur_path parsed) of
                 Inl err \<Rightarrow> Inl err
               | Inr p \<Rightarrow> Inr \<lparr>ft_url = parsed, ft_host = ur_host_port parsed, ft_policy_path = p\<rparr>))"

text \<open>A header that is present exactly once and readable.\<close>

definition single_header :: "headers \<Rightarrow> string \<Rightarrow> string option" where
  "single_header hs name = (case h_get_all name hs of [v] \<Rightarrow> to_str v | _ \<Rightarrow> None)"

definition ambiguous_host :: "string \<Rightarrow> bool" where
  "ambiguous_host host \<longleftrightarrow> list_ex (\<lambda>c. c \<in> set '',/?#@'') host"

definition target_from_proxy :: "externals \<Rightarrow> headers \<Rightarrow> forward_target result" where
  "target_from_proxy x hs =
     (case single_header hs ''x-forwarded-host'' of
        None \<Rightarrow> Inl (InputError [''Missing forwarded host''])
      | Some host \<Rightarrow>
          (let proto = (case single_header hs ''x-forwarded-proto'' of None \<Rightarrow> ''https'' | Some p \<Rightarrow> p) in
           case single_header hs ''x-forwarded-uri'' of
             None \<Rightarrow> Inl (InputError [''Missing forwarded URI''])
           | Some path \<Rightarrow>
               (if \<not> safe_local_path path \<or> ambiguous_host host
                then Inl (InputError [''Invalid forward-auth request metadata''])
                else target_parse x (proto @ ''://'' @ host @ path))))"

definition target_from_callback :: "externals \<Rightarrow> headers \<Rightarrow> string \<Rightarrow> forward_target result" where
  "target_from_callback x hs path =
     (let host_header = (if h_get_all ''x-authere-target-host'' hs \<noteq> [] then ''x-authere-target-host'' else ''host'') in
      case single_header hs host_header of
        None \<Rightarrow> Inl (InputError [''Missing target host''])
      | Some host \<Rightarrow>
          (if \<not> safe_local_path path \<or> ambiguous_host host
           then Inl (InputError [''Invalid forward-auth target''])
           else target_parse x (''https://'' @ host @ path)))"

definition target_origin :: "forward_target \<Rightarrow> string" where
  "target_origin t = ur_origin (ft_url t)"

text \<open>The target is an https URL, so its origin is a tuple and determined by its serialisation.\<close>

definition ensure_protected_origin :: "externals \<Rightarrow> string \<Rightarrow> forward_target \<Rightarrow> unit result" where
  "ensure_protected_origin x auth_origin t =
     (case x_url_parse x auth_origin of
        Some auth \<Rightarrow> (if ur_origin auth = ur_origin (ft_url t) then Inl Forbidden else Inr ())
      | None \<Rightarrow> Inr ())"

definition local_path :: "forward_target \<Rightarrow> string" where
  "local_path t = ur_before_path (ft_url t)"

definition start_url :: "externals \<Rightarrow> forward_target \<Rightarrow> string" where
  "start_url x t = target_origin t @ ''/.authere/start?redirect_uri='' @ x_url_encode x (local_path t)"

section \<open>Responses to the proxy\<close>

definition header_or_empty :: "string \<Rightarrow> string" where
  "header_or_empty s = (case header_value s of None \<Rightarrow> [] | Some v \<Rightarrow> v)"

definition build_auth_headers :: "externals \<Rightarrow> user \<Rightarrow> string list \<Rightarrow> string option \<Rightarrow> headers" where
  "build_auth_headers x u rls email =
     h_insert ''x-auth-email'' (case email of None \<Rightarrow> [] | Some m \<Rightarrow> header_or_empty m)
       (h_insert ''x-auth-roles'' (header_or_empty (join_str '','' rls))
         (h_insert ''x-auth-username'' (header_or_empty (u_username u))
           (h_insert ''x-auth-user'' (header_or_empty (x_uuid_str x (u_id u))) [])))"

definition build_forward_auth_redirect :: "env \<Rightarrow> headers \<Rightarrow> response" where
  "build_forward_auth_redirect e hs =
     (case target_from_proxy (ev_ext e) hs of
        Inr t \<Rightarrow> header_array_response 303
                  [(''location'', start_url (ev_ext e) t), (''cache-control'', ''no-store'')]
      | Inl err \<Rightarrow> app_error_response err)"

definition build_forward_auth_denied_html ::
  "env \<Rightarrow> headers \<Rightarrow> string option \<Rightarrow> string list \<Rightarrow> response" where
  "build_forward_auth_denied_html e hs app_name required_roles =
     (let switch_user_url =
        (case target_from_proxy (ev_ext e) hs of
           Inr t \<Rightarrow> start_url (ev_ext e) t @ ''&login=true''
         | Inl _ \<Rightarrow> ev_origin e @ ''/login'')
      in plain 403 (h_append ''cache-control'' ''no-store'' (h_append ''content-type'' ''text/html; charset=utf-8'' []))
           (Html (denied_page switch_user_url app_name required_roles)))"

section \<open>The proxy's question\<close>

text \<open>Both results are responses: access granted, or what to answer instead.\<close>

type_synonym proxy_op = "(db, response, response) op"

definition or_error :: "'a db_op \<Rightarrow> (db, response, 'a) op" where
  "or_error m = map_err_op app_error_response m"

definition forward_credential :: "headers \<Rightarrow> string option" where
  "forward_credential hs =
     (case cookie_value SESSION_COOKIE hs of
        Some tok \<Rightarrow> Some tok
      | None \<Rightarrow> (case single_header hs ''authorization'' of
          None \<Rightarrow> None | Some v \<Rightarrow> strip_prefix ''Bearer '' v))"

definition verify_auth :: "env \<Rightarrow> headers \<Rightarrow> proxy_op" where
  "verify_auth e hs =
     (let x = ev_ext e in
      bind_op (or_error (lift_op (target_from_proxy x hs))) (\<lambda>target.
      bind_op (or_error (lift_op (ensure_protected_origin x (ev_origin e) target))) (\<lambda>_.
      bind_op (or_error (\<lambda>d. (find_matching x (ft_host target) (ft_policy_path target) d, d))) (\<lambda>found.
      bind_op (ok_or_op (app_error_response Forbidden) found) (\<lambda>app.
      bind_op (ok_or_op (build_forward_auth_redirect e hs) (forward_credential hs)) (\<lambda>tok.
      bind_op (map_err_op (\<lambda>err. if err = AuthenticationRequired then build_forward_auth_redirect e hs
                                else app_error_response err)
                 (verify_session x (ev_key e) (ev_now e) tok (target_origin target))) (\<lambda>claims.
      bind_op (gets_op (user_get (fs_sub claims))) (\<lambda>usr.
      bind_op (ok_or_op (app_error_response AuthenticationRequired) usr) (\<lambda>u.
      bind_op (gets_op (user_get_roles (u_id u))) (\<lambda>rls.
      bind_op (gets_op (check_access_resolved x app rls)) (\<lambda>allowed.
      bind_op (require_op allowed
                 (build_forward_auth_denied_html e hs (Some (ap_name app)) (ap_required_roles app))) (\<lambda>_.
      bind_op (require_op (fs_application_id claims = ap_id app) (build_forward_auth_redirect e hs)) (\<lambda>_.
      ret_op (plain 200 (h_insert ''cache-control'' ''no-store'' (build_auth_headers x u rls (u_email u))) NoBody))))))))))))))"

section \<open>The login flow\<close>

definition trim_end_slashes :: "string \<Rightarrow> string" where
  "trim_end_slashes s = rev (dropWhile (\<lambda>c. c = CHR ''/'') (rev s))"

definition matched_app :: "env \<Rightarrow> forward_target \<Rightarrow> application db_op" where
  "matched_app e t =
     bind_op (\<lambda>d. (find_matching (ev_ext e) (ft_host t) (ft_policy_path t) d, d)) (\<lambda>found.
     ok_or_op Forbidden found)"

definition continue_path :: "env \<Rightarrow> forward_target \<Rightarrow> string \<Rightarrow> string" where
  "continue_path e t state =
     ''/api/auth/forward-redirect?redirect_uri='' @ x_url_encode (ev_ext e) (ur_text (ft_url t)) @ ''&state='' @ state"

definition forward_auth_start :: "env \<Rightarrow> headers \<Rightarrow> string option \<Rightarrow> bool \<Rightarrow> response db_op" where
  "forward_auth_start e hs redirect_uri do_login =
     bind_op (lift_op (target_from_callback (ev_ext e) hs (case redirect_uri of None \<Rightarrow> ''/'' | Some p \<Rightarrow> p))) (\<lambda>target.
     bind_op (lift_op (ensure_protected_origin (ev_ext e) (ev_origin e) target)) (\<lambda>_.
     bind_op (matched_app e target) (\<lambda>_.
     let nonce = new_state (ev_ext e) (ev_random e 0);
         cont = continue_path e target nonce;
         location = (if do_login
                     then trim_end_slashes (ev_origin e) @ ''/login?redirect_uri='' @ x_url_encode (ev_ext e) cont
                     else trim_end_slashes (ev_origin e) @ cont)
     in ret_op (header_array_response 303
          [(''location'', location), (''set-cookie'', state_cookie nonce 600),
           (''cache-control'', ''no-store''), (''referrer-policy'', ''no-referrer'')]))))"

definition with_origin_cookies :: "response \<Rightarrow> token_pair option \<Rightarrow> response" where
  "with_origin_cookies r pair =
     (let hs = h_insert ''referrer-policy'' ''no-referrer'' (h_insert ''cache-control'' ''no-store'' (rs_headers r))
      in r\<lparr>rs_headers := (case pair of
             None \<Rightarrow> hs
           | Some p \<Rightarrow> h_append ''set-cookie'' (build_refresh_cookie (tk_refresh p) (tk_refresh_expires_in p))
               (h_append ''set-cookie'' (build_auth_cookie (tk_access p) (tk_expires_in p)) hs))\<rparr>)"

text \<open>The session behind the browser's cookies, renewed when only the refresh cookie is good.\<close>

definition browser_session :: "env \<Rightarrow> headers \<Rightarrow> (claims option \<times> token_pair option) db_op" where
  "browser_session e hs =
     bind_op (case cookie_value AUTH_COOKIE_NAME hs of
         None \<Rightarrow> ret_op None
       | Some tok \<Rightarrow> unless_unauthenticated (verify_access_token (ev_ext e) (ev_key e) (ev_now e) tok)) (\<lambda>c.
     case c of
       Some claims \<Rightarrow> ret_op (Some claims, None)
     | None \<Rightarrow>
         (case cookie_value REFRESH_COOKIE_NAME hs of
            None \<Rightarrow> ret_op (None, None)
          | Some refresh \<Rightarrow>
              bind_op (unless_unauthenticated (rotate_browser_token_pair (ev_ext e) (ev_key e) (ev_now e) (ev_mint e) refresh)) (\<lambda>p.
              case p of
                None \<Rightarrow> ret_op (None, None)
              | Some pair \<Rightarrow>
                  bind_op (verify_access_token (ev_ext e) (ev_key e) (ev_now e) (tk_access pair)) (\<lambda>claims.
                  ret_op (Some claims, Some pair)))))"

definition denied_redirect :: "env \<Rightarrow> forward_target \<Rightarrow> application \<Rightarrow> token_pair option \<Rightarrow> response db_op" where
  "denied_redirect e target app renewed =
     bind_op (ok_or_op (InputError [''Invalid target host'']) (header_value (ft_host target))) (\<lambda>host.
     bind_op (ok_or_op (InputError [''Invalid target path'']) (header_value (local_path target))) (\<lambda>path.
     ret_op (with_origin_cookies
       (build_forward_auth_denied_html e (h_insert ''x-forwarded-uri'' path (h_insert ''x-forwarded-host'' host []))
          (Some (ap_name app)) (ap_required_roles app)) renewed)))"

definition forward_redirect :: "env \<Rightarrow> headers \<Rightarrow> string \<Rightarrow> string \<Rightarrow> response db_op" where
  "forward_redirect e hs redirect_uri state =
     (let x = ev_ext e in
      bind_op (lift_op (target_parse x redirect_uri)) (\<lambda>target.
      bind_op (lift_op (ensure_protected_origin x (ev_origin e) target)) (\<lambda>_.
      bind_op (require_op (valid_state state) (InputError [''Invalid forward login state''])) (\<lambda>_.
      bind_op (matched_app e target) (\<lambda>app.
      bind_op (browser_session e hs) (\<lambda>(c, renewed).
      case c of
        None \<Rightarrow>
          ret_op (with_origin_cookies
            (header_array_response 303
               [(''location'', ''/login?redirect_uri='' @ x_url_encode x (continue_path e target state))]) None)
      | Some claims \<Rightarrow>
          bind_op (ok_or_op AuthenticationRequired (x_uuid_parse x (c_sub claims))) (\<lambda>user_id.
          bind_op (gets_op (user_get user_id)) (\<lambda>usr.
          bind_op (ok_or_op AuthenticationRequired usr) (\<lambda>u.
          bind_op (gets_op (user_get_roles (u_id u))) (\<lambda>rls.
          bind_op (gets_op (check_access_resolved x app rls)) (\<lambda>allowed.
          if \<not> allowed then denied_redirect e target app renewed
          else
            bind_op (issue_handoff x (ev_key e) (ev_now e) (x_uuid_str x (ev_uuid e 0)) claims (ap_id app)
                       (target_origin target) (local_path target) state) (\<lambda>handoff.
            ret_op (with_origin_cookies
              (header_array_response 303
                 [(''location'', target_origin target @ ''/.authere/callback?token='' @ x_url_encode x handoff)])
              renewed)))))))))))))"

definition legacy_cookies :: "string list" where
  "legacy_cookies =
     [''authere_token=; HttpOnly; Secure; SameSite=Lax; Path=/; Max-Age=0'',
      ''authere_refresh=; HttpOnly; Secure; SameSite=Strict; Path=/api/auth; Max-Age=0'',
      ''authere_refresh=; HttpOnly; Secure; SameSite=Strict; Path=/auth; Max-Age=0'']"

definition forward_auth_callback :: "env \<Rightarrow> headers \<Rightarrow> string \<Rightarrow> response db_op" where
  "forward_auth_callback e hs tok =
     (let x = ev_ext e in
      bind_op (lift_op (target_from_callback x hs ''/'')) (\<lambda>origin_target.
      bind_op (lift_op (ensure_protected_origin x (ev_origin e) origin_target)) (\<lambda>_.
      bind_op (ok_or_op AuthenticationRequired (cookie_value STATE_COOKIE hs)) (\<lambda>nonce.
      bind_op (redeem_handoff x (ev_key e) (ev_now e) tok (target_origin origin_target) nonce)
        (\<lambda>(session_token, claims, redirect_path).
      bind_op (lift_op (target_from_callback x hs redirect_path)) (\<lambda>target.
      bind_op (matched_app e target) (\<lambda>app.
      bind_op (require_op (fs_application_id claims = ap_id app) Forbidden) (\<lambda>_.
      bind_op (gets_op (user_get (fs_sub claims))) (\<lambda>usr.
      bind_op (ok_or_op AuthenticationRequired usr) (\<lambda>u.
      bind_op (gets_op (user_get_roles (u_id u))) (\<lambda>rls.
      bind_op (gets_op (check_access_resolved x app rls)) (\<lambda>allowed.
      bind_op (require_op allowed Forbidden) (\<lambda>_.
      let r = header_array_response 303
            [(''location'', redirect_path), (''cache-control'', ''no-store''), (''referrer-policy'', ''no-referrer'')]
      in ret_op (r\<lparr>rs_headers := foldl (\<lambda>hs c. h_append ''set-cookie'' c hs) (rs_headers r)
            ([session_cookie session_token (fs_exp claims - ev_now e), state_cookie [] 0]
             @ clear_auth_cookies @ legacy_cookies)\<rparr>))))))))))))))"

definition lookup_forward_app :: "env \<Rightarrow> string \<Rightarrow> string db_op" where
  "lookup_forward_app e redirect_uri =
     bind_op (lift_op (target_parse (ev_ext e) redirect_uri)) (\<lambda>target.
     bind_op (lift_op (ensure_protected_origin (ev_ext e) (ev_origin e) target)) (\<lambda>_.
     bind_op (\<lambda>d. (find_matching (ev_ext e) (ft_host target) (ft_policy_path target) d, d)) (\<lambda>found.
     case found of Some app \<Rightarrow> ret_op (ap_name app) | None \<Rightarrow> raise_op NotFound)))"

end
