(* ===== verification/Forward_Access.thy ===== *)
theory Forward_Access
  imports Forward_Handlers Forward_Properties
begin

text \<open>
  Properties of the forward-authentication handlers: the path that policies are matched against
  is canonical, and the proxy lets a request pass exactly for a live session with access.
\<close>

section \<open>Canonical paths\<close>

text \<open>What \<open>urlencoding::decode\<close> documents about text without escapes.\<close>

definition url_decode_plain :: "externals \<Rightarrow> bool" where
  "url_decode_plain x \<longleftrightarrow> (\<forall>s. CHR ''%'' \<notin> set s \<longrightarrow> x_url_decode x s = Some s)"

lemma url_decode_plain_ref: "url_decode_plain ref_ext"
  by (simp add: url_decode_plain_def)

definition plain_segment :: "string \<Rightarrow> bool" where
  "plain_segment s \<longleftrightarrow> s \<noteq> [] \<and> s \<noteq> ''.'' \<and> s \<noteq> ''..'' \<and> CHR ''/'' \<notin> set s"

lemma resolve_segments_plain:
  "\<forall>s\<in>set ss. CHR ''/'' \<notin> set s \<Longrightarrow> list_all plain_segment acc \<Longrightarrow> list_all plain_segment (resolve_segments acc ss)"
proof (induction acc ss rule: resolve_segments.induct)
  case (2 acc s rest)
  have "list_all plain_segment (butlast acc)"
    using "2.prems"(2) by (auto simp: list_all_iff dest: in_set_butlastD)
  moreover have "plain_segment s \<longleftrightarrow> s \<noteq> [] \<and> s \<noteq> ''.'' \<and> s \<noteq> ''..''"
    using "2.prems"(1) by (simp add: plain_segment_def)
  ultimately show ?case using 2 by simp
qed simp

lemma resolve_segments_chars: "set (concat (resolve_segments acc ss)) \<subseteq> set (concat acc) \<union> set (concat ss)"
proof (induction acc ss rule: resolve_segments.induct)
  case (2 acc s rest)
  have "set (concat (butlast acc)) \<subseteq> set (concat acc)" by (auto dest: in_set_butlastD)
  then show ?case using 2 by (auto simp del: set_concat)
qed simp

lemma resolve_plain_id: "list_all plain_segment ss \<Longrightarrow> resolve_segments acc (ss @ rest) = resolve_segments (acc @ ss) rest"
  by (induction ss arbitrary: acc) (auto simp: plain_segment_def)

lemma set_join_slash: "set (join_str ''/'' ss) \<subseteq> insert CHR ''/'' (set (concat ss))"
  by (induction "''/''" ss rule: join_str.induct) auto

lemma join_slash_prefix:
  "list_all plain_segment (s # ss) \<Longrightarrow> \<exists>c rest. join_str ''/'' (s # ss) = c # rest \<and> c \<noteq> CHR ''/''"
  by (cases s; cases ss) (auto simp: plain_segment_def)

lemma contains_str_Cons:
  "n \<noteq> [] \<Longrightarrow> contains_str n (c # s) \<longleftrightarrow> prefix n (c # s) \<or> contains_str n s"
  by (simp add: contains_str_def)

lemma contains_slashes_append:
  "CHR ''/'' \<notin> set s \<Longrightarrow> contains_str ''//'' (s @ t) \<longleftrightarrow> contains_str ''//'' t"
proof (induction s)
  case (Cons c s)
  then show ?case by (simp add: contains_str_Cons)
qed simp

lemma no_slashes_join:
  "list_all plain_segment ss \<Longrightarrow> \<not> contains_str ''//'' (join_str ''/'' ss) \<and> \<not> contains_str ''//'' (join_str ''/'' ss @ ''/'')"
proof (induction "''/''" ss rule: join_str.induct)
  case 1
  then show ?case by (simp add: contains_str_def prefix_def)
next
  case (2 s)
  then have s: "CHR ''/'' \<notin> set s" by (simp add: plain_segment_def)
  have "\<not> contains_str ''//'' []" "\<not> contains_str ''//'' ''/''" by (simp_all add: contains_str_def prefix_def)
  then show ?case using contains_slashes_append [OF s, of "[]"] contains_slashes_append [OF s, of "''/''"] by simp
next
  case (3 s t ts)
  then have s: "CHR ''/'' \<notin> set s" by (simp add: plain_segment_def)
  obtain c rest where c: "join_str ''/'' (t # ts) = c # rest" "c \<noteq> CHR ''/''"
    using join_slash_prefix [of t ts] "3.prems" by auto
  have "\<not> contains_str ''//'' (''/'' @ join_str ''/'' (t # ts) @ u)"
    if "\<not> contains_str ''//'' (join_str ''/'' (t # ts) @ u)" for u
    using that c by (simp add: contains_str_Cons prefix_def)
  from this [of "[]"] this [of "''/''"] show ?case
    using "3.hyps" "3.prems" contains_slashes_append [OF s] by simp
qed


definition canonical :: "string list \<Rightarrow> bool \<Rightarrow> string" where
  "canonical ss slash = (let n = ''/'' @ join_str ''/'' ss in if slash \<and> n \<noteq> ''/'' then n @ ''/'' else n)"

lemma canonical_slash:
  "list_all plain_segment ss \<Longrightarrow> canonical ss slash = ''/'' @ join_str ''/'' ss @ (if slash \<and> ss \<noteq> [] then ''/'' else [])"
proof (cases ss)
  case (Cons s rest)
  assume "list_all plain_segment ss"
  then show ?thesis using join_slash_prefix [of s rest] Cons by (auto simp: canonical_def)
qed (simp add: canonical_def)

lemma split_canonical:
  assumes "list_all plain_segment ss"
  shows "resolve_segments [] (split_char CHR ''/'' (canonical ss slash)) = ss"
proof -
  have j: "split_char CHR ''/'' (join_str ''/'' ss) = (if ss = [] then [[]] else ss)"
    using assms split_char_join [of ss "CHR ''/''"] by (auto simp: list_all_iff plain_segment_def)
  have "split_char CHR ''/'' (join_str ''/'' ss @ ''/'') = split_char CHR ''/'' (join_str ''/'' ss) @ [[]]"
    using split_char_append [of "CHR ''/''" "join_str ''/'' ss" "[]"] by simp
  then show ?thesis
    using assms resolve_plain_id [of ss "[]" "[]"] resolve_plain_id [of ss "[]" "[[]]"]
    by (auto simp: canonical_slash j)
qed

lemma last_join_slash:
  "list_all plain_segment ss \<Longrightarrow> ss \<noteq> [] \<Longrightarrow> join_str ''/'' ss \<noteq> [] \<and> last (join_str ''/'' ss) \<noteq> CHR ''/''"
proof (induction "''/''" ss rule: join_str.induct)
  case (2 s)
  then show ?case by (simp add: plain_segment_def) (metis last_in_set)
next
  case (3 s t ts)
  then show ?case by simp
qed simp

lemma suffix_slash: "suffix ''/'' s \<longleftrightarrow> s \<noteq> [] \<and> last s = CHR ''/''"
  by (cases s rule: rev_cases) (auto simp: suffix_def)

lemma canonical_safe:
  assumes "list_all plain_segment ss"
  shows "prefix ''/'' (canonical ss slash)" "\<not> contains_str ''//'' (canonical ss slash)"
    "suffix ''/'' (canonical ss slash) \<longleftrightarrow> slash \<or> ss = []"
proof -
  show "prefix ''/'' (canonical ss slash)" using assms by (simp add: canonical_slash)
  show "suffix ''/'' (canonical ss slash) \<longleftrightarrow> slash \<or> ss = []"
    using assms last_join_slash [OF assms] by (auto simp: canonical_slash suffix_slash)
  show "\<not> contains_str ''//'' (canonical ss slash)"
  proof (cases ss)
    case Nil
    then show ?thesis by (simp add: canonical_def contains_str_def prefix_def)
  next
    case (Cons s rest)
    then obtain c r where "join_str ''/'' ss = c # r" "c \<noteq> CHR ''/''"
      using join_slash_prefix [of s rest] assms by auto
    then show ?thesis
      using no_slashes_join [OF assms] by (auto simp: canonical_slash [OF assms] contains_str_Cons prefix_def)
  qed
qed

lemma normalize_policy_path_Inr:
  "normalize_policy_path x p = Inr q \<longleftrightarrow>
     (\<exists>decoded. decode_rounds x 5 p = Some decoded \<and> safe_local_path decoded \<and> CHR ''%'' \<notin> set decoded
        \<and> \<not> contains_str ''//'' decoded
        \<and> q = canonical (resolve_segments [] (split_char CHR ''/'' decoded)) (suffix ''/'' decoded))"
  by (auto simp: normalize_policy_path_def canonical_def Let_def split: option.split)

lemma contains_prefix: "\<not> contains_str n s \<Longrightarrow> \<not> prefix n s"
  by (cases s) (auto simp: contains_str_def prefix_def)

text \<open>
  The path a policy is matched against is canonical: it starts at the root, has no escape
  left, no empty, \<open>.\<close> or \<open>..\<close> segment, no backslash and no control character, and normalising
  it again changes nothing. So no spelling of a path (encoded up to five times, with dot segments)
  can be matched by one rule and served as another.
\<close>

theorem policy_path_canonical:
  assumes "normalize_policy_path x p = Inr q" and "url_decode_plain x"
  shows "normalize_policy_path x q = Inr q \<and> safe_local_path q \<and> CHR ''%'' \<notin> set q \<and> \<not> contains_str ''//'' q
     \<and> ''.'' \<notin> set (split_char CHR ''/'' q) \<and> ''..'' \<notin> set (split_char CHR ''/'' q)"
proof -
  from assms(1) obtain decoded where d: "safe_local_path decoded" "CHR ''%'' \<notin> set decoded"
    and q: "q = canonical (resolve_segments [] (split_char CHR ''/'' decoded)) (suffix ''/'' decoded)"
    by (auto simp: normalize_policy_path_Inr)
  define ss where "ss = resolve_segments [] (split_char CHR ''/'' decoded)"
  have plain: "list_all plain_segment ss"
    unfolding ss_def by (rule resolve_segments_plain) (auto dest: split_char_no_sep)
  have q: "q = canonical ss (suffix ''/'' decoded)" using q by (simp add: ss_def)
  have "set (concat ss) \<subseteq> set decoded"
    using resolve_segments_chars [of "[]" "split_char CHR ''/'' decoded"] set_split_char [of _ "CHR ''/''" decoded]
    by (force simp: ss_def)
  then have chars: "set q \<subseteq> insert CHR ''/'' (set decoded)"
    using set_join_slash [of ss] unfolding q canonical_slash [OF plain] by (auto simp del: set_concat)
  have safe: "safe_local_path q"
    using d(1) chars canonical_safe(1,2) [OF plain] contains_prefix [of "''//''" q]
    by (fastforce simp: safe_local_path_def list_ex_iff q is_ascii_control_def byte_def)
  have pc: "CHR ''%'' \<notin> set q" using d(2) chars by auto
  have "decode_rounds x 5 q = Some q"
    using assms(2) pc by (simp add: url_decode_plain_def numeral_eq_Suc)
  moreover have "canonical ss (suffix ''/'' q) = q"
    unfolding q canonical_safe(3) [OF plain] by (auto simp: canonical_slash [OF plain])
  ultimately have "normalize_policy_path x q = Inr q"
    using safe pc canonical_safe(2) [OF plain] split_canonical [OF plain]
    by (simp add: normalize_policy_path_Inr q)
  moreover have "s \<noteq> ''.'' \<and> s \<noteq> ''..''" if "s \<in> set (split_char CHR ''/'' q)" for s
  proof -
    have "split_char CHR ''/'' q = [] # (if ss = [] then [[]] else ss) @ (if suffix ''/'' decoded \<and> ss \<noteq> [] then [[]] else [])"
      using plain split_char_join [of ss "CHR ''/''"] split_char_append [of "CHR ''/''" "join_str ''/'' ss" "[]"]
      by (auto simp: q canonical_slash list_all_iff plain_segment_def)
    then show ?thesis using that plain by (auto simp: list_all_iff plain_segment_def split: if_splits)
  qed
  ultimately show ?thesis using safe pc canonical_safe(2) [OF plain] by (auto simp: q)
qed

theorem policy_path_canonical_witness:
  "normalize_policy_path ref_ext ''/a/./b/../c/'' = Inr ''/a/c/'' \<and> normalize_policy_path ref_ext ''/a/c/'' = Inr ''/a/c/''"
proof -
  have "normalize_policy_path ref_ext ''/a/./b/../c/'' = Inr ''/a/c/''"
    by (simp add: normalize_policy_path_def numeral_eq_Suc safe_local_path_def is_ascii_control_def byte_def
        contains_str_def suffix_slash)
  then show ?thesis using policy_path_canonical [OF _ url_decode_plain_ref] by blast
qed


section \<open>Access through the proxy\<close>

lemma or_error_Inr [op_results]: "or_error m d = (Inr v, d') \<longleftrightarrow> m d = (Inr v, d')"
  by (simp add: or_error_def op_results)

text \<open>What makes a forwarded request a target, spelled out.\<close>

lemma target_parse_Inr:
  "target_parse x input = Inr t \<longleftrightarrow>
     \<not> list_ex (\<lambda>b. is_ascii_control b \<or> is_ascii_whitespace b \<or> b = CHR 0x5C) input \<and> \<not> userinfo_in_authority input
   \<and> (\<exists>url p. x_url_parse x input = Some url \<and> ur_scheme url = ''https'' \<and> ur_host_str url \<noteq> None
        \<and> ur_username url = [] \<and> ur_password url = None \<and> ur_fragment url = None
        \<and> normalize_policy_path x (ur_path url) = Inr p
        \<and> t = \<lparr>ft_url = url, ft_host = ur_host_port url, ft_policy_path = p\<rparr>)"
  by (auto simp: target_parse_def split: option.splits sum.splits)

lemma target_from_proxy_Inr:
  "(\<exists>t. target_from_proxy x hs = Inr t \<and> Q t) \<longleftrightarrow> (\<exists>host path input url p.
       single_header hs ''x-forwarded-host'' = Some host \<and> single_header hs ''x-forwarded-uri'' = Some path
     \<and> input = (case single_header hs ''x-forwarded-proto'' of None \<Rightarrow> ''https'' | Some p \<Rightarrow> p) @ ''://'' @ host @ path
     \<and> safe_local_path path \<and> \<not> ambiguous_host host
     \<and> \<not> list_ex (\<lambda>b. is_ascii_control b \<or> is_ascii_whitespace b \<or> b = CHR 0x5C) input \<and> \<not> userinfo_in_authority input
     \<and> x_url_parse x input = Some url \<and> ur_scheme url = ''https'' \<and> ur_host_str url \<noteq> None
     \<and> ur_username url = [] \<and> ur_password url = None \<and> ur_fragment url = None
     \<and> normalize_policy_path x (ur_path url) = Inr p
     \<and> Q \<lparr>ft_url = url, ft_host = ur_host_port url, ft_policy_path = p\<rparr>)"
proof -
  have "target_from_proxy x hs = Inr t \<longleftrightarrow> (\<exists>host path input.
       single_header hs ''x-forwarded-host'' = Some host \<and> single_header hs ''x-forwarded-uri'' = Some path
     \<and> input = (case single_header hs ''x-forwarded-proto'' of None \<Rightarrow> ''https'' | Some p \<Rightarrow> p) @ ''://'' @ host @ path
     \<and> safe_local_path path \<and> \<not> ambiguous_host host \<and> target_parse x input = Inr t)" for t
    by (auto simp: target_from_proxy_def Let_def split: option.splits)
  then show ?thesis unfolding target_parse_Inr by (simp only:) blast
qed

lemma ensure_protected_origin_Inr:
  "ensure_protected_origin x own t = Inr () \<longleftrightarrow> map_option ur_origin (x_url_parse x own) \<noteq> Some (ur_origin (ft_url t))"
  by (auto simp: ensure_protected_origin_def split: option.splits)

lemma forward_credential_Some:
  "forward_credential hs = Some tok \<longleftrightarrow> cookie_value SESSION_COOKIE hs = Some tok
     \<or> cookie_value SESSION_COOKIE hs = None \<and> single_header hs ''authorization'' = Some (''Bearer '' @ tok)"
  by (auto simp: forward_credential_def strip_prefix_Some split: option.splits)

lemma identity_headers:
  "h_insert ''cache-control'' ''no-store'' (build_auth_headers x u rls m) =
     (let hv = (\<lambda>t. case header_value t of None \<Rightarrow> [] | Some v \<Rightarrow> v) in
      [(''x-auth-user'', hv (x_uuid_str x (u_id u))), (''x-auth-username'', hv (u_username u)),
       (''x-auth-roles'', hv (join_str '','' rls)), (''x-auth-email'', case m of None \<Rightarrow> [] | Some a \<Rightarrow> hv a),
       (''cache-control'', ''no-store'')])"
  by (simp add: build_auth_headers_def h_insert_def header_or_empty_def Let_def split: option.split)

lemma verify_auth_Inr:
  "verify_auth e hs d = (Inr rs, d') \<longleftrightarrow>
     d' = d \<and> (\<exists>t. target_from_proxy (ev_ext e) hs = Inr t \<and> (\<exists>app tok s u.
        ensure_protected_origin (ev_ext e) (ev_origin e) t = Inr ()
      \<and> find_matching (ev_ext e) (ft_host t) (ft_policy_path t) d = Inr (Some app) \<and> forward_credential hs = Some tok
      \<and> forward_live (ev_ext e) (ev_key e) (ev_now e) tok (ur_origin (ft_url t)) s d \<and> user_get (fs_sub s) d = Some u
      \<and> check_access_resolved (ev_ext e) app (user_get_roles (u_id u) d) d \<and> fs_application_id s = ap_id app
      \<and> rs = plain 200 (h_insert ''cache-control'' ''no-store''
                (build_auth_headers (ev_ext e) u (user_get_roles (u_id u) d) (u_email u))) NoBody))"
  unfolding verify_auth_def Let_def target_origin_def [symmetric]
  by (rule iffI) (simp add: op_results verify_session_Inr, blast)+

lemma forward_live_Some:
  "forward_live x key now tok origin s d \<longleftrightarrow> (\<exists>j. x_jwt_verify x key
          \<lparr>jv_leeway = 0, jv_required = [''iss'', ''aud'', ''exp''], jv_iss = Some [''authere-forward''],
           jv_aud = Some [origin], jv_validate_aud = True, jv_validate_exp = True\<rparr> now tok = Some j
      \<and> forward_session_of_json x j = Some s \<and> fs_typ s = ''forward-session'' \<and> now < fs_exp s
      \<and> session_live (fs_sub s) (fs_iat s) (fs_session_version s) d)"
  by (auto simp: forward_live_def decode_forward_session_def forward_validation_def FORWARD_ISSUER_def bind_eq_Some_conv)

text \<open>
  C7. The proxy lets a request pass exactly when it should. The forwarded host and path, each sent
  once and free of ambiguous characters, form an https URL without credentials or fragment whose
  origin is not the server's own. One enabled application of the forward kind matches its host
  and its normalised path and outranks every other that does. The request carries, in the
  session cookie or else as a bearer token, a session signed for that origin and issued for that
  very application, unexpired, whose sign-in has not been revoked. Its user exists, and the
  application requires no role or one of the roles the user has at present, named directly or by
  identifier. The answer then consists of exactly these headers, once each: the user's
  identifier, name, roles and e-mail address (empty if there is none, so that a value sent by the
  client cannot survive), and the ban on caching. Nothing is changed in the database.
\<close>

theorem forward_access_exact:
  "verify_auth e hs d = (Inr rs, d') \<longleftrightarrow>
     d' = d \<and> (\<exists>host path input url p app tok j s u.
        single_header hs ''x-forwarded-host'' = Some host \<and> single_header hs ''x-forwarded-uri'' = Some path
      \<and> input = (case single_header hs ''x-forwarded-proto'' of None \<Rightarrow> ''https'' | Some q \<Rightarrow> q) @ ''://'' @ host @ path
      \<and> safe_local_path path \<and> \<not> ambiguous_host host
      \<and> \<not> list_ex (\<lambda>b. is_ascii_control b \<or> is_ascii_whitespace b \<or> b = CHR 0x5C) input \<and> \<not> userinfo_in_authority input
      \<and> x_url_parse (ev_ext e) input = Some url \<and> ur_scheme url = ''https'' \<and> ur_host_str url \<noteq> None
      \<and> ur_username url = [] \<and> ur_password url = None \<and> ur_fragment url = None
      \<and> normalize_policy_path (ev_ext e) (ur_path url) = Inr p
      \<and> map_option ur_origin (x_url_parse (ev_ext e) (ev_origin e)) \<noteq> Some (ur_origin url)
      \<and> ap_enabled app \<and> ap_type app = ForwardAuth \<and> application_matches (ev_ext e) app (ur_host_port url) p
      \<and> (\<exists>pre post. application_list (ev_ext e) d = pre @ app # post
           \<and> (\<forall>b\<in>set (pre @ post). ap_type b = ForwardAuth \<and> application_matches (ev_ext e) b (ur_host_port url) p
                \<longrightarrow> rank_less (policy_rank b) (policy_rank app)))
      \<and> (cookie_value SESSION_COOKIE hs = Some tok
           \<or> cookie_value SESSION_COOKIE hs = None \<and> single_header hs ''authorization'' = Some (''Bearer '' @ tok))
      \<and> x_jwt_verify (ev_ext e) (ev_key e)
          \<lparr>jv_leeway = 0, jv_required = [''iss'', ''aud'', ''exp''], jv_iss = Some [''authere-forward''],
           jv_aud = Some [ur_origin url], jv_validate_aud = True, jv_validate_exp = True\<rparr> (ev_now e) tok = Some j
      \<and> forward_session_of_json (ev_ext e) j = Some s \<and> fs_typ s = ''forward-session'' \<and> ev_now e < fs_exp s
      \<and> session_live (fs_sub s) (fs_iat s) (fs_session_version s) d
      \<and> fs_application_id s = ap_id app
      \<and> user_get (fs_sub s) d = Some u
      \<and> (ap_required_roles app = [] \<or> (\<exists>required\<in>set (ap_required_roles app). \<exists>name\<in>set (user_get_roles (u_id u) d).
           case x_uuid_parse (ev_ext e) required of None \<Rightarrow> name = required | Some i \<Rightarrow> \<exists>r. role_get i d = Some r \<and> name = ro_name r))
      \<and> rs = plain 200 (let hv = (\<lambda>t. case header_value t of None \<Rightarrow> [] | Some v \<Rightarrow> v) in
               [(''x-auth-user'', hv (x_uuid_str (ev_ext e) (u_id u))), (''x-auth-username'', hv (u_username u)),
                (''x-auth-roles'', hv (join_str '','' (user_get_roles (u_id u) d))),
                (''x-auth-email'', case u_email u of None \<Rightarrow> [] | Some m \<Rightarrow> hv m), (''cache-control'', ''no-store'')]) NoBody)"
  unfolding verify_auth_Inr target_from_proxy_Inr ensure_protected_origin_Inr find_matching_Some forward_credential_Some
    forward_live_Some check_access_resolved_iff identity_headers forward_target.simps
  by (rule iffI; (elim exE conjE); (intro conjI exI, assumption+))

text \<open>A session for the application that is mounted below \<open>/in\<close>, presented as a bearer token.\<close>

definition demo_forward_db :: db where
  "demo_forward_db = demo_session\<lparr>applications := applications demo_apps_db\<rparr>"

definition demo_forward_session :: forward_session where
  "demo_forward_session = hf_session (issued_handoff ref_ext 1500 ''j1'' demo_access 7 2 ''https://a.example'' ''/in/x'' [] 605800)"

definition demo_forward_token :: string where
  "demo_forward_token = json_text (forward_session_to_json ref_ext demo_forward_session)"

definition demo_forward_headers :: headers where
  "demo_forward_headers = [(''x-forwarded-host'', ''a.example''), (''x-forwarded-uri'', ''/in/x''),
     (''authorization'', ''Bearer '' @ demo_forward_token)]"

lemma demo_forward_live: "forward_live ref_ext [] 1500 demo_forward_token ''https://a.example'' demo_forward_session demo_forward_db"
proof -
  have "verify_session ref_ext [] 1500 demo_forward_token ''https://a.example'' demo_forward_db = (Inr demo_forward_session, demo_forward_db)"
    unfolding demo_forward_session_def
    by (rule delivered_session_accepted)
       (simp_all add: ref_hypotheses demo_forward_token_def demo_forward_session_def,
        simp_all add: issued_handoff_def forward_session_i64_def in_i64_def opt_i64_def demo_claim_defs
          session_live_def current_version_def demo_forward_db_def demo_state_defs)
  then show ?thesis by (simp add: verify_session_Inr)
qed

lemma demo_forward_credential:
  "cookie_value SESSION_COOKIE demo_forward_headers = None"
  "single_header demo_forward_headers ''authorization'' = Some (''Bearer '' @ demo_forward_token)"
proof -
  obtain n where n: "demo_forward_token = replicate n CHR ''j''"
    by (simp add: demo_forward_token_def json_text_def)
  show "cookie_value SESSION_COOKIE demo_forward_headers = None"
    by (simp add: cookie_value_def demo_forward_headers_def h_get_all_def)
  show "single_header demo_forward_headers ''authorization'' = Some (''Bearer '' @ demo_forward_token)"
    by (simp add: single_header_def demo_forward_headers_def h_get_all_def to_str_def n visible_ascii_def byte_def list_all_iff)
qed

theorem forward_access_exact_witness:
  "verify_auth demo_env demo_forward_headers demo_forward_db =
     (Inr (plain 200 [(''x-auth-user'', ''7''), (''x-auth-username'', ''alice''), (''x-auth-roles'', []), (''x-auth-email'', []),
        (''cache-control'', ''no-store'')] NoBody), demo_forward_db)"
proof -
  let ?app = "demo_app 2 ''narrow'' ''/in'' True"
  have env: "ev_ext demo_env = ref_ext" "ev_key demo_env = []" "ev_now demo_env = 1500" "ev_origin demo_env = ''https://auth.example''"
    by (simp_all add: demo_env_def)
  have hs: "single_header demo_forward_headers ''x-forwarded-host'' = Some ''a.example''"
    "single_header demo_forward_headers ''x-forwarded-uri'' = Some ''/in/x''"
    "single_header demo_forward_headers ''x-forwarded-proto'' = None"
    by (simp_all add: single_header_def demo_forward_headers_def h_get_all_def to_str_def visible_ascii_def byte_def)
  obtain url where url: "ref_url ''https://a.example/in/x'' = Some url" "ur_scheme url = ''https''" "ur_host_str url \<noteq> None"
    "ur_username url = []" "ur_password url = None" "ur_fragment url = None" "ur_path url = ''/in/x''"
    "ur_host_port url = ''a.example''" "ur_origin url = ''https://a.example''"
    by (simp_all add: ref_url_def strip_prefix_def Let_def)
  have own: "map_option ur_origin (ref_url ''https://auth.example'') \<noteq> Some ''https://a.example''"
    by (simp add: ref_url_def strip_prefix_def Let_def)
  have path: "safe_local_path ''/in/x''" "\<not> ambiguous_host ''a.example''"
    "\<not> list_ex (\<lambda>b. is_ascii_control b \<or> is_ascii_whitespace b \<or> b = CHR 0x5C) ''https://a.example/in/x''"
    "\<not> userinfo_in_authority ''https://a.example/in/x''"
    "normalize_policy_path ref_ext ''/in/x'' = Inr ''/in/x''"
    by (simp_all add: normalize_policy_path_def numeral_eq_Suc safe_local_path_def is_ascii_control_def is_ascii_whitespace_def
        byte_def contains_str_def suffix_slash ambiguous_host_def userinfo_in_authority_def second_piece_def find_str.simps)
  have app: "application_list ref_ext demo_forward_db = [demo_app 1 ''broad'' ''/'' True] @ ?app # []"
    using demo_apps_list by (simp add: application_list_def demo_forward_db_def)
  have best: "rank_less (policy_rank (demo_app 1 ''broad'' ''/'' True)) (policy_rank ?app)" "ap_enabled ?app" "ap_type ?app = ForwardAuth"
    "application_matches ref_ext ?app ''a.example'' ''/in/x''" "ap_required_roles ?app = []" "ap_id ?app = 2"
    by (simp_all add: demo_apps_match) (simp_all add: demo_app_def policy_rank_def rank_less_def)
  from demo_forward_live obtain j where j: "x_jwt_verify ref_ext []
        \<lparr>jv_leeway = 0, jv_required = [''iss'', ''aud'', ''exp''], jv_iss = Some [''authere-forward''],
         jv_aud = Some [''https://a.example''], jv_validate_aud = True, jv_validate_exp = True\<rparr> 1500 demo_forward_token = Some j"
    "forward_session_of_json ref_ext j = Some demo_forward_session" "fs_typ demo_forward_session = ''forward-session''"
    "1500 < fs_exp demo_forward_session"
    "session_live (fs_sub demo_forward_session) (fs_iat demo_forward_session) (fs_session_version demo_forward_session) demo_forward_db"
    unfolding forward_live_Some by blast
  have fs: "fs_application_id demo_forward_session = 2" "user_get (fs_sub demo_forward_session) demo_forward_db = Some (user.truncate demo_user)"
    "user_get_roles 7 demo_forward_db = []"
    by (simp_all add: demo_forward_session_def issued_handoff_def user_get_def user_get_roles_def demo_forward_db_def demo_state_defs)
  have unique: "\<exists>pre post. application_list ref_ext demo_forward_db = pre @ ?app # post
      \<and> (\<forall>b\<in>set (pre @ post). ap_type b = ForwardAuth \<and> application_matches ref_ext b ''a.example'' ''/in/x''
           \<longrightarrow> rank_less (policy_rank b) (policy_rank ?app))"
    using app best(1) by (intro exI [of _ "[demo_app 1 ''broad'' ''/'' True]"] exI [of _ "[]"]) simp
  have hv: "header_value ''7'' = Some ''7''" "header_value ''alice'' = Some ''alice''" "header_value [] = Some []"
    by (simp_all add: header_value_def valid_header_byte_def byte_def)
  have u: "u_id (user.truncate demo_user) = 7" "u_username (user.truncate demo_user) = ''alice''" "u_email (user.truncate demo_user) = None"
    by (simp_all add: demo_user_def user.truncate_def)
  have id: "show_nat 7 = ''7''" by (simp add: show_nat.simps char_of_eq_iff take_bit_eq_mod)
  show ?thesis
    unfolding forward_access_exact env
    by (rule conjI [OF refl], rule exI [of _ "''a.example''"], rule exI [of _ "''/in/x''"], rule exI [of _ "''https://a.example/in/x''"],
        rule exI [of _ url], rule exI [of _ "''/in/x''"], rule exI [of _ ?app], rule exI [of _ demo_forward_token], rule exI [of _ j],
        rule exI [of _ demo_forward_session], rule exI [of _ "user.truncate demo_user"])
       (use own unique demo_forward_credential j in \<open>simp only: url hs path best fs u id hv Let_def option.case join_str.simps
          ref_ext_sel append.simps simp_thms\<close>)
qed

end
