(* ===== verification/Oidc.thy ===== *)
theory Oidc
  imports Applications Demo
begin

text \<open>
  \<open>oidc/codes.rs\<close>, \<open>oidc/token.rs\<close> and \<open>oidc/jwks.rs\<close>: authorization codes with PKCE, ID tokens,
  OIDC access tokens and the published key set.
\<close>

section \<open>Constants and scopes\<close>

definition OIDC_ACCESS_TOKEN_LIFETIME :: int where "OIDC_ACCESS_TOKEN_LIFETIME = 60 * 60"
definition ID_TOKEN_LIFETIME :: int where "ID_TOKEN_LIFETIME = 60 * 60"
definition AUTHORIZATION_CODE_LIFETIME :: int where "AUTHORIZATION_CODE_LIFETIME = 10 * 60"

definition SCOPE_OPENID :: string where "SCOPE_OPENID = ''openid''"
definition SCOPE_PROFILE :: string where "SCOPE_PROFILE = ''profile''"
definition SCOPE_EMAIL :: string where "SCOPE_EMAIL = ''email''"
definition SCOPE_ROLES :: string where "SCOPE_ROLES = ''roles''"

lemmas oidc_lifetimes = OIDC_ACCESS_TOKEN_LIFETIME_def ID_TOKEN_LIFETIME_def AUTHORIZATION_CODE_LIFETIME_def

definition i64_max :: int where "i64_max = 2 ^ 63 - 1"

fun push_new :: "string list \<Rightarrow> string list \<Rightarrow> string list" where
  "push_new out [] = out"
| "push_new out (t # ts) = push_new (if t \<in> set out then out else out @ [t]) ts"

definition parse_scope :: "string \<Rightarrow> string list" where
  "parse_scope s = push_new [] (split_whitespace s)"

definition scope_contains :: "string list \<Rightarrow> string \<Rightarrow> bool" where
  "scope_contains scope needle \<longleftrightarrow> list_ex (\<lambda>s. s = needle) scope"

section \<open>Authorization codes\<close>

record consumed_code =
  cc_application_id :: uuid
  cc_user_id :: uuid
  cc_redirect_uri :: string
  cc_scope :: string
  cc_nonce :: "string option"
  cc_code_challenge :: string
  cc_code_challenge_method :: string
  cc_auth_time :: int
  cc_session_version :: "int option"
  cc_session_exp :: "int option"

definition hash_code :: "externals \<Rightarrow> string \<Rightarrow> string" where
  "hash_code x code = sha256_hex x code"

text \<open>\<open>generate_plaintext\<close> hex-encodes 32 random bytes, passed as an argument.\<close>

definition generate_plaintext :: "externals \<Rightarrow> string \<Rightarrow> string" where
  "generate_plaintext x random32 = x_hex_encode x random32"

definition code_issue ::
  "externals \<Rightarrow> int \<Rightarrow> string \<Rightarrow> uuid \<Rightarrow> uuid \<Rightarrow> string \<Rightarrow> string \<Rightarrow> string option \<Rightarrow> string \<Rightarrow> string
     \<Rightarrow> int \<Rightarrow> int option \<Rightarrow> int option \<Rightarrow> string db_op" where
  "code_issue x now random32 application_id user_id redirect_uri scope nonce challenge challenge_method
     auth_time version session_exp =
     (let plaintext = generate_plaintext x random32;
          hash = hash_code x plaintext;
          expires_at = min (unwrap_or i64_max session_exp) (now + AUTHORIZATION_CODE_LIFETIME)
      in bind_op (insert_op (\<lambda>d. \<exists>r\<in>set (oidc_codes d). cd_hash r = hash)
            (\<lambda>d. \<not> application_exists application_id d \<or> \<not> user_exists user_id d)
            (\<lambda>d. d\<lparr>oidc_codes := oidc_codes d @
               [\<lparr>cd_hash = hash, cd_application = application_id, cd_user = user_id,
                 cd_redirect_uri = redirect_uri, cd_scope = scope, cd_nonce = nonce,
                 cd_challenge = challenge, cd_method = challenge_method, cd_auth_time = auth_time,
                 cd_expires = expires_at, cd_consumed = None, cd_session_version = version,
                 cd_session_exp = session_exp\<rparr>]\<rparr>)) (\<lambda>_.
      ret_op plaintext))"

definition verify_pkce_s256 :: "externals \<Rightarrow> string \<Rightarrow> string \<Rightarrow> bool" where
  "verify_pkce_s256 x verifier challenge \<longleftrightarrow>
     \<not> (length verifier < 43 \<or> 128 < length verifier)
   \<and> list_all (\<lambda>b. is_ascii_alphanumeric b \<or> b \<in> set ''-._~'') verifier
   \<and> x_b64url x (x_sha256 x verifier) = challenge"

definition consumed_of_row :: "code_row \<Rightarrow> consumed_code" where
  "consumed_of_row r =
     \<lparr>cc_application_id = cd_application r, cc_user_id = cd_user r, cc_redirect_uri = cd_redirect_uri r,
      cc_scope = cd_scope r, cc_nonce = cd_nonce r, cc_code_challenge = cd_challenge r,
      cc_code_challenge_method = cd_method r, cc_auth_time = cd_auth_time r,
      cc_session_version = cd_session_version r, cc_session_exp = cd_session_exp r\<rparr>"

text \<open>The checks on the row that the SELECT returned.\<close>

definition code_bound :: "externals \<Rightarrow> int \<Rightarrow> uuid \<Rightarrow> string \<Rightarrow> string \<Rightarrow> code_row \<Rightarrow> bool" where
  "code_bound x now application_id redirect_uri verifier r \<longleftrightarrow>
     \<not> (cd_consumed r \<noteq> None \<or> cd_expires r \<le> now \<or> cd_application r \<noteq> application_id
        \<or> cd_redirect_uri r \<noteq> redirect_uri \<or> cd_method r \<noteq> ''S256''
        \<or> \<not> verify_pkce_s256 x verifier (cd_challenge r))"

text \<open>The guarded UPDATE; the value is \<open>rows_affected == 1\<close>.\<close>

definition code_open :: "externals \<Rightarrow> int \<Rightarrow> string \<Rightarrow> code_row \<Rightarrow> bool" where
  "code_open x now code r \<longleftrightarrow> cd_hash r = hash_code x code \<and> cd_consumed r = None \<and> now < cd_expires r"

definition code_mark :: "externals \<Rightarrow> int \<Rightarrow> string \<Rightarrow> db \<Rightarrow> bool \<times> db" where
  "code_mark x now code d =
     (sql_count (code_open x now code) (oidc_codes d) = 1,
      d\<lparr>oidc_codes := sql_update (code_open x now code) (\<lambda>r. r\<lparr>cd_consumed := Some now\<rparr>) (oidc_codes d)\<rparr>)"

definition code_consume ::
  "externals \<Rightarrow> int \<Rightarrow> string \<Rightarrow> uuid \<Rightarrow> string \<Rightarrow> string \<Rightarrow> consumed_code option db_op" where
  "code_consume x now code application_id redirect_uri verifier = (\<lambda>d.
     case sql_find (\<lambda>r. cd_hash r = hash_code x code) (oidc_codes d) of
       None \<Rightarrow> (Inr None, d)
     | Some row \<Rightarrow>
         (if \<not> code_bound x now application_id redirect_uri verifier row then (Inr None, d)
          else case code_mark x now code d of
              (one, d') \<Rightarrow> (Inr (if one then Some (consumed_of_row row) else None), d')))"

definition code_sweep_expired :: "int \<Rightarrow> nat db_op" where
  "code_sweep_expired now = (\<lambda>d.
     let cutoff = now - 3600 in
     (Inr (sql_count (\<lambda>r. cd_expires r < cutoff) (oidc_codes d)),
      d\<lparr>oidc_codes := sql_delete (\<lambda>r. cd_expires r < cutoff) (oidc_codes d)\<rparr>))"

section \<open>ID tokens and OIDC access tokens\<close>

record id_token_claims =
  it_iss :: string
  it_sub :: string
  it_aud :: string
  it_exp :: int
  it_iat :: int
  it_auth_time :: int
  it_session_version :: "int option"
  it_nonce :: "string option"
  it_name :: "string option"
  it_preferred_username :: "string option"
  it_updated_at :: "int option"
  it_email :: "string option"
  it_email_verified :: "bool option"
  it_roles :: "string list option"

definition id_claims_to_json :: "id_token_claims \<Rightarrow> json" where
  "id_claims_to_json c = JObj (
     [(''iss'', JStr (it_iss c)), (''sub'', JStr (it_sub c)), (''aud'', JStr (it_aud c)),
      (''exp'', JInt (it_exp c)), (''iat'', JInt (it_iat c)), (''auth_time'', JInt (it_auth_time c))]
     @ jskip ''session_version'' JInt (it_session_version c) @ jskip ''nonce'' JStr (it_nonce c)
     @ jskip ''name'' JStr (it_name c) @ jskip ''preferred_username'' JStr (it_preferred_username c)
     @ jskip ''updated_at'' JInt (it_updated_at c) @ jskip ''email'' JStr (it_email c)
     @ jskip ''email_verified'' JBool (it_email_verified c) @ jskip ''roles'' jstrs (it_roles c))"

definition id_claims_of_json :: "json \<Rightarrow> id_token_claims option" where
  "id_claims_of_json j = do {
     iss \<leftarrow> req_field as_str ''iss'' j;
     sub \<leftarrow> req_field as_str ''sub'' j;
     aud \<leftarrow> req_field as_str ''aud'' j;
     ex \<leftarrow> req_field as_i64 ''exp'' j;
     iat \<leftarrow> req_field as_i64 ''iat'' j;
     aut \<leftarrow> req_field as_i64 ''auth_time'' j;
     ver \<leftarrow> opt_field as_i64 ''session_version'' j;
     non \<leftarrow> opt_field as_str ''nonce'' j;
     nm \<leftarrow> opt_field as_str ''name'' j;
     pu \<leftarrow> opt_field as_str ''preferred_username'' j;
     ua \<leftarrow> opt_field as_i64 ''updated_at'' j;
     em \<leftarrow> opt_field as_str ''email'' j;
     ev \<leftarrow> opt_field as_bool ''email_verified'' j;
     rls \<leftarrow> opt_field as_str_list ''roles'' j;
     Some \<lparr>it_iss = iss, it_sub = sub, it_aud = aud, it_exp = ex, it_iat = iat, it_auth_time = aut,
           it_session_version = ver, it_nonce = non, it_name = nm, it_preferred_username = pu,
           it_updated_at = ua, it_email = em, it_email_verified = ev, it_roles = rls\<rparr> }"

record oidc_access_claims =
  oa_iss :: string
  oa_sub :: string
  oa_aud :: string
  oa_exp :: int
  oa_iat :: int
  oa_jti :: string
  oa_scope :: string
  oa_typ :: string
  oa_session_version :: "int option"

definition oidc_access_to_json :: "oidc_access_claims \<Rightarrow> json" where
  "oidc_access_to_json c = JObj (
     [(''iss'', JStr (oa_iss c)), (''sub'', JStr (oa_sub c)), (''aud'', JStr (oa_aud c)),
      (''exp'', JInt (oa_exp c)), (''iat'', JInt (oa_iat c)), (''jti'', JStr (oa_jti c)),
      (''scope'', JStr (oa_scope c)), (''typ'', JStr (oa_typ c))]
     @ jskip ''session_version'' JInt (oa_session_version c))"

definition oidc_access_of_json :: "json \<Rightarrow> oidc_access_claims option" where
  "oidc_access_of_json j = do {
     iss \<leftarrow> req_field as_str ''iss'' j;
     sub \<leftarrow> req_field as_str ''sub'' j;
     aud \<leftarrow> req_field as_str ''aud'' j;
     ex \<leftarrow> req_field as_i64 ''exp'' j;
     iat \<leftarrow> req_field as_i64 ''iat'' j;
     jti \<leftarrow> req_field as_str ''jti'' j;
     scp \<leftarrow> req_field as_str ''scope'' j;
     typ \<leftarrow> req_field as_str ''typ'' j;
     ver \<leftarrow> opt_field as_i64 ''session_version'' j;
     Some \<lparr>oa_iss = iss, oa_sub = sub, oa_aud = aud, oa_exp = ex, oa_iat = iat, oa_jti = jti,
           oa_scope = scp, oa_typ = typ, oa_session_version = ver\<rparr> }"

definition build_id_token_claims ::
  "externals \<Rightarrow> string \<Rightarrow> string \<Rightarrow> user \<Rightarrow> string list \<Rightarrow> string list \<Rightarrow> string option \<Rightarrow> int \<Rightarrow> int
     \<Rightarrow> id_token_claims" where
  "build_id_token_claims x issuer client_id u rls scope nonce auth_time now =
     (let c0 = \<lparr>it_iss = issuer, it_sub = x_uuid_str x (u_id u), it_aud = client_id,
                it_exp = now + ID_TOKEN_LIFETIME, it_iat = now, it_auth_time = auth_time,
                it_session_version = None, it_nonce = nonce, it_name = None,
                it_preferred_username = None, it_updated_at = None, it_email = None,
                it_email_verified = None, it_roles = None\<rparr>;
          c1 = (if scope_contains scope SCOPE_PROFILE
                then c0\<lparr>it_name := Some (u_name u), it_preferred_username := Some (u_username u),
                        it_updated_at := Some (u_updated_at u)\<rparr> else c0);
          c2 = (if scope_contains scope SCOPE_EMAIL
                then (case u_email u of Some e \<Rightarrow> c1\<lparr>it_email := Some e, it_email_verified := None\<rparr>
                      | None \<Rightarrow> c1) else c1)
      in if scope_contains scope SCOPE_ROLES then c2\<lparr>it_roles := Some rls\<rparr> else c2)"

definition kid_header :: "string \<Rightarrow> jwt_header" where
  "kid_header kid = \<lparr>jh_alg = ''EdDSA'', jh_kid = Some kid\<rparr>"

definition encode_id_token :: "externals \<Rightarrow> id_token_claims \<Rightarrow> skey \<Rightarrow> string \<Rightarrow> string result" where
  "encode_id_token x c key kid =
     (case x_jwt_sign x key (kid_header kid) (id_claims_to_json c) of
        Inl e \<Rightarrow> Inl (InternalError (''Failed to encode id_token: '' @ e))
      | Inr tok \<Rightarrow> Inr tok)"

definition oidc_access_claims_of ::
  "externals \<Rightarrow> int \<Rightarrow> string \<Rightarrow> string \<Rightarrow> uuid \<Rightarrow> string \<Rightarrow> string list \<Rightarrow> int option \<Rightarrow> int option
     \<Rightarrow> oidc_access_claims" where
  "oidc_access_claims_of x now jti issuer user_id client_id scope version session_exp =
     \<lparr>oa_iss = issuer, oa_sub = x_uuid_str x user_id, oa_aud = client_id,
      oa_exp = min (now + OIDC_ACCESS_TOKEN_LIFETIME) (unwrap_or i64_max session_exp), oa_iat = now,
      oa_jti = jti, oa_scope = join_str '' '' scope, oa_typ = ''oidc_access'',
      oa_session_version = version\<rparr>"

definition generate_oidc_access_token ::
  "externals \<Rightarrow> int \<Rightarrow> string \<Rightarrow> string \<Rightarrow> uuid \<Rightarrow> string \<Rightarrow> string list \<Rightarrow> skey \<Rightarrow> string \<Rightarrow> int option
     \<Rightarrow> int option \<Rightarrow> string result" where
  "generate_oidc_access_token x now jti issuer user_id client_id scope key kid version session_exp =
     (case x_jwt_sign x key (kid_header kid) (oidc_access_to_json
              (oidc_access_claims_of x now jti issuer user_id client_id scope version session_exp)) of
        Inl e \<Rightarrow> Inl (InternalError (''Failed to encode access token: '' @ e))
      | Inr tok \<Rightarrow> Inr tok)"

definition oidc_access_validation :: "string \<Rightarrow> jwt_validation" where
  "oidc_access_validation issuer =
     \<lparr>jv_leeway = 0, jv_required = [''sub'', ''exp'', ''iat'', ''jti'', ''typ'', ''iss''],
      jv_iss = Some [issuer], jv_aud = None, jv_validate_aud = False, jv_validate_exp = True\<rparr>"

definition verify_oidc_access_token ::
  "externals \<Rightarrow> int \<Rightarrow> string \<Rightarrow> string \<Rightarrow> skey \<Rightarrow> oidc_access_claims result" where
  "verify_oidc_access_token x now tok issuer key =
     (case do { j \<leftarrow> x_jwt_verify x key (oidc_access_validation issuer) now tok; oidc_access_of_json j } of
        None \<Rightarrow> Inl AuthenticationRequired
      | Some c \<Rightarrow> (if oa_typ c \<noteq> ''oidc_access'' \<or> oa_exp c \<le> now then Inl AuthenticationRequired
                   else Inr c))"

record token_response =
  tr_access_token :: string
  tr_id_token :: string
  tr_token_type :: string
  tr_expires_in :: int
  tr_scope :: string

definition mint_token_pair ::
  "externals \<Rightarrow> int \<Rightarrow> string \<Rightarrow> string \<Rightarrow> application \<Rightarrow> user \<Rightarrow> string list \<Rightarrow> string list \<Rightarrow> string option
     \<Rightarrow> int \<Rightarrow> skey \<Rightarrow> string \<Rightarrow> int option \<Rightarrow> int option \<Rightarrow> token_response result" where
  "mint_token_pair x now jti issuer app u rls scope nonce auth_time key kid version session_exp =
     (case ap_client_id app of
        None \<Rightarrow> Inl (InternalError ''OIDC app has no client_id'')
      | Some client_id \<Rightarrow>
          (let c0 = build_id_token_claims x issuer client_id u rls scope nonce auth_time now;
               c = c0\<lparr>it_session_version := version,
                      it_exp := min (it_exp c0) (unwrap_or i64_max session_exp)\<rparr>
           in case encode_id_token x c key kid of
                Inl e \<Rightarrow> Inl e
              | Inr id_token \<Rightarrow>
                  (case generate_oidc_access_token x now jti issuer (u_id u) client_id scope key kid
                          version session_exp of
                     Inl e \<Rightarrow> Inl e
                   | Inr access_token \<Rightarrow> Inr
                       \<lparr>tr_access_token = access_token, tr_id_token = id_token, tr_token_type = ''Bearer'',
                        tr_expires_in = max (it_exp c - now) 0, tr_scope = join_str '' '' scope\<rparr>)))"

section \<open>Published keys\<close>

record jwk =
  jk_kty :: string
  jk_crv :: string
  jk_alg :: string
  jk_use :: string
  jk_kid :: string
  jk_x :: string

definition load_signing_kid :: "externals \<Rightarrow> string db_op" where
  "load_signing_kid x =
     bind_op (gets_op (\<lambda>d. sql_find (\<lambda>r. ky_name r = ''default'') (keys d))) (\<lambda>row.
     case row of None \<Rightarrow> raise_op (DbError RowNotFound)
     | Some r \<Rightarrow> ret_op (x_uuid_str x (ky_id r)))"

definition build_jwks :: "externals \<Rightarrow> skey \<Rightarrow> string \<Rightarrow> jwk list" where
  "build_jwks x key kid =
     [\<lparr>jk_kty = ''OKP'', jk_crv = ''Ed25519'', jk_alg = ''EdDSA'', jk_use = ''sig'', jk_kid = kid,
       jk_x = x_b64url x (x_public_key x key)\<rparr>]"

section \<open>Facts\<close>

lemma distinct_push_new: "distinct out \<Longrightarrow> distinct (push_new out ts)"
  by (induction ts arbitrary: out) auto

lemma set_push_new: "set (push_new out ts) = set out \<union> set ts"
  by (induction ts arbitrary: out) auto

lemma parse_scope_distinct: "distinct (parse_scope s)"
  by (simp add: parse_scope_def distinct_push_new)

lemma set_parse_scope: "set (parse_scope s) = set (split_whitespace s)"
  by (simp add: parse_scope_def set_push_new)

lemma scope_contains_iff: "scope_contains scope n \<longleftrightarrow> n \<in> set scope"
  by (auto simp: scope_contains_def list_ex_iff)

lemma keeps_code_ops:
  "keeps same_users (code_issue x now r a u ru sc n ch me ta v se)"
  "keeps same_users (code_consume x now c a ru v')"
  "keeps same_users (code_sweep_expired now)"
proof -
  show "keeps same_users (code_issue x now r a u ru sc n ch me ta v se)"
    unfolding code_issue_def Let_def by (intro su.keeps_rules keeps_intros) simp
  show "keeps same_users (code_consume x now c a ru v')"
    by (auto simp: keeps_def code_consume_def code_mark_def same_users_def split: option.split)
qed (simp add: keeps_def code_sweep_expired_def same_users_def Let_def)

lemma code_mark_once:
  assumes "keyed cd_hash (oidc_codes d)" "r \<in> set (oidc_codes d)" "code_open x now code r"
  shows "fst (code_mark x now code d)"
proof -
  have "sql_count (code_open x now code) (oidc_codes d) \<le> 1"
    using assms(1) by (rule keyed_count_le_1) (auto simp: code_open_def)
  moreover have "0 < sql_count (code_open x now code) (oidc_codes d)"
    using assms(2,3) by (auto simp: sql_count_pos)
  ultimately show ?thesis by (simp add: code_mark_def)
qed
end
