(* ===== verification/Oidc_Properties.thy ===== *)
theory Oidc_Properties
  imports Oidc
begin

text \<open>
  The guarantees of the authorization code flow, each with a concrete run.
\<close>

section \<open>Codes are used once\<close>

text \<open>
  The exchange reads the row in one statement and marks it in another; other connections may
  run between the two. The contract is therefore stated of the marking statement alone, for
  any row that may have been read before.
\<close>

definition code_id_live :: "string \<Rightarrow> db \<Rightarrow> bool" where
  "code_id_live h d \<longleftrightarrow> (\<exists>r\<in>set (oidc_codes d). cd_hash r = h \<and> cd_consumed r = None)"

definition use_code :: "externals \<times> int \<times> string \<Rightarrow> db \<Rightarrow> bool \<times> db" where
  "use_code p d = (case p of (x, now, code) \<Rightarrow> code_mark x now code d)"

definition code_cred :: "externals \<times> int \<times> string \<Rightarrow> string" where
  "code_cred p = (case p of (x, now, code) \<Rightarrow> hash_code x code)"

lemma use_code_rows: "oidc_codes (snd (use_code (x, now, code) d)) =
    sql_update (code_open x now code) (\<lambda>r. r\<lparr>cd_consumed := Some now\<rparr>) (oidc_codes d)"
  by (simp add: use_code_def code_mark_def)

interpretation code: single_use "\<lambda>d. keyed cd_hash (oidc_codes d)" use_code code_cred code_id_live
  "\<lambda>h d d'. (code_id_live h d' \<longrightarrow> code_id_live h d) \<and> (keyed cd_hash (oidc_codes d) \<longrightarrow> keyed cd_hash (oidc_codes d'))"
proof
  fix d :: db and p
  assume k: "keyed cd_hash (oidc_codes d)" and ok: "fst (use_code p d)"
  obtain x now code where p: "p = (x, now, code)" by (cases p)
  from ok have "sql_count (code_open x now code) (oidc_codes d) = 1"
    by (simp add: p use_code_def code_mark_def)
  from sql_count_one [OF this] obtain r where r: "r \<in> set (oidc_codes d)" "code_open x now code r" ..
  then show "code_id_live (code_cred p) d"
    by (auto simp: p code_cred_def code_id_live_def code_open_def)
  have "code_open x now code q" if "q \<in> set (oidc_codes d)" "cd_hash q = hash_code x code" for q
    using keyed_unique [OF k that(1) r(1)] r(2) that(2) by (simp add: code_open_def)
  then show "\<not> code_id_live (code_cred p) (snd (use_code p d))"
    by (auto simp: p code_cred_def code_id_live_def use_code_rows set_sql_update split: if_splits)
next
  fix d :: db and h p
  assume "\<not> code_id_live h d"
  then show "\<not> code_id_live h (snd (use_code p d))"
    by (cases p) (auto simp: code_id_live_def use_code_rows set_sql_update split: if_splits)
next
  fix d :: db and p
  assume "keyed cd_hash (oidc_codes d)"
  then show "keyed cd_hash (oidc_codes (snd (use_code p d)))"
    by (cases p) (simp add: use_code_rows keyed_sql_update)
qed auto

definition demo_client :: application where
  "demo_client = fst (new_oidc ref_ext 9 100 ''cid'' ''secret'' demo_client_input)"

definition demo_verifier :: string where
  "demo_verifier = replicate 43 CHR ''v''"

definition demo_oidc :: db where
  "demo_oidc = demo_session\<lparr>applications := [row_of_application ref_ext demo_client]\<rparr>"

definition demo_coded :: db where
  "demo_coded = demo_oidc\<lparr>oidc_codes := [\<lparr>cd_hash = ''code'', cd_application = 9, cd_user = 7,
     cd_redirect_uri = ''https://wiki.example/cb'', cd_scope = ''openid'', cd_nonce = None,
     cd_challenge = demo_verifier, cd_method = ''S256'', cd_auth_time = 1000, cd_expires = 2100,
     cd_consumed = None, cd_session_version = Some 0, cd_session_exp = Some 605800\<rparr>]\<rparr>"

lemma demo_coded_keyed: "keyed cd_hash (oidc_codes demo_coded)"
  by (simp add: demo_coded_def keyed_def)

lemma demo_pkce: "verify_pkce_s256 ref_ext demo_verifier demo_verifier"
  by (simp add: verify_pkce_s256_def demo_verifier_def list_all_iff is_ascii_alphanumeric_def
      is_ascii_lower_def byte_def)

lemma demo_issue_code:
  "code_issue ref_ext 1500 ''code'' 9 7 ''https://wiki.example/cb'' ''openid'' None demo_verifier ''S256''
     1000 (Some 0) (Some 605800) demo_oidc = (Inr ''code'', demo_coded)"
  by (simp add: code_issue_def bind_op_def insert_op_def generate_plaintext_def hash_code_def demo_coded_def
      demo_oidc_def demo_state_defs application_exists_def user_exists_def row_of_application_def
      demo_client_def new_oidc_def new_application_def generate_client_secret_def Let_def
      oidc_lifetimes i64_max_def demo_client_input_def)

text \<open>
  An authorization code is exchanged at most once, however the statements of concurrent
  exchanges interleave: in every run of marking statements and other steps that do not issue
  this very code, at most one marking of it succeeds, whatever each exchange had read before.
\<close>

theorem code_single_use:
  assumes "code.run h d es d'" and "keyed cd_hash (oidc_codes d)"
  shows "code.successes h es \<le> 1"
  using code.at_most_one_success [OF assms] .

theorem code_single_use_witness:
  "code.successes ''code'' [((ref_ext, 1600, ''code''), fst (use_code (ref_ext, 1600, ''code'') demo_coded))] \<le> 1"
  using code_single_use [OF code.present [OF code.start] demo_coded_keyed] by simp

section \<open>What an exchange requires and changes\<close>

lemma code_consume_cases:
  assumes k: "keyed cd_hash (oidc_codes d)"
  shows "code_consume x now code app uri ver d =
    (case sql_find (\<lambda>r. cd_hash r = hash_code x code) (oidc_codes d) of
       Some r \<Rightarrow> (if code_bound x now app uri ver r
                 then (Inr (Some (consumed_of_row r)), snd (code_mark x now code d)) else (Inr None, d))
     | None \<Rightarrow> (Inr None, d))"
proof (cases "sql_find (\<lambda>r. cd_hash r = hash_code x code) (oidc_codes d)")
  case None
  then show ?thesis by (simp add: code_consume_def)
next
  case (Some r)
  then have r: "r \<in> set (oidc_codes d)" "cd_hash r = hash_code x code" by (auto dest: sql_find_SomeD)
  have "fst (code_mark x now code d)" if "code_bound x now app uri ver r"
    using code_mark_once [OF k r(1)] that r(2) by (simp add: code_bound_def code_open_def)
  with Some show ?thesis by (auto simp: code_consume_def split: prod.split)
qed

text \<open>
  A code is exchanged only by the client it was issued to, with the redirect URI it was
  issued for and the PKCE verifier of the original request, before it expires; the exchange
  returns what was stored and spends the code. Every other attempt changes nothing, so a failed
  exchange never destroys another client's code.
\<close>

theorem code_exchange_bound:
  assumes "keyed cd_hash (oidc_codes d)"
  shows "case code_consume x now code app uri ver d of
     (Inr (Some c), d') \<Rightarrow>
        (\<exists>r\<in>set (oidc_codes d). cd_hash r = hash_code x code \<and> c = consumed_of_row r
           \<and> cd_application r = app \<and> cd_redirect_uri r = uri \<and> now < cd_expires r \<and> cd_consumed r = None
           \<and> cd_method r = ''S256'' \<and> x_b64url x (x_sha256 x ver) = cd_challenge r
           \<and> 43 \<le> length ver \<and> length ver \<le> 128)
        \<and> \<not> code_id_live (hash_code x code) d'
        \<and> (\<forall>later app' uri' ver'. code_consume x later code app' uri' ver' d' = (Inr None, d'))
   | (r, d') \<Rightarrow> r = Inr None \<and> d' = d"
proof (cases "sql_find (\<lambda>r. cd_hash r = hash_code x code) (oidc_codes d)")
  case None
  then show ?thesis by (simp add: code_consume_cases [OF assms])
next
  case (Some r)
  then have r: "r \<in> set (oidc_codes d)" "cd_hash r = hash_code x code" by (auto dest: sql_find_SomeD)
  show ?thesis
  proof (cases "code_bound x now app uri ver r")
    case True
    let ?d' = "snd (code_mark x now code d)"
    have mark: "fst (use_code (x, now, code) d)" "snd (use_code (x, now, code) d) = ?d'"
      using code_mark_once [OF assms r(1)] True r(2)
      by (auto simp: use_code_def code_bound_def code_open_def)
    have dead: "\<not> code_id_live (hash_code x code) ?d'"
      using code.success_spends [OF assms mark(1)] mark(2) by (simp add: code_cred_def)
    have k': "keyed cd_hash (oidc_codes ?d')"
      using code.use_inv [OF assms, of "(x, now, code)"] mark(2) by simp
    have "code_consume x later code app' uri' ver' ?d' = (Inr None, ?d')" for later app' uri' ver'
    proof -
      have "\<not> code_bound x later app' uri' ver' q"
        if "sql_find (\<lambda>r. cd_hash r = hash_code x code) (oidc_codes ?d') = Some q" for q
        using that dead by (auto simp: code_id_live_def code_bound_def dest: sql_find_SomeD)
      then show ?thesis by (simp add: code_consume_cases [OF k'] split: option.split)
    qed
    with True Some r dead show ?thesis
      by (auto simp: code_consume_cases [OF assms] code_bound_def verify_pkce_s256_def)
  next
    case False
    with Some show ?thesis by (simp add: code_consume_cases [OF assms])
  qed
qed

theorem code_exchange_bound_witness:
  "code_consume ref_ext 1600 ''code'' 8 ''https://wiki.example/cb'' demo_verifier demo_coded = (Inr None, demo_coded)"
proof -
  let ?res = "code_consume ref_ext 1600 ''code'' 8 ''https://wiki.example/cb'' demo_verifier demo_coded"
  have issued: "\<forall>r\<in>set (oidc_codes demo_coded). cd_application r = 9" by (simp add: demo_coded_def)
  obtain r d' where res: "?res = (r, d')" by (cases ?res)
  note bound = code_exchange_bound [OF demo_coded_keyed, where x = ref_ext and now = 1600
      and code = "''code''" and app = 8 and uri = "''https://wiki.example/cb''" and ver = demo_verifier]
  have "r = Inr None \<and> d' = demo_coded"
    using bound issued unfolding res by (cases r; cases "projr r") auto
  with res show ?thesis by simp
qed

text \<open>
  C34. The flow completes for the rightful client: a code issued for an S256 challenge can be
  exchanged until it expires by presenting the matching verifier, and the exchange returns the
  user, scope, nonce, authentication time and session of the original authorization.
\<close>

theorem code_exchange_completes:
  assumes "keyed cd_hash (oidc_codes d)"
    and issue: "code_issue x now r32 app u uri scope nonce challenge ''S256'' auth_time ver sexp d = (Inr code, d')"
    and pkce: "verify_pkce_s256 x verifier challenge"
    and t: "later < now + 600" "\<forall>e. sexp = Some e \<longrightarrow> later < e" "later < 2 ^ 63 - 1"
  shows "\<exists>d2. code_consume x later code app uri verifier d' =
     (Inr (Some \<lparr>cc_application_id = app, cc_user_id = u, cc_redirect_uri = uri, cc_scope = scope,
        cc_nonce = nonce, cc_code_challenge = challenge, cc_code_challenge_method = ''S256'',
        cc_auth_time = auth_time, cc_session_version = ver, cc_session_exp = sexp\<rparr>), d2)"
proof -
  let ?r = "\<lparr>cd_hash = hash_code x code, cd_application = app, cd_user = u, cd_redirect_uri = uri,
     cd_scope = scope, cd_nonce = nonce, cd_challenge = challenge, cd_method = ''S256'',
     cd_auth_time = auth_time, cd_expires = min (unwrap_or i64_max sexp) (now + AUTHORIZATION_CODE_LIFETIME),
     cd_consumed = None, cd_session_version = ver, cd_session_exp = sexp\<rparr>"
  from issue have rows: "oidc_codes d' = oidc_codes d @ [?r]"
    and fresh: "\<forall>r\<in>set (oidc_codes d). cd_hash r \<noteq> hash_code x code"
    by (auto simp: code_issue_def op_results Let_def)
  have k: "keyed cd_hash (oidc_codes d')" using assms(1) fresh by (simp add: rows keyed_append)
  have "sql_find (\<lambda>r. cd_hash r = hash_code x code) (oidc_codes d) = None"
    using fresh by (simp add: sql_find_None)
  then have "sql_find (\<lambda>r. cd_hash r = hash_code x code) (oidc_codes d') = Some ?r"
    by (simp add: rows sql_find_append)
  moreover have "code_bound x later app uri verifier ?r"
    using pkce t by (cases sexp) (simp_all add: code_bound_def AUTHORIZATION_CODE_LIFETIME_def i64_max_def)
  ultimately show ?thesis by (simp add: code_consume_cases [OF k] consumed_of_row_def)
qed

theorem code_exchange_completes_witness:
  "\<exists>c d2. code_consume ref_ext 1600 ''code'' 9 ''https://wiki.example/cb'' demo_verifier demo_coded = (Inr (Some c), d2)"
proof -
  have "keyed cd_hash (oidc_codes demo_oidc)" by (simp add: demo_oidc_def demo_state_defs)
  from code_exchange_completes [OF this demo_issue_code demo_pkce, of 1600] show ?thesis by auto
qed

section \<open>What tokens disclose and how far they reach\<close>

text \<open>
  C35. ID tokens disclose only what the granted scope covers and never outlive the session: name
  and username need the profile scope, the email address the email scope, roles the roles scope,
  no email is ever asserted as verified, both tokens end with the session or after an hour, and
  the announced lifetime is that of the ID token.
\<close>

theorem id_token_scope_gated:
  assumes "mint_token_pair x now jti issuer app u rls scope nonce auth_time key kid ver sexp = Inr t"
  shows "\<exists>c a cid. ap_client_id app = Some cid
     \<and> x_jwt_sign x key (kid_header kid) (id_claims_to_json c) = Inr (tr_id_token t)
     \<and> x_jwt_sign x key (kid_header kid) (oidc_access_to_json a) = Inr (tr_access_token t)
     \<and> it_aud c = cid \<and> it_iss c = issuer \<and> it_nonce c = nonce \<and> it_auth_time c = auth_time
     \<and> it_name c = (if ''profile'' \<in> set scope then Some (u_name u) else None)
     \<and> it_preferred_username c = (if ''profile'' \<in> set scope then Some (u_username u) else None)
     \<and> it_email c = (if ''email'' \<in> set scope then u_email u else None) \<and> it_email_verified c = None
     \<and> it_roles c = (if ''roles'' \<in> set scope then Some rls else None)
     \<and> it_exp c \<le> now + 3600 \<and> oa_exp a = it_exp c \<and> (\<forall>e. sexp = Some e \<longrightarrow> it_exp c \<le> e)
     \<and> it_session_version c = ver \<and> oa_session_version a = ver \<and> oa_typ a = ''oidc_access'' \<and> oa_aud a = cid
     \<and> tr_expires_in t = max 0 (it_exp c - now)"
proof -
  from assms obtain cid where cid: "ap_client_id app = Some cid"
    by (auto simp: mint_token_pair_def split: option.splits)
  let ?base = "build_id_token_claims x issuer cid u rls scope nonce auth_time now"
  let ?full = "?base\<lparr>it_session_version := ver, it_exp := min (it_exp ?base) (unwrap_or i64_max sexp)\<rparr>"
  let ?a = "oidc_access_claims_of x now jti issuer (u_id u) cid scope ver sexp"
  from assms cid have signed: "x_jwt_sign x key (kid_header kid) (id_claims_to_json ?full) = Inr (tr_id_token t)"
    "x_jwt_sign x key (kid_header kid) (oidc_access_to_json ?a) = Inr (tr_access_token t)"
    and len: "tr_expires_in t = max 0 (it_exp ?full - now)"
    by (auto simp: mint_token_pair_def encode_id_token_def generate_oidc_access_token_def Let_def
        split: sum.splits)
  have c0: "it_exp ?base = now + 3600" "it_aud ?base = cid" "it_iss ?base = issuer" "it_nonce ?base = nonce"
    "it_auth_time ?base = auth_time" "it_email_verified ?base = None"
    "it_name ?base = (if ''profile'' \<in> set scope then Some (u_name u) else None)"
    "it_preferred_username ?base = (if ''profile'' \<in> set scope then Some (u_username u) else None)"
    "it_email ?base = (if ''email'' \<in> set scope then u_email u else None)"
    "it_roles ?base = (if ''roles'' \<in> set scope then Some rls else None)"
    by (simp_all add: build_id_token_claims_def Let_def scope_contains_iff SCOPE_PROFILE_def SCOPE_EMAIL_def
        SCOPE_ROLES_def ID_TOKEN_LIFETIME_def split: option.split)
  show ?thesis
    by (rule exI [of _ ?full], rule exI [of _ ?a], rule exI [of _ cid])
       (use signed len cid c0 in \<open>auto simp: oidc_access_claims_of_def OIDC_ACCESS_TOKEN_LIFETIME_def\<close>)
qed

theorem id_token_scope_gated_witness:
  "\<exists>t c. mint_token_pair ref_ext 1600 ''j'' ''https://id.example'' demo_client (user.truncate demo_user) [] [''openid'']
     None 1000 [] ''k'' (Some 0) (Some 605800) = Inr t
   \<and> x_jwt_sign ref_ext [] (kid_header ''k'') (id_claims_to_json c) = Inr (tr_id_token t) \<and> it_name c = None"
proof -
  obtain t where t: "mint_token_pair ref_ext 1600 ''j'' ''https://id.example'' demo_client (user.truncate demo_user) []
     [''openid''] None 1000 [] ''k'' (Some 0) (Some 605800) = Inr t"
    by (simp add: mint_token_pair_def encode_id_token_def generate_oidc_access_token_def demo_client_def
        new_oidc_def generate_client_secret_def demo_client_input_def Let_def)
  from id_token_scope_gated [OF t] t show ?thesis by auto
qed

text \<open>
  An OIDC access token gives no access to the server itself: a token accepted at the
  UserInfo endpoint is refused, at all times and in all states, as a session access token and as
  a refresh token.
\<close>

theorem oidc_token_no_session:
  assumes "jwt_payload_fixed x" and ok: "verify_oidc_access_token x now tok issuer key = Inr c"
  shows "isl (fst (verify_access_token x key t tok d)) \<and> isl (fst (consume_refresh_token x key t tok d))"
proof -
  from ok obtain j where j: "x_jwt_verify x key (oidc_access_validation issuer) now tok = Some j"
    and c: "oidc_access_of_json j = Some c" and kind: "oa_typ c = ''oidc_access''"
    by (auto simp: verify_oidc_access_token_def split: option.splits if_splits Option.bind_splits)
  have "c_typ s = ''oidc_access''" if "decode_claims x key t tok = Some s" for s
  proof -
    from that obtain j' where "x_jwt_verify x key session_validation t tok = Some j'" "claims_of_json j' = Some s"
      by (auto simp: decode_claims_def split: Option.bind_splits)
    with assms(1) j have "claims_of_json j = Some s" by (metis jwt_payload_fixed_def)
    then have "req_field as_str ''typ'' j = Some (c_typ s)"
      by (auto simp: claims_of_json_def split: Option.bind_splits)
    moreover have "req_field as_str ''typ'' j = Some (oa_typ c)"
      using c by (auto simp: oidc_access_of_json_def split: Option.bind_splits)
    ultimately show ?thesis using kind by simp
  qed
  then show ?thesis
    by (cases "decode_claims x key t tok")
       (simp_all add: verify_access_token_def consume_refresh_token_def bind_op_def ok_or_op_def require_op_def)
qed

definition demo_oidc_claims :: oidc_access_claims where
  "demo_oidc_claims = oidc_access_claims_of ref_ext 1600 ''j'' ''https://id.example'' 7 ''cid'' [''openid''] None None"

lemma demo_oidc_access:
  "verify_oidc_access_token ref_ext 1700 (json_text (oidc_access_to_json demo_oidc_claims)) ''https://id.example'' []
     = Inr demo_oidc_claims"
  by (simp add: verify_oidc_access_token_def oidc_access_validation_def jwt_accepts_def oidc_access_to_json_def
      oidc_access_of_json_def demo_oidc_claims_def oidc_access_claims_of_def req_field_def opt_field_def
      jskip_def claim_str_def in_i64_def OIDC_ACCESS_TOKEN_LIFETIME_def i64_max_def)

theorem oidc_token_no_session_witness:
  "isl (fst (verify_access_token ref_ext [] 1700 (json_text (oidc_access_to_json demo_oidc_claims)) demo_session))"
  using oidc_token_no_session [OF ref_hypotheses(4) demo_oidc_access, of 1700 demo_session] by simp

end
