(* ===== verification/Base32_Spec.thy ===== *)
theory Base32_Spec
  imports Totp_Factor
begin

text \<open>
  The base32 encoder of \<open>user/auth/totp.rs\<close> against RFC 4648: the machine-word loop writes the
  five-bit groups of the input.
\<close>

unbundle bit_operations_syntax

section \<open>Base32 against its specification\<close>

text \<open>RFC 4648 without padding: the bits of the input, most significant first, in groups of five.\<close>

definition byte_bits :: "char \<Rightarrow> bool list" where
  "byte_bits c = map (\<lambda>i. odd (byte c div 2 ^ i)) [7, 6, 5, 4, 3, 2, 1, 0]"

definition bits_value :: "bool list \<Rightarrow> nat" where
  "bits_value bs = foldl (\<lambda>a b. 2 * a + of_bool b) 0 bs"

fun groups5 :: "bool list \<Rightarrow> nat list" where
  "groups5 [] = []"
| "groups5 (b # bs) =
     bits_value (take 5 ((b # bs) @ replicate 4 False)) # groups5 (drop 5 (b # bs))"

definition base32_spec :: "string \<Rightarrow> string" where
  "base32_spec s = map (\<lambda>v. BASE32_ALPHABET ! v) (groups5 (concat (map byte_bits s)))"

lemma foldl_bits: "foldl (\<lambda>a b. 2 * a + of_bool b) (a :: nat) bs = a * 2 ^ length bs + bits_value bs"
proof (induction bs arbitrary: a)
  case (Cons b bs)
  show ?case
    using Cons [of "2 * a + of_bool b"] Cons [of "of_bool b"]
    by (simp add: bits_value_def algebra_simps)
qed (simp add: bits_value_def)

lemma bits_value_append: "bits_value (bs @ cs) = bits_value bs * 2 ^ length cs + bits_value cs"
  using foldl_bits [of "bits_value bs" cs] by (simp add: bits_value_def)

lemma bits_value_less: "bits_value bs < 2 ^ length bs"
proof (induction bs rule: rev_induct)
  case (snoc b bs)
  then show ?case by (auto simp: bits_value_append) (simp add: bits_value_def)
qed (simp add: bits_value_def)

lemma bits_value_replicate_False: "bits_value (replicate n False) = 0"
  by (induction n) (simp_all add: bits_value_def)

lemma length_byte_bits [simp]: "length (byte_bits c) = 8"
  by (simp add: byte_bits_def)

lemma bits_value_of_nat: "bits_value (map (\<lambda>i. odd (n div 2 ^ i)) (rev [0..<k])) = n mod 2 ^ k"
proof (induction k)
  case (Suc k)
  have "bits_value (map (\<lambda>i. odd (n div 2 ^ i)) (rev [0..<Suc k]))
      = of_bool (odd (n div 2 ^ k)) * 2 ^ k + n mod 2 ^ k"
    using bits_value_append [of "[odd (n div 2 ^ k)]" "map (\<lambda>i. odd (n div 2 ^ i)) (rev [0..<k])"] Suc
    by (simp add: bits_value_def)
  also have "\<dots> = n mod 2 ^ Suc k"
    using mod_mult2_eq [of n "2 ^ k" 2] by (simp add: mult.commute mod_2_eq_odd)
  finally show ?case .
qed (simp add: bits_value_def)

lemma bits_value_byte_bits: "bits_value (byte_bits c) = byte c"
  using bits_value_of_nat [of "byte c" 8] byte_less_256 [of c]
  by (simp add: byte_bits_def upt_rec)

lemma groups5_full: "length g = 5 \<Longrightarrow> groups5 (g @ bs) = bits_value g # groups5 bs"
  by (cases g) simp_all

lemma groups5_partial:
  assumes "0 < length bs" "length bs < 5"
  shows "groups5 bs = [bits_value bs * 2 ^ (5 - length bs)]"
proof -
  obtain b cs where bs: "bs = b # cs" using assms(1) by (cases bs) auto
  have "take 5 (bs @ replicate 4 False) = bs @ replicate (5 - length bs) False"
    using assms by (cases bs) (auto simp: take_replicate min_def)
  moreover have "bits_value (bs @ replicate (5 - length bs) False) = bits_value bs * 2 ^ (5 - length bs)"
    by (simp only: bits_value_append bits_value_replicate_False length_replicate add_0_right)
  moreover have "groups5 bs = [bits_value (take 5 (bs @ replicate 4 False))]"
    using assms(2) unfolding bs by simp
  ultimately show ?thesis by simp
qed

lemma unat_and_31: "unat ((w :: 32 word) AND 0x1f) = unat w mod 32"
proof -
  have "w AND 0x1f = take_bit 5 w" by (simp add: take_bit_eq_mask mask_eq_exp_minus_1)
  then have "unat (w AND 0x1f) = take_bit 5 (unat w)" by (simp only: unsigned_take_bit_eq)
  then show ?thesis by (simp add: take_bit_eq_mod)
qed

lemma unat_drop_and: "unat (drop_bit k (w :: 32 word) AND 0x1f) = unat w div 2 ^ k mod 32"
proof -
  have "unat (drop_bit k w) = drop_bit k (unat w)" by (rule unat_drop_bit_eq)
  then have "unat (drop_bit k w) = unat w div 2 ^ k" by (simp only: drop_bit_eq_div)
  then show ?thesis by (simp only: unat_and_31)
qed

lemma unat_push_and:
  assumes "k \<le> 5"
  shows "unat (push_bit k (w :: 32 word) AND 0x1f) = unat w * 2 ^ k mod 32"
proof -
  have "unat (push_bit k w) = take_bit LENGTH(32) (push_bit k (unat w))" by (rule unsigned_push_bit_eq)
  then have "unat (push_bit k w) = unat w * 2 ^ k mod 2 ^ 32"
    by (simp only: push_bit_eq_mult take_bit_eq_mod) simp
  moreover have "(32 :: nat) dvd 2 ^ 32" by simp
  ultimately show ?thesis by (simp only: unat_and_31 mod_mod_cancel)
qed

lemma unat_shift_in:
  assumes "n \<le> 24"
  shows "unat (push_bit 8 (w :: 32 word) OR u32_of_byte c) mod 2 ^ (n + 8) = (unat w mod 2 ^ n) * 256 + byte c"
proof -
  have c: "unat (u32_of_byte c) = byte c"
    using byte_less_256 [of c] by (simp add: u32_of_byte_def unat_of_nat del: byte_less_256)
  let ?u = "unat w"
  have b: "take_bit 8 (byte c) = byte c"
    using byte_less_256 [of c] by (simp add: take_bit_nat_eq_self_iff del: byte_less_256)
  have b': "take_bit (n + 8) (byte c) = byte c"
    using take_bit_take_bit [of "n + 8" 8 "byte c"] b by (simp add: min_def)
  have "unat (push_bit 8 w OR u32_of_byte c) = take_bit 32 (push_bit 8 ?u) OR byte c"
    unfolding unsigned_or_eq unsigned_push_bit_eq c by simp
  then have "take_bit (n + 8) (unat (push_bit 8 w OR u32_of_byte c))
      = push_bit 8 (take_bit n ?u) OR take_bit (n + 8) (byte c)"
    using assms by (simp only: take_bit_or take_bit_take_bit) (simp add: take_bit_push_bit min_def)
  also have "\<dots> = push_bit 8 (take_bit n ?u) + byte c"
    unfolding b'
  proof (rule disjunctive_add_eq_or [symmetric])
    have "push_bit 8 (take_bit n ?u) AND take_bit 8 (byte c) = 0"
      by (simp add: bit_eq_iff bit_simps del: byte_less_256)
    then show "push_bit 8 (take_bit n ?u) AND byte c = 0" by (simp only: b)
  qed
  finally show ?thesis by (simp add: take_bit_eq_mod push_bit_eq_mult)
qed

text \<open>What the loop state stands for: the low bits of the buffer are the bits not yet written.\<close>

definition pending_bits :: "32 word \<Rightarrow> nat \<Rightarrow> bool list \<Rightarrow> bool" where
  "pending_bits buf n bs \<longleftrightarrow> length bs = n \<and> unat buf mod 2 ^ n = bits_value bs"

lemma pending_take:
  assumes "pending_bits buf (n + 5) bs"
  shows "unat (drop_bit n buf AND 0x1f) = bits_value (take 5 bs)" "pending_bits buf n (drop 5 bs)"
proof -
  let ?h = "take 5 bs" and ?t = "drop 5 bs"
  have len: "length bs = n + 5" "length ?t = n" "length ?h = 5"
    using assms by (simp_all add: pending_bits_def)
  have v: "unat buf mod 2 ^ (n + 5) = bits_value ?h * 2 ^ n + bits_value ?t"
    using assms bits_value_append [of ?h ?t] len by (simp add: pending_bits_def)
  have lt: "bits_value ?t < 2 ^ n" using bits_value_less [of ?t] len by simp
  have "unat buf div 2 ^ n mod 2 ^ 5 = unat buf mod 2 ^ (n + 5) div 2 ^ n"
    using mod_mult2_eq [of "unat buf" "2 ^ n" "2 ^ 5"] by (simp add: power_add)
  then show "unat (drop_bit n buf AND 0x1f) = bits_value ?h"
    using lt by (simp add: unat_drop_and v)
  have "unat buf mod 2 ^ n = unat buf mod 2 ^ (n + 5) mod 2 ^ n"
    by (simp add: mod_mod_cancel le_imp_power_dvd)
  then show "pending_bits buf n ?t"
    using lt len by (simp add: pending_bits_def v)
qed

lemma base32_drain_spec:
  assumes "pending_bits buf n bs"
  obtains rest out where "base32_drain buf n = (length rest, out)" "length rest < 5"
    "pending_bits buf (length rest) rest"
    "\<And>more. map (\<lambda>v. BASE32_ALPHABET ! v) (groups5 (bs @ more))
             = out @ map (\<lambda>v. BASE32_ALPHABET ! v) (groups5 (rest @ more))"
  using assms
proof (induction n arbitrary: bs thesis rule: less_induct)
  case (less n)
  show ?case
  proof (cases "5 \<le> n")
    case False
    then show thesis
      using less.prems(2) less.prems(1) [of bs "[]"]
      by (simp add: base32_drain.simps [of buf n] pending_bits_def)
  next
    case True
    then obtain m where m: "n = m + 5" using le_Suc_ex [of 5 n] by (auto simp: add.commute)
    have p: "pending_bits buf (m + 5) bs" using less.prems(2) m by simp
    have len: "length (take 5 bs) = 5" using p by (simp add: pending_bits_def)
    obtain rest out where d: "base32_drain buf m = (length rest, out)" "length rest < 5"
      "pending_bits buf (length rest) rest"
      "\<And>more. map (\<lambda>v. BASE32_ALPHABET ! v) (groups5 (drop 5 bs @ more))
             = out @ map (\<lambda>v. BASE32_ALPHABET ! v) (groups5 (rest @ more))"
      using less.IH [OF _ _ pending_take(2) [OF p]] m by (metis less_add_same_cancel1 zero_less_numeral)
    show thesis
    proof (rule less.prems(1) [OF _ d(2,3)])
      show "base32_drain buf n = (length rest, base32_char (drop_bit m buf) # out)"
        using d(1) m by (subst base32_drain.simps) simp
      fix more
      have "groups5 (bs @ more) = bits_value (take 5 bs) # groups5 (drop 5 bs @ more)"
        using groups5_full [OF len, of "drop 5 bs @ more"] by (simp flip: append_assoc)
      then show "map (\<lambda>v. BASE32_ALPHABET ! v) (groups5 (bs @ more))
             = (base32_char (drop_bit m buf) # out) @ map (\<lambda>v. BASE32_ALPHABET ! v) (groups5 (rest @ more))"
        using d(4) [of more] pending_take(1) [OF p] by (simp add: base32_char_def)
    qed
  qed
qed

lemma base32_loop_spec:
  assumes "pending_bits buf n bs" "n < 5"
  shows "base32_loop buf n s = map (\<lambda>v. BASE32_ALPHABET ! v) (groups5 (bs @ concat (map byte_bits s)))"
  using assms
proof (induction s arbitrary: buf n bs)
  case Nil
  show ?case
  proof (cases "n = 0")
    case False
    have len: "0 < length bs" "length bs < 5" "length bs = n" using Nil False by (auto simp: pending_bits_def)
    have "unat (push_bit (5 - n) buf AND 0x1f) = unat buf * 2 ^ (5 - n) mod (2 ^ n * 2 ^ (5 - n))"
      using Nil(2) by (simp add: unat_push_and flip: power_add)
    also have "\<dots> = bits_value bs * 2 ^ (5 - n)"
      using Nil(1) by (simp only: mod_mult_mult2 pending_bits_def)
    finally show ?thesis
      using False groups5_partial [OF len(1,2)] len by (simp add: base32_char_def)
  qed (use Nil in \<open>simp add: pending_bits_def\<close>)
next
  case (Cons c s)
  let ?buf = "push_bit 8 buf OR u32_of_byte c"
  have p: "pending_bits ?buf (n + 8) (bs @ byte_bits c)"
    using Cons.prems unat_shift_in [of n buf c]
    by (simp add: pending_bits_def bits_value_append bits_value_byte_bits)
  from base32_drain_spec [OF p] obtain rest out where d: "base32_drain ?buf (n + 8) = (length rest, out)"
    "length rest < 5" "pending_bits ?buf (length rest) rest"
    "\<And>more. map (\<lambda>v. BASE32_ALPHABET ! v) (groups5 ((bs @ byte_bits c) @ more))
           = out @ map (\<lambda>v. BASE32_ALPHABET ! v) (groups5 (rest @ more))"
    by blast
  show ?case
    using Cons.IH [OF d(3,2)] d(4) [of "concat (map byte_bits s)"] d(1) by (simp add: Let_def)
qed

lemma length_groups5: "length (groups5 bs) = (length bs + 4) div 5"
proof (induction bs rule: groups5.induct)
  case (2 b bs)
  show ?case using 2 by (simp del: drop_Suc_Cons)
qed simp

lemma length_base32_spec: "length (base32_spec s) = (8 * length s + 4) div 5"
proof -
  have "length (concat (map byte_bits s)) = 8 * length s" by (induction s) simp_all
  then show ?thesis by (simp add: base32_spec_def length_groups5)
qed

text \<open>
  C36. The encoder returns, for every input, the unpadded base32 text of RFC 4648: the alphabet
  characters of the consecutive five-bit groups of the input, the last one filled with zeros,
  although the 32-bit buffer of the loop overflows and keeps only the latest bits.
\<close>

theorem encode_base32_rfc4648:
  "encode_base32 s = base32_spec s \<and> length (encode_base32 s) = (8 * length s + 4) div 5"
  using base32_loop_spec [of 0 0 "[]" s] length_base32_spec [of s]
  by (simp add: encode_base32_def base32_spec_def pending_bits_def bits_value_def)

end
