(* ===== verification/Ldap_Schema.thy ===== *)
theory Ldap_Schema
  imports Users Settings Reference_Externals
begin

text \<open>
  \<open>ldap/schema.rs\<close> and \<open>ldap/filter.rs\<close>: distinguished names, the projection of users and roles
  into directory entries, and search filters.
\<close>

section \<open>Distinguished names\<close>

datatype ldap_result_code =
    Success | OperationsError | InvalidCredentials | InvalidDNSyntax | NoSuchObject
  | InsufficentAccessRights | UnwillingToPerform

record dn =
  rdns :: "(string \<times> string) list"

definition rdn_eq :: "string \<times> string \<Rightarrow> string \<times> string \<Rightarrow> bool" where
  "rdn_eq a b \<longleftrightarrow> eq_ignore_ascii_case (fst a) (fst b) \<and> eq_ignore_ascii_case (snd a) (snd b)"

definition dn_equals :: "dn \<Rightarrow> dn \<Rightarrow> bool" where
  "dn_equals a b \<longleftrightarrow>
     (if length (rdns a) \<noteq> length (rdns b) then False
      else list_all (\<lambda>(p, q). rdn_eq p q) (zip (rdns a) (rdns b)))"

definition is_under :: "dn \<Rightarrow> dn \<Rightarrow> bool" where
  "is_under a sfx \<longleftrightarrow>
     (if length (rdns a) < length (rdns sfx) then False
      else list_all (\<lambda>(p, q). rdn_eq p q)
             (zip (drop (length (rdns a) - length (rdns sfx)) (rdns a)) (rdns sfx)))"

definition depth_under :: "dn \<Rightarrow> dn \<Rightarrow> nat option" where
  "depth_under a sfx = (if is_under a sfx then Some (length (rdns a) - length (rdns sfx)) else None)"

definition leaf :: "dn \<Rightarrow> (string \<times> string) option" where
  "leaf a = (case rdns a of [] \<Rightarrow> None | r # _ \<Rightarrow> Some r)"

definition split_rdn :: "string \<Rightarrow> ldap_result_code + string \<times> string" where
  "split_rdn raw =
     (case split_once_char CHR ''='' raw of
        None \<Rightarrow> Inl InvalidDNSyntax
      | Some (a, v) \<Rightarrow>
          (let attr = trim a; value = trim v in
           if attr = [] \<or> value = [] then Inl InvalidDNSyntax else Inr (to_ascii_lowercase attr, value)))"

text \<open>
  The character loop of \<open>parse_dn\<close> with the piece read so far. A backslash takes the next
  character literally; at the end it is dropped.
\<close>

fun parse_rdns :: "string \<Rightarrow> string \<Rightarrow> ldap_result_code + (string \<times> string) list" where
  "parse_rdns current [] =
     (if current = [] then Inr [] else case split_rdn current of Inl e \<Rightarrow> Inl e | Inr r \<Rightarrow> Inr [r])"
| "parse_rdns current (c # cs) =
     (if c = CHR 0x5C then (case cs of [] \<Rightarrow> parse_rdns current [] | n # cs' \<Rightarrow> parse_rdns (current @ [n]) cs')
      else if c = CHR '','' then
        (case split_rdn current of
           Inl e \<Rightarrow> Inl e
         | Inr r \<Rightarrow> (case parse_rdns [] cs of Inl e \<Rightarrow> Inl e | Inr rs \<Rightarrow> Inr (r # rs)))
      else parse_rdns (current @ [c]) cs)"

definition parse_dn :: "string \<Rightarrow> ldap_result_code + dn" where
  "parse_dn input =
     (let trimmed = trim input in
      if trimmed = [] then Inr \<lparr>rdns = []\<rparr>
      else case parse_rdns [] trimmed of Inl e \<Rightarrow> Inl e | Inr rs \<Rightarrow> Inr \<lparr>rdns = rs\<rparr>)"

definition user_dn :: "string \<Rightarrow> ldap_config \<Rightarrow> string" where
  "user_dn username cfg = ''uid='' @ username @ '','' @ people_base_dn cfg"

definition group_dn :: "string \<Rightarrow> ldap_config \<Rightarrow> string" where
  "group_dn role_name cfg = ''cn='' @ role_name @ '','' @ groups_base_dn cfg"

section \<open>Entries\<close>

record entry =
  en_dn :: string
  en_attrs :: "(string \<times> string list) list"

definition attr_values :: "string \<Rightarrow> entry \<Rightarrow> string list option" where
  "attr_values name en = map_option snd (find (\<lambda>a. eq_ignore_ascii_case (fst a) name) (en_attrs en))"

definition has_attr :: "string \<Rightarrow> entry \<Rightarrow> bool" where
  "has_attr name en \<longleftrightarrow> attr_values name en \<noteq> None"

text \<open>A search result entry as it is sent: the name and the attributes the client asked for.\<close>

definition to_ldap :: "string list \<Rightarrow> entry \<Rightarrow> entry" where
  "to_ldap requested en =
     (let include_all = (requested = [] \<or> list_ex (\<lambda>a. a = ''*'' \<or> eq_ignore_ascii_case a ''all'') requested)
      in \<lparr>en_dn = en_dn en,
          en_attrs = filter (\<lambda>a. include_all \<or> list_ex (\<lambda>rq. eq_ignore_ascii_case rq (fst a)) requested)
                            (en_attrs en)\<rparr>)"

definition build_user_entry :: "externals \<Rightarrow> user \<Rightarrow> string list \<Rightarrow> ldap_config \<Rightarrow> entry" where
  "build_user_entry x u role_names cfg =
     \<lparr>en_dn = user_dn (u_username u) cfg,
      en_attrs =
        [(''objectClass'', [''top'', ''person'', ''inetOrgPerson'']),
         (''uid'', [u_username u]), (''cn'', [u_name u]), (''sn'', [u_name u]),
         (''displayName'', [u_name u]), (''entryUUID'', [x_uuid_str x (u_id u)])]
        @ (case u_email u of None \<Rightarrow> [] | Some e \<Rightarrow> [(''mail'', [e])])
        @ (if role_names = [] then [] else [(''memberOf'', map (\<lambda>r. group_dn r cfg) role_names)])\<rparr>"

definition build_group_entry :: "role \<Rightarrow> string list \<Rightarrow> ldap_config \<Rightarrow> entry" where
  "build_group_entry r members cfg =
     \<lparr>en_dn = group_dn (ro_name r) cfg,
      en_attrs =
        [(''objectClass'', [''top'', ''groupOfNames'']), (''cn'', [ro_name r])]
        @ (case ro_description r of None \<Rightarrow> [] | Some e \<Rightarrow> [(''description'', [e])])
        @ [(''member'', if members = [] then [''cn=placeholder,'' @ lc_base_dn cfg]
                        else map (\<lambda>u. user_dn u cfg) members)]\<rparr>"

text \<open>The version is the crate's version, a parameter.\<close>

definition build_root_dse :: "string \<Rightarrow> ldap_config \<Rightarrow> entry" where
  "build_root_dse version cfg =
     \<lparr>en_dn = [],
      en_attrs = [(''objectClass'', [''top'']), (''namingContexts'', [lc_base_dn cfg]),
        (''supportedLDAPVersion'', [''3'']), (''vendorName'', [''Authere'']), (''vendorVersion'', [version])]\<rparr>"

section \<open>Filters\<close>

record substring_filter =
  sf_initial :: "string option"
  sf_any :: "string list"
  sf_final :: "string option"

datatype ldap_filter =
    And "ldap_filter list"
  | Or "ldap_filter list"
  | Not ldap_filter
  | Present string
  | Equality string string
  | Approx string string
  | Substring string substring_filter
  | GreaterOrEqual string string
  | LessOrEqual string string
  | Extensible string

definition equality :: "entry \<Rightarrow> string \<Rightarrow> string \<Rightarrow> bool" where
  "equality en attr value =
     (case attr_values attr en of
        Some vals \<Rightarrow> list_ex (\<lambda>v. eq_ignore_ascii_case v value) vals
      | None \<Rightarrow> False)"

fun match_any :: "string \<Rightarrow> string list \<Rightarrow> string option" where
  "match_any rest [] = Some rest"
| "match_any rest (a # anys) =
     (let needle = to_ascii_lowercase a in
      case find_str needle rest of
        Some found \<Rightarrow> match_any (drop (found + length needle) rest) anys
      | None \<Rightarrow> None)"

text \<open>The cursor is the start of the part of the value not matched yet.\<close>

definition substring_matches :: "string \<Rightarrow> substring_filter \<Rightarrow> bool" where
  "substring_matches value sub =
     (let lower = to_ascii_lowercase value in
      case (case sf_initial sub of
              None \<Rightarrow> Some lower
            | Some i \<Rightarrow> strip_prefix (to_ascii_lowercase i) lower) of
        None \<Rightarrow> False
      | Some rest \<Rightarrow>
          (case match_any rest (sf_any sub) of
             None \<Rightarrow> False
           | Some rest' \<Rightarrow>
               (case sf_final sub of None \<Rightarrow> True | Some f \<Rightarrow> suffix (to_ascii_lowercase f) rest')))"

definition substring :: "entry \<Rightarrow> string \<Rightarrow> substring_filter \<Rightarrow> bool" where
  "substring en attr sub =
     (case attr_values attr en of None \<Rightarrow> False | Some vals \<Rightarrow> list_ex (\<lambda>v. substring_matches v sub) vals)"

fun matches :: "entry \<Rightarrow> ldap_filter \<Rightarrow> bool" where
  "matches en (And cs) = list_all (matches en) cs"
| "matches en (Or cs) = list_ex (matches en) cs"
| "matches en (Not f) = (\<not> matches en f)"
| "matches en (Present attr) = has_attr attr en"
| "matches en (Equality attr value) = equality en attr value"
| "matches en (Approx attr value) = equality en attr value"
| "matches en (Substring attr sub) = substring en attr sub"
| "matches en (GreaterOrEqual a v) = False"
| "matches en (LessOrEqual a v) = False"
| "matches en (Extensible a) = False"

section \<open>Substring matching against its specification\<close>

text \<open>
  The pieces occur in order without overlapping: the value is the initial piece, then each inner
  piece after any gap, then a last gap and the final piece.
\<close>

fun gapped :: "string list \<Rightarrow> string \<Rightarrow> bool" where
  "gapped [] rest \<longleftrightarrow> True"
| "gapped (p # ps) rest \<longleftrightarrow> (\<exists>gap rest'. rest = gap @ p @ rest' \<and> gapped ps rest')"

definition ends_after :: "string list \<Rightarrow> string \<Rightarrow> string \<Rightarrow> bool" where
  "ends_after ps f rest \<longleftrightarrow> (\<exists>front. rest = front @ f \<and> gapped ps front)"

definition substring_spec :: "string \<Rightarrow> substring_filter \<Rightarrow> bool" where
  "substring_spec value sub \<longleftrightarrow>
     (\<exists>rest. to_ascii_lowercase value
               = (case sf_initial sub of None \<Rightarrow> [] | Some i \<Rightarrow> to_ascii_lowercase i) @ rest
        \<and> ends_after (map to_ascii_lowercase (sf_any sub))
             (case sf_final sub of None \<Rightarrow> [] | Some f \<Rightarrow> to_ascii_lowercase f) rest)"

lemma find_str_first: "find_str n h = Some i \<Longrightarrow> j < i \<Longrightarrow> \<not> prefix n (drop j h)"
proof (induction n h arbitrary: i j rule: find_str.induct)
  case (2 n x xs)
  then show ?case by (cases j) (auto split: if_splits)
qed (simp split: if_splits)

lemma gapped_prepend: "gapped ps rest \<Longrightarrow> gapped ps (pre @ rest)"
proof (cases ps)
  case (Cons p qs)
  assume "gapped ps rest"
  with Cons obtain gap r where "rest = gap @ p @ r" "gapped qs r" by auto
  then show ?thesis unfolding Cons gapped.simps by (intro exI [of _ "pre @ gap"] exI [of _ r]) simp
qed simp

lemma ends_after_prepend: "ends_after ps f rest \<Longrightarrow> ends_after ps f (pre @ rest)"
  unfolding ends_after_def using gapped_prepend [of ps _ pre] by (metis append.assoc)

text \<open>Taking the leftmost occurrence of each piece loses no match.\<close>

lemma match_any_spec:
  "(case match_any rest anys of None \<Rightarrow> False | Some r \<Rightarrow> suffix f r)
     \<longleftrightarrow> ends_after (map to_ascii_lowercase anys) f rest"
proof (induction anys arbitrary: rest)
  case Nil
  show ?case by (auto simp: ends_after_def suffix_def)
next
  case (Cons a anys)
  let ?n = "to_ascii_lowercase a" and ?ps = "map to_ascii_lowercase anys"
  have split: "\<exists>gap r. rest = gap @ ?n @ r \<and> ends_after ?ps f r" if "ends_after (?n # ?ps) f rest"
    using that by (auto simp: ends_after_def) blast
  show ?case
  proof (cases "find_str ?n rest")
    case None
    have "\<not> ends_after (?n # ?ps) f rest"
    proof
      assume "ends_after (?n # ?ps) f rest"
      from split [OF this] obtain gap r where "rest = gap @ ?n @ r" by blast
      then have "prefix ?n (drop (length gap) rest)" "length gap \<le> length rest" by auto
      with None show False by (auto simp: find_str_None)
    qed
    then show ?thesis using None by simp
  next
    case (Some i)
    let ?r = "drop (i + length ?n) rest"
    have rest: "rest = take i rest @ ?n @ ?r"
    proof -
      obtain z where z: "drop i rest = ?n @ z" using find_str_Some [OF Some] by (auto simp: prefix_def)
      have "?r = drop (length ?n) (drop i rest)" by (simp add: add.commute)
      then have "?r = z" by (simp only: z) simp
      then show ?thesis using append_take_drop_id [of i rest] z by simp
    qed
    have "ends_after (?n # ?ps) f rest \<longleftrightarrow> ends_after ?ps f ?r"
    proof
      assume "ends_after (?n # ?ps) f rest"
      from split [OF this] obtain gap r where g: "rest = gap @ ?n @ r" "ends_after ?ps f r" by blast
      then have "i \<le> length gap"
        using find_str_first [OF Some, of "length gap"] by (force simp: not_le [symmetric])
      then have "?r = drop (i + length ?n) (gap @ ?n) @ r" using g(1) by simp
      then show "ends_after ?ps f ?r" by (simp only: ends_after_prepend [OF g(2)])
    next
      assume "ends_after ?ps f ?r"
      then obtain front where "?r = front @ f" "gapped ?ps front" by (auto simp: ends_after_def)
      then show "ends_after (?n # ?ps) f rest"
        unfolding ends_after_def using rest by (intro exI [of _ "take i rest @ ?n @ front"]) auto
    qed
    with Some Cons.IH [of ?r] show ?thesis by simp
  qed
qed

text \<open>
  A substring filter matches exactly when the value can be cut into the initial piece, the
  inner pieces in their order with arbitrary gaps, and the final piece, without overlaps and
  ignoring ASCII case: the left-to-right scan with its cursor never misses a match and never
  reports a false one.
\<close>

theorem substring_matches_spec: "substring_matches value sub \<longleftrightarrow> substring_spec value sub"
proof -
  let ?f = "case sf_final sub of None \<Rightarrow> [] | Some f \<Rightarrow> to_ascii_lowercase f"
  have "(case match_any rest (sf_any sub) of None \<Rightarrow> False
      | Some r \<Rightarrow> (case sf_final sub of None \<Rightarrow> True | Some f \<Rightarrow> suffix (to_ascii_lowercase f) r))
    \<longleftrightarrow> ends_after (map to_ascii_lowercase (sf_any sub)) ?f rest" for rest
    using match_any_spec [where rest = rest and anys = "sf_any sub" and f = ?f] by (auto split: option.splits)
  then show ?thesis
    by (auto simp: substring_matches_def substring_spec_def Let_def strip_prefix_def prefix_def
        split: option.splits)
qed

section \<open>Configured base names\<close>

text \<open>Without a backslash, the character loop cuts at the commas.\<close>

fun rdns_of :: "string list \<Rightarrow> ldap_result_code + (string \<times> string) list" where
  "rdns_of [] = Inr []"
| "rdns_of (p # ps) = (case split_rdn p of Inl e \<Rightarrow> Inl e
     | Inr r \<Rightarrow> (case rdns_of ps of Inl e \<Rightarrow> Inl e | Inr rs \<Rightarrow> Inr (r # rs)))"

lemma parse_rdns_plain:
  assumes "CHR 0x5C \<notin> set s" and "split_char CHR '','' s = p # ps" and "last (p # ps) \<noteq> [] \<or> ps = [] \<and> cur \<noteq> []"
  shows "parse_rdns cur s = rdns_of ((cur @ p) # ps)"
  using assms
proof (induction s arbitrary: cur p ps)
  case Nil
  then show ?case by (auto split: sum.splits)
next
  case (Cons c s)
  show ?case
  proof (cases "c = CHR '',''")
    case True
    with Cons.prems have p: "p = []" "ps = split_char CHR '','' s" by auto
    obtain q qs where q: "split_char CHR '','' s = q # qs" by (cases "split_char CHR '','' s") auto
    with Cons.prems p have "last (q # qs) \<noteq> []" by auto
    then have "parse_rdns [] s = rdns_of (q # qs)"
      using Cons.IH [of q qs "[]"] Cons.prems(1) q by simp
    with True p q show ?thesis using Cons.prems(1) by (cases "split_rdn cur") simp_all
  next
    case False
    with Cons.prems obtain q where q: "split_char CHR '','' s = q # ps" "p = c # q"
      by (auto split: list.splits)
    have "last (q # ps) \<noteq> [] \<or> ps = [] \<and> cur @ [c] \<noteq> []"
      using Cons.prems(3) q(2) by (cases "ps = []") simp_all
    from Cons.IH [OF _ q(1) this] Cons.prems(1) have "parse_rdns (cur @ [c]) s = rdns_of (((cur @ [c]) @ q) # ps)"
      by (simp del: rdns_of.simps)
    moreover have "parse_rdns cur (c # s) = parse_rdns (cur @ [c]) s"
      using False Cons.prems(1) by (subst parse_rdns.simps(2)) auto
    ultimately show ?thesis by (simp only: q(2)) simp
  qed
qed

definition graphic :: "string \<Rightarrow> bool" where
  "graphic s \<longleftrightarrow> list_all ascii_graphic s"

lemma trim_Nil [simp]: "trim [] = []"
  by (simp add: trim_def trim_start.simps trim_end.simps leading_whitespace_def trailing_whitespace_def
      whitespace_encodings_def bytes_def)

lemma trim_all_graphic: "graphic s \<Longrightarrow> trim s = s"
  by (cases s) (auto simp: graphic_def list_all_iff intro!: trim_graphic)

lemma graphic_append [simp]: "graphic (s @ t) \<longleftrightarrow> graphic s \<and> graphic t"
  by (simp add: graphic_def)

lemma graphic_pieces: "graphic s \<Longrightarrow> p \<in> set (split_char c s) \<Longrightarrow> graphic p"
proof (induction s arbitrary: p)
  case (Cons a s)
  obtain q qs where q: "split_char c s = q # qs" by (cases "split_char c s") auto
  with Cons show ?case by (cases "a = c") (auto simp: graphic_def)
qed (simp add: graphic_def)

lemma rdns_of_validated:
  "validate_rdns ps = Inr () \<Longrightarrow> (\<And>p. p \<in> set ps \<Longrightarrow> graphic p) \<Longrightarrow> \<exists>rs. rdns_of ps = Inr rs"
proof (induction ps)
  case (Cons p ps)
  from Cons.prems(2) have g: "graphic p" by simp
  from Cons.prems(1) obtain a v where av: "split_once_char CHR ''='' p = Some (a, v)" "a \<noteq> []" "v \<noteq> []"
    and rest: "validate_rdns ps = Inr ()"
    by (fastforce simp: trim_all_graphic [OF g] Let_def split: if_splits option.splits)
  have "graphic a" "graphic v" using av(1) g by (auto simp: split_once_char_Some graphic_def)
  then have "\<exists>r. split_rdn p = Inr r" using av by (simp add: split_rdn_def trim_all_graphic)
  moreover obtain rs where "rdns_of ps = Inr rs" using Cons.IH [OF rest] Cons.prems(2) by auto
  ultimately show ?case by auto
qed simp

lemma validate_rdns_nonempty: "validate_rdns ps = Inr () \<Longrightarrow> p \<in> set ps \<Longrightarrow> p \<noteq> []"
  by (induction ps) (auto simp: Let_def split: if_splits option.splits)

lemma parse_dn_graphic:
  assumes "graphic s" and "CHR 0x5C \<notin> set s" and "s \<noteq> []" and "last (split_char CHR '','' s) \<noteq> []"
  shows "parse_dn s = (case rdns_of (split_char CHR '','' s) of Inl e \<Rightarrow> Inl e | Inr rs \<Rightarrow> Inr \<lparr>rdns = rs\<rparr>)"
proof -
  obtain p ps where p: "split_char CHR '','' s = p # ps" by (cases "split_char CHR '','' s") auto
  then have "parse_rdns [] s = rdns_of (p # ps)"
    using parse_rdns_plain [OF assms(2) p, of "[]"] assms(4) by (simp add: p)
  then show ?thesis using assms(3) by (simp add: parse_dn_def trim_all_graphic [OF assms(1)] p)
qed

lemma split_rdn_literal:
  "graphic a \<Longrightarrow> graphic v \<Longrightarrow> a \<noteq> [] \<Longrightarrow> v \<noteq> [] \<Longrightarrow> CHR ''='' \<notin> set a \<Longrightarrow>
     split_rdn (a @ CHR ''='' # v) = Inr (to_ascii_lowercase a, v)"
proof -
  assume *: "graphic a" "graphic v" "a \<noteq> []" "v \<noteq> []" "CHR ''='' \<notin> set a"
  have "split_once_char CHR ''='' (a @ CHR ''='' # v) = Some (a, v)"
    using *(5) by (simp add: split_once_char_Some)
  then show ?thesis using * by (simp add: split_rdn_def trim_all_graphic)
qed

text \<open>The configured base below a relative name that contains no comma parses to one more component.\<close>

lemma parse_dn_below:
  assumes v: "validate_base_dn base = Inr ()" and g: "graphic base" "CHR 0x5C \<notin> set base"
    and a: "graphic a" "graphic w" "a \<noteq> []" "w \<noteq> []"
    and sep: "CHR ''='' \<notin> set a" "CHR '','' \<notin> set a \<union> set w" "CHR 0x5C \<notin> set a \<union> set w"
  obtains rs where "parse_dn base = Inr \<lparr>rdns = rs\<rparr>"
    "parse_dn ((a @ CHR ''='' # w) @ CHR '','' # base) = Inr \<lparr>rdns = (to_ascii_lowercase a, w) # rs\<rparr>"
proof -
  let ?ps = "split_char CHR '','' base" and ?rdn = "a @ CHR ''='' # w"
  have b: "base \<noteq> []" "validate_rdns ?ps = Inr ()"
    using v by (auto simp: validate_base_dn_def trim_all_graphic [OF g(1)] Let_def split: if_splits)
  obtain rs where rs: "rdns_of ?ps = Inr rs"
    using rdns_of_validated [OF b(2)] graphic_pieces [OF g(1)] by blast
  have last: "last ?ps \<noteq> []" using validate_rdns_nonempty [OF b(2)] by simp
  have "CHR '','' \<notin> set ?rdn" using sep(2) by simp
  then have split: "split_char CHR '','' (?rdn @ CHR '','' # base) = ?rdn # ?ps"
    using split_char_append [of "CHR '',''" ?rdn base] split_char_single [of "CHR '',''" ?rdn]
    by (metis append_Cons append_Nil)
  have gr: "graphic (?rdn @ CHR '','' # base)"
    using a g by (simp add: graphic_def ascii_graphic_def byte_def)
  have "parse_dn (?rdn @ CHR '','' # base) = Inr \<lparr>rdns = (to_ascii_lowercase a, w) # rs\<rparr>"
    using parse_dn_graphic [OF gr] split last sep(3) g(2) rs split_rdn_literal [OF a sep(1)] by simp
  moreover have "parse_dn base = Inr \<lparr>rdns = rs\<rparr>"
    using parse_dn_graphic [OF g b(1) last] rs by simp
  ultimately show thesis by (rule that [rotated])
qed

end
