(* ===== verification/Ldap_Handler.thy ===== *)
theory Ldap_Handler
  imports Ldap_Schema Http Invitations Totp_Factor
begin

text \<open>
  \<open>ldap/handler.rs\<close>: binding a connection and searching the directory. A bind runs against the
  shared state; its error value stands for the panic of a configuration that does not parse.
\<close>

section \<open>Binding\<close>

datatype bind_state = Anonymous | Service | BoundUser uuid

record bind_request =
  br_dn :: string
  br_pw :: string

datatype ldap_panic = ServiceDnUnparsable

type_synonym bind_op = "(ldap_panic, ldap_result_code \<times> bind_state) state_op"

definition verify_argon2 :: "externals \<Rightarrow> string \<Rightarrow> string \<Rightarrow> bool" where
  "verify_argon2 x hash cleartext = x_argon2_verify x hash cleartext"

text \<open>\<open>parse_dn(...).expect(...)\<close>.\<close>

definition service_dn :: "ldap_config \<Rightarrow> dn option" where
  "service_dn cfg = (case parse_dn (service_account_dn cfg) of Inl _ \<Rightarrow> None | Inr d \<Rightarrow> Some d)"

definition user_has_totp :: "uuid \<Rightarrow> db \<Rightarrow> bool" where
  "user_has_totp u d \<longleftrightarrow> 0 < sql_count (\<lambda>r. tp_user r = u \<and> tp_activated r \<noteq> None) (totps d)"

text \<open>Logging ignores its outcome; every failure answers with invalid credentials.\<close>

definition bind_failed ::
  "env \<Rightarrow> string \<Rightarrow> string \<Rightarrow> string \<Rightarrow> uuid option \<Rightarrow> string \<Rightarrow> bind_op" where
  "bind_failed e ip mode reason user_id dn =
     bind_op (on_db (ignore_op
       (log_ldap_bind_failed (ev_ext e) (ev_uuid e 0) (ev_now e) user_id dn ip mode reason))) (\<lambda>_.
     ret_op (InvalidCredentials, Anonymous))"

definition bind_succeeded ::
  "env \<Rightarrow> string \<Rightarrow> string \<Rightarrow> string \<Rightarrow> uuid option \<Rightarrow> string \<Rightarrow> bind_state \<Rightarrow> bind_op" where
  "bind_succeeded e ip mode credential user_id dn st =
     bind_op (on_db (ignore_op
       (log_ldap_bind_success (ev_ext e) (ev_uuid e 0) (ev_now e) user_id dn ip mode credential))) (\<lambda>_.
     ret_op (Success, st))"

definition handle_service_bind ::
  "env \<Rightarrow> bind_request \<Rightarrow> ldap_config \<Rightarrow> string \<Rightarrow> string \<Rightarrow> bind_op" where
  "handle_service_bind e req cfg ip mode =
     (case lc_service_password_hash cfg of
        None \<Rightarrow> bind_failed e ip mode ''service_password_unset'' None (br_dn req)
      | Some hash \<Rightarrow>
          (if verify_argon2 (ev_ext e) hash (br_pw req)
           then bind_succeeded e ip mode ''service'' None (br_dn req) Service
           else bind_failed e ip mode ''invalid_credentials'' None (br_dn req)))"

definition try_primary :: "env \<Rightarrow> bind_request \<Rightarrow> user \<Rightarrow> string \<Rightarrow> string \<Rightarrow> bind_op" where
  "try_primary e req u ip mode =
     bind_op (on_db (try_op (try_password_login (ev_ext e) u (br_pw req)))) (\<lambda>r.
     case r of
       Inr _ \<Rightarrow> bind_succeeded e ip mode ''primary'' (Some (u_id u)) (br_dn req) (BoundUser (u_id u))
     | Inl _ \<Rightarrow> bind_failed e ip mode ''invalid_credentials'' (Some (u_id u)) (br_dn req))"

definition try_app_password :: "env \<Rightarrow> bind_request \<Rightarrow> user \<Rightarrow> string \<Rightarrow> string \<Rightarrow> bind_op" where
  "try_app_password e req u ip mode =
     bind_op (on_db (try_op (app_password_verify_for_user (ev_ext e) (ev_now e) (u_id u) (br_pw req)))) (\<lambda>r.
     case r of
       Inr (Some _) \<Rightarrow> bind_succeeded e ip mode ''app_password'' (Some (u_id u)) (br_dn req) (BoundUser (u_id u))
     | Inr None \<Rightarrow> bind_failed e ip mode ''invalid_credentials'' (Some (u_id u)) (br_dn req)
     | Inl _ \<Rightarrow> ret_op (OperationsError, Anonymous))"

definition handle_user_bind ::
  "env \<Rightarrow> bind_request \<Rightarrow> ldap_config \<Rightarrow> string \<Rightarrow> string \<Rightarrow> string \<Rightarrow> bind_op" where
  "handle_user_bind e req cfg ip mode username =
     bind_op (on_db (gets_op (user_get_by_username username))) (\<lambda>found.
     case found of
       None \<Rightarrow> bind_failed e ip mode ''unknown_user'' None (br_dn req)
     | Some u \<Rightarrow>
         (if \<not> u_active u then bind_failed e ip mode ''user_inactive'' (Some (u_id u)) (br_dn req)
          else bind_op (on_db (gets_op (user_has_totp (u_id u)))) (\<lambda>totp.
            case lc_password_mode cfg of
              PrimaryOnly \<Rightarrow>
                (if totp
                 then bind_op (on_db (ignore_op (log_ldap_bind_rejected_mfa_required (ev_ext e) (ev_uuid e 0)
                        (ev_now e) (u_id u) (br_dn req) ip mode))) (\<lambda>_. ret_op (InvalidCredentials, Anonymous))
                 else try_primary e req u ip mode)
            | AppOnly \<Rightarrow> try_app_password e req u ip mode
            | PrimaryAndApp \<Rightarrow>
                bind_op (on_db (try_op
                  (app_password_verify_for_user (ev_ext e) (ev_now e) (u_id u) (br_pw req)))) (\<lambda>r.
                case r of
                  Inr (Some _) \<Rightarrow>
                    bind_succeeded e ip mode ''app_password'' (Some (u_id u)) (br_dn req) (BoundUser (u_id u))
                | Inr None \<Rightarrow>
                    (if totp then bind_failed e ip mode ''invalid_credentials'' (Some (u_id u)) (br_dn req)
                     else try_primary e req u ip mode)
                | Inl _ \<Rightarrow> ret_op (OperationsError, Anonymous)))))"

definition bind_username :: "dn \<Rightarrow> dn \<Rightarrow> string option" where
  "bind_username d people =
     (if depth_under d people = Some 1
      then (case leaf d of Some (attr, value) \<Rightarrow> (if attr = ''uid'' then Some value else None) | None \<Rightarrow> None)
      else None)"

definition handle_bind :: "env \<Rightarrow> bind_request \<Rightarrow> ldap_config \<Rightarrow> ip_addr \<Rightarrow> bind_op" where
  "handle_bind e req cfg peer =
     (let ip = show_ip peer; mode = mode_str (lc_password_mode cfg) in
      if br_dn req = [] \<and> br_pw req = [] then ret_op (Success, Anonymous)
      else bind_op (try_op (check_ldap_bind_limit e peer)) (\<lambda>allowed.
        case allowed of
          Inl _ \<Rightarrow> ret_op (InvalidCredentials, Anonymous)
        | Inr _ \<Rightarrow>
            (case parse_dn (br_dn req) of
               Inl _ \<Rightarrow> bind_failed e ip mode ''invalid_dn'' None (br_dn req)
             | Inr d \<Rightarrow>
                 (case service_dn cfg of
                    None \<Rightarrow> raise_op ServiceDnUnparsable
                  | Some sdn \<Rightarrow>
                      (if dn_equals d sdn then handle_service_bind e req cfg ip mode
                       else case parse_dn (people_base_dn cfg) of
                           Inl _ \<Rightarrow> bind_failed e ip mode ''bad_config'' None (br_dn req)
                         | Inr people \<Rightarrow>
                             (case bind_username d people of
                                Some username \<Rightarrow> handle_user_bind e req cfg ip mode username
                              | None \<Rightarrow> bind_failed e ip mode ''unknown_dn'' None (br_dn req)))))))"

section \<open>Searching\<close>

datatype search_scope = Base | OneLevel | Subtree | Children

record search_request =
  sr_base :: string
  sr_scope :: search_scope
  sr_filter :: ldap_filter
  sr_attrs :: "string list"

text \<open>The entries sent, and the code and message of the final message.\<close>

type_synonym search_result = "entry list \<times> ldap_result_code \<times> string"

definition search_done :: "ldap_result_code \<Rightarrow> string \<Rightarrow> search_result" where
  "search_done code msg = ([], code, msg)"

definition finalize :: "search_request \<Rightarrow> entry list \<Rightarrow> search_result" where
  "finalize req entries = (map (to_ldap (sr_attrs req)) entries, Success, [])"

fun entry_in_scope :: "dn \<Rightarrow> dn \<Rightarrow> search_scope \<Rightarrow> bool" where
  "entry_in_scope en base Base = dn_equals en base"
| "entry_in_scope en base OneLevel = (depth_under en base = Some 1)"
| "entry_in_scope en base Subtree = is_under en base"
| "entry_in_scope en base Children = (is_under en base \<and> \<not> dn_equals en base)"

definition include_category :: "dn \<Rightarrow> dn \<Rightarrow> search_scope \<Rightarrow> bool" where
  "include_category base cat scope =
     (case scope of
        Base \<Rightarrow> dn_equals base cat \<or> depth_under base cat = Some 1
      | OneLevel \<Rightarrow> dn_equals base cat
      | Subtree \<Rightarrow> is_under base cat \<or> is_under cat base
      | Children \<Rightarrow> is_under base cat \<or> is_under cat base)"

definition user_entries :: "externals \<Rightarrow> ldap_config \<Rightarrow> db \<Rightarrow> entry list" where
  "user_entries x cfg d = map (\<lambda>u. build_user_entry x u (user_get_roles (u_id u) d) cfg) (user_list d)"

definition group_members :: "role \<Rightarrow> db \<Rightarrow> string list" where
  "group_members r d =
     map u_username (filter (\<lambda>u. list_ex (\<lambda>(_, _, n). n = ro_name r) (userrole_get_for_user (u_id u) d)) (user_list d))"

definition group_entries :: "ldap_config \<Rightarrow> db \<Rightarrow> entry list" where
  "group_entries cfg d = map (\<lambda>r. build_group_entry r (group_members r d) cfg) (role_list d)"

definition selected :: "search_request \<Rightarrow> dn \<Rightarrow> entry \<Rightarrow> bool" where
  "selected req base en =
     (case parse_dn (en_dn en) of
        Inl _ \<Rightarrow> False
      | Inr d \<Rightarrow> entry_in_scope d base (sr_scope req) \<and> matches en (sr_filter req))"

definition handle_search ::
  "externals \<Rightarrow> string \<Rightarrow> search_request \<Rightarrow> ldap_config \<Rightarrow> bind_state \<Rightarrow> db \<Rightarrow> search_result" where
  "handle_search x version req cfg bound d =
     (if \<not> lc_enabled cfg then search_done UnwillingToPerform ''LDAP disabled''
      else if bound = Anonymous \<and> sr_base req \<noteq> [] then search_done InsufficentAccessRights ''bind required''
      else if sr_base req = [] \<and> sr_scope req = Base then finalize req [build_root_dse version cfg]
      else case parse_dn (sr_base req) of
          Inl _ \<Rightarrow> search_done InvalidDNSyntax ''bad base DN''
        | Inr base \<Rightarrow>
            (case parse_dn (people_base_dn cfg) of
               Inl _ \<Rightarrow> search_done OperationsError ''bad config''
             | Inr people \<Rightarrow>
            (case parse_dn (groups_base_dn cfg) of
               Inl _ \<Rightarrow> search_done OperationsError ''bad config''
             | Inr groups \<Rightarrow>
            (case parse_dn (lc_base_dn cfg) of
               Inl _ \<Rightarrow> search_done OperationsError ''bad config''
             | Inr whole \<Rightarrow>
                 (let include_users = include_category base people (sr_scope req);
                      include_groups = include_category base groups (sr_scope req)
                  in if \<not> include_users \<and> \<not> include_groups
                     then (if \<not> dn_equals base whole \<and> \<not> is_under base whole then search_done NoSuchObject []
                           else search_done Success [])
                     else if (case bound of
                                BoundUser i \<Rightarrow> (case user_get i d of Some u \<Rightarrow> \<not> u_active u | None \<Rightarrow> True)
                              | _ \<Rightarrow> False)
                     then search_done InsufficentAccessRights ''bind required''
                     else finalize req
                       ((if include_users then filter (selected req base) (user_entries x cfg d) else [])
                        @ (if include_groups then filter (selected req base) (group_entries cfg d) else [])))))))"

section \<open>What a bind requires\<close>

definition app_password_ok :: "externals \<Rightarrow> uuid \<Rightarrow> string \<Rightarrow> db \<Rightarrow> bool" where
  "app_password_ok x u pw d \<longleftrightarrow> (\<exists>r\<in>set (app_passwords d). pw_user r = u \<and> x_argon2_verify x (pw_hash r) pw)"

definition user_bind_granted :: "externals \<Rightarrow> ldap_config \<Rightarrow> string \<Rightarrow> user \<Rightarrow> db \<Rightarrow> bool" where
  "user_bind_granted x cfg pw u d \<longleftrightarrow> u_active u \<and>
     (lc_password_mode cfg \<noteq> PrimaryOnly \<and> app_password_ok x (u_id u) pw d
    \<or> lc_password_mode cfg \<noteq> AppOnly \<and> \<not> user_has_totp (u_id u) d
      \<and> fst (try_password_login x u pw d) = Inr ())"

lemma app_password_verify_Some:
  assumes "app_password_ok x u pw d"
  obtains i d' where "app_password_verify_for_user x now u pw d = (Inr (Some i), d')"
proof -
  from sql_find_ex [OF assms [unfolded app_password_ok_def]]
  obtain r where "sql_find (\<lambda>r. pw_user r = u \<and> x_argon2_verify x (pw_hash r) pw) (app_passwords d) = Some r" ..
  then show thesis using that by (simp add: app_password_verify_for_user_def)
qed

lemma app_password_verify_None:
  "\<not> app_password_ok x u pw d \<Longrightarrow> app_password_verify_for_user x now u pw d = (Inr None, d)"
  by (simp add: app_password_verify_for_user_def app_password_ok_def sql_find_None [THEN iffD2])

lemma bind_failed_apply: "fst (bind_failed e ip m r u dn s) = Inr (InvalidCredentials, Anonymous)"
  by (simp add: bind_failed_def bind_op_def on_db_apply)

lemma bind_succeeded_apply: "fst (bind_succeeded e ip m r u dn st s) = Inr (Success, st)"
  by (simp add: bind_succeeded_def bind_op_def on_db_apply)

lemmas bind_apply = bind_op_def on_db_apply bind_failed_apply bind_succeeded_apply

lemma try_primary_result:
  "fst (try_primary e req u ip mode s) =
     Inr (if fst (try_password_login (ev_ext e) u (br_pw req) (st_db s)) = Inr ()
          then (Success, BoundUser (u_id u)) else (InvalidCredentials, Anonymous))"
  by (cases "try_password_login (ev_ext e) u (br_pw req) (st_db s)"; cases "fst (try_password_login (ev_ext e) u (br_pw req) (st_db s))")
     (simp_all add: try_primary_def bind_apply try_op_def)

lemma try_app_password_result:
  "fst (try_app_password e req u ip mode s) =
     Inr (if app_password_ok (ev_ext e) (u_id u) (br_pw req) (st_db s)
          then (Success, BoundUser (u_id u)) else (InvalidCredentials, Anonymous))"
proof (cases "app_password_ok (ev_ext e) (u_id u) (br_pw req) (st_db s)")
  case True
  from app_password_verify_Some [OF True, where now = "ev_now e"] obtain i d' where
    "app_password_verify_for_user (ev_ext e) (ev_now e) (u_id u) (br_pw req) (st_db s) = (Inr (Some i), d')" .
  with True show ?thesis by (simp add: try_app_password_def bind_apply try_op_def)
qed (simp add: try_app_password_def bind_apply try_op_def app_password_verify_None)

text \<open>The decision on a user bind, in all three password modes.\<close>

lemma handle_user_bind_result:
  "fst (handle_user_bind e req cfg ip mode n s) = Inr
     (case user_get_by_username n (st_db s) of
        None \<Rightarrow> (InvalidCredentials, Anonymous)
      | Some u \<Rightarrow> (if user_bind_granted (ev_ext e) cfg (br_pw req) u (st_db s)
                  then (Success, BoundUser (u_id u)) else (InvalidCredentials, Anonymous)))"
proof (cases "user_get_by_username n (st_db s)")
  case None
  then show ?thesis by (simp add: handle_user_bind_def bind_apply)
next
  case (Some u)
  let ?ok = "app_password_ok (ev_ext e) (u_id u) (br_pw req) (st_db s)"
  show ?thesis
  proof (cases "u_active u")
    case False
    with Some show ?thesis by (simp add: handle_user_bind_def bind_apply user_bind_granted_def)
  next
    case True
    show ?thesis
    proof (cases "lc_password_mode cfg")
      case PrimaryAndApp
      show ?thesis
      proof (cases ?ok)
        case ok: True
        from app_password_verify_Some [OF ok, where now = "ev_now e"] obtain i d' where
          "app_password_verify_for_user (ev_ext e) (ev_now e) (u_id u) (br_pw req) (st_db s) = (Inr (Some i), d')" .
        with ok True Some PrimaryAndApp show ?thesis
          by (simp add: handle_user_bind_def bind_apply try_op_def user_bind_granted_def)
      next
        case ok: False
        with True Some PrimaryAndApp show ?thesis
          by (simp add: handle_user_bind_def bind_apply try_op_def user_bind_granted_def
              app_password_verify_None try_primary_result)
      qed
    next
      case AppOnly
      with True Some show ?thesis
        by (simp add: handle_user_bind_def bind_apply user_bind_granted_def try_app_password_result)
    next
      case PrimaryOnly
      with True Some show ?thesis
        by (simp add: handle_user_bind_def bind_apply user_bind_granted_def try_primary_result)
    qed
  qed
qed

lemma handle_service_bind_result:
  "fst (handle_service_bind e req cfg ip mode s) = Inr
     (case lc_service_password_hash cfg of
        Some h \<Rightarrow> (if x_argon2_verify (ev_ext e) h (br_pw req) then (Success, Service) else (InvalidCredentials, Anonymous))
      | None \<Rightarrow> (InvalidCredentials, Anonymous))"
  by (simp add: handle_service_bind_def bind_apply verify_argon2_def split: option.split)

text \<open>Component-wise comparison of names is an equivalence.\<close>

lemma rdn_eq_equiv: "rdn_eq a b \<longleftrightarrow> map_prod to_ascii_lowercase to_ascii_lowercase a = map_prod to_ascii_lowercase to_ascii_lowercase b"
  by (cases a; cases b) (simp add: rdn_eq_def eq_ignore_ascii_case_def)

definition folded :: "dn \<Rightarrow> (string \<times> string) list" where
  "folded d = map (map_prod to_ascii_lowercase to_ascii_lowercase) (rdns d)"

lemma zip_rdn_eq:
  "length as = length bs \<Longrightarrow> list_all (\<lambda>(p, q). rdn_eq p q) (zip as bs) \<longleftrightarrow>
     map (map_prod to_ascii_lowercase to_ascii_lowercase) as = map (map_prod to_ascii_lowercase to_ascii_lowercase) bs"
  by (induction as bs rule: list_induct2) (auto simp: rdn_eq_equiv)

lemma dn_equals_folded: "dn_equals a b \<longleftrightarrow> folded a = folded b"
proof (cases "length (rdns a) = length (rdns b)")
  case False
  then have "folded a \<noteq> folded b" by (metis folded_def length_map)
  then show ?thesis using False by (simp add: dn_equals_def)
qed (simp add: dn_equals_def zip_rdn_eq folded_def)

lemma is_under_folded: "is_under a b \<longleftrightarrow> suffix (folded b) (folded a)"
proof (cases "length (rdns a) < length (rdns b)")
  case True
  then have "\<not> suffix (folded b) (folded a)" by (auto simp: folded_def dest: suffix_length_le)
  then show ?thesis using True by (simp add: is_under_def)
next
  case False
  let ?n = "length (rdns a) - length (rdns b)"
  have "length (drop ?n (rdns a)) = length (rdns b)" using False by simp
  from zip_rdn_eq [OF this] have "is_under a b \<longleftrightarrow> drop ?n (folded a) = folded b"
    using False by (simp add: is_under_def folded_def drop_map)
  also have "\<dots> \<longleftrightarrow> suffix (folded b) (folded a)"
  proof
    assume "drop ?n (folded a) = folded b"
    then show "suffix (folded b) (folded a)" by (metis suffix_drop)
  next
    assume "suffix (folded b) (folded a)"
    then obtain p where p: "folded a = p @ folded b" by (auto simp: suffix_def)
    have "length (folded a) = length p + length (folded b)" by (simp add: p)
    then have "length p = ?n" by (simp add: folded_def)
    then show "drop ?n (folded a) = folded b" by (simp add: p)
  qed
  finally show ?thesis .
qed

lemma depth_under_1: "depth_under a b = Some 1 \<longleftrightarrow> (\<exists>r. folded a = r # folded b)"
proof -
  have len: "length (rdns d) = length (folded d)" for d by (simp add: folded_def)
  have "depth_under a b = Some 1 \<longleftrightarrow> suffix (folded b) (folded a) \<and> length (folded a) - length (folded b) = 1"
    by (simp add: depth_under_def is_under_folded len)
  also have "\<dots> \<longleftrightarrow> (\<exists>r. folded a = r # folded b)"
    by (auto simp: suffix_def length_Suc_conv)
  finally show ?thesis .
qed



text \<open>What a bind may do, once the limiter has let it through.\<close>

definition bind_allowed :: "env \<Rightarrow> bind_request \<Rightarrow> ip_addr \<Rightarrow> app_state \<Rightarrow> bool" where
  "bind_allowed e req peer s \<longleftrightarrow> \<not> (br_dn req = [] \<and> br_pw req = [])
     \<and> (\<exists>k. fst (check_ldap_bind_limit e peer s) = Inr k)"

lemma check_ldap_bind_db [simp]: "st_db (snd (check_ldap_bind_limit e peer s)) = st_db s"
  by (simp add: check_ldap_bind_limit_def split: prod.split)

lemma handle_bind_refused:
  "\<not> bind_allowed e req peer s \<Longrightarrow> \<exists>c. fst (handle_bind e req cfg peer s) = Inr (c, Anonymous)"
  by (cases "check_ldap_bind_limit e peer s"; cases "fst (check_ldap_bind_limit e peer s)")
     (auto simp: bind_allowed_def handle_bind_def Let_def bind_op_def try_op_def)

lemma handle_bind_result:
  assumes "bind_allowed e req peer s"
  shows "fst (handle_bind e req cfg peer s) =
     (case parse_dn (br_dn req) of
        Inl _ \<Rightarrow> Inr (InvalidCredentials, Anonymous)
      | Inr d \<Rightarrow> (case service_dn cfg of
          None \<Rightarrow> Inl ServiceDnUnparsable
        | Some sdn \<Rightarrow>
            (if dn_equals d sdn then
               Inr (case lc_service_password_hash cfg of
                  Some h \<Rightarrow> (if x_argon2_verify (ev_ext e) h (br_pw req) then (Success, Service)
                            else (InvalidCredentials, Anonymous))
                | None \<Rightarrow> (InvalidCredentials, Anonymous))
             else case parse_dn (people_base_dn cfg) of
                 Inl _ \<Rightarrow> Inr (InvalidCredentials, Anonymous)
               | Inr people \<Rightarrow> Inr (case bind_username d people of
                     None \<Rightarrow> (InvalidCredentials, Anonymous)
                   | Some n \<Rightarrow> (case user_get_by_username n (st_db s) of
                       None \<Rightarrow> (InvalidCredentials, Anonymous)
                     | Some u \<Rightarrow> (if user_bind_granted (ev_ext e) cfg (br_pw req) u (st_db s)
                                 then (Success, BoundUser (u_id u)) else (InvalidCredentials, Anonymous)))))))"
proof -
  obtain k where k: "fst (check_ldap_bind_limit e peer s) = Inr k"
    using assms by (auto simp: bind_allowed_def)
  then have "(try_op (check_ldap_bind_limit e peer) :: (ldap_panic, nat + 32 word) state_op) s = (Inr (Inr k), snd (check_ldap_bind_limit e peer s))"
    by (cases "check_ldap_bind_limit e peer s") (simp add: try_op_def)
  moreover have "(br_dn req = [] \<and> br_pw req = []) = False" using assms by (simp add: bind_allowed_def)
  ultimately show ?thesis
    by (simp only: handle_bind_def Let_def bind_op_def if_False prod.case sum.case)
       (simp add: bind_failed_apply handle_service_bind_result handle_user_bind_result split: sum.split option.split)
qed


section \<open>What a search returns\<close>

text \<open>An entry directly below a branch is in scope only if the branch is scanned.\<close>

lemma in_scope_scanned:
  assumes "rdns en = r # rdns cat" and "entry_in_scope en base sc"
  shows "include_category base cat sc"
proof -
  obtain r' where f: "folded en = r' # folded cat" using assms(1) by (simp add: folded_def)
  have under: "is_under base cat \<or> is_under cat base" if "suffix (folded base) (folded en)"
    using that f by (auto simp: is_under_folded suffix_Cons)
  show ?thesis
  proof (cases sc)
    case Base
    then have "folded en = folded base" using assms(2) by (simp add: dn_equals_folded)
    then have "depth_under base cat = Some 1" using f unfolding depth_under_1 by metis
    with Base show ?thesis by (simp add: include_category_def)
  next
    case OneLevel
    then have "depth_under en base = Some 1" using assms(2) by simp
    then have "folded base = folded cat" using f by (subst (asm) depth_under_1) auto
    with OneLevel show ?thesis by (simp add: include_category_def dn_equals_folded)
  qed (use assms(2) under in \<open>auto simp: include_category_def is_under_folded\<close>)
qed

text \<open>Names that need no escaping.\<close>

definition plain_name :: "string \<Rightarrow> bool" where
  "plain_name n \<longleftrightarrow> n \<noteq> [] \<and> graphic n \<and> CHR '','' \<notin> set n \<and> CHR 0x5C \<notin> set n"

definition plain_config :: "ldap_config \<Rightarrow> bool" where
  "plain_config cfg \<longleftrightarrow> validate_base_dn (lc_base_dn cfg) = Inr () \<and> graphic (lc_base_dn cfg)
     \<and> CHR 0x5C \<notin> set (lc_base_dn cfg)"

definition plain_directory :: "ldap_config \<Rightarrow> db \<Rightarrow> bool" where
  "plain_directory cfg d \<longleftrightarrow> plain_config cfg \<and> (\<forall>u\<in>set (users d). plain_name (u_username u))
     \<and> (\<forall>r\<in>set (roles d). plain_name (ro_name r))"

lemma plain_literals:
  "graphic ''uid'' \<and> graphic ''cn'' \<and> graphic ''ou'' \<and> graphic ''people'' \<and> graphic ''groups'' \<and> graphic ''service''"
  "to_ascii_lowercase ''uid'' = ''uid''" "to_ascii_lowercase ''cn'' = ''cn''" "to_ascii_lowercase ''ou'' = ''ou''"
  by (simp_all add: graphic_def ascii_graphic_def byte_def to_ascii_lowercase_def to_ascii_lower_def is_ascii_upper_def)

lemma config_names_parse:
  assumes "plain_config cfg"
  obtains rs where "parse_dn (lc_base_dn cfg) = Inr \<lparr>rdns = rs\<rparr>"
    "parse_dn (people_base_dn cfg) = Inr \<lparr>rdns = (''ou'', ''people'') # rs\<rparr>"
    "parse_dn (groups_base_dn cfg) = Inr \<lparr>rdns = (''ou'', ''groups'') # rs\<rparr>"
    "service_dn cfg = Some \<lparr>rdns = (''cn'', ''service'') # rs\<rparr>"
proof -
  have c: "validate_base_dn (lc_base_dn cfg) = Inr ()" "graphic (lc_base_dn cfg)" "CHR 0x5C \<notin> set (lc_base_dn cfg)"
    using assms by (auto simp: plain_config_def)
  obtain rs where 1: "parse_dn (lc_base_dn cfg) = Inr \<lparr>rdns = rs\<rparr>"
    "parse_dn ((''ou'' @ CHR ''='' # ''people'') @ CHR '','' # lc_base_dn cfg)
       = Inr \<lparr>rdns = (to_ascii_lowercase ''ou'', ''people'') # rs\<rparr>"
    by (rule parse_dn_below [OF c, of "''ou''" "''people''"]) (auto simp: plain_literals)
  obtain rs2 where 2: "parse_dn (lc_base_dn cfg) = Inr \<lparr>rdns = rs2\<rparr>"
    "parse_dn ((''ou'' @ CHR ''='' # ''groups'') @ CHR '','' # lc_base_dn cfg)
       = Inr \<lparr>rdns = (to_ascii_lowercase ''ou'', ''groups'') # rs2\<rparr>"
    by (rule parse_dn_below [OF c, of "''ou''" "''groups''"]) (auto simp: plain_literals)
  obtain rs3 where 3: "parse_dn (lc_base_dn cfg) = Inr \<lparr>rdns = rs3\<rparr>"
    "parse_dn ((''cn'' @ CHR ''='' # ''service'') @ CHR '','' # lc_base_dn cfg)
       = Inr \<lparr>rdns = (to_ascii_lowercase ''cn'', ''service'') # rs3\<rparr>"
    by (rule parse_dn_below [OF c, of "''cn''" "''service''"]) (auto simp: plain_literals)
  show thesis
    using 1 2 3 by (intro that [of rs])
      (simp_all add: people_base_dn_def groups_base_dn_def service_account_dn_def service_dn_def plain_literals)
qed

text \<open>
  A base name accepted by the settings validator makes a usable directory: without
  backslashes, white space and non-ASCII characters in it, the base name, both branches and the
  service name all parse, so no bind panics on the configuration and no search answers with a
  configuration error.
\<close>

theorem validated_base_dn_usable:
  assumes "validate_base_dn (lc_base_dn cfg) = Inr ()" and "graphic (lc_base_dn cfg)"
    and "CHR 0x5C \<notin> set (lc_base_dn cfg)"
  shows "\<exists>rs. parse_dn (lc_base_dn cfg) = Inr \<lparr>rdns = rs\<rparr>
     \<and> parse_dn (people_base_dn cfg) = Inr \<lparr>rdns = (''ou'', ''people'') # rs\<rparr>
     \<and> parse_dn (groups_base_dn cfg) = Inr \<lparr>rdns = (''ou'', ''groups'') # rs\<rparr>
     \<and> service_dn cfg = Some \<lparr>rdns = (''cn'', ''service'') # rs\<rparr>
     \<and> fst (handle_bind e req cfg peer s) \<noteq> Inl ServiceDnUnparsable"
proof -
  have "plain_config cfg" using assms by (simp add: plain_config_def)
  from config_names_parse [OF this] obtain rs where rs: "parse_dn (lc_base_dn cfg) = Inr \<lparr>rdns = rs\<rparr>"
    "parse_dn (people_base_dn cfg) = Inr \<lparr>rdns = (''ou'', ''people'') # rs\<rparr>"
    "parse_dn (groups_base_dn cfg) = Inr \<lparr>rdns = (''ou'', ''groups'') # rs\<rparr>"
    "service_dn cfg = Some \<lparr>rdns = (''cn'', ''service'') # rs\<rparr>" .
  moreover have "fst (handle_bind e req cfg peer s) \<noteq> Inl ServiceDnUnparsable"
  proof (cases "bind_allowed e req peer s")
    case True
    show ?thesis
      unfolding handle_bind_result [OF True] rs(2,4) by (cases "parse_dn (br_dn req)") auto
  next
    case False
    from handle_bind_refused [OF this, of cfg] show ?thesis by auto
  qed
  ultimately show ?thesis by blast
qed

text \<open>A backslash at the end passes the validator but not the parser, and every bind panics.\<close>

definition backslash_config :: ldap_config where
  "backslash_config = \<lparr>lc_enabled = True, lc_base_dn = ''dc='' @ [CHR 0x5C], lc_bind_address = ''0.0.0.0:3389'',
     lc_service_password_hash = None, lc_password_mode = PrimaryAndApp\<rparr>"

lemma backslash_base_dn_panics:
  "validate_base_dn (lc_base_dn backslash_config) = Inr () \<and> service_dn backslash_config = None"
proof
  have t: "trim (''dc='' @ [CHR 0x5C]) = ''dc='' @ [CHR 0x5C]" "trim ''dc'' = ''dc''" "trim [CHR 0x5C] = [CHR 0x5C]"
    "trim (''cn=service,dc='' @ [CHR 0x5C]) = ''cn=service,dc='' @ [CHR 0x5C]" "trim ''cn'' = ''cn''"
    "trim ''service'' = ''service''"
    by (rule trim_graphic, simp_all add: ascii_graphic_def byte_def)+
  then show "validate_base_dn (lc_base_dn backslash_config) = Inr ()"
    by (simp add: backslash_config_def validate_base_dn_def)
  show "service_dn backslash_config = None"
    using t(4,5,6) by (simp add: backslash_config_def service_dn_def service_account_dn_def parse_dn_def split_rdn_def)
qed

theorem validated_base_dn_usable_witness:
  "service_dn \<lparr>lc_enabled = True, lc_base_dn = ''dc=x'', lc_bind_address = [], lc_service_password_hash = None,
     lc_password_mode = AppOnly\<rparr> = Some \<lparr>rdns = [(''cn'', ''service''), (''dc'', ''x'')]\<rparr>"
proof -
  let ?c = "\<lparr>lc_enabled = True, lc_base_dn = ''dc=x'', lc_bind_address = [], lc_service_password_hash = None,
     lc_password_mode = AppOnly\<rparr>"
  have g: "graphic ''dc=x''" "graphic ''dc''" "graphic ''x''"
    by (simp_all add: graphic_def ascii_graphic_def byte_def)
  note t = g [THEN trim_all_graphic]
  have l: "to_ascii_lowercase ''dc'' = ''dc''"
    by (simp add: byte_def to_ascii_lowercase_def to_ascii_lower_def is_ascii_upper_def)
  have "validate_base_dn ''dc=x'' = Inr ()" by (simp add: validate_base_dn_def t)
  moreover have "parse_dn ''dc=x'' = Inr \<lparr>rdns = [(''dc'', ''x'')]\<rparr>" by (simp add: parse_dn_def split_rdn_def t l)
  ultimately show ?thesis using validated_base_dn_usable [of ?c] g(1) by auto
qed

section \<open>Search results\<close>

lemma parse_dn_cons:
  assumes g: "graphic base" "CHR 0x5C \<notin> set base" "base \<noteq> []" "last (split_char CHR '','' base) \<noteq> []"
    and b: "parse_dn base = Inr \<lparr>rdns = rs\<rparr>"
    and a: "graphic a" "a \<noteq> []" "CHR ''='' \<notin> set a" "CHR '','' \<notin> set a" "CHR 0x5C \<notin> set a" and w: "plain_name w"
  shows "parse_dn ((a @ CHR ''='' # w) @ CHR '','' # base) = Inr \<lparr>rdns = (to_ascii_lowercase a, w) # rs\<rparr>"
proof -
  let ?rdn = "a @ CHR ''='' # w" and ?ps = "split_char CHR '','' base"
  have rs: "rdns_of ?ps = Inr rs" using b parse_dn_graphic [OF g] by (auto split: sum.splits)
  have "CHR '','' \<notin> set ?rdn" using a w by (simp add: plain_name_def)
  then have split: "split_char CHR '','' (?rdn @ CHR '','' # base) = ?rdn # ?ps"
    using split_char_append [of "CHR '',''" ?rdn base] split_char_single [of "CHR '',''" ?rdn]
    by (metis append_Cons append_Nil)
  have gr: "graphic (?rdn @ CHR '','' # base)"
    using a w g by (simp add: graphic_def ascii_graphic_def byte_def plain_name_def)
  show ?thesis
    using parse_dn_graphic [OF gr] split g rs split_rdn_literal [of a w] a w by (simp add: plain_name_def)
qed

lemma entry_dn_below:
  assumes "plain_config cfg" and "plain_name n"
  obtains rs where "parse_dn (people_base_dn cfg) = Inr \<lparr>rdns = (''ou'', ''people'') # rs\<rparr>"
    "parse_dn (groups_base_dn cfg) = Inr \<lparr>rdns = (''ou'', ''groups'') # rs\<rparr>"
    "parse_dn (user_dn n cfg) = Inr \<lparr>rdns = (''uid'', n) # (''ou'', ''people'') # rs\<rparr>"
    "parse_dn (group_dn n cfg) = Inr \<lparr>rdns = (''cn'', n) # (''ou'', ''groups'') # rs\<rparr>"
proof -
  have c: "graphic (lc_base_dn cfg)" "CHR 0x5C \<notin> set (lc_base_dn cfg)"
    using assms(1) by (auto simp: plain_config_def)
  have "validate_rdns (split_char CHR '','' (lc_base_dn cfg)) = Inr ()"
    using assms(1) by (auto simp: plain_config_def validate_base_dn_def trim_all_graphic [OF c(1)] Let_def split: if_splits)
  from validate_rdns_nonempty [OF this] have last: "last (split_char CHR '','' (lc_base_dn cfg)) \<noteq> []" by simp
  from config_names_parse [OF assms(1)] obtain rs where rs:
    "parse_dn (people_base_dn cfg) = Inr \<lparr>rdns = (''ou'', ''people'') # rs\<rparr>"
    "parse_dn (groups_base_dn cfg) = Inr \<lparr>rdns = (''ou'', ''groups'') # rs\<rparr>" .
  have branch: "graphic (b @ CHR '','' # lc_base_dn cfg)" "CHR 0x5C \<notin> set (b @ CHR '','' # lc_base_dn cfg)"
    "b @ CHR '','' # lc_base_dn cfg \<noteq> []" "last (split_char CHR '','' (b @ CHR '','' # lc_base_dn cfg)) \<noteq> []"
    if "graphic b" "CHR 0x5C \<notin> set b" for b
    using that c last by (simp_all add: split_char_append) (simp add: graphic_def ascii_graphic_def byte_def)
  have p: "people_base_dn cfg = ''ou=people'' @ CHR '','' # lc_base_dn cfg" "groups_base_dn cfg = ''ou=groups'' @ CHR '','' # lc_base_dn cfg"
    by (simp_all add: people_base_dn_def groups_base_dn_def)
  have g: "graphic ''ou=people''" "graphic ''ou=groups''" by (simp_all add: graphic_def ascii_graphic_def byte_def)
  have u: "user_dn n cfg = (''uid'' @ CHR ''='' # n) @ CHR '','' # people_base_dn cfg"
    "group_dn n cfg = (''cn'' @ CHR ''='' # n) @ CHR '','' # groups_base_dn cfg"
    by (simp_all add: user_dn_def group_dn_def)
  have "parse_dn (user_dn n cfg) = Inr \<lparr>rdns = (to_ascii_lowercase ''uid'', n) # (''ou'', ''people'') # rs\<rparr>"
    unfolding u by (rule parse_dn_cons [OF _ _ _ _ rs(1) _ _ _ _ _ assms(2)])
      (use branch [OF g(1)] p plain_literals(1) in simp_all)
  moreover have "parse_dn (group_dn n cfg) = Inr \<lparr>rdns = (to_ascii_lowercase ''cn'', n) # (''ou'', ''groups'') # rs\<rparr>"
    unfolding u by (rule parse_dn_cons [OF _ _ _ _ rs(2) _ _ _ _ _ assms(2)])
      (use branch [OF g(2)] p plain_literals(1) in simp_all)
  ultimately show thesis using that rs by (simp add: plain_literals(2,3))
qed

lemma unscanned_empty:
  assumes pl: "plain_directory cfg d"
  shows "parse_dn (people_base_dn cfg) = Inr people \<Longrightarrow> \<not> include_category base people (sr_scope req) \<Longrightarrow>
      filter (selected req base) (user_entries x cfg d) = []"
    and "parse_dn (groups_base_dn cfg) = Inr groups \<Longrightarrow> \<not> include_category base groups (sr_scope req) \<Longrightarrow>
      filter (selected req base) (group_entries cfg d) = []"
proof -
  have cfg: "plain_config cfg" using pl by (simp add: plain_directory_def)
  assume p: "parse_dn (people_base_dn cfg) = Inr people" "\<not> include_category base people (sr_scope req)"
  have "\<not> selected req base en" if "en \<in> set (user_entries x cfg d)" for en
  proof -
    from that obtain u where u: "u \<in> set (users d)" "en_dn en = user_dn (u_username u) cfg"
      by (auto simp: user_entries_def user_list_def build_user_entry_def user.truncate_def)
    then have "plain_name (u_username u)" using pl by (simp add: plain_directory_def)
    from entry_dn_below [OF cfg this] obtain rs where
      "parse_dn (people_base_dn cfg) = Inr \<lparr>rdns = (''ou'', ''people'') # rs\<rparr>"
      "parse_dn (en_dn en) = Inr \<lparr>rdns = (''uid'', u_username u) # (''ou'', ''people'') # rs\<rparr>" using u(2) by metis
    with p in_scope_scanned [where en = "\<lparr>rdns = (''uid'', u_username u) # rdns people\<rparr>"
        and r = "(''uid'', u_username u)" and cat = people and base = base and sc = "sr_scope req"] show ?thesis
      by (auto simp: selected_def)
  qed
  then show "filter (selected req base) (user_entries x cfg d) = []" by (simp add: filter_empty_conv)
next
  have cfg: "plain_config cfg" using pl by (simp add: plain_directory_def)
  assume p: "parse_dn (groups_base_dn cfg) = Inr groups" "\<not> include_category base groups (sr_scope req)"
  have "\<not> selected req base en" if "en \<in> set (group_entries cfg d)" for en
  proof -
    from that obtain r where r: "r \<in> set (roles d)" "en_dn en = group_dn (ro_name r) cfg"
      by (auto simp: group_entries_def role_list_def build_group_entry_def)
    then have "plain_name (ro_name r)" using pl by (simp add: plain_directory_def)
    from entry_dn_below [OF cfg this] obtain rs where
      "parse_dn (groups_base_dn cfg) = Inr \<lparr>rdns = (''ou'', ''groups'') # rs\<rparr>"
      "parse_dn (en_dn en) = Inr \<lparr>rdns = (''cn'', ro_name r) # (''ou'', ''groups'') # rs\<rparr>" using r(2) by metis
    with p in_scope_scanned [where en = "\<lparr>rdns = (''cn'', ro_name r) # rdns groups\<rparr>"
        and r = "(''cn'', ro_name r)" and cat = groups and base = base and sc = "sr_scope req"] show ?thesis
      by (auto simp: selected_def)
  qed
  then show "filter (selected req base) (group_entries cfg d) = []" by (simp add: filter_empty_conv)
qed

text \<open>Who may see entries.\<close>

definition may_search :: "bind_state \<Rightarrow> db \<Rightarrow> bool" where
  "may_search bound d \<longleftrightarrow> bound = Service
     \<or> (\<exists>i u. bound = BoundUser i \<and> user_get i d = Some u \<and> u_active u)"

text \<open>
  A search below a non-empty base returns nothing to an anonymous connection, to a user who
  has been deactivated or deleted since binding, or while LDAP is disabled. The only entries an
  anonymous connection can get are those of a search with an empty base.
\<close>

theorem ldap_search_access:
  "fst (handle_search x version req cfg bound d) = []
   \<or> lc_enabled cfg \<and> (sr_base req = [] \<or> may_search bound d)"
  by (cases bound)
     (auto simp: handle_search_def search_done_def may_search_def Let_def split: sum.split option.split)

text \<open>
  C9. The directory search is exact: for a bound client, a base name that parses and names that
  need no escaping, the result is precisely the users and groups whose name lies in the
  requested scope and which match the filter, reduced to the requested attributes. Skipping the
  branches that the base and scope cannot reach never loses an entry.
\<close>

theorem ldap_search_exact:
  assumes "plain_directory cfg d" and "lc_enabled cfg" and "may_search bound d"
    and "sr_base req \<noteq> []" and "parse_dn (sr_base req) = Inr base"
  shows "fst (handle_search x version req cfg bound d) =
     map (to_ldap (sr_attrs req)) (filter (selected req base) (user_entries x cfg d @ group_entries cfg d))"
proof -
  have "plain_config cfg" using assms(1) by (simp add: plain_directory_def)
  from config_names_parse [OF this] obtain rs where rs: "parse_dn (lc_base_dn cfg) = Inr \<lparr>rdns = rs\<rparr>"
    "parse_dn (people_base_dn cfg) = Inr \<lparr>rdns = (''ou'', ''people'') # rs\<rparr>"
    "parse_dn (groups_base_dn cfg) = Inr \<lparr>rdns = (''ou'', ''groups'') # rs\<rparr>" .
  let ?p = "include_category base \<lparr>rdns = (''ou'', ''people'') # rs\<rparr> (sr_scope req)"
    and ?g = "include_category base \<lparr>rdns = (''ou'', ''groups'') # rs\<rparr> (sr_scope req)"
  have bound: "bound \<noteq> Anonymous" "(case bound of
      BoundUser i \<Rightarrow> (case user_get i d of Some u \<Rightarrow> \<not> u_active u | None \<Rightarrow> True) | _ \<Rightarrow> False) = False"
    using assms(3) by (auto simp: may_search_def split: bind_state.split)
  have users: "filter (selected req base) (user_entries x cfg d) = []" if "\<not> ?p"
    by (rule unscanned_empty(1) [OF assms(1) rs(2) that])
  have groups: "filter (selected req base) (group_entries cfg d) = []" if "\<not> ?g"
    by (rule unscanned_empty(2) [OF assms(1) rs(3) that])
  have "handle_search x version req cfg bound d =
      (if \<not> ?p \<and> \<not> ?g
       then (if \<not> dn_equals base \<lparr>rdns = rs\<rparr> \<and> \<not> is_under base \<lparr>rdns = rs\<rparr> then search_done NoSuchObject []
             else search_done Success [])
       else finalize req ((if ?p then filter (selected req base) (user_entries x cfg d) else [])
              @ (if ?g then filter (selected req base) (group_entries cfg d) else [])))"
    using assms(2,4,5) bound by (simp only: handle_search_def rs Let_def sum.case) simp
  then show ?thesis using users groups by (auto simp: search_done_def finalize_def)
qed

definition demo_ldap :: ldap_config where
  "demo_ldap = \<lparr>lc_enabled = True, lc_base_dn = ''dc=x'', lc_bind_address = [], lc_service_password_hash = None,
     lc_password_mode = AppOnly\<rparr>"

lemma demo_plain: "plain_directory demo_ldap demo_session"
proof -
  have "validate_base_dn ''dc=x'' = Inr ()"
    by (simp add: validate_base_dn_def trim_all_graphic graphic_def ascii_graphic_def byte_def)
  then show ?thesis
    by (simp add: plain_directory_def plain_config_def demo_ldap_def demo_state_defs plain_name_def graphic_def
        ascii_graphic_def byte_def)
qed

theorem ldap_search_exact_witness:
  "\<exists>base. parse_dn ''ou=people,dc=x'' = Inr base \<and>
     fst (handle_search ref_ext ''1'' \<lparr>sr_base = ''ou=people,dc=x'', sr_scope = OneLevel, sr_filter = Present ''uid'',
         sr_attrs = []\<rparr> demo_ldap (BoundUser 7) demo_session)
     = map (to_ldap []) (filter (selected \<lparr>sr_base = ''ou=people,dc=x'', sr_scope = OneLevel, sr_filter = Present ''uid'',
         sr_attrs = []\<rparr> base) (user_entries ref_ext demo_ldap demo_session @ group_entries demo_ldap demo_session))"
proof -
  let ?rq = "\<lparr>sr_base = ''ou=people,dc=x'', sr_scope = OneLevel, sr_filter = Present ''uid'', sr_attrs = []\<rparr>"
  have "plain_config demo_ldap" using demo_plain by (simp add: plain_directory_def)
  from config_names_parse [OF this] obtain rs where
    "parse_dn (people_base_dn demo_ldap) = Inr \<lparr>rdns = (''ou'', ''people'') # rs\<rparr>" .
  then have b: "parse_dn ''ou=people,dc=x'' = Inr \<lparr>rdns = (''ou'', ''people'') # rs\<rparr>"
    by (simp add: people_base_dn_def demo_ldap_def)
  have m: "may_search (BoundUser 7) demo_session"
    by (simp add: may_search_def user_get_def demo_state_defs user.truncate_def)
  have "lc_enabled demo_ldap" by (simp add: demo_ldap_def)
  from ldap_search_exact [OF demo_plain this m, where req = ?rq and base = "\<lparr>rdns = (''ou'', ''people'') # rs\<rparr>"] b
  show ?thesis by (intro exI [of _ "\<lparr>rdns = (''ou'', ''people'') # rs\<rparr>"]) simp
qed

text \<open>
  An anonymous connection with an empty base and any scope but the base object is treated like
  the service account: a subtree search lists every user and group of the directory.
\<close>

lemma anonymous_empty_base_unrestricted:
  "sr_base req = [] \<Longrightarrow> handle_search x version req cfg Anonymous d = handle_search x version req cfg Service d"
  unfolding handle_search_def bind_state.case by simp

lemma anonymous_subtree_lists_all:
  assumes "plain_directory cfg d" and "lc_enabled cfg" and "sr_base req = []" and "sr_scope req = Subtree"
  shows "fst (handle_search x version req cfg Anonymous d) =
     map (to_ldap (sr_attrs req)) (filter (\<lambda>en. matches en (sr_filter req)) (user_entries x cfg d @ group_entries cfg d))"
proof -
  have cfg: "plain_config cfg" using assms(1) by (simp add: plain_directory_def)
  from config_names_parse [OF this] obtain rs where rs: "parse_dn (lc_base_dn cfg) = Inr \<lparr>rdns = rs\<rparr>"
    "parse_dn (people_base_dn cfg) = Inr \<lparr>rdns = (''ou'', ''people'') # rs\<rparr>"
    "parse_dn (groups_base_dn cfg) = Inr \<lparr>rdns = (''ou'', ''groups'') # rs\<rparr>" .
  have under: "is_under a \<lparr>rdns = []\<rparr>" for a by (simp add: is_under_def)
  have "parse_dn [] = Inr \<lparr>rdns = []\<rparr>" by (simp add: parse_dn_def)
  then have "handle_search x version req cfg Anonymous d =
      finalize req (filter (selected req \<lparr>rdns = []\<rparr>) (user_entries x cfg d) @ filter (selected req \<lparr>rdns = []\<rparr>) (group_entries cfg d))"
    using assms(2-4) by (simp add: handle_search_def rs include_category_def under)
  moreover have "selected req \<lparr>rdns = []\<rparr> en \<longleftrightarrow> matches en (sr_filter req)"
    if "en \<in> set (user_entries x cfg d @ group_entries cfg d)" for en
  proof -
    from that obtain n where "plain_name n" "en_dn en = user_dn n cfg \<or> en_dn en = group_dn n cfg"
      using assms(1) by (fastforce simp: user_entries_def user_list_def build_user_entry_def user.truncate_def
          group_entries_def role_list_def build_group_entry_def plain_directory_def)
    then obtain dn where "parse_dn (en_dn en) = Inr dn" using entry_dn_below [OF cfg] by metis
    then show ?thesis using assms(4) under by (simp add: selected_def)
  qed
  ultimately show ?thesis by (auto simp: finalize_def intro!: arg_cong2 [where f = append] arg_cong [where f = "map _"] filter_cong)
qed

end
