(* ===== verification/Ldap_Server.thy ===== *)
theory Ldap_Server
  imports Ldap_Handler
begin

text \<open>
  \<open>ldap/server.rs\<close>: the check of the BER structure of a frame before it is parsed, and the loop
  that serves one connection. A connection is the sequence of what its stream delivers: messages,
  each handled at its own time, frames that cannot be decoded, and the end of the stream, closed or
  timed out. Sockets, the encoding of messages and replies that cannot be sent are left out.
\<close>

section \<open>Frames\<close>

datatype io_error = InvalidFrame | AcquireFailed string

definition MAX_BER_DEPTH :: nat where "MAX_BER_DEPTH = 32"

text \<open>\<open>usize\<close> has 64 bits.\<close>

definition checked_add :: "nat \<Rightarrow> nat \<Rightarrow> nat option" where
  "checked_add a b = (if a + b < 2 ^ 64 then Some (a + b) else None)"

definition checked_mul :: "nat \<Rightarrow> nat \<Rightarrow> nat option" where
  "checked_mul a b = (if a * b < 2 ^ 64 then Some (a * b) else None)"

fun ber_length :: "nat \<Rightarrow> string \<Rightarrow> nat option" where
  "ber_length len [] = Some len"
| "ber_length len (b # bs) =
     (case checked_mul len 256 of None \<Rightarrow> None
      | Some n \<Rightarrow> (case checked_add n (byte b) of None \<Rightarrow> None | Some m \<Rightarrow> ber_length m bs))"

text \<open>The header length and the body length, \<open>Inr None\<close> when the header is incomplete.\<close>

definition ber_header :: "string \<Rightarrow> io_error + (nat \<times> nat) option" where
  "ber_header buf =
     (if length buf < 2 then Inr None
      else let length_byte = byte (buf ! 1) in
        if length_byte < 128 then Inr (Some (2, length_byte))
        else let octets = length_byte mod 128 in
          if octets = 0 \<or> 8 < octets then Inl InvalidFrame
          else if length buf < 2 + octets then Inr None
          else (case ber_length 0 (take octets (drop 2 buf)) of
                  None \<Rightarrow> Inl InvalidFrame
                | Some len \<Rightarrow> Inr (Some (2 + octets, len))))"

definition constructed :: "char \<Rightarrow> bool" where
  "constructed c \<longleftrightarrow> odd (byte c div 32)"

text \<open>The stack of ends with its top first, and the position.\<close>

partial_function (option) ber_loop :: "string \<Rightarrow> nat list \<Rightarrow> nat \<Rightarrow> (io_error + unit) option" where
  "ber_loop frame ends position =
     (case ends of
        [] \<Rightarrow> Some (Inr ())
      | parent_end # rest \<Rightarrow>
          (if position = parent_end then ber_loop frame rest position
           else if \<not> (position \<le> parent_end \<and> parent_end \<le> length frame) then Some (Inl InvalidFrame)
           else let remaining = take (parent_end - position) (drop position frame) in
             case ber_header remaining of
               Inl e \<Rightarrow> Some (Inl e)
             | Inr None \<Rightarrow> Some (Inl InvalidFrame)
             | Inr (Some (header, body)) \<Rightarrow>
                 (case checked_add position header of
                    None \<Rightarrow> Some (Inl InvalidFrame)
                  | Some body_start \<Rightarrow>
                 (case checked_add body_start body of
                    None \<Rightarrow> Some (Inl InvalidFrame)
                  | Some body_end \<Rightarrow>
                      (if parent_end < body_end then Some (Inl InvalidFrame)
                       else if constructed (hd remaining)
                       then (if MAX_BER_DEPTH \<le> length ends then Some (Inl InvalidFrame)
                             else ber_loop frame (body_end # ends) body_start)
                       else ber_loop frame ends body_end)))))"

definition validate_ber_structure :: "string \<Rightarrow> (io_error + unit) option" where
  "validate_ber_structure frame = ber_loop frame [length frame] 0"

section \<open>The frame check against its specification\<close>

text \<open>
  A sequence of definite-length values, nested at most \<open>k\<close> deep: each header and body lie within
  the enclosing value, and the body of a constructed value is such a sequence itself.
\<close>

inductive ber_values :: "nat \<Rightarrow> string \<Rightarrow> bool" where
  empty: "ber_values k []"
| primitive: "ber_header bs = Inr (Some (h, b)) \<Longrightarrow> h + b \<le> length bs \<Longrightarrow> \<not> constructed (hd bs)
    \<Longrightarrow> ber_values k (drop (h + b) bs) \<Longrightarrow> ber_values k bs"
| nested: "ber_header bs = Inr (Some (h, b)) \<Longrightarrow> h + b \<le> length bs \<Longrightarrow> constructed (hd bs)
    \<Longrightarrow> ber_values k (take b (drop h bs)) \<Longrightarrow> ber_values (Suc k) (drop (h + b) bs) \<Longrightarrow> ber_values (Suc k) bs"

inductive_cases ber_valuesE: "ber_values k bs"

lemma ber_header_bounds: "ber_header bs = Inr (Some (h, b)) \<Longrightarrow> 2 \<le> h \<and> h \<le> length bs"
  by (auto simp: ber_header_def Let_def split: if_splits option.splits)

lemma ber_values_step:
  assumes "bs \<noteq> []"
  shows "ber_values k bs \<longleftrightarrow>
    (case ber_header bs of
       Inr (Some (h, b)) \<Rightarrow> h + b \<le> length bs \<and> ber_values k (drop (h + b) bs)
         \<and> (constructed (hd bs) \<longrightarrow> (case k of 0 \<Rightarrow> False | Suc j \<Rightarrow> ber_values j (take b (drop h bs))))
     | _ \<Rightarrow> False)"
  (is "?l \<longleftrightarrow> ?r")
proof
  assume ?l
  then show ?r using assms by (cases rule: ber_values.cases) simp_all
next
  assume r: ?r
  then obtain h b where hb: "ber_header bs = Inr (Some (h, b))" "h + b \<le> length bs" "ber_values k (drop (h + b) bs)"
    and c: "constructed (hd bs) \<longrightarrow> (case k of 0 \<Rightarrow> False | Suc j \<Rightarrow> ber_values j (take b (drop h bs)))"
    by (auto split: sum.splits option.splits)
  show ?l
  proof (cases "constructed (hd bs)")
    case True
    with c obtain j where "k = Suc j" "ber_values j (take b (drop h bs))" by (auto split: nat.splits)
    with hb True show ?thesis by (auto intro: nested)
  next
    case False
    with hb show ?thesis by (auto intro: primitive)
  qed
qed

text \<open>The loop on one segment, between the position and the top of the stack.\<close>

lemma ber_loop_segment:
  assumes "length frame < 2 ^ 64" and "position \<le> e" and "e \<le> length frame" and "length es \<le> 31"
  shows "ber_loop frame (e # es) position =
    (if ber_values (31 - length es) (take (e - position) (drop position frame))
     then ber_loop frame es e else Some (Inl InvalidFrame))"
  using assms
proof (induction "e - position" arbitrary: e es position rule: less_induct)
  case less
  let ?seg = "take (e - position) (drop position frame)"
  show ?case
  proof (cases "position = e")
    case True
    then show ?thesis by (simp add: ber_loop.simps [of frame "e # es"] empty)
  next
    case False
    have len: "length ?seg = e - position" using less.prems by simp
    then have ne: "?seg \<noteq> []" using False less.prems by auto
    show ?thesis
    proof (cases "\<exists>h b. ber_header ?seg = Inr (Some (h, b)) \<and> h + b \<le> length ?seg")
      case False
      then have "\<not> ber_values (31 - length es) ?seg"
        unfolding ber_values_step [OF ne] by (auto split: sum.splits option.splits)
      moreover have "ber_loop frame (e # es) position = Some (Inl InvalidFrame)"
      proof -
        have err: "ber_header ?seg = Inl er \<Longrightarrow> er = InvalidFrame" for er
          by (auto simp: ber_header_def Let_def split: if_splits option.splits)
        have far: "e < position + h + b" if "ber_header ?seg = Inr (Some (h, b))" for h b
          using False that less.prems len by (auto simp: not_le)
        show ?thesis
          using \<open>position \<noteq> e\<close> less.prems
          by (subst ber_loop.simps) (auto simp: Let_def checked_add_def dest: err far split: sum.split option.split)
      qed
      ultimately show ?thesis by simp
    next
      case True
      then obtain h b where hb: "ber_header ?seg = Inr (Some (h, b))" "h + b \<le> e - position" using len by auto
      let ?bs = "position + h" and ?be = "position + h + b"
      have fits: "h + b \<le> length frame - position" using hb(2) less.prems(3) by simp
      have h: "2 \<le> h" using ber_header_bounds [OF hb(1)] by simp
      have add: "checked_add position h = Some ?bs" "checked_add ?bs b = Some ?be" "\<not> e < ?be"
        using hb(2) less.prems by (auto simp: checked_add_def)
      have body: "take b (drop h ?seg) = take (?be - ?bs) (drop ?bs frame)"
        using hb(2) by (simp add: drop_take add.commute)
      have after: "drop (h + b) ?seg = take (e - ?be) (drop ?be frame)"
        by (simp add: drop_take add.commute add.left_commute)
      have next_: "ber_loop frame (e # es) ?be =
          (if ber_values (31 - length es) (drop (h + b) ?seg) then ber_loop frame es e else Some (Inl InvalidFrame))"
        unfolding after by (rule less.hyps) (use hb(2) h less.prems in auto)
      have loop: "ber_loop frame (e # es) position =
          (if constructed (hd ?seg)
           then (if 31 \<le> length es then Some (Inl InvalidFrame) else ber_loop frame (?be # e # es) ?bs)
           else ber_loop frame (e # es) ?be)"
        using \<open>position \<noteq> e\<close> less.prems hb(1) add
        by (subst ber_loop.simps) (simp add: Let_def MAX_BER_DEPTH_def)
      show ?thesis
      proof (cases "constructed (hd ?seg) \<and> length es < 31")
        case True
        then have "length es < 31" by blast
        then have k: "31 - length es = Suc (31 - length (e # es))" unfolding length_Cons by arith
        have "ber_loop frame (?be # e # es) ?bs =
            (if ber_values (31 - length (e # es)) (take b (drop h ?seg)) then ber_loop frame (e # es) ?be
             else Some (Inl InvalidFrame))"
          unfolding body by (rule less.hyps) (use True hb(2) h less.prems in auto)
        then show ?thesis
          using True loop next_ unfolding ber_values_step [OF ne] hb(1) k by (auto simp: hb(2) fits)
      next
        case False
        show ?thesis
        proof (cases "constructed (hd ?seg)")
          case True
          with False less.prems(4) have k: "31 - length es = 0" "31 \<le> length es" by auto
          have "\<not> ber_values 0 ?seg" unfolding ber_values_step [OF ne] hb(1) using True by simp
          then show ?thesis using True k loop by simp
        next
          case prim: False
          have "ber_values (31 - length es) ?seg \<longleftrightarrow> ber_values (31 - length es) (drop (h + b) ?seg)"
            unfolding ber_values_step [OF ne] hb(1) using prim fits hb(2) by simp
          then show ?thesis using prim loop next_ by simp
        qed
      qed
    qed
  qed
qed

text \<open>
  The frame check always comes to an end, although it follows lengths taken from the input,
  and accepts exactly the frames that are a sequence of definite-length values nested at most
  32 levels deep in all, every body within its parent; everything else is refused.
\<close>

lemma ber_check_total:
  assumes "length frame < 2 ^ 64"
  shows "validate_ber_structure frame =
    Some (if ber_values 31 frame then Inr () else Inl InvalidFrame)"
  using ber_loop_segment [of frame 0 "length frame" "[]"] assms
  by (simp add: validate_ber_structure_def ber_loop.simps [of frame "[]"])

section \<open>Decoding\<close>

text \<open>
  \<open>BoundedLdapCodec::decode\<close> around the decoder of the protocol crate: \<open>inner\<close> returns a message, if
  the buffer holds one, and what is left of the buffer; \<open>max_ber\<close> is the crate's size limit.
\<close>

definition decode_frame ::
  "nat \<Rightarrow> (string \<Rightarrow> io_error + ('m option \<times> string)) \<Rightarrow> string \<Rightarrow> (io_error + ('m option \<times> string)) option" where
  "decode_frame max_ber inner buf =
     (case ber_header buf of
        Inl err \<Rightarrow> Some (Inl err)
      | Inr None \<Rightarrow> Some (Inr (None, buf))
      | Inr (Some (header_len, body_len)) \<Rightarrow>
          (case checked_add body_len header_len of
             None \<Rightarrow> Some (Inl InvalidFrame)
           | Some frame_len \<Rightarrow>
               (if max_ber < frame_len then Some (Inl InvalidFrame)
                else if length buf < frame_len then Some (Inr (None, buf))
                else case validate_ber_structure (take frame_len buf) of
                    None \<Rightarrow> None
                  | Some (Inl err) \<Rightarrow> Some (Inl err)
                  | Some (Inr _) \<Rightarrow> Some (inner buf))))"

text \<open>
  C33. Decoding a buffer always comes to an end and is exact: an unfinished header or frame waits for
  more input, a frame that announces more than the limit is refused before its body arrives, and
  the recursive parser of the protocol crate only ever sees a buffer that starts with a complete
  frame of bounded size, made of definite-length values nested at most 32 levels deep in all.
\<close>

theorem ldap_decode_total:
  assumes "length buf < 2 ^ 64" and "max_ber < 2 ^ 64"
  shows "decode_frame max_ber inner buf = Some (case ber_header buf of
      Inl err \<Rightarrow> Inl err
    | Inr None \<Rightarrow> Inr (None, buf)
    | Inr (Some (h, b)) \<Rightarrow>
        if max_ber < h + b then Inl InvalidFrame
        else if length buf < h + b then Inr (None, buf)
        else if ber_values 31 (take (h + b) buf) then inner buf
        else Inl InvalidFrame)"
proof -
  have "length (take n buf) < 2 ^ 64" for n using assms(1) by simp
  note check = ber_check_total [OF this]
  show ?thesis
    using assms(2)
    by (auto simp: decode_frame_def checked_add_def check add.commute split: option.split sum.split)
qed

theorem ldap_decode_total_witness:
  "decode_frame 8388608 (\<lambda>bs. Inr (Some bs, [])) [CHR 0x30, CHR 0x02, CHR 0x02, CHR 0x00]
     = Some (Inr (Some [CHR 0x30, CHR 0x02, CHR 0x02, CHR 0x00], []))"
proof -
  have "ber_values 31 [CHR 0x30, CHR 0x02, CHR 0x02, CHR 0x00]"
    by (subst ber_values_step, simp, simp add: ber_header_def byte_def constructed_def ber_values.intros(1))
       (subst ber_values_step, simp, simp add: ber_header_def byte_def constructed_def ber_values.intros(1))
  moreover have "ber_header [CHR 0x30, CHR 0x02, CHR 0x02, CHR 0x00] = Inr (Some (2, 2))"
    by (simp add: ber_header_def byte_def)
  ultimately show ?thesis
    using ldap_decode_total [of "[CHR 0x30, CHR 0x02, CHR 0x02, CHR 0x00]" 8388608 "\<lambda>bs. Inr (Some bs, [])"] by simp
qed

section \<open>Connections\<close>

text \<open>
  What a round of the loop gets from the stream: an operation that \<open>ServerOps::try_from\<close> recognises, one
  that it refuses, a frame that cannot be decoded, or the end of the stream (closed, or silent
  for too long).
\<close>

datatype unsupported_op = AddRequest | ModifyRequest | DelRequest | ModifyDNRequest | ExtendedRequest | OtherRequest

datatype server_op =
    SimpleBind bind_request
  | Search search_request
  | Unbind
  | Whoami
  | Compare
  | Unsupported unsupported_op

datatype incoming = Message server_op | DecodeError | StreamEnd

datatype ldap_reply =
    BindReply ldap_result_code
  | SearchReply search_result
  | WhoamiReply string
  | CompareFalse
  | RefusedReply unsupported_op ldap_result_code
  | DisconnectionNotice

record connection =
  cn_cfg :: ldap_config
  cn_bound :: bind_state

text \<open>Opening a connection reads the configuration; it starts anonymous.\<close>

definition open_connection :: "env \<Rightarrow> db \<Rightarrow> io_error + connection" where
  "open_connection e d =
     (case load_ldap_config (ev_sock e) d of
        Inl err \<Rightarrow> Inl (AcquireFailed ''load ldap config'')
      | Inr cfg \<Rightarrow> Inr \<lparr>cn_cfg = cfg, cn_bound = Anonymous\<rparr>)"

definition whoami :: "connection \<Rightarrow> string" where
  "whoami c = (case cn_bound c of
     Anonymous \<Rightarrow> [] | Service \<Rightarrow> ''dn:'' @ service_account_dn (cn_cfg c) | BoundUser _ \<Rightarrow> ''dn:'')"

definition unsupported_response :: "unsupported_op \<Rightarrow> ldap_reply option" where
  "unsupported_response m =
     (case m of
        AddRequest \<Rightarrow> Some (RefusedReply AddRequest UnwillingToPerform)
      | ModifyRequest \<Rightarrow> Some (RefusedReply ModifyRequest UnwillingToPerform)
      | DelRequest \<Rightarrow> Some (RefusedReply DelRequest UnwillingToPerform)
      | ModifyDNRequest \<Rightarrow> Some (RefusedReply ModifyDNRequest UnwillingToPerform)
      | ExtendedRequest \<Rightarrow> None
      | OtherRequest \<Rightarrow> None)"

text \<open>The configuration is read again for every message; a change of it ends the authority of the bind.\<close>

definition refresh_config :: "ldap_config \<Rightarrow> connection \<Rightarrow> connection" where
  "refresh_config current c =
     (if lc_service_password_hash current \<noteq> lc_service_password_hash (cn_cfg c)
         \<or> lc_password_mode current \<noteq> lc_password_mode (cn_cfg c)
         \<or> lc_base_dn current \<noteq> lc_base_dn (cn_cfg c)
      then \<lparr>cn_cfg = current, cn_bound = Anonymous\<rparr> else \<lparr>cn_cfg = current, cn_bound = cn_bound c\<rparr>)"

text \<open>
  One round of the loop: the replies, and the connection if it stays open. Leaving the loop sends
  a notice of disconnection; an error reading the configuration returns without one, and a panic
  ends the task.
\<close>

definition leave_loop :: "app_state \<Rightarrow> (ldap_reply list \<times> connection option) \<times> app_state" where
  "leave_loop s = (([DisconnectionNotice], None), s)"

definition serve_op ::
  "env \<Rightarrow> string \<Rightarrow> ip_addr \<Rightarrow> server_op \<Rightarrow> connection \<Rightarrow> app_state
     \<Rightarrow> (ldap_reply list \<times> connection option) \<times> app_state" where
  "serve_op e version peer m c s =
     (case m of
        Unsupported u \<Rightarrow> ((case unsupported_response u of Some r \<Rightarrow> [r] | None \<Rightarrow> [], Some c), s)
      | SimpleBind req \<Rightarrow>
          (case handle_bind e req (cn_cfg c) peer s of
             (Inl _, s') \<Rightarrow> (([], None), s')
           | (Inr (code, st), s') \<Rightarrow> (([BindReply code], Some (c\<lparr>cn_bound := st\<rparr>)), s'))
      | Search req \<Rightarrow>
          (([SearchReply (handle_search (ev_ext e) version req (cn_cfg c) (cn_bound c) (st_db s))], Some c), s)
      | Unbind \<Rightarrow> leave_loop s
      | Whoami \<Rightarrow> (([WhoamiReply (whoami c)], Some c), s)
      | Compare \<Rightarrow> (([CompareFalse], Some c), s))"

definition serve ::
  "env \<Rightarrow> string \<Rightarrow> ip_addr \<Rightarrow> incoming \<Rightarrow> connection \<Rightarrow> app_state
     \<Rightarrow> (ldap_reply list \<times> connection option) \<times> app_state" where
  "serve e version peer m c s =
     (case m of
        Message op \<Rightarrow>
          (case load_ldap_config (ev_sock e) (st_db s) of
             Inl err \<Rightarrow> (([], None), s)
           | Inr current \<Rightarrow>
               (if \<not> lc_enabled current then leave_loop s
                else serve_op e version peer op (refresh_config current c) s))
      | DecodeError \<Rightarrow> leave_loop s
      | StreamEnd \<Rightarrow> leave_loop s)"

text \<open>
  A session on one connection: its messages interleave with arbitrary other steps of the server,
  which change the shared state. Every message is handled at its own time, with its own
  randomness. The history records the messages with the environments and states they met.
\<close>

inductive ldap_session ::
  "string \<Rightarrow> ip_addr \<Rightarrow> (env \<times> incoming \<times> app_state) list \<Rightarrow> connection \<Rightarrow> app_state \<Rightarrow> bool"
  for version peer where
  opened: "open_connection e (st_db s) = Inr c \<Longrightarrow> ldap_session version peer [] c s"
| elsewhere: "ldap_session version peer h c s \<Longrightarrow> ldap_session version peer h c s'"
| message: "ldap_session version peer h c s \<Longrightarrow> serve e version peer m c s = ((rs, Some c'), s')
    \<Longrightarrow> ldap_session version peer (h @ [(e, m, s)]) c' s'"

text \<open>Settings that a bind rests on.\<close>

definition same_settings :: "ldap_config \<Rightarrow> ldap_config \<Rightarrow> bool" where
  "same_settings a b \<longleftrightarrow> lc_service_password_hash a = lc_service_password_hash b
     \<and> lc_password_mode a = lc_password_mode b \<and> lc_base_dn a = lc_base_dn b"

definition is_bind :: "incoming \<Rightarrow> bool" where
  "is_bind m \<longleftrightarrow> (\<exists>req. m = Message (SimpleBind req))"

lemma refresh_config_cases:
  "cn_cfg (refresh_config current c) = current"
  "cn_bound (refresh_config current c) = (if same_settings current (cn_cfg c) then cn_bound c else Anonymous)"
  by (auto simp: refresh_config_def same_settings_def)

lemma refresh_config_anonymous:
  "\<not> same_settings current (cn_cfg c) \<Longrightarrow> refresh_config current (c\<lparr>cn_bound := Anonymous\<rparr>) = refresh_config current c"
  by (simp add: refresh_config_def same_settings_def)

lemma serve_open:
  assumes "serve e version peer m c s = ((rs, Some c'), s')"
  obtains current where "load_ldap_config (ev_sock e) (st_db s) = Inr current" "lc_enabled current" "cn_cfg c' = current"
    "case m of Message (SimpleBind req) \<Rightarrow> \<exists>code. handle_bind e req current peer s = (Inr (code, cn_bound c'), s')
     | _ \<Rightarrow> s' = s \<and> cn_bound c' = (if same_settings current (cn_cfg c) then cn_bound c else Anonymous)"
  using assms
  by (auto simp: serve_def serve_op_def leave_loop_def refresh_config_cases
      split: sum.splits if_splits incoming.splits server_op.splits prod.splits)

text \<open>A grant in the history that no later bind and no later change of settings has ended.\<close>

definition granted ::
  "ip_addr \<Rightarrow> (env \<times> incoming \<times> app_state) list \<Rightarrow> ldap_config \<Rightarrow> bind_state \<Rightarrow> bool" where
  "granted peer h current bound \<longleftrightarrow>
     (\<exists>before e0 req s0 rest cfg code s1. h = before @ (e0, Message (SimpleBind req), s0) # rest
        \<and> load_ldap_config (ev_sock e0) (st_db s0) = Inr cfg \<and> lc_enabled cfg
        \<and> handle_bind e0 req cfg peer s0 = (Inr (code, bound), s1)
        \<and> (\<forall>(e1, m1, s2)\<in>set rest. \<not> is_bind m1
             \<and> (\<exists>cur. load_ldap_config (ev_sock e1) (st_db s2) = Inr cur \<and> lc_enabled cur \<and> same_settings cur cfg))
        \<and> same_settings current cfg)"

lemma granted_bind:
  assumes "load_ldap_config (ev_sock e) (st_db s) = Inr current" "lc_enabled current"
    and "handle_bind e req current peer s = (Inr (code, bound), s')"
  shows "granted peer (h @ [(e, Message (SimpleBind req), s)]) current bound"
  unfolding granted_def using assms
  by (intro exI [of _ h] exI [of _ e] exI [of _ req] exI [of _ s] exI [of _ "[]"] exI [of _ current] exI [of _ code] exI [of _ s'])
     (simp add: same_settings_def)

lemma granted_step:
  assumes "granted peer h old bound" and "load_ldap_config (ev_sock e) (st_db s) = Inr current" "lc_enabled current"
    and "same_settings current old" and "\<not> is_bind m"
  shows "granted peer (h @ [(e, m, s)]) current bound"
proof -
  from assms(1) obtain before e0 req s0 rest cfg code s1 where
    g: "h = before @ (e0, Message (SimpleBind req), s0) # rest" "load_ldap_config (ev_sock e0) (st_db s0) = Inr cfg" "lc_enabled cfg"
      "handle_bind e0 req cfg peer s0 = (Inr (code, bound), s1)" "same_settings old cfg"
    and rest: "\<forall>(e1, m1, s2)\<in>set rest. \<not> is_bind m1
        \<and> (\<exists>cur. load_ldap_config (ev_sock e1) (st_db s2) = Inr cur \<and> lc_enabled cur \<and> same_settings cur cfg)"
    unfolding granted_def by blast
  have same: "same_settings current cfg" using g(5) assms(4) by (simp add: same_settings_def)
  show ?thesis
    unfolding granted_def
    using g(1-4) rest same assms(2,3,5)
    by (intro exI [of _ before] exI [of _ e0] exI [of _ req] exI [of _ s0] exI [of _ "rest @ [(e, m, s)]"] exI [of _ cfg]
        exI [of _ code] exI [of _ s1]) auto
qed

lemma session_authority:
  assumes "ldap_session version peer h c s"
  shows "cn_bound c \<noteq> Anonymous \<longrightarrow> granted peer h (cn_cfg c) (cn_bound c)"
  using assms
proof (induction rule: ldap_session.induct)
  case (opened e s c)
  then show ?case by (auto simp: open_connection_def split: sum.splits)
next
  case (message h c s e m rs c' s')
  from serve_open [OF message.hyps(2)] obtain current where
    cur: "load_ldap_config (ev_sock e) (st_db s) = Inr current" "lc_enabled current" "cn_cfg c' = current"
    and m: "case m of Message (SimpleBind req) \<Rightarrow> \<exists>code. handle_bind e req current peer s = (Inr (code, cn_bound c'), s')
     | _ \<Rightarrow> s' = s \<and> cn_bound c' = (if same_settings current (cn_cfg c) then cn_bound c else Anonymous)" .
  show ?case
  proof (cases "is_bind m")
    case True
    then obtain req code where "m = Message (SimpleBind req)" "handle_bind e req current peer s = (Inr (code, cn_bound c'), s')"
      using m by (auto simp: is_bind_def)
    with granted_bind [OF cur(1,2)] cur(3) show ?thesis by simp
  next
    case False
    then have "cn_bound c' = (if same_settings current (cn_cfg c) then cn_bound c else Anonymous)"
      using m by (auto simp: is_bind_def split: incoming.splits server_op.splits)
    with message.IH granted_step [OF _ cur(1,2) _ False, of peer h "cn_cfg c" "cn_bound c"] cur(3)
    show ?thesis by (auto split: if_splits)
  qed
qed auto

text \<open>
  C8. The authority of an LDAP connection always rests on a bind under settings that still hold.
  Whatever messages were exchanged, at whatever times, and whatever else happened to the server
  in between: a connection that is not anonymous got its identity from the last bind among its
  messages, which the handler granted in the state and with the settings it met then; and every
  message since has found LDAP enabled with the same service password, password mode and base
  name. Once these settings have changed in the database, the next message, of whatever kind, is
  answered as on an anonymous connection; a message that is not a bind never raises the
  authority and leaves the server's state as it is, and a search sees what the resulting
  authority may see. When LDAP has been switched off, the next message only ends the connection.
\<close>

theorem ldap_connection_authority:
  assumes "ldap_session version peer h c s"
  shows "(cn_bound c \<noteq> Anonymous \<longrightarrow>
       (\<exists>before e0 req s0 rest cfg code s1. h = before @ (e0, Message (SimpleBind req), s0) # rest
          \<and> load_ldap_config (ev_sock e0) (st_db s0) = Inr cfg \<and> lc_enabled cfg
          \<and> handle_bind e0 req cfg peer s0 = (Inr (code, cn_bound c), s1)
          \<and> (\<forall>(e1, m1, s2)\<in>set rest. \<not> is_bind m1
               \<and> (\<exists>cur. load_ldap_config (ev_sock e1) (st_db s2) = Inr cur \<and> lc_enabled cur \<and> same_settings cur cfg))
          \<and> same_settings (cn_cfg c) cfg))
     \<and> (\<forall>e m current. load_ldap_config (ev_sock e) (st_db s) = Inr current \<longrightarrow>
          (\<not> lc_enabled current \<longrightarrow> serve e version peer m c s = (([DisconnectionNotice], None), s))
        \<and> (\<not> same_settings current (cn_cfg c) \<longrightarrow>
             serve e version peer m c s = serve e version peer m (c\<lparr>cn_bound := Anonymous\<rparr>) s)
        \<and> (\<forall>rs c' s'. serve e version peer m c s = ((rs, Some c'), s') \<and> \<not> is_bind m \<longrightarrow>
             s' = s \<and> (cn_bound c' = Anonymous \<or> cn_bound c' = cn_bound c \<and> same_settings current (cn_cfg c))
           \<and> (\<forall>rq. m = Message (Search rq) \<longrightarrow> rs = [SearchReply (handle_search (ev_ext e) version rq current (cn_bound c') (st_db s))])))"
proof (intro conjI allI impI)
  assume "cn_bound c \<noteq> Anonymous"
  then show "\<exists>before e0 req s0 rest cfg code s1. h = before @ (e0, Message (SimpleBind req), s0) # rest
          \<and> load_ldap_config (ev_sock e0) (st_db s0) = Inr cfg \<and> lc_enabled cfg
          \<and> handle_bind e0 req cfg peer s0 = (Inr (code, cn_bound c), s1)
          \<and> (\<forall>(e1, m1, s2)\<in>set rest. \<not> is_bind m1
               \<and> (\<exists>cur. load_ldap_config (ev_sock e1) (st_db s2) = Inr cur \<and> lc_enabled cur \<and> same_settings cur cfg))
          \<and> same_settings (cn_cfg c) cfg"
    using session_authority [OF assms] unfolding granted_def by blast
next
  fix e :: env and m current
  assume cur: "load_ldap_config (ev_sock e) (st_db s) = Inr current"
  show "serve e version peer m c s = (([DisconnectionNotice], None), s)" if "\<not> lc_enabled current"
    using cur that by (cases m) (simp_all add: serve_def leave_loop_def)
  show "serve e version peer m c s = serve e version peer m (c\<lparr>cn_bound := Anonymous\<rparr>) s" if "\<not> same_settings current (cn_cfg c)"
    using cur that by (cases m) (simp_all add: serve_def refresh_config_anonymous)
  fix rs c' s'
  assume s: "serve e version peer m c s = ((rs, Some c'), s') \<and> \<not> is_bind m"
  from serve_open [OF conjunct1 [OF s]] obtain k where k: "load_ldap_config (ev_sock e) (st_db s) = Inr k" "cn_cfg c' = k"
    "case m of Message (SimpleBind req) \<Rightarrow> \<exists>code. handle_bind e req k peer s = (Inr (code, cn_bound c'), s')
     | _ \<Rightarrow> s' = s \<and> cn_bound c' = (if same_settings k (cn_cfg c) then cn_bound c else Anonymous)" .
  then have c': "s' = s" "cn_bound c' = (if same_settings current (cn_cfg c) then cn_bound c else Anonymous)"
    using cur s by (auto simp: is_bind_def split: incoming.splits server_op.splits)
  show "s' = s" by (rule c')
  show "cn_bound c' = Anonymous \<or> cn_bound c' = cn_bound c \<and> same_settings current (cn_cfg c)"
    by (simp add: c'(2))
  fix rq
  assume "m = Message (Search rq)"
  with s cur c' show "rs = [SearchReply (handle_search (ev_ext e) version rq current (cn_bound c') (st_db s))]"
    by (auto simp: serve_def serve_op_def leave_loop_def refresh_config_cases split: if_splits)
qed

text \<open>
  The service account binds; then its password is changed. Asked who it is, the connection is the
  service account before the change and nobody after it.
\<close>

definition demo_ldap_state :: "string \<Rightarrow> app_state" where
  "demo_ldap_state hash = demo_state\<lparr>st_db := demo_session\<lparr>settings := [(KEY_LDAP_ENABLED, ''true''), (KEY_LDAP_BASE_DN, ''dc=x''),
     (KEY_LDAP_SERVICE_PASSWORD_HASH, hash)]\<rparr>\<rparr>"

definition demo_ldap_config :: "string \<Rightarrow> ldap_config" where
  "demo_ldap_config hash = \<lparr>lc_enabled = True, lc_base_dn = ''dc=x'', lc_bind_address = DEFAULT_LDAP_BIND_ADDRESS,
     lc_service_password_hash = Some hash, lc_password_mode = PrimaryAndApp\<rparr>"

definition demo_service_request :: bind_request where
  "demo_service_request = \<lparr>br_dn = ''cn=service,dc=x'', br_pw = ''old''\<rparr>"

lemma demo_ldap_load:
  "hash \<noteq> [] \<Longrightarrow> load_ldap_config Inr (st_db (demo_ldap_state hash)) = Inr (demo_ldap_config hash)"
  by (simp add: load_ldap_config_def demo_env_def demo_ldap_state_def demo_ldap_config_def get_setting_def
      KEY_LDAP_ENABLED_def KEY_LDAP_BASE_DN_def KEY_LDAP_BIND_ADDRESS_def KEY_LDAP_SERVICE_PASSWORD_HASH_def KEY_LDAP_PASSWORD_MODE_def
      or_default_def nonempty_def)

lemma demo_service_bind:
  "handle_bind demo_env demo_service_request (demo_ldap_config ''old'') (V4 1) (demo_ldap_state ''old'') =
     (Inr (Success, Service), snd (handle_bind demo_env demo_service_request (demo_ldap_config ''old'') (V4 1) (demo_ldap_state ''old'')))"
proof -
  have "plain_config (demo_ldap_config ''old'')"
    using demo_plain by (simp add: plain_directory_def plain_config_def demo_ldap_def demo_ldap_config_def)
  from config_names_parse [OF this] obtain rs where sdn: "service_dn (demo_ldap_config ''old'') = Some \<lparr>rdns = (''cn'', ''service'') # rs\<rparr>" .
  then have "parse_dn ''cn=service,dc=x'' = Inr \<lparr>rdns = (''cn'', ''service'') # rs\<rparr>"
    by (simp add: service_dn_def service_account_dn_def demo_ldap_config_def split: sum.splits)
  moreover have "bind_allowed demo_env demo_service_request (V4 1) (demo_ldap_state ''old'')"
    by (simp add: bind_allowed_def demo_service_request_def check_ldap_bind_limit_def demo_env_def demo_ldap_state_def demo_state_def
        rl_check_def current_entry_def new_limiter_def default_rate_limit_config_def Let_def)
  ultimately have "fst (handle_bind demo_env demo_service_request (demo_ldap_config ''old'') (V4 1) (demo_ldap_state ''old'')) = Inr (Success, Service)"
    using sdn by (simp add: handle_bind_result dn_equals_folded demo_service_request_def)
       (simp add: demo_ldap_config_def demo_env_def)
  then show ?thesis by (metis prod.collapse)
qed

theorem ldap_connection_authority_witness:
  "\<exists>c0 c1 s1. open_connection demo_env (st_db (demo_ldap_state ''old'')) = Inr c0
     \<and> serve demo_env ''1'' (V4 1) (Message (SimpleBind demo_service_request)) c0 (demo_ldap_state ''old'') = (([BindReply Success], Some c1), s1)
     \<and> fst (serve demo_env ''1'' (V4 1) (Message Whoami) c1 (demo_ldap_state ''old'')) = ([WhoamiReply ''dn:cn=service,dc=x''], Some c1)
     \<and> serve demo_env ''1'' (V4 1) (Message Whoami) c1 (demo_ldap_state ''new'') =
         (([WhoamiReply []], Some \<lparr>cn_cfg = demo_ldap_config ''new'', cn_bound = Anonymous\<rparr>), demo_ldap_state ''new'')"
proof -
  let ?old = "demo_ldap_state ''old''" and ?new = "demo_ldap_state ''new''"
  let ?c0 = "\<lparr>cn_cfg = demo_ldap_config ''old'', cn_bound = Anonymous\<rparr>" and ?c1 = "\<lparr>cn_cfg = demo_ldap_config ''old'', cn_bound = Service\<rparr>"
  let ?s1 = "snd (handle_bind demo_env demo_service_request (demo_ldap_config ''old'') (V4 1) ?old)"
  have cfg: "lc_enabled (demo_ldap_config h)" "same_settings (demo_ldap_config h) (demo_ldap_config h') \<longleftrightarrow> h = h'"
    "service_account_dn (demo_ldap_config h) = ''cn=service,dc=x''" for h h'
    by (simp_all add: demo_ldap_config_def same_settings_def service_account_dn_def)
  have refresh: "refresh_config (demo_ldap_config h) c = \<lparr>cn_cfg = demo_ldap_config h,
      cn_bound = (if same_settings (demo_ldap_config h) (cn_cfg c) then cn_bound c else Anonymous)\<rparr>" for h c
    by (auto simp: refresh_config_def same_settings_def)
  have opened: "open_connection demo_env (st_db ?old) = Inr ?c0" by (simp add: open_connection_def demo_ldap_load)
  have bound: "serve demo_env ''1'' (V4 1) (Message (SimpleBind demo_service_request)) ?c0 ?old = (([BindReply Success], Some ?c1), ?s1)"
    by (subst serve_def) (simp add: demo_ldap_load cfg refresh serve_op_def, subst demo_service_bind, simp)
  have "ldap_session ''1'' (V4 1) [(demo_env, Message (SimpleBind demo_service_request), ?old)] ?c1 ?new"
    using ldap_session.message [OF ldap_session.opened [OF opened] bound] by (auto intro: ldap_session.elsewhere)
  from ldap_connection_authority [OF this]
  have "serve demo_env ''1'' (V4 1) (Message Whoami) ?c1 ?new = serve demo_env ''1'' (V4 1) (Message Whoami) (?c1\<lparr>cn_bound := Anonymous\<rparr>) ?new"
    using demo_ldap_load [of "''new''"] cfg(2) by fastforce
  also have "\<dots> = (([WhoamiReply []], Some \<lparr>cn_cfg = demo_ldap_config ''new'', cn_bound = Anonymous\<rparr>), ?new)"
    by (simp add: serve_def demo_ldap_load cfg refresh serve_op_def whoami_def)
  finally have new: "serve demo_env ''1'' (V4 1) (Message Whoami) ?c1 ?new =
      (([WhoamiReply []], Some \<lparr>cn_cfg = demo_ldap_config ''new'', cn_bound = Anonymous\<rparr>), ?new)" .
  have "fst (serve demo_env ''1'' (V4 1) (Message Whoami) ?c1 ?old) = ([WhoamiReply ''dn:cn=service,dc=x''], Some ?c1)"
    by (simp add: serve_def demo_ldap_load cfg refresh serve_op_def whoami_def)
  with opened bound new show ?thesis by blast
qed

end
