(* ===== verification/Session_Properties.thy ===== *)
theory Session_Properties
  imports Session_Handlers
begin

text \<open>
  What signing in, signing out and registering guarantee, as properties of the whole handlers.
\<close>

section \<open>The password step\<close>

definition password_ok :: "externals \<Rightarrow> login_input \<Rightarrow> db \<Rightarrow> user \<Rightarrow> bool" where
  "password_ok x i d u \<longleftrightarrow> user_get_by_username (li_username i) d = Some u \<and> u_active u
     \<and> password_matches x (u_id u) (li_password i) d"

lemma user_login_eq:
  "user_login x i d = (case user_get_by_username (li_username i) d of
       Some u \<Rightarrow> (if password_ok x i d u then Inr u else Inl AuthenticationRequired)
     | None \<Rightarrow> Inl AuthenticationRequired, d)"
  by (simp add: user_login_def bind_op_def try_op_def try_password_login_eq password_ok_def split: option.split)

lemma user_login_Inr: "user_login x i d = (Inr u, d') \<longleftrightarrow> password_ok x i d u \<and> d' = d"
  by (auto simp: user_login_eq password_ok_def split: option.splits)

lemma password_step_Inr: "password_step e ctx i d = (Inr u, d') \<longleftrightarrow> password_ok (ev_ext e) i d u \<and> d' = d"
proof -
  have "password_step e ctx i d = (Inr u, d') \<longleftrightarrow> user_login (ev_ext e) i d = (Inr u, d')"
    by (cases "fst (user_login (ev_ext e) i d)"; cases "user_login (ev_ext e) i d")
       (auto simp: password_step_def bind_op_def try_op_def)
  then show ?thesis by (simp add: user_login_Inr)
qed

section \<open>The second factor\<close>

text \<open>What an activated factor demands: a code, and its acceptance is spent.\<close>

definition factor_spent :: "env \<Rightarrow> uuid \<Rightarrow> totp_row \<Rightarrow> string option \<Rightarrow> db \<Rightarrow> db \<Rightarrow> bool" where
  "factor_spent e u t given d d' \<longleftrightarrow>
     (\<exists>code secret. map_option trim given = Some code \<and> code \<noteq> []
        \<and> decrypt_secret (ev_ext e) (ev_key_secret e) (tp_secret t) = Inr secret
        \<and> ((\<exists>step. verify_code (ev_ext e) secret code (ev_now e) (tp_last_step t) = Some step
               \<and> step_live (u, tp_secret t, step) d \<and> \<not> step_live (u, tp_secret t, step) d')
           \<or> recovery_live (u, hash_recovery_code (ev_ext e) code) d
               \<and> \<not> recovery_live (u, hash_recovery_code (ev_ext e) code) d'))"

lemma record_step_spends:
  assumes "record_step now u secret step d = (Inr True, d')"
  shows "step_live (u, secret, step) d \<and> \<not> step_live (u, secret, step) d'"
proof -
  from assms have one: "sql_count (step_fresh u secret step) (totps d) = 1"
    and d': "totps d' = sql_update (step_fresh u secret step)
       (\<lambda>r. r\<lparr>tp_last_step := Some step, tp_updated := now\<rparr>) (totps d)"
    by (auto simp: record_step_def)
  from sql_count_one [OF one] have "step_live (u, secret, step) d" by (simp add: step_live_def)
  moreover have "\<not> step_live (u, secret, step) d'"
    using sql_count_update_0 [of "step_fresh u secret step" "step_fresh u secret step"
        "\<lambda>r. r\<lparr>tp_last_step := Some step, tp_updated := now\<rparr>" "totps d"]
    by (simp add: step_live_def d' step_fresh_def)
  ultimately show ?thesis by simp
qed

lemma nonblank_Some: "nonblank g = Some c \<longleftrightarrow> map_option trim g = Some c \<and> c \<noteq> []"
  by (auto simp: nonblank_def split: option.splits if_splits)

lemma consume_recovery_spends:
  assumes "consume_recovery_code x now u code d = (Inr True, d')"
  shows "recovery_live (u, hash_recovery_code x code) d \<and> \<not> recovery_live (u, hash_recovery_code x code) d'"
  using consume_recovery_code_iff [of x now u code d] recovery_live_after [of _ x now u code d] assms by simp

lemma enforce_mfa_Inr:
  assumes "enforce_mfa e u given d = (Inr (), d')"
  shows "(\<forall>t. totp_get u d = Some t \<longrightarrow> is_activated t \<longrightarrow> factor_spent e u t given d d')
     \<and> users d' = users d \<and> refresh_tokens d' = refresh_tokens d \<and> roles d' = roles d \<and> user_roles d' = user_roles d"
proof (cases "totp_get u d")
  case None
  then show ?thesis using assms by (simp add: enforce_mfa_def bind_op_def)
next
  case (Some t)
  show ?thesis
  proof (cases "is_activated t")
    case False
    then show ?thesis using assms Some by (simp add: enforce_mfa_def bind_op_def)
  next
    case True
    with assms Some obtain code where code: "nonblank given = Some code"
      by (cases "nonblank given") (auto simp: enforce_mfa_def bind_op_def)
    with assms Some True obtain secret where secret: "decrypt_secret (ev_ext e) (ev_key_secret e) (tp_secret t) = Inr secret"
      by (auto simp: enforce_mfa_def op_results)
    note known = Some True code secret
    show ?thesis
    proof (cases "verify_code (ev_ext e) secret code (ev_now e) (tp_last_step t)")
      case (Some step)
      with assms known have r: "record_step (ev_now e) u (tp_secret t) step d = (Inr True, d')"
        by (auto simp: enforce_mfa_def op_results split: if_splits)
      then have "factor_spent e u t given d d'"
        using record_step_spends [OF r] secret code Some unfolding factor_spent_def nonblank_Some by blast
      moreover have "users d' = users d \<and> refresh_tokens d' = refresh_tokens d \<and> roles d' = roles d \<and> user_roles d' = user_roles d"
        using r by (auto simp: record_step_def)
      ultimately show ?thesis using known by simp
    next
      case None
      with assms known have r: "consume_recovery_code (ev_ext e) (ev_now e) u code d = (Inr True, d')"
        by (auto simp: enforce_mfa_def op_results split: if_splits)
      then have "factor_spent e u t given d d'"
        using consume_recovery_spends [OF r] secret code unfolding factor_spent_def nonblank_Some by blast
      moreover have "users d' = users d \<and> refresh_tokens d' = refresh_tokens d \<and> roles d' = roles d \<and> user_roles d' = user_roles d"
        using r by (auto simp: consume_recovery_code_def)
      ultimately show ?thesis using known by simp
    qed
  qed
qed

lemma mfa_step_Inr: "mfa_step e ctx i u d = (Inr (), d') \<longleftrightarrow> enforce_mfa e (u_id u) (li_totp_code i) d = (Inr (), d')"
  by (cases "fst (enforce_mfa e (u_id u) (li_totp_code i) d)"; cases "enforce_mfa e (u_id u) (li_totp_code i) d")
     (auto simp: mfa_step_def bind_op_def try_op_def)


section \<open>Signing in\<close>

lemma note_audit_apply: "note_audit e n a d = (Inr (), snd (audit_save (ev_ext e) (ev_uuid e n) (ev_now e) a d))"
  by (simp add: note_audit_def audited_apply)

lemma valid_or_Inr: "valid_or r d = (Inr (), d') \<longleftrightarrow> r = Inr () \<and> d' = d"
  by (cases r) (auto simp: valid_or_def)

lemma open_session_Inr:
  assumes "open_session e ctx i d = (Inr p, d')"
  obtains u d1 d2 where "validate_username (li_username i) = Inr ()" "validate_password (li_password i) = Inr ()"
    "password_ok (ev_ext e) i d u" "enforce_mfa e (u_id u) (li_totp_code i) d = (Inr (), d1)"
    "generate_token_pair (ev_ext e) (ev_key e) (ev_now e) (ev_mint e) (u_id u) (user_get_roles (u_id u) d1) d1 = (Inr p, d2)"
    "d' = snd (audit_save (ev_ext e) (ev_uuid e 1) (ev_now e) (audit_ctx ctx (audit_user (u_id u) (audit LoginSuccess))) d2)"
  using assms
  by (auto simp: open_session_def op_results valid_or_Inr password_step_Inr mfa_step_Inr note_audit_apply)

lemma check_login_limit_apply:
  "check_login_limit e ip s =
     (fst (rl_check (ev_login_limit e) (ev_instant e) ip (st_login_limiter s)),
      s\<lparr>st_login_limiter := snd (rl_check (ev_login_limit e) (ev_instant e) ip (st_login_limiter s))\<rparr>)"
  by (simp add: check_login_limit_def split: prod.split)

lemma login_Inr:
  "login e ctx i s = (Inr p, s') \<longleftrightarrow>
     (\<exists>n l d'. rl_check (ev_login_limit e) (ev_instant e) (ax_ip ctx) (st_login_limiter s) = (Inr n, l)
        \<and> open_session e ctx i (st_db s) = (Inr p, d') \<and> s' = s\<lparr>st_login_limiter := l, st_db := d'\<rparr>)"
  by (cases "rl_check (ev_login_limit e) (ev_instant e) (ax_ip ctx) (st_login_limiter s)";
      cases "open_session e ctx i (st_db s)")
     (auto simp: login_def op_results check_login_limit_apply on_db_apply)

lemma generate_token_pair_frame:
  assumes "generate_token_pair x key now m u rls d = (Inr p, d')"
  shows "users d' = users d" "totps d' = totps d" "recovery_codes d' = recovery_codes d"
    "authenticators d' = authenticators d" "revocations d' = revocations d"
    "\<exists>c. x_jwt_sign x key eddsa_header (claims_to_json c) = Inr (tk_access p) \<and> c_typ c = ''access''
       \<and> c_sub c = x_uuid_str x u \<and> c_roles c = rls"
    "\<exists>c. x_jwt_sign x key eddsa_header (claims_to_json c) = Inr (tk_refresh p) \<and> c_typ c = ''refresh''
       \<and> c_sub c = x_uuid_str x u"
  using assms
  by (auto simp: generate_token_pair_def op_results user_session_version_eq generate_pair_Inr access_claims_def
      refresh_claims_def split: option.splits)

lemma factor_spent_cong:
  "totps d'' = totps d' \<Longrightarrow> recovery_codes d'' = recovery_codes d' \<Longrightarrow>
     factor_spent e u t g d d'' \<longleftrightarrow> factor_spent e u t g d d'"
  by (simp add: factor_spent_def step_live_def recovery_live_def)

text \<open>
  C1. Signing in takes everything the account demands. When the sign-in handler returns tokens,
  the client address was below its rate limit, the name belongs to an active account whose
  stored password matches, and, if the account has an activated second factor, the request
  carried a code that was acceptable before and is spent afterwards: either the time step it
  belongs to or the recovery code it is. Both tokens speak for that account, and the access token
  carries exactly the roles the account has in the database.
\<close>

theorem login_requires_factors:
  assumes "login e ctx i s = (Inr p, s')"
  shows "\<exists>u n. fst (rl_check (ev_login_limit e) (ev_instant e) (ax_ip ctx) (st_login_limiter s)) = Inr n
     \<and> user_get_by_username (li_username i) (st_db s) = Some u \<and> u_active u
     \<and> password_matches (ev_ext e) (u_id u) (li_password i) (st_db s)
     \<and> (\<forall>t. totp_get (u_id u) (st_db s) = Some t \<longrightarrow> is_activated t \<longrightarrow>
          factor_spent e (u_id u) t (li_totp_code i) (st_db s) (st_db s'))
     \<and> (\<exists>c. x_jwt_sign (ev_ext e) (ev_key e) eddsa_header (claims_to_json c) = Inr (tk_access p)
          \<and> c_typ c = ''access'' \<and> c_sub c = x_uuid_str (ev_ext e) (u_id u) \<and> c_roles c = user_get_roles (u_id u) (st_db s))
     \<and> (\<exists>c. x_jwt_sign (ev_ext e) (ev_key e) eddsa_header (claims_to_json c) = Inr (tk_refresh p)
          \<and> c_typ c = ''refresh'' \<and> c_sub c = x_uuid_str (ev_ext e) (u_id u))"
proof -
  let ?d = "st_db s"
  from assms obtain n l d' where rl: "rl_check (ev_login_limit e) (ev_instant e) (ax_ip ctx) (st_login_limiter s) = (Inr n, l)"
    and op: "open_session e ctx i ?d = (Inr p, d')" and s': "s' = s\<lparr>st_login_limiter := l, st_db := d'\<rparr>"
    by (auto simp: login_Inr)
  from op obtain u d1 d2 where u: "password_ok (ev_ext e) i ?d u"
    and mfa: "enforce_mfa e (u_id u) (li_totp_code i) ?d = (Inr (), d1)"
    and gen: "generate_token_pair (ev_ext e) (ev_key e) (ev_now e) (ev_mint e) (u_id u) (user_get_roles (u_id u) d1) d1 = (Inr p, d2)"
    and d': "d' = snd (audit_save (ev_ext e) (ev_uuid e 1) (ev_now e) (audit_ctx ctx (audit_user (u_id u) (audit LoginSuccess))) d2)"
    by (rule open_session_Inr)
  have "factor_spent e (u_id u) t (li_totp_code i) ?d d' \<longleftrightarrow> factor_spent e (u_id u) t (li_totp_code i) ?d d1" for t
    by (rule factor_spent_cong) (simp_all add: d' audit_save_frame generate_token_pair_frame [OF gen])
  moreover have "user_get_roles (u_id u) d1 = user_get_roles (u_id u) ?d"
    using enforce_mfa_Inr [OF mfa] by (simp add: user_get_roles_def)
  ultimately show ?thesis
    using rl u enforce_mfa_Inr [OF mfa] generate_token_pair_frame(6,7) [OF gen] s'
    by (intro exI [of _ u] exI [of _ n]) (auto simp: password_ok_def)
qed

text \<open>The answer to a pair that does not fit: the strings decide it.\<close>

definition wrong_answer :: "login_input \<Rightarrow> login_error" where
  "wrong_answer i =
     (case (validate_username (li_username i), validate_password (li_password i)) of
        (Inl msg, _) \<Rightarrow> LoginApp (InputError [msg])
      | (Inr _, Inl msg) \<Rightarrow> LoginApp (InputError [msg])
      | (Inr _, Inr _) \<Rightarrow> LoginApp AuthenticationRequired)"

lemma open_session_wrong:
  assumes "\<not> (\<exists>u. user_get_by_username (li_username i) d = Some u \<and> u_active u
            \<and> password_matches (ev_ext e) (u_id u) (li_password i) d)"
  shows "\<exists>entries. open_session e ctx i d = (Inl (wrong_answer i), d\<lparr>audit_log := entries\<rparr>)
     \<and> (isl (validate_username (li_username i)) \<or> isl (validate_password (li_password i)) \<longrightarrow> entries = audit_log d)"
proof -
  have "user_login (ev_ext e) i d = (Inl AuthenticationRequired, d)"
    using assms by (auto simp: user_login_eq password_ok_def split: option.split)
  then have step: "password_step e ctx i d = (Inl (LoginApp AuthenticationRequired), snd (log_login_failed (ev_ext e) (ev_uuid e 0) (ev_now e)
        (li_username i) (map_option u_id (user_get_by_username (li_username i) d)) ctx d))"
    by (simp add: password_step_def bind_op_def try_op_def)
  have "\<exists>entries. snd (log_login_failed x f t nm v ctx d) = d\<lparr>audit_log := entries\<rparr>" for x f t nm v
    by (auto simp: log_login_failed_def audit_save_def insert_op_state intro: exI [of _ "audit_log d"])
  with step obtain entries where step: "password_step e ctx i d = (Inl (LoginApp AuthenticationRequired), d\<lparr>audit_log := entries\<rparr>)"
    by metis
  show ?thesis
    by (cases "validate_username (li_username i)"; cases "validate_password (li_password i)")
       (auto simp: open_session_def bind_op_def valid_or_def wrong_answer_def step intro: exI [of _ "audit_log d"])
qed

lemma login_wrong:
  assumes "open_session e ctx i (st_db s) = (Inl err, d')"
  shows "login e ctx i s =
     (case rl_check (ev_login_limit e) (ev_instant e) (ax_ip ctx) (st_login_limiter s) of
        (Inl retry_after, l) \<Rightarrow> (Inl (LoginRateLimit retry_after), s\<lparr>st_login_limiter := l\<rparr>)
      | (Inr n, l) \<Rightarrow> (Inl err, s\<lparr>st_login_limiter := l, st_db := d'\<rparr>))"
  using assms
  by (simp add: login_def bind_op_def map_err_op_def check_login_limit_apply on_db_apply split: prod.split sum.split)

text \<open>
  C29. A failed sign-in reveals nothing and costs only an attempt. Suppose name and password do not
  fit together (no such account, a deactivated account, no password, a wrong password). A client
  over its limit is told when to retry (429) and nothing but the limiter changes; a name or a
  password that is malformed as a string is refused with that reason (400), without a look at the
  accounts; in every other case the answer is the same 401, and apart from the attempt counter
  and the audit log the state is unchanged. So the answer depends on the limiter and on the text
  of the request only: on another database on which the pair does not fit either, it is the same.
\<close>

theorem login_failure_uniform:
  assumes wrong: "\<not> (\<exists>u. user_get_by_username (li_username i) (st_db s) = Some u \<and> u_active u
            \<and> password_matches (ev_ext e) (u_id u) (li_password i) (st_db s))"
  shows "(case rl_check (ev_login_limit e) (ev_instant e) (ax_ip ctx) (st_login_limiter s) of
       (Inl retry_after, l) \<Rightarrow> login e ctx i s = (Inl (LoginRateLimit retry_after), s\<lparr>st_login_limiter := l\<rparr>)
     | (Inr n, l) \<Rightarrow>
        (case (validate_username (li_username i), validate_password (li_password i)) of
           (Inl msg, _) \<Rightarrow> login e ctx i s = (Inl (LoginApp (InputError [msg])), s\<lparr>st_login_limiter := l\<rparr>)
         | (Inr _, Inl msg) \<Rightarrow> login e ctx i s = (Inl (LoginApp (InputError [msg])), s\<lparr>st_login_limiter := l\<rparr>)
         | (Inr _, Inr _) \<Rightarrow> (\<exists>entries. login e ctx i s = (Inl (LoginApp AuthenticationRequired),
              s\<lparr>st_login_limiter := l, st_db := (st_db s)\<lparr>audit_log := entries\<rparr>\<rparr>))))
   \<and> (\<forall>d. \<not> (\<exists>u. user_get_by_username (li_username i) d = Some u \<and> u_active u
            \<and> password_matches (ev_ext e) (u_id u) (li_password i) d)
       \<longrightarrow> fst (login e ctx i (s\<lparr>st_db := d\<rparr>)) = fst (login e ctx i s))"
  (is "?now \<and> _")
proof -
  from open_session_wrong [OF wrong, where ctx = ctx] obtain entries where
    op: "open_session e ctx i (st_db s) = (Inl (wrong_answer i), (st_db s)\<lparr>audit_log := entries\<rparr>)"
    and same: "isl (validate_username (li_username i)) \<or> isl (validate_password (li_password i)) \<longrightarrow> entries = audit_log (st_db s)"
    by blast
  have rest: "fst (login e ctx i (s\<lparr>st_db := d\<rparr>)) = fst (login e ctx i s)"
    if "\<not> (\<exists>u. user_get_by_username (li_username i) d = Some u \<and> u_active u
            \<and> password_matches (ev_ext e) (u_id u) (li_password i) d)" for d
  proof -
    from open_session_wrong [OF that, where ctx = ctx] obtain other where
      "open_session e ctx i (st_db (s\<lparr>st_db := d\<rparr>)) = (Inl (wrong_answer i), d\<lparr>audit_log := other\<rparr>)" by auto
    from login_wrong [OF this] show ?thesis by (simp add: login_wrong [OF op] split: prod.split sum.split)
  qed
  have keep: "s\<lparr>st_login_limiter := l, st_db := (st_db s)\<lparr>audit_log := entries\<rparr>\<rparr> = s\<lparr>st_login_limiter := l\<rparr>"
    if "isl (validate_username (li_username i)) \<or> isl (validate_password (li_password i))" for l
    using same that by simp
  obtain r l where rl: "rl_check (ev_login_limit e) (ev_instant e) (ax_ip ctx) (st_login_limiter s) = (r, l)" by fastforce
  have log: "login e ctx i s = (case r of Inl retry_after \<Rightarrow> (Inl (LoginRateLimit retry_after), s\<lparr>st_login_limiter := l\<rparr>)
      | Inr n \<Rightarrow> (Inl (wrong_answer i), s\<lparr>st_login_limiter := l, st_db := (st_db s)\<lparr>audit_log := entries\<rparr>\<rparr>))"
    by (simp add: login_wrong [OF op] rl)
  show ?thesis
  proof (intro conjI allI impI)
    show ?now
      unfolding rl prod.case
      by (cases r; cases "validate_username (li_username i)"; cases "validate_password (li_password i)")
         (simp_all only: log wrong_answer_def keep sum.case prod.case sum.disc simp_thms, blast)
  qed (rule rest)
qed

text \<open>An account with a password, an activated factor and one unused recovery code.\<close>

definition demo_account :: db where
  "demo_account = demo_db\<lparr>
     authenticators := [\<lparr>au_id = 30, au_type = ''password'', au_value = ''correct horse'', au_owner = 7\<rparr>],
     totps := [\<lparr>tp_user = 7, tp_secret = ''123456789012:key'', tp_last_step = Some 10, tp_activated = Some 300,
        tp_created = 200, tp_updated = 300\<rparr>],
     recovery_codes := [\<lparr>rc_id = 40, rc_user = 7, rc_hash = ''ABC'', rc_used = None, rc_created = 300\<rparr>]\<rparr>"

definition demo_ctx :: audit_context where
  "demo_ctx = \<lparr>ax_ip = demo_ip, ax_ip_address = None, ax_user_agent = None\<rparr>"

definition demo_login_input :: login_input where
  "demo_login_input = \<lparr>li_username = u_username demo_user, li_password = ''correct horse'', li_totp_code = Some ''ABC''\<rparr>"

lemma trim_ABC: "trim ''ABC'' = ''ABC''"
  by (rule trim_graphic) (simp_all add: ascii_graphic_def byte_def)

lemma demo_hash_recovery: "hash_recovery_code ref_ext ''ABC'' = ''ABC''"
  unfolding hash_recovery_code_def canonicalize_recovery_code_def
  by (subst chars_ascii, simp add: is_ascii_string_def byte_def,
      simp add: is_whitespace_char_def to_uppercase_def byte_def, simp add: char_of_def bit_0)

lemma demo_enforce_mfa:
  "enforce_mfa demo_env 7 (Some ''ABC'') demo_account = (Inr (), snd (enforce_mfa demo_env 7 (Some ''ABC'') demo_account))"
proof -
  have "trim (replicate 32 CHR ''0'') = replicate 32 CHR ''0''"
    by (rule trim_graphic) (simp_all add: ascii_graphic_def byte_def)
  then have "decrypt_secret ref_ext (Some (replicate 32 CHR ''0'')) ''123456789012:key'' = Inr ''key''"
    by (simp add: decrypt_secret_def totp_get_kek_def)
  moreover have "verify_code ref_ext ''key'' ''ABC'' 1500 (Some 10) = None"
    by (simp add: verify_code_def trim_ABC TOTP_DIGITS_def)
  moreover have "totp_get 7 demo_account = Some \<lparr>tp_user = 7, tp_secret = ''123456789012:key'', tp_last_step = Some 10,
      tp_activated = Some 300, tp_created = 200, tp_updated = 300\<rparr>"
    by (simp add: totp_get_def demo_account_def)
  moreover have "fst (consume_recovery_code ref_ext 1500 7 ''ABC'' demo_account) = Inr True"
    by (simp add: consume_recovery_code_iff demo_hash_recovery recovery_live_def demo_account_def)
  ultimately show ?thesis
    by (cases "consume_recovery_code ref_ext 1500 7 ''ABC'' demo_account")
       (simp add: enforce_mfa_def bind_op_def is_activated_def nonblank_def trim_ABC map_err_op_def)
qed


lemma generate_token_pair_ref:
  assumes "current_version u d = Some g" and "user_exists u d" and "\<forall>r\<in>set (refresh_tokens d). rt_id r \<noteq> mi_row m"
  shows "\<exists>p d'. generate_token_pair ref_ext key now m u rls d = (Inr p, d')"
proof -
  let ?ex = "now + session_expiry_seconds d"
  let ?p = "\<lparr>tk_access = json_text (claims_to_json (access_claims ref_ext now (mi_access_jti m) u rls ?ex (Some g) now)),
     tk_refresh = json_text (claims_to_json (refresh_claims ref_ext now (mi_refresh_jti m) u ?ex (Some g) now)),
     tk_expires_in = min ACCESS_TOKEN_LIFETIME (?ex - now), tk_refresh_expires_in = ?ex - now, tk_token_type = ''Bearer''\<rparr>"
  have "\<exists>d'. generate_token_pair_for_session ref_ext key now m u rls ?ex (Some g) now d = (Inr ?p, d')"
    unfolding generate_pair_Inr using assms session_expiry_seconds_pos [of d] by simp
  then show ?thesis
    using assms(1) by (auto simp: generate_token_pair_def bind_op_def user_session_version_eq)
qed

lemma demo_open_session: "\<exists>p d'. open_session demo_env demo_ctx demo_login_input demo_account = (Inr p, d')"
proof -
  let ?d1 = "snd (enforce_mfa demo_env 7 (Some ''ABC'') demo_account)"
  have v: "validate_username (li_username demo_login_input) = Inr ()" "validate_password (li_password demo_login_input) = Inr ()"
    by (simp_all add: demo_login_input_def demo_user_def validate_username_def validate_password_def length_limits
        username_regex_def is_ascii_alphanumeric_def is_ascii_digit_def is_ascii_upper_def is_ascii_lower_def byte_def)
  have "password_ok ref_ext demo_login_input demo_account (user.truncate demo_user)"
    by (simp add: password_ok_def user_get_by_username_def password_matches_def demo_login_input_def demo_account_def
        demo_db_def demo_user_def user.truncate_def)
  then have pw: "password_step demo_env demo_ctx demo_login_input demo_account = (Inr (user.truncate demo_user), demo_account)"
    by (simp add: password_step_Inr)
  have id: "u_id demo_user = 7" and code: "li_totp_code demo_login_input = Some ''ABC''"
    by (simp_all add: demo_user_def demo_login_input_def)
  have mfa: "mfa_step demo_env demo_ctx demo_login_input (user.truncate demo_user) demo_account = (Inr (), ?d1)"
    unfolding mfa_step_Inr u_id_truncate id code by (rule demo_enforce_mfa)
  have "users demo_account = [demo_user]" "refresh_tokens demo_account = []"
    by (simp_all add: demo_account_def demo_db_def empty_db_def)
  then have d1: "users ?d1 = [demo_user]" "refresh_tokens ?d1 = []"
    using enforce_mfa_Inr [OF demo_enforce_mfa] by simp_all
  have "current_version 7 ?d1 = Some 0" "user_exists 7 ?d1"
    by (simp_all add: current_version_def user_exists_def d1 demo_user_def)
  then obtain p d2 where gen: "generate_token_pair ref_ext [] 1500 demo_mint2 7 (user_get_roles 7 ?d1) ?d1 = (Inr p, d2)"
    using generate_token_pair_ref [of 7 ?d1 0 demo_mint2] d1(2) by (metis empty_iff empty_set)
  show ?thesis
    using v pw mfa gen id by (simp add: open_session_def bind_op_def valid_or_def note_audit_apply map_err_op_def)
qed


theorem login_requires_factors_witness:
  "\<exists>t p s'. totp_get 7 demo_account = Some t \<and> is_activated t
     \<and> login demo_env demo_ctx demo_login_input (demo_state\<lparr>st_db := demo_account\<rparr>) = (Inr p, s')
     \<and> factor_spent demo_env 7 t (Some ''ABC'') demo_account (st_db s')"
proof -
  obtain p d' where "open_session demo_env demo_ctx demo_login_input demo_account = (Inr p, d')"
    using demo_open_session by blast
  moreover have "\<exists>n l. rl_check (ev_login_limit demo_env) (ev_instant demo_env) (ax_ip demo_ctx) new_limiter = (Inr n, l)"
    by (simp add: rl_check_def current_entry_def new_limiter_def default_rate_limit_config_def Let_def)
  ultimately obtain s' where l: "login demo_env demo_ctx demo_login_input (demo_state\<lparr>st_db := demo_account\<rparr>) = (Inr p, s')"
    by (auto simp: login_Inr demo_state_def)
  have u: "user_get_by_username (li_username demo_login_input) demo_account = Some (user.truncate demo_user)"
    and id: "u_id demo_user = 7" and c: "li_totp_code demo_login_input = Some ''ABC''"
    by (simp_all add: user_get_by_username_def demo_login_input_def demo_account_def demo_db_def demo_user_def)
  obtain t where t: "totp_get 7 demo_account = Some t" "is_activated t"
    by (simp add: totp_get_def demo_account_def is_activated_def)
  show ?thesis
    using login_requires_factors [OF l] t l u id c by auto
qed

text \<open>An unknown name, on the database of the account and on an empty one.\<close>

theorem login_failure_uniform_witness:
  "fst (login demo_env demo_ctx \<lparr>li_username = ''mallory'', li_password = ''correct horse'', li_totp_code = None\<rparr>
     (demo_state\<lparr>st_db := demo_account\<rparr>)) = Inl (LoginApp AuthenticationRequired)
   \<and> fst (login demo_env demo_ctx \<lparr>li_username = ''mallory'', li_password = ''correct horse'', li_totp_code = None\<rparr>
     (demo_state\<lparr>st_db := empty_db\<rparr>)) = Inl (LoginApp AuthenticationRequired)"
proof -
  let ?i = "\<lparr>li_username = ''mallory'', li_password = ''correct horse'', li_totp_code = None\<rparr>"
    and ?s = "demo_state\<lparr>st_db := demo_account\<rparr>"
  obtain n l where rl: "rl_check (ev_login_limit demo_env) (ev_instant demo_env) (ax_ip demo_ctx) (st_login_limiter ?s) = (Inr n, l)"
    by (simp add: rl_check_def current_entry_def new_limiter_def default_rate_limit_config_def Let_def demo_state_def)
  have none: "user_get_by_username (li_username ?i) (st_db ?s) = None" "user_get_by_username (li_username ?i) empty_db = None"
    by (simp_all add: user_get_by_username_def demo_account_def demo_db_def demo_user_def empty_db_def)
  have ok: "validate_username (li_username ?i) = Inr ()" "validate_password (li_password ?i) = Inr ()"
    by (simp_all add: validate_username_def validate_password_def length_limits username_regex_def
        is_ascii_alphanumeric_def is_ascii_digit_def is_ascii_upper_def is_ascii_lower_def byte_def)
  have "\<not> (\<exists>u. user_get_by_username (li_username ?i) (st_db ?s) = Some u \<and> u_active u
      \<and> password_matches (ev_ext demo_env) (u_id u) (li_password ?i) (st_db ?s))"
    unfolding none by simp
  note uniform = login_failure_uniform [OF this, where ctx = demo_ctx, unfolded rl ok, simplified]
  then have "fst (login demo_env demo_ctx ?i ?s) = Inl (LoginApp AuthenticationRequired)" by auto
  with uniform none show ?thesis by auto
qed


section \<open>Signing out\<close>

text \<open>The account a browser's cookies speak for: the refresh cookie first, then the access cookie.\<close>

definition logout_subject :: "env \<Rightarrow> headers \<Rightarrow> uuid option db_op" where
  "logout_subject e hs =
     bind_op (logout_by_refresh e hs) (\<lambda>by_refresh.
     case by_refresh of Some u \<Rightarrow> ret_op (Some u) | None \<Rightarrow> logout_by_access e hs)"

lemma sql_update_leaves_none:
  "(\<And>r. \<not> p (f r)) \<Longrightarrow> \<forall>r\<in>set (sql_update p f rows). \<not> p r"
  by (auto simp: set_sql_update)

lemma keeps_unless: "keeps (evolves u) m \<Longrightarrow> keeps (evolves u) (unless_unauthenticated m)"
  unfolding unless_unauthenticated_def by (intro ev.keeps_rules)

lemma keeps_logout_subject: "keeps (evolves u) (logout_subject e hs)"
  unfolding logout_subject_def logout_by_refresh_def logout_by_access_def verify_and_revoke_refresh_token_def
  by (intro ev.keeps_rules keeps_unless keeps_consume ev.keeps_pure) simp_all

lemma browser_logout_Inr:
  assumes "logout_subject e hs d = (Inr (Some u), d1)" and "browser_logout e ctx hs uri d = (Inr rs, d')"
  shows "\<exists>d2. revoke_all_user_tokens (ev_now e) u d1 = (Inr (), d2) \<and> users d' = users d2
     \<and> refresh_tokens d' = refresh_tokens d2
     \<and> h_get_all ''set-cookie'' (rs_headers rs) = clear_auth_cookies"
proof -
  have *: "h_get_all ''set-cookie'' (rs_headers r) = clear_auth_cookies"
    if "redirect_or uri (h_append ''set-cookie'' (clear_auth_cookies ! 1) (h_insert ''set-cookie'' (clear_auth_cookies ! 0) [])) b = Inr r"
    for r b
    using that by (auto simp: redirect_or_def plain_def h_get_all_insert h_get_all_append clear_auth_cookies_def
        split: option.splits if_splits)
  show ?thesis
    using assms unfolding browser_logout_def logout_subject_def
    by (auto simp: op_results note_audit_apply audit_save_frame dest: * [simplified] split: option.splits)
qed

lemma presented_claims_fixed:
  assumes "jwt_payload_fixed x" and "accepts_access (x, key, now, tok) d" and "accepts_access (x, key, later, tok) d2"
  shows "presented_claims (x, key, later, tok) = presented_claims (x, key, now, tok)"
  using assms(2,3) decode_claims_fixed [OF assms(1)]
  by (fastforce simp: accepts_access_live presented_claims_def access_live_def)

text \<open>
  C30. Signing out in one browser ends the account's sessions everywhere. If the cookies speak for
  an account, then after the handler answered, no access token that the account's current
  sessions hold (accepted at the time of the logout) is accepted in any later state, every
  refresh token of the account is revoked, and the answer clears both cookies.
\<close>

theorem browser_logout_ends_sessions:
  assumes "logout_subject e hs d = (Inr (Some u), d1)" and "browser_logout e ctx hs uri d = (Inr rs, d')"
    and "jwt_payload_fixed x" and "keyed u_id (users d)" and "access_live x key now tok c u d"
    and "evolves u d' d2"
  shows "isl (fst (verify_access_token x key later tok d2))
     \<and> (\<forall>r\<in>set (refresh_tokens d'). rt_user r \<noteq> u \<or> rt_revoked r \<noteq> None)
     \<and> h_get_all ''set-cookie'' (rs_headers rs) = clear_auth_cookies"
proof -
  let ?t = "(x, key, now, tok)" and ?t' = "(x, key, later, tok)"
  have acc: "accepts_access ?t d" and own: "presented_owner ?t = u"
    using assms(5) by (auto simp: accepts_access_live presented_owner_def presented_claims_def access_live_def)
  from browser_logout_Inr [OF assms(1,2)] obtain d3
    where rev: "revoke_all_user_tokens (ev_now e) u d1 = (Inr (), d3)"
      and d': "users d' = users d3" "refresh_tokens d' = refresh_tokens d3"
      and ck: "h_get_all ''set-cookie'' (rs_headers rs) = clear_auth_cookies" by blast
  have ev1: "evolves u d d1"
    using keeps_logout_subject [of u e hs] assms(1) unfolding keeps_def by (metis snd_conv)
  then have k1: "keyed u_id (users d1)" using assms(4) by (simp add: evolves_def)
  have "evolves u d1 d3" using keeps_revoke_all [of u "ev_now e" u] rev unfolding keeps_def by (metis snd_conv)
  then have k': "keyed u_id (users d')" using k1 d' by (simp add: evolves_def)
  have v3: "version_of u d' = map_option (\<lambda>v. v + 1) (version_of u d1)"
    using version_of_revoke_all [of u "ev_now e" d1] rev d' by (simp add: version_of_def)
  obtain v where v: "version_of u d = Some v" using access.accept_version [OF acc assms(4)] own by auto
  have gt: "\<forall>w. version_of u d' = Some w \<longrightarrow> v < w"
    using ev1 assms(4) v v3 by (auto simp: evolves_def)
  have "\<not> accepts_access ?t' d2"
  proof
    assume later: "accepts_access ?t' d2"
    then have "presented_claims ?t' = presented_claims ?t"
      using presented_claims_fixed [OF assms(3) acc] by simp
    then show False
      using access.dead_once_superseded [OF acc assms(4), of ?t' v d' d2] own assms(6) v gt k' later
      by (simp add: presented_owner_def)
  qed
  then have "isl (fst (verify_access_token x key later tok d2))" by (simp add: accepts_access_def)
  moreover have rows: "refresh_tokens d' = sql_update (\<lambda>r. rt_user r = u \<and> rt_revoked r = None)
      (\<lambda>r. r\<lparr>rt_revoked := Some (ev_now e)\<rparr>) (refresh_tokens d1)"
    using refresh_tokens_revoke_all [of "ev_now e" u d1] d'(2) by (simp add: rev)
  have "\<forall>r\<in>set (refresh_tokens d'). \<not> (rt_user r = u \<and> rt_revoked r = None)"
    unfolding rows by (rule sql_update_leaves_none) simp
  ultimately show ?thesis using ck by (intro conjI) (simp_all only: de_Morgan_conj not_False_eq_True)
qed


lemma cookie_value_single:
  assumes "list_all visible_ascii (name @ ''='' @ v)" "CHR '';'' \<notin> set name" "CHR '';'' \<notin> set v" "CHR ''='' \<notin> set name"
    "name \<noteq> []" "ascii_graphic (hd name)" "ascii_graphic (last (''='' @ v))"
  shows "cookie_value name [(''cookie'', name @ ''='' @ v)] = Some v"
proof -
  have "trim (name @ ''='' @ v) = name @ ''='' @ v"
    using assms by (intro trim_graphic) auto
  moreover have "split_char CHR '';'' (name @ ''='' @ v) = [name @ ''='' @ v]"
    using assms by (intro split_char_single) auto
  moreover have "split_once_char CHR ''='' (name @ ''='' @ v) = Some (name, v)"
    using assms by (simp add: split_once_char_Some)
  ultimately show ?thesis
    using assms(1) by (simp add: cookie_value_def h_get_all_def to_str_def)
qed

text \<open>A browser that holds the access cookie of the example session.\<close>

theorem browser_logout_ends_sessions_witness:
  "\<exists>rs d'. browser_logout demo_env demo_ctx [(''cookie'', ''__Host-authere_token='' @ demo_access_token)] None demo_session
       = (Inr rs, d')
     \<and> isl (fst (verify_access_token ref_ext [] 1600 demo_access_token d'))
     \<and> h_get_all ''set-cookie'' (rs_headers rs) = clear_auth_cookies"
proof -
  let ?hs = "[(''cookie'', ''__Host-authere_token='' @ demo_access_token)]"
  obtain n where n: "demo_access_token = replicate n CHR ''j''"
    by (simp add: demo_access_token_def json_text_def)
  have cv: "cookie_value AUTH_COOKIE_NAME ?hs = Some demo_access_token"
    using cookie_value_single [of AUTH_COOKIE_NAME demo_access_token]
    by (simp add: AUTH_COOKIE_NAME_def n visible_ascii_def byte_def list_all_iff ascii_graphic_def last_replicate)
  have "split_char CHR '';'' (''__Host-authere_token='' @ demo_access_token) = [''__Host-authere_token='' @ demo_access_token]"
    by (rule split_char_single) (simp add: n)
  moreover have "trim (''__Host-authere_token='' @ demo_access_token) = ''__Host-authere_token='' @ demo_access_token"
    by (rule trim_graphic) (simp_all add: n ascii_graphic_def byte_def last_replicate)
  ultimately have fc: "first_cookie ''__Host-authere_refresh='' ?hs = None"
    by (simp add: first_cookie_def h_get_def h_get_all_def to_str_def)
  have live: "access_live ref_ext [] 1500 demo_access_token demo_access 7 demo_session" by (rule demo_access_live) simp
  then have "\<exists>c. verify_access_token ref_ext [] 1500 demo_access_token demo_session = (Inr c, demo_session)
      \<and> x_uuid_parse ref_ext (c_sub c) = Some 7"
    by (auto simp: verify_access_token_Inr access_live_def intro!: exI [of _ "demo_access\<lparr>c_roles := user_get_roles 7 demo_session\<rparr>"])
  then have sub: "logout_subject demo_env ?hs demo_session = (Inr (Some 7), demo_session)"
    using cv fc by (auto simp: logout_subject_def bind_op_def logout_by_refresh_def logout_by_access_def
        unless_unauthenticated_def try_op_def)
  have rev: "fst (revoke_all_user_tokens 1500 7 demo_session) = Inr ()"
    by (simp add: revoke_all_user_tokens_def revoke_user_access_tokens_def bind_op_def insert_op_def demo_state_defs user_exists_def sql_update_def)
  obtain rs d' where out: "browser_logout demo_env demo_ctx ?hs None demo_session = (Inr rs, d')"
    using sub rev
    by (cases "revoke_all_user_tokens 1500 7 demo_session"; cases "logout_by_refresh demo_env ?hs demo_session")
       (auto simp: browser_logout_def logout_subject_def bind_op_def redirect_or_def note_audit_apply split: sum.splits option.splits)
  show ?thesis
    using browser_logout_ends_sessions [OF sub out ref_hypotheses(4) demo_keyed(1) live ev.refl, of 1600] out by blast
qed

section \<open>Registration\<close>

text \<open>What a completed registration adds: the account, its password, the role, one use of the invitation.\<close>

definition registered :: "env \<Rightarrow> register_input \<Rightarrow> db \<Rightarrow> db \<Rightarrow> bool" where
  "registered e i d d' \<longleftrightarrow>
     (let u = new_user (ev_uuid e 0) (ev_now e) (ri_username i) (ri_name i) (ri_email i) in
        (\<forall>r\<in>set (users d). u_id r \<noteq> u_id u \<and> u_username r \<noteq> ri_username i)
      \<and> users d' = users d @ [row_of_user u]
      \<and> (\<exists>h. x_argon2_hash (ev_ext e) (ev_random e 0) (ri_password i) = Inr h
          \<and> authenticators d' = authenticators d @ [\<lparr>au_id = ev_uuid e 1, au_type = ''password'', au_value = h, au_owner = u_id u\<rparr>])
      \<and> user_roles d' = user_roles d @ (case role_get_by_name ROLE_USER d of None \<Rightarrow> [] | Some r \<Rightarrow> [(u_id u, ro_id r)])
      \<and> (open_registration_enabled d \<and> invitations d' = invitations d
         \<or> (\<exists>code iv. ri_invite_code i = Some code \<and> iv \<in> set (invitations d) \<and> in_id iv = code
              \<and> invitation_is_valid (ev_now e) iv
              \<and> invitations d' = sql_update (invitation_open (ev_now e) code) count_use (invitations d))))"

definition same_accounts :: "db \<Rightarrow> db \<Rightarrow> bool" where
  "same_accounts d d' \<longleftrightarrow> users d' = users d \<and> authenticators d' = authenticators d
     \<and> user_roles d' = user_roles d \<and> invitations d' = invitations d"

interpretation sa: state_preorder same_accounts
  by unfold_locales (auto simp: same_accounts_def)

lemma invitation_open_valid: "invitation_open now c iv \<longleftrightarrow> in_id iv = c \<and> invitation_is_valid now iv"
  by (auto simp: invitation_open_def invitation_is_valid_def not_expired_def not_exhausted_def)

lemma keeps_accounts_insert:
  "(\<And>d. same_accounts d (f d)) \<Longrightarrow> keeps same_accounts (insert_op dup dang f)"
  by (simp add: keeps_def insert_op_state sa.refl)

lemma keeps_accounts_note: "keeps same_accounts (note_audit e n a)"
  by (simp add: keeps_def note_audit_apply audit_save_frame same_accounts_def)

lemma keeps_accounts_generate: "keeps same_accounts (generate_token_pair x key now m u rls)"
  unfolding generate_token_pair_def generate_token_pair_for_session_def generate_refresh_token_for_session_def
    Let_def
  by (intro sa.keeps_rules keeps_accounts_insert sa.keeps_pure) (simp_all add: same_accounts_def user_session_version_eq)

lemma register_tx_registers:
  assumes "register_checks e i d = Inr opn"
    and "new_password (ev_ext e) (ev_random e 0) (ev_uuid e 1) (ri_password i) (ev_uuid e 0) = Inr a"
    and "register_tx e i opn (new_user (ev_uuid e 0) (ev_now e) (ri_username i) (ri_name i) (ri_email i)) a d = (Inr iv, d')"
  shows "registered e i d d'"
proof -
  let ?u = "new_user (ev_uuid e 0) (ev_now e) (ri_username i) (ri_name i) (ri_email i)"
  from assms(2) obtain h where h: "x_argon2_hash (ev_ext e) (ev_random e 0) (ri_password i) = Inr h"
    and a: "a = \<lparr>an_id = ev_uuid e 1, an_scheme = Password h, an_owner = ev_uuid e 0\<rparr>"
    by (auto simp: new_password_def split: sum.splits)
  let ?invite = "if opn then ret_op None
      else bind_op (invitation_consume (ev_now e) (case ri_invite_code i of Some c \<Rightarrow> c | None \<Rightarrow> [])) (\<lambda>consumed.
        case consumed of None \<Rightarrow> raise_op invite_error | Some iv \<Rightarrow> ret_op (Some iv))"
  from assms(3) obtain x d1 where inv: "?invite d = (Inr x, d1)"
    and rest: "bind_op (user_save ?u) (\<lambda>_. bind_op (authenticator_save a) (\<lambda>_.
       bind_op (gets_op (role_get_by_name ROLE_USER)) (\<lambda>r.
       bind_op (case r of None \<Rightarrow> ret_op () | Some ro \<Rightarrow> userrole_assign (u_id ?u) (ro_id ro)) (\<lambda>_.
       ret_op x)))) d1 = (Inr iv, d')"
    unfolding register_tx_def by (auto simp: op_results simp del: if_split)
  from assms(1) have opn: "opn \<longleftrightarrow> open_registration_enabled d" and code: "\<not> opn \<Longrightarrow> \<exists>c. ri_invite_code i = Some c"
    by (auto simp: register_checks_def split: if_splits sum.splits option.splits)
  have d1: "opn \<and> d1 = d \<or> (\<exists>c iv. ri_invite_code i = Some c \<and> iv \<in> set (invitations d) \<and> in_id iv = c
      \<and> invitation_is_valid (ev_now e) iv
      \<and> d1 = d\<lparr>invitations := sql_update (invitation_open (ev_now e) c) count_use (invitations d)\<rparr>)"
  proof (cases opn)
    case False
    with code obtain c where c: "ri_invite_code i = Some c" by blast
    with inv False obtain iv where "sql_find (invitation_open (ev_now e) c) (invitations d) = Some iv"
      and d1: "d1 = d\<lparr>invitations := sql_update (invitation_open (ev_now e) c) count_use (invitations d)\<rparr>"
      by (auto simp: op_results invitation_consume_def split: option.splits)
    then have "iv \<in> set (invitations d)" "in_id iv = c" "invitation_is_valid (ev_now e) iv"
      by (auto simp: invitation_open_valid dest: sql_find_SomeD)
    with c d1 show ?thesis by blast
  qed (use inv in simp)
  then have same: "users d1 = users d" "authenticators d1 = authenticators d" "user_roles d1 = user_roles d"
    "roles d1 = roles d" by auto
  from rest have "invitations d' = invitations d1"
    and "(\<forall>r\<in>set (users d). u_id r \<noteq> u_id ?u \<and> u_username r \<noteq> ri_username i)"
    and "users d' = users d @ [row_of_user ?u]"
    and "authenticators d' = authenticators d @ [\<lparr>au_id = ev_uuid e 1, au_type = ''password'', au_value = h, au_owner = u_id ?u\<rparr>]"
    and "user_roles d' = user_roles d @ (case role_get_by_name ROLE_USER d of None \<Rightarrow> [] | Some r \<Rightarrow> [(u_id ?u, ro_id r)])"
    by (auto simp: op_results user_save_def authenticator_save_def a scheme_columns_def userrole_assign_def same
        role_get_by_name_def new_user_def split: option.splits if_splits)
  then show ?thesis
    using h opn d1 unfolding registered_def Let_def by auto
qed

lemma registered_same: "registered e i d d1 \<Longrightarrow> same_accounts d1 d' \<Longrightarrow> registered e i d d'"
  by (simp add: registered_def same_accounts_def Let_def)

lemma register_body_cases:
  "isl (fst (register_body e ctx i d)) \<and> same_accounts d (snd (register_body e ctx i d))
   \<or> registered e i d (snd (register_body e ctx i d))"
proof (cases "register_checks e i d")
  case (Inl err)
  then show ?thesis by (simp add: register_body_def bind_op_def sa.refl)
next
  case (Inr opn)
  let ?u = "new_user (ev_uuid e 0) (ev_now e) (ri_username i) (ri_name i) (ri_email i)"
  have id: "u_id ?u = ev_uuid e 0" by (simp add: new_user_def)
  show ?thesis
  proof (cases "new_password (ev_ext e) (ev_random e 0) (ev_uuid e 1) (ri_password i) (ev_uuid e 0)")
    case (Inl msg)
    then show ?thesis using Inr id by (simp add: register_body_def bind_op_def Let_def sa.refl)
  next
    case a: (Inr a)
    obtain r d1 where tx: "register_tx e i opn ?u a d = (r, d1)" by fastforce
    show ?thesis
    proof (cases r)
      case (Inl err)
      then have "d1 = d" using tx by (auto simp: register_tx_def op_results)
      then show ?thesis using Inr a id tx Inl by (simp add: register_body_def bind_op_def Let_def sa.refl)
    next
      case iv: (Inr iv)
      define k where "k = bind_op (note_audit e 2 (audit_details
             (JObj (case iv of
                Some iv \<Rightarrow> [(''invite_id'', JStr (in_id iv)), (''invite_used'', JBool True)]
              | None \<Rightarrow> [(''invite_used'', JBool False)]))
             (audit_ctx ctx (audit_user (u_id ?u) (audit UserRegistered))))) (\<lambda>_.
         bind_op (case iv of
             None \<Rightarrow> ret_op ()
           | Some iv \<Rightarrow> note_audit e 3 (audit_details (JObj [(''invite_id'', JStr (in_id iv))])
               (audit_ctx ctx (audit_user (u_id ?u) (audit InvitationConsumed))))) (\<lambda>_.
         bind_op (generate_token_pair (ev_ext e) (ev_key e) (ev_now e) (ev_mint e) (u_id ?u) [ROLE_USER]) (\<lambda>pair.
         ret_op (plain 200 (session_cookies pair)
           (Json (JObj [(''success'', JBool True), (''redirect_uri'', JStr ''/account'')]))) :: response db_op)))"
      have "register_body e ctx i d = k d1"
        using Inr a id tx iv by (simp add: register_body_def bind_op_def Let_def k_def)
      moreover have "keeps same_accounts k"
        unfolding k_def by (intro sa.keeps_rules keeps_accounts_note keeps_accounts_generate)
      ultimately have "same_accounts d1 (snd (register_body e ctx i d))" by (simp add: keeps_def)
      then show ?thesis using register_tx_registers [OF Inr a] tx iv registered_same by blast
    qed
  qed
qed

text \<open>
  C28. Registration is all or nothing and never free. Whatever the request and the state, either
  the request fails and accounts, passwords, role assignments and invitations are as before; or
  exactly one account was added, with a name nobody had, the hash of the given password and no
  role but \<open>user\<close>, and either registration is open or the request named an invitation that was
  valid and one of its uses was counted.
\<close>

theorem registration_all_or_nothing:
  "(\<exists>err. fst (register e ctx i s) = Inl err) \<and> same_accounts (st_db s) (st_db (snd (register e ctx i s)))
   \<or> registered e i (st_db s) (st_db (snd (register e ctx i s)))"
proof (cases "rl_check (ev_register_limit e) (ev_instant e) (ax_ip ctx) (st_register_limiter s)")
  case (Pair r l)
  show ?thesis
  proof (cases r)
    case (Inl n)
    then show ?thesis using Pair by (simp add: register_def bind_op_def map_err_op_def check_register_limit_def sa.refl)
  next
    case (Inr n)
    have "fst (register e ctx i s) = fst (map_err_op RegisterApp (register_body e ctx i) (st_db s))"
      "st_db (snd (register e ctx i s)) = snd (register_body e ctx i (st_db s))"
      using Pair Inr by (simp_all add: register_def bind_op_def map_err_op_def check_register_limit_def on_db_apply
          split: prod.split sum.split)
    then show ?thesis
      using register_body_cases [of e ctx i "st_db s"]
      by (cases "register_body e ctx i (st_db s)"; cases "fst (register_body e ctx i (st_db s))") (auto simp: map_err_op_def)
  qed
qed

end
