(* ===== verification/Signed_Out_Page.thy ===== *)
theory Signed_Out_Page
  imports Denied_Page
begin

text \<open>
  \<open>handlers/oauth.rs\<close>: the pages of the logout endpoint, the confirmation form and the page shown
  afterwards. The file has its own copy of \<open>html_escape\<close>, textually the one of
  \<open>handlers/auth.rs\<close>, so the model has one.
\<close>

section \<open>The confirmation form\<close>

text \<open>A hidden field; the name is one of three literals, the value comes from the request.\<close>

definition hidden_input :: "string \<times> string option \<Rightarrow> string" where
  \<open>hidden_input f = (case f of (name, value) \<Rightarrow>
     (case value of
        None \<Rightarrow> []
      | Some v \<Rightarrow> ''<input type="hidden" name="'' @ name @ ''" value="'' @ html_escape v @ ''">''))\<close>

definition confirmation_head :: string where
  \<open>confirmation_head = ''<!doctype html><html lang="en"><head><meta charset="utf-8"><meta name="viewport" content="width=device-width, initial-scale=1"><title>Confirm sign out</title></head><body><main><h1>Sign out of Authere?</h1><p>This will sign you out of Authere on all devices.</p><form method="post" action="/oauth/end_session">''\<close>

definition confirmation_tail :: string where
  \<open>confirmation_tail = ''<button type="submit">Sign out</button></form><a href="/">Cancel</a></main></body></html>''\<close>

definition build_logout_confirmation_html ::
  "string option \<Rightarrow> string option \<Rightarrow> string option \<Rightarrow> string" where
  "build_logout_confirmation_html client_id post_logout_redirect_uri state =
     confirmation_head
     @ concat (map hidden_input [(''client_id'', client_id),
         (''post_logout_redirect_uri'', post_logout_redirect_uri), (''state'', state)])
     @ confirmation_tail"

section \<open>The signed-out page\<close>

definition signed_out_app_block :: "string option \<Rightarrow> string" where
  \<open>signed_out_app_block app_name = (case app_name of
       Some name \<Rightarrow>
         (if name \<noteq> [] then ''<div class="details"><div class="row"><span class="label">Application</span><span class="value">''
              @ html_escape name @ ''</span></div></div>'' else [])
     | None \<Rightarrow> [])\<close>

definition signed_out_lede :: "string option \<Rightarrow> string" where
  \<open>signed_out_lede app_name =
     (let unknown = ''<p class="subtle">Your session has ended. You can sign back in to continue.</p>''
      in case app_name of
           Some name \<Rightarrow>
             (if name \<noteq> [] then ''<p class="subtle">Your session for '' @ html_escape name
                @ '' has ended. You can sign back in to continue.</p>'' else unknown)
         | None \<Rightarrow> unknown)\<close>

definition signed_out_head :: string where
  \<open>signed_out_head = join_str [CHR 0x0A]
    [''<!doctype html>'',
     ''<html lang="en">'',
     ''<head>'',
     ''<meta charset="utf-8">'',
     ''<meta name="viewport" content="width=device-width, initial-scale=1">'',
     ''<title>Signed out</title>'',
     ''<style>'',
     ''  *, *::before, *::after { box-sizing: border-box; margin: 0; padding: 0; }'',
     ''  html, body { height: 100%; }'',
     ''  body {'',
     ''    background: #05080f;'',
     ''    color: #f4f6fa;'',
     ''    font-family: '' @ [CHR 0x27] @ ''IBM Plex Sans'' @ [CHR 0x27] @ '', system-ui, -apple-system, Segoe UI, Roboto, sans-serif;'',
     ''    font-size: 14px;'',
     ''    line-height: 1.5;'',
     ''    -webkit-font-smoothing: antialiased;'',
     ''    background-image: radial-gradient(circle, rgba(255,255,255,0.04) 1px, transparent 1px);'',
     ''    background-size: 24px 24px;'',
     ''  }'',
     ''  .wrap {'',
     ''    min-height: 100%;'',
     ''    display: flex;'',
     ''    align-items: center;'',
     ''    justify-content: center;'',
     ''    padding: 32px;'',
     ''  }'',
     ''  .card {'',
     ''    width: 100%;'',
     ''    max-width: 440px;'',
     ''    background: #0a0f1c;'',
     ''    border: 1px solid rgba(255,255,255,0.10);'',
     ''    border-radius: 2px;'',
     ''    padding: 32px;'',
     ''    display: flex;'',
     ''    flex-direction: column;'',
     ''    gap: 24px;'',
     ''  }'',
     ''  @media (max-width: 639.98px) {'',
     ''    .wrap { padding: 16px; }'',
     ''    .card { padding: 24px 16px; }'',
     ''  }'',
     ''  .header { display: flex; flex-direction: column; gap: 8px; }'',
     ''  .logo {'',
     ''    display: flex;'',
     ''    align-items: center;'',
     ''    gap: 8px;'',
     ''    color: #f4f6fa;'',
     ''    margin-bottom: 8px;'',
     ''    font-size: 15px;'',
     ''    font-weight: 600;'',
     ''  }'',
     ''  h1 {'',
     ''    font-size: 18px;'',
     ''    line-height: 1.3;'',
     ''    letter-spacing: -0.005em;'',
     ''    font-weight: 600;'',
     ''    color: #f4f6fa;'',
     ''  }'',
     ''  .subtle { font-size: 13px; line-height: 1.45; color: #b4bcd0; }'',
     ''  .details {'',
     ''    display: flex;'',
     ''    flex-direction: column;'',
     ''    gap: 8px;'',
     ''    padding: 12px;'',
     ''    border: 1px solid rgba(255,255,255,0.06);'',
     ''    border-radius: 2px;'',
     ''    background: #0f1524;'',
     ''  }'',
     ''  .row { display: flex; flex-direction: column; gap: 4px; }'',
     ''  .label {'',
     ''    font-family: '' @ [CHR 0x27] @ ''IBM Plex Mono'' @ [CHR 0x27] @ '', ui-monospace, monospace;'',
     ''    font-size: 11px;'',
     ''    text-transform: uppercase;'',
     ''    letter-spacing: 0.08em;'',
     ''    color: #8390ad;'',
     ''  }'',
     ''  .value { color: #dce1ed; font-size: 13px; word-break: break-word; }'',
     ''  .actions { display: flex; flex-direction: column; gap: 8px; }'',
     ''  .btn {'',
     ''    display: inline-flex;'',
     ''    align-items: center;'',
     ''    justify-content: center;'',
     ''    height: 40px;'',
     ''    padding: 0 16px;'',
     ''    border-radius: 2px;'',
     ''    font-size: 14px;'',
     ''    font-weight: 500;'',
     ''    text-decoration: none;'',
     ''    border: 1px solid transparent;'',
     ''    cursor: pointer;'',
     ''    transition: background-color 140ms cubic-bezier(0.2, 0, 0, 1);'',
     ''  }'',
     ''  .btn-primary { background: #3b82f6; color: #ffffff; }'',
     ''  .btn-primary:hover { background: #2563eb; }'',
     ''</style>'',
     ''</head>'',
     ''<body>'',
     ''  <div class="wrap">'',
     ''    <div class="card">'',
     ''      <div class="header">'',
     ''        <div class="logo">'',
     ''          <svg width="28" height="28" viewBox="0 0 28 28" fill="none" xmlns="http://www.w3.org/2000/svg" aria-hidden="true">'',
     ''            <rect width="28" height="28" rx="4" fill="#3B82F6" fill-opacity="0.15"/>'',
     ''            <path d="M14 5L21 9.5v9L14 23l-7-4.5v-9L14 5z" stroke="#3B82F6" stroke-width="1.5" stroke-linejoin="round" fill="none"/>'',
     ''            <circle cx="14" cy="14" r="2.5" fill="#3B82F6"/>'',
     ''          </svg>'',
     ''          <span>authere</span>'',
     ''        </div>'',
     ''        <h1>You'' @ [CHR 0x27] @ ''re signed out</h1>'',
     ''        '']\<close>

definition signed_out_header_end :: string where
  \<open>signed_out_header_end = join_str [CHR 0x0A]
    ['''',
     ''      </div>'',
     '''',
     ''      '']\<close>

definition signed_out_actions :: string where
  \<open>signed_out_actions = join_str [CHR 0x0A]
    ['''',
     '''',
     ''      <div class="actions">'',
     ''        <a class="btn btn-primary" href="'']\<close>

definition signed_out_tail :: string where
  \<open>signed_out_tail = join_str [CHR 0x0A]
    [''">Sign in again</a>'',
     ''      </div>'',
     ''    </div>'',
     ''  </div>'',
     ''</body>'',
     ''</html>'',
     '''']\<close>

definition build_signed_out_html :: "string \<Rightarrow> string option \<Rightarrow> string" where
  "build_signed_out_html origin app_name =
     signed_out_head @ signed_out_lede app_name @ signed_out_header_end @ signed_out_app_block app_name
     @ signed_out_actions @ html_escape (origin @ ''/login'') @ signed_out_tail"

end
