(* ===== verification/Oauth_Handlers.thy ===== *)
theory Oauth_Handlers
  imports Forward_Handlers Oidc Signed_Out_Page
begin

text \<open>
  \<open>handlers/oauth.rs\<close>: the OpenID Connect endpoints: discovery, published keys, authorization,
  token exchange, user information and logout.
\<close>

section \<open>Protocol errors\<close>

datatype oauth_error =
    InvalidRequest string
  | InvalidClient
  | InvalidGrant string
  | UnauthorizedClient
  | UnsupportedResponseType
  | UnsupportedGrantType
  | InvalidScope
  | AccessDenied
  | LoginRequired
  | ServerError

fun oauth_code :: "oauth_error \<Rightarrow> string" where
  "oauth_code (InvalidRequest _) = ''invalid_request''"
| "oauth_code InvalidClient = ''invalid_client''"
| "oauth_code (InvalidGrant _) = ''invalid_grant''"
| "oauth_code UnauthorizedClient = ''unauthorized_client''"
| "oauth_code UnsupportedResponseType = ''unsupported_response_type''"
| "oauth_code UnsupportedGrantType = ''unsupported_grant_type''"
| "oauth_code InvalidScope = ''invalid_scope''"
| "oauth_code AccessDenied = ''access_denied''"
| "oauth_code LoginRequired = ''login_required''"
| "oauth_code ServerError = ''server_error''"

fun oauth_description :: "oauth_error \<Rightarrow> string option" where
  "oauth_description (InvalidRequest m) = Some m"
| "oauth_description (InvalidGrant m) = Some m"
| "oauth_description _ = None"

fun token_endpoint_status :: "oauth_error \<Rightarrow> nat" where
  "token_endpoint_status InvalidClient = 401"
| "token_endpoint_status ServerError = 500"
| "token_endpoint_status _ = 400"

definition oauth_response :: "oauth_error \<Rightarrow> response" where
  \<open>oauth_response err =
     (let body = Json (JObj ((''error'', JStr (oauth_code err))
            # jskip ''error_description'' JStr (oauth_description err)));
          hs = h_insert ''cache-control'' ''no-store'' []
      in plain (token_endpoint_status err)
           (if err = InvalidClient then h_insert ''www-authenticate'' ''Basic realm="oidc"'' hs else hs) body)\<close>

section \<open>Sessions\<close>

text \<open>
  An endpoint answers with a response either way; an early return is the error of the operation.
\<close>

type_synonym 'a reply_op = "(db, response, 'a) op"

definition answer :: "(db, response, response) op \<Rightarrow> db \<Rightarrow> response \<times> db" where
  "answer m d = (case m d of (Inl r, d') \<Rightarrow> (r, d') | (Inr r, d') \<Rightarrow> (r, d'))"

text \<open>\<open>extract_cookie\<close> repeats \<open>cookie_value\<close> of \<open>handlers/auth.rs\<close>.\<close>

definition extract_cookie :: "headers \<Rightarrow> string \<Rightarrow> string option" where
  "extract_cookie hs name =
     (case map snd (filter (\<lambda>kv. fst kv = name)
             (concat (map (\<lambda>v. case to_str v of
                  None \<Rightarrow> []
                | Some s \<Rightarrow> filter_map (\<lambda>c. split_once_char CHR ''='' (trim c)) (split_char CHR '';'' s))
               (h_get_all ''cookie'' hs)))) of
        [v] \<Rightarrow> Some v
      | _ \<Rightarrow> None)"

definition extract_session_cookie :: "headers \<Rightarrow> string option" where
  "extract_session_cookie hs = extract_cookie hs AUTH_COOKIE_NAME"

text \<open>The session of the browser and the pair that replaced an expired access token, if any.\<close>

definition resolve_browser_session :: "env \<Rightarrow> headers \<Rightarrow> (claims option \<times> token_pair option) db_op" where
  "resolve_browser_session e hs =
     bind_op (case extract_session_cookie hs of
         None \<Rightarrow> ret_op None
       | Some access \<Rightarrow> unless_unauthenticated (verify_access_token (ev_ext e) (ev_key e) (ev_now e) access)) (\<lambda>c.
     case c of
       Some claims \<Rightarrow> ret_op (Some claims, None)
     | None \<Rightarrow>
         (case extract_cookie hs REFRESH_COOKIE_NAME of
            None \<Rightarrow> ret_op (None, None)
          | Some refresh \<Rightarrow>
              bind_op (unless_unauthenticated
                 (rotate_browser_token_pair (ev_ext e) (ev_key e) (ev_now e) (ev_mint e) refresh)) (\<lambda>p.
              case p of
                None \<Rightarrow> ret_op (None, None)
              | Some pair \<Rightarrow>
                  bind_op (verify_access_token (ev_ext e) (ev_key e) (ev_now e) (tk_access pair)) (\<lambda>claims.
                  ret_op (Some claims, Some pair)))))"

definition append_session_cookies :: "token_pair \<Rightarrow> response \<Rightarrow> response" where
  "append_session_cookies p r = r\<lparr>rs_headers :=
     h_append ''set-cookie'' (build_refresh_cookie (tk_refresh p) (tk_refresh_expires_in p))
       (h_append ''set-cookie'' (build_auth_cookie (tk_access p) (tk_expires_in p)) (rs_headers r))\<rparr>"

section \<open>Discovery and keys\<close>

record discovery_document =
  dd_issuer :: string
  dd_authorization_endpoint :: string
  dd_token_endpoint :: string
  dd_userinfo_endpoint :: string
  dd_end_session_endpoint :: string
  dd_jwks_uri :: string
  dd_response_types_supported :: "string list"
  dd_subject_types_supported :: "string list"
  dd_id_token_signing_alg_values_supported :: "string list"
  dd_scopes_supported :: "string list"
  dd_token_endpoint_auth_methods_supported :: "string list"
  dd_grant_types_supported :: "string list"
  dd_code_challenge_methods_supported :: "string list"
  dd_claims_supported :: "string list"

definition build_discovery :: "string \<Rightarrow> discovery_document" where
  "build_discovery origin =
     \<lparr>dd_issuer = origin,
      dd_authorization_endpoint = origin @ ''/oauth/authorize'',
      dd_token_endpoint = origin @ ''/oauth/token'',
      dd_userinfo_endpoint = origin @ ''/oauth/userinfo'',
      dd_end_session_endpoint = origin @ ''/oauth/end_session'',
      dd_jwks_uri = origin @ ''/.well-known/jwks.json'',
      dd_response_types_supported = [''code''],
      dd_subject_types_supported = [''public''],
      dd_id_token_signing_alg_values_supported = [''EdDSA''],
      dd_scopes_supported = [''openid'', ''profile'', ''email'', ''roles''],
      dd_token_endpoint_auth_methods_supported = [''client_secret_basic'', ''client_secret_post'', ''none''],
      dd_grant_types_supported = [''authorization_code''],
      dd_code_challenge_methods_supported = [''S256''],
      dd_claims_supported = [''sub'', ''iss'', ''aud'', ''exp'', ''iat'', ''auth_time'', ''nonce'', ''name'',
        ''preferred_username'', ''updated_at'', ''email'', ''roles'']\<rparr>"

definition discovery :: "env \<Rightarrow> discovery_document" where
  "discovery e = build_discovery (ev_origin e)"

text \<open>Serialising the set cannot fail: it holds strings only.\<close>

definition jwk_to_json :: "jwk \<Rightarrow> json" where
  "jwk_to_json k = JObj [(''alg'', JStr (jk_alg k)), (''crv'', JStr (jk_crv k)), (''kid'', JStr (jk_kid k)),
     (''kty'', JStr (jk_kty k)), (''use'', JStr (jk_use k)), (''x'', JStr (jk_x k))]"

definition jwks :: "env \<Rightarrow> json" where
  "jwks e = JObj [(''keys'', JArr (map jwk_to_json (build_jwks (ev_ext e) (ev_key e) (ev_kid e))))]"

section \<open>The authorization endpoint\<close>

record authorize_query =
  aq_response_type :: "string option"
  aq_client_id :: "string option"
  aq_redirect_uri :: "string option"
  aq_scope :: "string option"
  aq_state :: "string option"
  aq_nonce :: "string option"
  aq_code_challenge :: "string option"
  aq_code_challenge_method :: "string option"
  aq_prompt :: "string option"
  aq_max_age :: "string option"

fun append_params :: "externals \<Rightarrow> string \<Rightarrow> char \<Rightarrow> (string \<times> string) list \<Rightarrow> string" where
  "append_params x out sep [] = out"
| "append_params x out sep ((k, v) # ps) =
     append_params x (out @ [sep] @ x_url_encode x k @ ''='' @ x_url_encode x v) CHR ''&'' ps"

definition append_query :: "externals \<Rightarrow> string \<Rightarrow> (string \<times> string) list \<Rightarrow> string" where
  "append_query x base params =
     append_params x base (if CHR ''?'' \<in> set base then CHR ''&'' else CHR ''?'') params"

definition oauth_redirect :: "nat \<Rightarrow> string \<Rightarrow> response" where
  "oauth_redirect status location = header_array_response status
     [(''location'', location), (''cache-control'', ''no-store''), (''referrer-policy'', ''no-referrer'')]"

definition opt_param :: "string \<Rightarrow> string option \<Rightarrow> (string \<times> string) list" where
  "opt_param k v = (case v of None \<Rightarrow> [] | Some w \<Rightarrow> [(k, w)])"

definition authorize_error_redirect :: "externals \<Rightarrow> string \<Rightarrow> string option \<Rightarrow> oauth_error \<Rightarrow> response" where
  "authorize_error_redirect x redirect_uri state_param err =
     oauth_redirect 302 (append_query x redirect_uri
       ([(''error'', oauth_code err)] @ opt_param ''error_description'' (oauth_description err)
        @ opt_param ''state'' state_param))"

definition login_redirect :: "externals \<Rightarrow> string option \<Rightarrow> response" where
  "login_redirect x path_and_query =
     oauth_redirect 302 (''/login?redirect_uri='' @ x_url_encode x (unwrap_or ''/oauth/authorize'' path_and_query))"

text \<open>A parameter that is present and not empty.\<close>

definition given :: "string option \<Rightarrow> string option" where
  "given v = (case v of Some s \<Rightarrow> (if s \<noteq> [] then Some s else None) | None \<Rightarrow> None)"

text \<open>What the checks before the session establish: client, redirect URI, scope and challenge.\<close>

record authorize_request =
  az_app :: application
  az_client_id :: string
  az_redirect :: string
  az_scope :: "string list"
  az_challenge :: string

definition prompt_none :: "authorize_query \<Rightarrow> bool" where
  "prompt_none q = (case aq_prompt q of None \<Rightarrow> False | Some p \<Rightarrow> split_whitespace p = [''none''])"

definition reauthentication_requested :: "authorize_query \<Rightarrow> bool" where
  "reauthentication_requested q \<longleftrightarrow>
     aq_max_age q \<noteq> None
   \<or> (case aq_prompt q of None \<Rightarrow> False | Some p \<Rightarrow> p \<noteq> [] \<and> \<not> prompt_none q)"

definition scope_acceptable :: "string list \<Rightarrow> bool" where
  "scope_acceptable scope \<longleftrightarrow>
     scope_contains scope SCOPE_OPENID
   \<and> \<not> list_ex (\<lambda>s. s \<notin> set [''openid'', ''profile'', ''email'', ''roles'']) scope"

definition s256_challenge :: "externals \<Rightarrow> string \<Rightarrow> bool" where
  "s256_challenge x challenge \<longleftrightarrow>
     \<not> (length challenge \<noteq> 43
        \<or> \<not> list_all (\<lambda>b. is_ascii_alphanumeric b \<or> b = CHR ''-'' \<or> b = CHR ''_'') challenge
        \<or> x_b64url_decode x challenge = None)"

text \<open>Before the client and its redirect URI are known to be good, errors are answered directly.\<close>

definition authorize_client :: "externals \<Rightarrow> authorize_query \<Rightarrow> (string \<times> string \<times> application) reply_op" where
  "authorize_client x q =
     bind_op (ok_or_op (oauth_response (InvalidRequest ''missing client_id'')) (given (aq_client_id q))) (\<lambda>client_id.
     bind_op (ok_or_op (oauth_response (InvalidRequest ''missing redirect_uri'')) (given (aq_redirect_uri q))) (\<lambda>presented.
     bind_op (gets_op (get_by_oidc_client_id x client_id)) (\<lambda>found.
     bind_op (ok_or_op (oauth_response InvalidClient) found) (\<lambda>app.
     bind_op (require_op (ap_enabled app \<and> ap_type app = Oidc) (oauth_response UnauthorizedClient)) (\<lambda>_.
     bind_op (require_op (validate_redirect_uri app presented)
                (oauth_response (InvalidRequest ''redirect_uri not registered''))) (\<lambda>_.
     ret_op (client_id, presented, app)))))))"

text \<open>From here on errors are sent back to the registered URI.\<close>

definition authorize_checks :: "externals \<Rightarrow> authorize_query \<Rightarrow> authorize_request reply_op" where
  "authorize_checks x q =
     bind_op (authorize_client x q) (\<lambda>(client_id, presented, app).
     let bounce = authorize_error_redirect x presented (aq_state q);
         scope = parse_scope (unwrap_or [] (aq_scope q)) in
     bind_op (require_op (aq_response_type q = Some ''code'') (bounce UnsupportedResponseType)) (\<lambda>_.
     bind_op (require_op (\<not> reauthentication_requested q)
                (bounce (InvalidRequest ''requested reauthentication or consent is not supported''))) (\<lambda>_.
     bind_op (require_op (scope_acceptable scope) (bounce InvalidScope)) (\<lambda>_.
     bind_op (ok_or_op (bounce (InvalidRequest ''missing code_challenge (PKCE required)''))
                (given (aq_code_challenge q))) (\<lambda>challenge.
     bind_op (require_op (unwrap_or ''plain'' (aq_code_challenge_method q) = ''S256'')
                (bounce (InvalidRequest ''code_challenge_method must be S256''))) (\<lambda>_.
     bind_op (require_op (s256_challenge x challenge) (bounce (InvalidRequest ''invalid S256 code_challenge''))) (\<lambda>_.
     ret_op \<lparr>az_app = app, az_client_id = client_id, az_redirect = presented, az_scope = scope,
             az_challenge = challenge\<rparr>)))))))"

definition needs_login :: "externals \<Rightarrow> string option \<Rightarrow> authorize_query \<Rightarrow> authorize_request \<Rightarrow> response" where
  "needs_login x uri q z =
     (if prompt_none q then authorize_error_redirect x (az_redirect z) (aq_state q) LoginRequired
      else login_redirect x uri)"

definition authorize_grant ::
  "env \<Rightarrow> audit_context \<Rightarrow> string option \<Rightarrow> authorize_query \<Rightarrow> authorize_request \<Rightarrow> claims \<Rightarrow> response reply_op" where
  "authorize_grant e ctx uri q z claims =
     (let x = ev_ext e; bounce = authorize_error_redirect x (az_redirect z) (aq_state q) in
      bind_op (ok_or_op (bounce ServerError) (x_uuid_parse x (c_sub claims))) (\<lambda>user_id.
      bind_op (gets_op (user_get user_id)) (\<lambda>usr.
      bind_op (ok_or_op (needs_login x uri q z) usr) (\<lambda>u.
      bind_op (require_op (u_active u) (needs_login x uri q z)) (\<lambda>_.
      bind_op (gets_op (user_get_roles (u_id u))) (\<lambda>rls.
      bind_op (gets_op (check_access_resolved x (az_app z) rls)) (\<lambda>allowed.
      if \<not> allowed then
        bind_op (note_audit e 0 (audit_details (JObj [(''client_id'', JStr (az_client_id z)),
                   (''reason'', JStr ''insufficient_roles'')])
                 (audit_ctx ctx (audit_user user_id (audit OidcAuthorizeDenied))))) (\<lambda>_.
        raise_op (bounce AccessDenied))
      else
        bind_op (map_err_op (\<lambda>_. bounce ServerError)
          (code_issue x (ev_now e) (ev_random e 0) (ap_id (az_app z)) user_id (az_redirect z)
             (join_str '' '' (az_scope z)) (aq_nonce q) (az_challenge z)
             (unwrap_or ''plain'' (aq_code_challenge_method q))
             (unwrap_or (c_iat claims) (c_auth_time claims)) (c_session_version claims)
             (Some (unwrap_or (c_exp claims) (c_session_exp claims))))) (\<lambda>plaintext.
        bind_op (note_audit e 0 (audit_details (JObj [(''client_id'', JStr (az_client_id z)),
                   (''scope'', JStr (join_str '' '' (az_scope z)))])
                 (audit_ctx ctx (audit_user user_id (audit OidcAuthorizeSuccess))))) (\<lambda>_.
        ret_op (oauth_redirect 302 (append_query x (az_redirect z)
          ([(''code'', plaintext)] @ opt_param ''state'' (aq_state q)))))))))))))"

text \<open>A renewed pair is handed out whatever the rest of the request leads to.\<close>

definition authorize_impl ::
  "env \<Rightarrow> audit_context \<Rightarrow> headers \<Rightarrow> string option \<Rightarrow> authorize_query \<Rightarrow> db \<Rightarrow> (response \<times> token_pair option) \<times> db" where
  "authorize_impl e ctx hs uri q d =
     (case authorize_checks (ev_ext e) q d of
        (Inl r, d1) \<Rightarrow> ((r, None), d1)
      | (Inr z, d1) \<Rightarrow>
          (case resolve_browser_session e hs d1 of
             (Inl _, d2) \<Rightarrow> ((oauth_response ServerError, None), d2)
           | (Inr (None, _), d2) \<Rightarrow> ((needs_login (ev_ext e) uri q z, None), d2)
           | (Inr (Some claims, renewed), d2) \<Rightarrow>
               (case answer (authorize_grant e ctx uri q z claims) d2 of (r, d3) \<Rightarrow> ((r, renewed), d3))))"

definition authorize ::
  "env \<Rightarrow> audit_context \<Rightarrow> headers \<Rightarrow> string option \<Rightarrow> authorize_query \<Rightarrow> db \<Rightarrow> response \<times> db" where
  "authorize e ctx hs uri q d =
     (case authorize_impl e ctx hs uri q d of
        ((r, None), d') \<Rightarrow> (r, d')
      | ((r, Some pair), d') \<Rightarrow> (append_session_cookies pair r, d'))"

section \<open>The token endpoint\<close>

record token_form =
  tf_grant_type :: "string option"
  tf_code :: "string option"
  tf_redirect_uri :: "string option"
  tf_client_id :: "string option"
  tf_client_secret :: "string option"
  tf_code_verifier :: "string option"

text \<open>\<open>std::str::from_utf8\<close>: the well-formed byte sequences of the Unicode standard.\<close>

definition cont_byte :: "nat \<Rightarrow> bool" where
  "cont_byte b \<longleftrightarrow> 128 \<le> b \<and> b < 192"

fun valid_utf8 :: "nat list \<Rightarrow> bool" where
  "valid_utf8 [] = True"
| "valid_utf8 (a # s) =
     (if a < 128 then valid_utf8 s
      else case s of
        [] \<Rightarrow> False
      | b # s1 \<Rightarrow>
          (if 194 \<le> a \<and> a < 224 then cont_byte b \<and> valid_utf8 s1
           else case s1 of
             [] \<Rightarrow> False
           | c # s2 \<Rightarrow>
               (if 224 \<le> a \<and> a < 240 then
                  cont_byte b \<and> cont_byte c \<and> (a = 224 \<longrightarrow> 160 \<le> b) \<and> (a = 237 \<longrightarrow> b < 160) \<and> valid_utf8 s2
                else case s2 of
                  [] \<Rightarrow> False
                | e # s3 \<Rightarrow>
                    240 \<le> a \<and> a < 245 \<and> cont_byte b \<and> cont_byte c \<and> cont_byte e
                    \<and> (a = 240 \<longrightarrow> 144 \<le> b) \<and> (a = 244 \<longrightarrow> b < 144) \<and> valid_utf8 s3)))"

definition parse_basic_auth :: "externals \<Rightarrow> headers \<Rightarrow> (string \<times> string) option" where
  "parse_basic_auth x hs = do {
     value \<leftarrow> h_get ''authorization'' hs;
     raw \<leftarrow> to_str value;
     (scheme, b64) \<leftarrow> split_once_char CHR '' '' raw;
     _ \<leftarrow> (if eq_ignore_ascii_case scheme ''Basic'' then Some () else None);
     decoded \<leftarrow> x_b64_decode x (trim b64);
     _ \<leftarrow> (if valid_utf8 (map byte decoded) then Some () else None);
     (client, secret) \<leftarrow> split_once_char CHR '':'' decoded;
     client' \<leftarrow> x_url_decode x (replace_char CHR ''+'' '' '' client);
     secret' \<leftarrow> x_url_decode x (replace_char CHR ''+'' '' '' secret);
     Some (client', secret') }"

definition oidc_audit :: "env \<Rightarrow> audit_context \<Rightarrow> uuid option \<Rightarrow> audit_event_type \<Rightarrow> (string \<times> json) list \<Rightarrow> unit reply_op" where
  "oidc_audit e ctx user_id ev kvs =
     note_audit e 0 (audit_details (JObj kvs) (audit_ctx ctx
       (case user_id of None \<Rightarrow> audit ev | Some u \<Rightarrow> audit_user u (audit ev))))"

text \<open>A rejected exchange is recorded with its reason.\<close>

definition token_rejected :: "env \<Rightarrow> audit_context \<Rightarrow> string \<Rightarrow> string \<Rightarrow> oauth_error \<Rightarrow> 'a reply_op" where
  "token_rejected e ctx client_id reason err =
     bind_op (oidc_audit e ctx None OidcTokenRejected
                [(''client_id'', JStr client_id), (''reason'', JStr reason)]) (\<lambda>_.
     raise_op (oauth_response err))"

text \<open>Exactly one way of client authentication, and the client and secret it names.\<close>

definition client_credentials :: "externals \<Rightarrow> headers \<Rightarrow> token_form \<Rightarrow> response + (string \<times> string option)" where
  "client_credentials x hs form =
     (let basic = parse_basic_auth x hs in
      if h_get_all ''authorization'' hs \<noteq> [] \<and> (basic = None \<or> length (h_get_all ''authorization'' hs) \<noteq> 1)
      then Inl (oauth_response InvalidClient)
      else if (case basic of None \<Rightarrow> False
               | Some (client, _) \<Rightarrow> tf_client_secret form \<noteq> None
                   \<or> (case tf_client_id form of None \<Rightarrow> False | Some body_id \<Rightarrow> body_id \<noteq> client))
      then Inl (oauth_response (InvalidRequest ''conflicting client authentication''))
      else case given (case basic of Some (client, _) \<Rightarrow> Some client | None \<Rightarrow> tf_client_id form) of
             None \<Rightarrow> Inl (oauth_response InvalidClient)
           | Some client_id \<Rightarrow>
               Inr (client_id, case basic of Some (_, secret) \<Rightarrow> Some secret | None \<Rightarrow> tf_client_secret form))"

definition authenticate_client ::
  "env \<Rightarrow> audit_context \<Rightarrow> headers \<Rightarrow> token_form \<Rightarrow> (string \<times> application) reply_op" where
  "authenticate_client e ctx hs form =
     (let x = ev_ext e in
      bind_op (lift_op (client_credentials x hs form)) (\<lambda>(client_id, presented_secret).
      bind_op (require_op (tf_grant_type form = Some ''authorization_code'') (oauth_response UnsupportedGrantType)) (\<lambda>_.
      bind_op (gets_op (get_by_oidc_client_id x client_id)) (\<lambda>found.
      bind_op (ok_or_op (oauth_response InvalidClient) found) (\<lambda>app.
      bind_op (require_op (ap_enabled app \<and> ap_type app = Oidc) (oauth_response UnauthorizedClient)) (\<lambda>_.
      bind_op (if ap_confidential app then
                 bind_op (ok_or_op (oauth_response InvalidClient) presented_secret) (\<lambda>secret.
                 if verify_client_secret x app secret then ret_op ()
                 else token_rejected e ctx client_id ''invalid_client_secret'' InvalidClient)
               else ret_op ()) (\<lambda>_.
      ret_op (client_id, app))))))))"

definition token_body :: "token_response \<Rightarrow> json" where
  "token_body t = JObj [(''access_token'', JStr (tr_access_token t)), (''id_token'', JStr (tr_id_token t)),
     (''token_type'', JStr (tr_token_type t)), (''expires_in'', JInt (tr_expires_in t)), (''scope'', JStr (tr_scope t))]"

definition exchange_code ::
  "env \<Rightarrow> audit_context \<Rightarrow> headers \<Rightarrow> token_form \<Rightarrow> token_response reply_op" where
  "exchange_code e ctx hs form =
     (let x = ev_ext e in
      bind_op (authenticate_client e ctx hs form) (\<lambda>(client_id, app).
      bind_op (ok_or_op (oauth_response (InvalidRequest ''missing code'')) (given (tf_code form))) (\<lambda>code.
      bind_op (ok_or_op (oauth_response (InvalidRequest ''missing redirect_uri'')) (given (tf_redirect_uri form))) (\<lambda>redirect_uri.
      bind_op (ok_or_op (oauth_response (InvalidRequest ''missing code_verifier'')) (given (tf_code_verifier form))) (\<lambda>verifier.
      bind_op (map_err_op (\<lambda>_. oauth_response ServerError)
                 (code_consume x (ev_now e) code (ap_id app) redirect_uri verifier)) (\<lambda>found.
      bind_op (case found of
                 Some c \<Rightarrow> ret_op c
               | None \<Rightarrow> token_rejected e ctx client_id ''invalid_code''
                           (InvalidGrant ''code or authorization binding invalid'')) (\<lambda>consumed.
      bind_op (try_op (verify_user_session (cc_user_id consumed) (cc_auth_time consumed)
                         (cc_session_version consumed))) (\<lambda>session.
      bind_op (require_op (\<not> (isl session \<or> \<not> validate_redirect_uri app redirect_uri))
                 (oauth_response (InvalidGrant ''authorization is no longer valid''))) (\<lambda>_.
      bind_op (gets_op (user_get (cc_user_id consumed))) (\<lambda>usr.
      bind_op (case usr of
                 Some u \<Rightarrow> (if u_active u then ret_op u
                            else token_rejected e ctx client_id ''user_inactive'' (InvalidGrant ''user no longer active''))
               | None \<Rightarrow> token_rejected e ctx client_id ''user_inactive'' (InvalidGrant ''user no longer active'')) (\<lambda>u.
      bind_op (gets_op (user_get_roles (u_id u))) (\<lambda>rls.
      bind_op (gets_op (check_access_resolved x app rls)) (\<lambda>allowed.
      bind_op (require_op allowed (oauth_response (InvalidGrant ''application access was revoked''))) (\<lambda>_.
      let scope = parse_scope (cc_scope consumed) in
      bind_op (map_err_op (\<lambda>_. oauth_response ServerError) (lift_op
        (mint_token_pair x (ev_now e) (x_uuid_str x (ev_uuid e 1)) (ev_origin e) app u rls scope (cc_nonce consumed)
           (cc_auth_time consumed) (ev_key e) (ev_kid e) (cc_session_version consumed) (cc_session_exp consumed)))) (\<lambda>t.
      bind_op (oidc_audit e ctx (Some (u_id u)) OidcTokenIssued
                 [(''client_id'', JStr client_id), (''scope'', JStr (join_str '' '' scope))]) (\<lambda>_.
      ret_op t))))))))))))))))"

definition rate_limited :: "nat \<Rightarrow> response" where
  "rate_limited retry_after = (case rate_limit_response retry_after of (st, hs, msg) \<Rightarrow> plain st hs (Text msg))"

definition token_reply :: "token_response \<Rightarrow> response" where
  "token_reply t = plain 200 (h_insert ''pragma'' ''no-cache'' (h_insert ''cache-control'' ''no-store'' []))
     (Json (token_body t))"

definition token :: "env \<Rightarrow> audit_context \<Rightarrow> headers \<Rightarrow> token_form \<Rightarrow> app_state \<Rightarrow> response \<times> app_state" where
  "token e ctx hs form s =
     (case check_oidc_token_limit e (ax_ip ctx) s of
        (Inl retry_after, s1) \<Rightarrow> (rate_limited retry_after, s1)
      | (Inr _, s1) \<Rightarrow>
          (case exchange_code e ctx hs form (st_db s1) of
             (Inl r, d) \<Rightarrow> (r, s1\<lparr>st_db := d\<rparr>)
           | (Inr t, d) \<Rightarrow> (token_reply t, s1\<lparr>st_db := d\<rparr>)))"

section \<open>The user information endpoint\<close>

definition unauthorized_with_bearer_challenge :: response where
  \<open>unauthorized_with_bearer_challenge =
     plain 401 (h_insert ''www-authenticate'' ''Bearer realm="oidc", error="invalid_token"'' []) (Text [])\<close>

text \<open>The members the scope opens, in the order the JSON object keeps them.\<close>

definition userinfo_body :: "externals \<Rightarrow> user \<Rightarrow> string list \<Rightarrow> string list \<Rightarrow> json" where
  "userinfo_body x u rls scope =
     (let profile = scope_contains scope SCOPE_PROFILE in
      JObj ((if scope_contains scope SCOPE_EMAIL then jskip ''email'' JStr (u_email u) else [])
        @ (if profile then [(''name'', JStr (u_name u)), (''preferred_username'', JStr (u_username u))] else [])
        @ (if scope_contains scope SCOPE_ROLES then [(''roles'', jstrs rls)] else [])
        @ [(''sub'', JStr (x_uuid_str x (u_id u)))]
        @ (if profile then [(''updated_at'', JInt (u_updated_at u))] else [])))"

definition userinfo_impl :: "env \<Rightarrow> audit_context \<Rightarrow> headers \<Rightarrow> response reply_op" where
  "userinfo_impl e ctx hs =
     (let x = ev_ext e; challenge = unauthorized_with_bearer_challenge;
          bearer = do { v \<leftarrow> h_get ''authorization'' hs; s \<leftarrow> to_str v; strip_prefix ''Bearer '' s } in
      bind_op (ok_or_op challenge bearer) (\<lambda>tok.
      bind_op (map_err_op (\<lambda>_. challenge)
                 (lift_op (verify_oidc_access_token x (ev_now e) tok (ev_origin e) (ev_key e)))) (\<lambda>claims.
      bind_op (ok_or_op challenge (x_uuid_parse x (oa_sub claims))) (\<lambda>user_id.
      bind_op (map_err_op (\<lambda>_. challenge)
                 (verify_user_session user_id (oa_iat claims) (oa_session_version claims))) (\<lambda>_.
      bind_op (gets_op (get_by_oidc_client_id x (oa_aud claims))) (\<lambda>found.
      bind_op (ok_or_op challenge found) (\<lambda>app.
      bind_op (require_op (ap_enabled app) challenge) (\<lambda>_.
      bind_op (gets_op (user_get user_id)) (\<lambda>usr.
      bind_op (ok_or_op challenge usr) (\<lambda>u.
      bind_op (require_op (u_active u) challenge) (\<lambda>_.
      bind_op (gets_op (user_get_roles (u_id u))) (\<lambda>rls.
      bind_op (gets_op (check_access_resolved x app rls)) (\<lambda>allowed.
      bind_op (require_op allowed challenge) (\<lambda>_.
      bind_op (oidc_audit e ctx (Some (u_id u)) OidcUserinfoAccessed
                 [(''client_id'', JStr (oa_aud claims)), (''scope'', JStr (oa_scope claims))]) (\<lambda>_.
      ret_op (plain 200 [(''cache-control'', ''no-store'')]
                (Json (userinfo_body x u rls (parse_scope (oa_scope claims))))))))))))))))))))"

definition userinfo :: "env \<Rightarrow> audit_context \<Rightarrow> headers \<Rightarrow> db \<Rightarrow> response \<times> db" where
  "userinfo e ctx hs = answer (userinfo_impl e ctx hs)"

section \<open>Logout\<close>

record end_session_query =
  es_id_token_hint :: "string option"
  es_client_id :: "string option"
  es_post_logout_redirect_uri :: "string option"
  es_state :: "string option"

definition hint_validation :: "string \<Rightarrow> jwt_validation" where
  "hint_validation origin =
     \<lparr>jv_leeway = 60, jv_required = [''sub'', ''iss'', ''aud'', ''iat'', ''exp''],
      jv_iss = Some [origin], jv_aud = None, jv_validate_aud = False, jv_validate_exp = False\<rparr>"

definition decode_hint :: "env \<Rightarrow> string \<Rightarrow> id_token_claims option" where
  "decode_hint e hint = do {
     j \<leftarrow> x_jwt_verify (ev_ext e) (ev_key e) (hint_validation (ev_origin e)) (ev_now e) hint;
     id_claims_of_json j }"

text \<open>The hint, the client it or the request names, and that client's registration.\<close>

definition logout_hint :: "env \<Rightarrow> end_session_query \<Rightarrow> id_token_claims option reply_op" where
  "logout_hint e q =
     (case es_id_token_hint q of
        None \<Rightarrow> ret_op None
      | Some tok \<Rightarrow>
          bind_op (ok_or_op (oauth_response (InvalidRequest ''invalid id_token_hint'')) (decode_hint e tok)) (\<lambda>h.
          bind_op (require_op (case es_client_id q of None \<Rightarrow> True | Some client_id \<Rightarrow> client_id = it_aud h)
                     (oauth_response (InvalidRequest ''client_id does not match id_token_hint''))) (\<lambda>_.
          ret_op (Some h))))"

definition logout_client_id :: "end_session_query \<Rightarrow> id_token_claims option \<Rightarrow> string option" where
  "logout_client_id q hint = (case es_client_id q of Some i \<Rightarrow> Some i | None \<Rightarrow> map_option it_aud hint)"

definition logout_app :: "env \<Rightarrow> string option \<Rightarrow> application option reply_op" where
  "logout_app e client_id =
     (case given client_id of
        None \<Rightarrow> ret_op None
      | Some i \<Rightarrow>
          bind_op (gets_op (get_by_oidc_client_id (ev_ext e) i)) (\<lambda>found.
          bind_op (ok_or_op (oauth_response InvalidClient) found) (\<lambda>app.
          bind_op (require_op (ap_enabled app) (oauth_response InvalidClient)) (\<lambda>_.
          ret_op (Some app)))))"

text \<open>
  The session that is to end. A request from another origin must prove it with the access cookie
  and never rotates a refresh token.
\<close>

definition logout_session ::
  "env \<Rightarrow> headers \<Rightarrow> bool \<Rightarrow> id_token_claims option \<Rightarrow> (claims option \<times> token_pair option) reply_op" where
  "logout_session e hs require_matching hint =
     (if require_matching then
        bind_op (require_op (hint \<noteq> None) (plain 403 [] NoBody)) (\<lambda>_.
        bind_op (ok_or_op (plain 403 [] NoBody) (extract_session_cookie hs)) (\<lambda>access.
        bind_op (map_err_op (\<lambda>err. if err = AuthenticationRequired then plain 403 [] NoBody else oauth_response ServerError)
                   (verify_access_token (ev_ext e) (ev_key e) (ev_now e) access)) (\<lambda>session.
        ret_op (Some session, None))))
      else map_err_op (\<lambda>_. oauth_response ServerError) (resolve_browser_session e hs))"

definition matching_hint :: "id_token_claims option \<Rightarrow> claims \<Rightarrow> uuid \<Rightarrow> db \<Rightarrow> bool" where
  "matching_hint hint session uid d =
     (case hint of
        None \<Rightarrow> False
      | Some h \<Rightarrow>
          it_sub h = c_sub session \<and> it_auth_time h = unwrap_or (c_iat session) (c_auth_time session)
        \<and> \<not> isl (fst (verify_user_session uid (it_iat h) (it_session_version h) d)))"

definition confirmation_page :: "end_session_query \<Rightarrow> string option \<Rightarrow> response" where
  \<open>confirmation_page q client_id =
     plain 200 [(''content-type'', ''text/html; charset=utf-8''), (''cache-control'', ''no-store''),
         (''referrer-policy'', ''no-referrer''),
         (''content-security-policy'', ''frame-ancestors '' @ [CHR 0x27] @ ''none'' @ [CHR 0x27] @ ''; form-action ''
            @ [CHR 0x27] @ ''self'' @ [CHR 0x27])]
       (Html (build_logout_confirmation_html client_id (es_post_logout_redirect_uri q) (es_state q)))\<close>

definition logout_revoke ::
  "env \<Rightarrow> audit_context \<Rightarrow> end_session_query \<Rightarrow> bool \<Rightarrow> bool \<Rightarrow> id_token_claims option \<Rightarrow> string option
     \<Rightarrow> claims \<Rightarrow> unit reply_op" where
  "logout_revoke e ctx q confirmed require_matching hint client_id session =
     bind_op (ok_or_op (oauth_response ServerError) (x_uuid_parse (ev_ext e) (c_sub session))) (\<lambda>uid.
     bind_op (gets_op (matching_hint hint session uid)) (\<lambda>matching.
     bind_op (require_op (\<not> (require_matching \<and> \<not> matching)) (plain 403 [] NoBody)) (\<lambda>_.
     bind_op (require_op (\<not> (\<not> confirmed \<and> \<not> matching)) (confirmation_page q client_id)) (\<lambda>_.
     bind_op (map_err_op (\<lambda>_. oauth_response ServerError) (revoke_all_user_tokens (ev_now e) uid)) (\<lambda>_.
     oidc_audit e ctx (Some uid) OidcLogout [(''client_id'', JStr (unwrap_or [] client_id))])))))"

definition signed_out_headers :: headers where
  "signed_out_headers = foldl (\<lambda>hs c. h_append ''set-cookie'' c hs)
     (h_insert ''referrer-policy'' ''no-referrer'' (h_insert ''cache-control'' ''no-store'' [])) clear_auth_cookies"

definition signed_out_landing :: "env \<Rightarrow> application option \<Rightarrow> response" where
  "signed_out_landing e app =
     plain 200 (h_insert ''cache-control'' ''no-store''
         (h_insert ''content-type'' ''text/html; charset=utf-8'' signed_out_headers))
       (Html (build_signed_out_html (ev_origin e) (map_option ap_name app)))"

definition signed_out_response :: "env \<Rightarrow> end_session_query \<Rightarrow> application option \<Rightarrow> response" where
  "signed_out_response e q app =
     (case (es_post_logout_redirect_uri q, app) of
        (Some uri, Some a) \<Rightarrow>
          (if validate_post_logout_redirect_uri a uri then
             (case header_value (append_query (ev_ext e) uri (opt_param ''state'' (es_state q))) of
                None \<Rightarrow> oauth_response (InvalidRequest ''invalid post_logout_redirect_uri'')
              | Some location \<Rightarrow> plain 302 (h_insert ''location'' location signed_out_headers) NoBody)
           else signed_out_landing e app)
      | _ \<Rightarrow> signed_out_landing e app)"

text \<open>
  The renewed pair is lost when the request fails before the session, exactly as the mutable
  argument of the code stays unset; afterwards it is handed out unless cookies were set.
\<close>

definition end_session_response ::
  "env \<Rightarrow> audit_context \<Rightarrow> headers \<Rightarrow> end_session_query \<Rightarrow> bool \<Rightarrow> bool \<Rightarrow> db \<Rightarrow> (response \<times> token_pair option) \<times> db" where
  "end_session_response e ctx hs q confirmed require_matching d =
     (case bind_op (logout_hint e q) (\<lambda>hint.
           bind_op (logout_app e (logout_client_id q hint)) (\<lambda>app.
           bind_op (logout_session e hs require_matching hint) (\<lambda>(session, renewed).
           ret_op (hint, app, session, renewed)))) d of
        (Inl r, d1) \<Rightarrow> ((r, None), d1)
      | (Inr (hint, app, session, renewed), d1) \<Rightarrow>
          (case (case session of
                   None \<Rightarrow> ret_op ()
                 | Some c \<Rightarrow> logout_revoke e ctx q confirmed require_matching hint (logout_client_id q hint) c) d1 of
             (Inl r, d2) \<Rightarrow> ((r, renewed), d2)
           | (Inr _, d2) \<Rightarrow> ((signed_out_response e q app, renewed), d2)))"

definition client_error :: "response \<Rightarrow> bool" where
  "client_error r \<longleftrightarrow> 400 \<le> rs_status r \<and> rs_status r < 500"

definition end_session_impl ::
  "env \<Rightarrow> audit_context \<Rightarrow> headers \<Rightarrow> end_session_query \<Rightarrow> bool \<Rightarrow> bool \<Rightarrow> db \<Rightarrow> response \<times> db" where
  "end_session_impl e ctx hs q confirmed require_matching d =
     (case end_session_response e ctx hs q confirmed require_matching d of
        ((r, renewed), d') \<Rightarrow>
          (if require_matching \<and> client_error r
           then (plain 403 [] (Text ''A matching browser session and ID token hint are required''), d')
           else if h_get_all ''set-cookie'' (rs_headers r) \<noteq> [] then (r, d')
           else case renewed of None \<Rightarrow> (r, d') | Some pair \<Rightarrow> (append_session_cookies pair r, d')))"

definition end_session :: "env \<Rightarrow> audit_context \<Rightarrow> headers \<Rightarrow> end_session_query \<Rightarrow> db \<Rightarrow> response \<times> db" where
  "end_session e ctx hs q = end_session_impl e ctx hs q False False"

text \<open>The confirmation form is posted from the server's own origin.\<close>

definition posted_by_own_form :: "env \<Rightarrow> headers \<Rightarrow> bool" where
  "posted_by_own_form e hs =
     (case (do { v \<leftarrow> h_get ''origin'' hs; to_str v }, map_option ur_origin (x_url_parse (ev_ext e) (ev_origin e))) of
        (Some actual, Some expected) \<Rightarrow> actual = expected
      | _ \<Rightarrow> False)"

definition end_session_post :: "env \<Rightarrow> audit_context \<Rightarrow> headers \<Rightarrow> end_session_query \<Rightarrow> db \<Rightarrow> response \<times> db" where
  "end_session_post e ctx hs q =
     (let confirmed = posted_by_own_form e hs in end_session_impl e ctx hs q confirmed (\<not> confirmed))"

end
