(* ===== verification/Session_Laws.thy ===== *)
theory Session_Laws
  imports Oauth_Handlers Session_Handlers
begin

text \<open>
  What handlers may rely on when they work on sessions. A law is a relation between the database
  before and after; the locale \<open>session_laws\<close> lists the operations of the token and audit
  components that must keep it, and shows once and for all that every composition of them does:
  rotation, the browser session of a request, signing in and out, refreshing.
\<close>

locale session_laws = state_preorder P for P :: "db \<Rightarrow> db \<Rightarrow> bool" +
  assumes audit_law: "keeps P (audit_save x fresh now entry)"
    and issue_law: "keeps P (generate_token_pair_for_session x key now m u rls ex ver aut)"
    and consume_law: "keeps P (consume_refresh_token x key now tok)"
    and retry_law: "P d (clear_stale_retries now (d\<lparr>refresh_tokens :=
          sql_update (\<lambda>r. rt_hash r = h) (\<lambda>r. r\<lparr>rt_retry_until := t, rt_retry_pair := c\<rparr>) (refresh_tokens d)\<rparr>))"
    and revoke_all_law: "keeps P (revoke_all_user_tokens now u)"
    and revoke_access_law: "keeps P (revoke_user_access_tokens now u)"
begin

lemma verify_access_law: "keeps P (verify_access_token x key now tok)"
  by (rule keeps_pure) simp

lemma verify_session_law: "keeps P (verify_user_session u i v)"
  by (rule keeps_pure) (simp add: verify_user_session_eq)

lemma session_version_law: "keeps P (user_session_version u)"
  by (rule keeps_pure) (simp add: user_session_version_eq)

lemma require_auth_law: "keeps P (require_auth e hs)"
  by (rule keeps_pure) simp

lemma require_admin_law: "keeps P (require_admin e hs)"
  by (rule keeps_pure) simp

lemma note_audit_law: "keeps P (note_audit e n entry)"
  unfolding note_audit_def audited_def by (intro keeps_rules audit_law)

lemma login_pair_law: "keeps P (generate_token_pair x key now m u rls)"
  unfolding generate_token_pair_def by (intro keeps_rules issue_law session_version_law)

lemma rotate_law: "keeps P (rotate_token_pair x key now m tok)"
  unfolding rotate_token_pair_def by (intro keeps_rules issue_law consume_law)

lemma rotate_browser_law: "keeps P (rotate_browser_token_pair x key now m tok)"
  unfolding keeps_def
proof
  fix d
  have rot: "P d (snd (rotate_token_pair x key now m tok d))"
    using rotate_law by (simp add: keeps_def)
  have follow: "snd (follow_retry_chain n x key now p d) = d" for n p
    using readonly_follow_retry_chain [of n x key now p] by (simp add: keeps_def)
  show "P d (snd (rotate_browser_token_pair x key now m tok d))"
  proof (cases "open_retry x now tok d")
    case (Some c)
    then show ?thesis
      using follow by (simp add: rotate_browser_token_pair_def bind_op_def refl split: sum.split)
  next
    case None
    then show ?thesis
      using rot trans [OF rot retry_law] refl
      by (auto simp: rotate_browser_token_pair_def split: prod.split sum.split app_error.split)
  qed
qed

lemma unless_law: "keeps P m \<Longrightarrow> keeps P (unless_unauthenticated m)"
  unfolding unless_unauthenticated_def by (intro keeps_rules)

lemmas session_rules = keeps_rules note_audit_law login_pair_law rotate_law rotate_browser_law
  verify_access_law verify_session_law require_auth_law require_admin_law revoke_all_law revoke_access_law
  unless_law consume_law

lemma browser_session_law: "keeps P (browser_session e hs)"
  unfolding browser_session_def by (intro session_rules)

lemma resolve_browser_session_law: "keeps P (resolve_browser_session e hs)"
  unfolding resolve_browser_session_def by (intro session_rules)

lemma note_refresh_law: "keeps P (note_refresh e ctx pair)"
  unfolding note_refresh_def by (intro session_rules)

lemma refresh_token_law: "keeps P (refresh_token e ctx tok)"
  unfolding refresh_token_def by (intro session_rules note_refresh_law)

lemma logout_law: "keeps P (logout e ctx tok)"
  unfolding logout_def verify_and_revoke_refresh_token_def by (intro session_rules)

lemma browser_logout_law: "keeps P (browser_logout e ctx hs redirect_uri)"
  unfolding browser_logout_def logout_by_refresh_def logout_by_access_def verify_and_revoke_refresh_token_def
  by (intro session_rules)

lemma browser_refresh_law: "keeps P (browser_refresh e ctx hs)"
  unfolding browser_refresh_def by (intro session_rules note_refresh_law)

lemma log_login_failed_law: "keeps P (log_login_failed x fresh now name u ctx)"
  unfolding log_login_failed_def by (rule audit_law)

lemma oidc_audit_law: "keeps P (oidc_audit e ctx u ev kvs)"
  unfolding oidc_audit_def by (rule note_audit_law)

lemma token_rejected_law: "keeps P (token_rejected e ctx c r err)"
  unfolding token_rejected_def by (intro session_rules oidc_audit_law)

text \<open>The logout endpoint works on sessions and the audit log only.\<close>

lemma answer_law: "keeps P m \<Longrightarrow> P d (snd (answer m d))"
  by (auto simp: answer_def keeps_def split: prod.split sum.split) (metis snd_conv)+

lemma logout_hint_law: "keeps P (logout_hint e q)"
  unfolding logout_hint_def by (intro session_rules)

lemma logout_app_law: "keeps P (logout_app e cid)"
  unfolding logout_app_def by (intro session_rules)

lemma logout_session_law: "keeps P (logout_session e hs b hint)"
  unfolding logout_session_def by (intro session_rules resolve_browser_session_law)

lemma logout_revoke_law: "keeps P (logout_revoke e ctx q confirmed b hint cid c)"
  unfolding logout_revoke_def by (intro session_rules oidc_audit_law)

lemma end_session_law: "P d (snd (end_session_impl e ctx hs q confirmed require_matching d))"
proof -
  let ?pre = "bind_op (logout_hint e q) (\<lambda>hint.
           bind_op (logout_app e (logout_client_id q hint)) (\<lambda>app.
           bind_op (logout_session e hs require_matching hint) (\<lambda>(session, renewed).
           ret_op (hint, app, session, renewed))))"
  have 1: "keeps P ?pre"
    by (intro keeps_bind keeps_prod keeps_ret logout_hint_law logout_app_law logout_session_law)
  have 2: "keeps P (case s of None \<Rightarrow> ret_op () | Some c \<Rightarrow>
      logout_revoke e ctx q confirmed require_matching hint cid c)" for s hint cid
    by (intro keeps_option keeps_ret logout_revoke_law)
  have "P d (snd (end_session_response e ctx hs q confirmed require_matching d))"
  proof (cases "?pre d")
    case (Pair r d1)
    have "P d (snd (?pre d))" using 1 by (simp only: keeps_def)
    then have p: "P d d1" by (simp only: Pair snd_conv)
    show ?thesis
    proof (cases r)
      case (Inl a)
      then show ?thesis using Pair p by (simp add: end_session_response_def)
    next
      case (Inr v)
      obtain hint app s renewed where v: "v = (hint, app, s, renewed)" by (cases v)
      let ?m = "case s of None \<Rightarrow> ret_op () | Some c \<Rightarrow>
        logout_revoke e ctx q confirmed require_matching hint (logout_client_id q hint) c"
      have "P d1 (snd (?m d1))" using 2 by (simp only: keeps_def)
      then have "P d (snd (?m d1))" by (rule trans [OF p])
      then show ?thesis using Pair Inr v
        by (cases "?m d1"; cases "fst (?m d1)") (auto simp: end_session_response_def)
    qed
  qed
  then show ?thesis
    by (auto simp: end_session_impl_def split: prod.split option.split)
qed

end

section \<open>What working on sessions leaves alone\<close>

text \<open>
  The first instance: sessions live in three tables and the generation column of the accounts, and
  are recorded in the audit log. Everything else is untouched, in particular who exists, who is
  active, and who holds which role.
\<close>

definition session_view :: "db \<Rightarrow> db" where
  "session_view d = d\<lparr>users := map (\<lambda>r. r\<lparr>u_token_version := 0\<rparr>) (users d), refresh_tokens := [],
     revocations := [], audit_log := []\<rparr>"

definition session_only :: "db \<Rightarrow> db \<Rightarrow> bool" where
  "session_only d d' \<longleftrightarrow> session_view d' = session_view d"

lemma keeps_insert_op:
  "(\<And>d. P d d) \<Longrightarrow> (\<And>d. \<not> dup d \<Longrightarrow> \<not> dang d \<Longrightarrow> P d (f d)) \<Longrightarrow> keeps P (insert_op dup dang f)"
  by (simp add: keeps_def insert_op_state)

interpretation so: state_preorder session_only
  by unfold_locales (auto simp: session_only_def)

lemma keeps_session_insert: "(\<And>d. session_view (f d) = session_view d) \<Longrightarrow> keeps session_only (insert_op dup dang f)"
  by (rule keeps_insert_op) (simp_all add: session_only_def)

lemma keeps_session_modify: "(\<And>d. session_view (f d) = session_view d) \<Longrightarrow> keeps session_only (modify_op f)"
  by (rule so.keeps_modify) (simp add: session_only_def)

lemma session_view_simps:
  "session_view (d\<lparr>refresh_tokens := rts\<rparr>) = session_view d"
  "session_view (d\<lparr>revocations := rvs\<rparr>) = session_view d"
  "session_view (d\<lparr>audit_log := al\<rparr>) = session_view d"
  "session_view (d\<lparr>users := sql_update p (\<lambda>r. r\<lparr>u_token_version := v r\<rparr>) (users d)\<rparr>) = session_view d"
  by (simp_all add: session_view_def sql_update_def comp_def if_distrib cong: if_cong)

lemma revoke_session_only: "keeps session_only (revoke_user_access_tokens now u)"
    "keeps session_only (revoke_all_user_tokens now u)"
proof -
  show *: "keeps session_only (revoke_user_access_tokens now u)"
    unfolding revoke_user_access_tokens_def
    by (intro so.keeps_rules keeps_session_insert keeps_session_modify) (simp_all add: session_view_simps)
  show "keeps session_only (revoke_all_user_tokens now u)"
    unfolding revoke_all_user_tokens_def
    by (intro so.keeps_rules keeps_session_modify *) (simp_all add: session_view_simps)
qed

lemma consume_session_only: "keeps session_only (consume_refresh_token x key now tok)"
  unfolding keeps_def
proof
  fix d
  have "session_only d (mark_revoked x now tok d)" by (simp add: session_only_def mark_revoked_def session_view_simps)
  moreover have "session_only d1 (snd (revoke_all_user_tokens now w d1))" for w d1
    using revoke_session_only(2) by (simp add: keeps_def)
  ultimately show "session_only d (snd (consume_refresh_token x key now tok d))"
    using so.trans so.refl
    by (cases "\<exists>c u. refresh_checks x key now tok c u d")
       (fastforce simp: consume_refresh_token_checked consume_refresh_token_unchecked Let_def split: option.split)+
qed

interpretation so: session_laws session_only
proof unfold_locales
  show "keeps session_only (audit_save x fresh now entry)" for x fresh now entry
    unfolding audit_save_def by (rule keeps_session_insert) (simp add: session_view_simps)
  show "keeps session_only (generate_token_pair_for_session x key now m u rls ex ver aut)" for x key now m u rls ex ver aut
    unfolding generate_token_pair_for_session_def generate_refresh_token_for_session_def Let_def
    by (intro so.keeps_rules keeps_session_insert) (simp add: session_view_simps)
  show "session_only d (clear_stale_retries now (d\<lparr>refresh_tokens := rows\<rparr>))" for d now rows
    by (simp add: session_only_def clear_stale_retries_def session_view_simps)
qed (intro consume_session_only revoke_session_only)+

lemma session_onlyD:
  assumes "session_only d d'"
  shows "authenticators d' = authenticators d" "roles d' = roles d" "user_roles d' = user_roles d"
    "applications d' = applications d" "oidc_codes d' = oidc_codes d" "handoffs d' = handoffs d"
    "totps d' = totps d" "recovery_codes d' = recovery_codes d" "settings d' = settings d"
    "invitations d' = invitations d" "app_passwords d' = app_passwords d" "passkeys d' = passkeys d"
    "passkey_challenges d' = passkey_challenges d" "keys d' = keys d"
  using assms by (cases d; cases d'; simp add: session_only_def session_view_def)+

lemma session_only_users:
  assumes "session_only d d'"
  shows "map user.truncate (users d') = map user.truncate (users d)"
    "user_get u d' = user_get u d" "user_exists u d' = user_exists u d" "user_get_roles u d' = user_get_roles u d"
proof -
  have "map (\<lambda>r. r\<lparr>u_token_version := 0\<rparr>) (users d') = map (\<lambda>r. r\<lparr>u_token_version := 0\<rparr>) (users d)"
    using assms by (cases d; cases d'; simp add: session_only_def session_view_def)
  then have "map user.truncate (map (\<lambda>r. r\<lparr>u_token_version := 0\<rparr>) (users d'))
      = map user.truncate (map (\<lambda>r. r\<lparr>u_token_version := 0\<rparr>) (users d))" by simp
  moreover have "user.truncate (r\<lparr>u_token_version := 0\<rparr>) = user.truncate r" for r :: user_row
    by (simp add: user.truncate_def)
  ultimately show t: "map user.truncate (users d') = map user.truncate (users d)"
    by (simp add: comp_def)
  have find: "map_option user.truncate (sql_find (\<lambda>r. p (user.truncate r)) xs) = sql_find p (map user.truncate xs)"
    for p and xs :: "user_row list"
    by (induction xs) simp_all
  show "user_get u d' = user_get u d"
    using find [of "\<lambda>r. u_id r = u" "users d"] find [of "\<lambda>r. u_id r = u" "users d'"] t
    by (simp add: user_get_def user.truncate_def)
  have "u_id ` set (map user.truncate (users d')) = u_id ` set (map user.truncate (users d))" using t by simp
  then show "user_exists u d' = user_exists u d"
    by (auto simp: user_exists_def image_image user.truncate_def image_iff set_eq_iff) metis+
  show "user_get_roles u d' = user_get_roles u d"
    using session_onlyD [OF assms] by (simp add: user_get_roles_def)
qed

end
