(* ===== verification/Passkeys.thy ===== *)
theory Passkeys
  imports Session_Handlers
begin

text \<open>
  \<open>handlers/passkeys.rs\<close>: WebAuthn credentials as a complete way to sign in. The cryptography is
  the crate \<open>webauthn-rs\<close>; it is a record of functions over its own opaque types, which the
  handlers take as an argument. Verification state stays in the database between the two requests
  of a ceremony; the browser only holds the identifier of the challenge.
\<close>

section \<open>The WebAuthn crate\<close>

text \<open>
  Creation options as they serialise: the optional selection criteria, an object, and the other
  members of \<open>publicKey\<close>. Keys of a JSON object are kept sorted.
\<close>

record creation_options =
  co_selection :: "(string \<times> json) list option"
  co_members :: "(string \<times> json) list"

text \<open>
  The type variables are the crate's \<open>Webauthn\<close>, \<open>PasskeyRegistration\<close>,
  \<open>DiscoverableAuthentication\<close>, \<open>Passkey\<close>, \<open>RegisterPublicKeyCredential\<close>, \<open>PublicKeyCredential\<close>
  and \<open>AuthenticationResult\<close>. Functions that draw a challenge take the random value as an
  argument. An error is the text it displays, or nothing where the server drops it.
\<close>

record ('w, 'reg, 'auth, 'pk, 'rc, 'cr, 'res) webauthn_crate =
  wn_new :: "string \<Rightarrow> url \<Rightarrow> bool"
  wn_build :: "string \<Rightarrow> url \<Rightarrow> string \<Rightarrow> int \<Rightarrow> string + 'w"
  wn_start_registration ::
    "'w \<Rightarrow> string \<Rightarrow> uuid \<Rightarrow> string \<Rightarrow> string \<Rightarrow> string list \<Rightarrow> string + ((string + creation_options) \<times> 'reg)"
  wn_finish_registration :: "'w \<Rightarrow> 'rc \<Rightarrow> 'reg \<Rightarrow> 'pk option"
  wn_cred_id :: "'pk \<Rightarrow> string"
  wn_start_authentication :: "'w \<Rightarrow> string \<Rightarrow> string + ((string + json) \<times> 'auth)"
  wn_identify :: "'w \<Rightarrow> 'cr \<Rightarrow> (uuid \<times> string) option"
  wn_finish_authentication :: "'w \<Rightarrow> 'cr \<Rightarrow> 'auth \<Rightarrow> 'pk list \<Rightarrow> 'res option"
  wn_user_verified :: "'res \<Rightarrow> bool"
  wn_update_credential :: "'res \<Rightarrow> 'pk \<Rightarrow> 'pk"
  wn_encode_registration :: "'reg \<Rightarrow> string + string"
  wn_decode_registration :: "string \<Rightarrow> string + 'reg"
  wn_encode_authentication :: "'auth \<Rightarrow> string + string"
  wn_decode_authentication :: "string \<Rightarrow> string + 'auth"
  wn_encode_passkey :: "'pk \<Rightarrow> string + string"
  wn_decode_passkey :: "string \<Rightarrow> string + 'pk"
  wn_register_response :: "json \<Rightarrow> 'rc option"
  wn_login_response :: "json \<Rightarrow> 'cr option"

text \<open>A failure of the crate that the client sees as an internal error only.\<close>

definition internal :: "string + 'a \<Rightarrow> 'a result" where
  "internal r = (case r of Inl msg \<Rightarrow> Inl (InternalError msg) | Inr v \<Rightarrow> Inr v)"

section \<open>Relying party and cookies\<close>

definition CHALLENGE_TTL :: int where "CHALLENGE_TTL = 300"
definition MAX_PASSKEYS :: nat where "MAX_PASSKEYS = 20"

definition invalid_origin :: app_error where
  "invalid_origin = InputError [''Passkeys require Authere'' @ [CHR 0x27] @
     ''s public HTTPS address (or http://localhost for development).'']"

definition webauthn ::
  "('w, 'reg, 'auth, 'pk, 'rc, 'cr, 'res) webauthn_crate \<Rightarrow> externals \<Rightarrow> string \<Rightarrow> 'w result" where
  "webauthn wn x origin =
     (case x_url_parse x origin of
        None \<Rightarrow> Inl invalid_origin
      | Some url \<Rightarrow>
          (case ur_domain url of
             None \<Rightarrow> Inl invalid_origin
           | Some domain \<Rightarrow>
               (if \<not> (ur_scheme url = ''https'' \<or> ur_scheme url = ''http'' \<and> domain = ''localhost'')
                   \<or> ur_path url \<noteq> ''/'' \<or> ur_query url \<noteq> None \<or> ur_fragment url \<noteq> None
                   \<or> ur_username url \<noteq> [] \<or> ur_password url \<noteq> None
                then Inl invalid_origin
                else if \<not> wn_new wn domain url then Inl invalid_origin
                else internal (wn_build wn domain url ''Authere'' CHALLENGE_TTL))))"

definition cookie_name :: "string \<Rightarrow> string" where
  "cookie_name kind = ''__Host-authere_passkey_'' @ kind"

definition cookie_part :: "string \<Rightarrow> string \<Rightarrow> string option" where
  "cookie_part name part = do {
     (key, value) \<leftarrow> split_once_char CHR ''='' (trim part);
     (if key = name \<and> length value = 64 \<and> list_all is_ascii_hexdigit value then Some value else None) }"

definition cookie_id :: "headers \<Rightarrow> string \<Rightarrow> string option" where
  "cookie_id hs kind = do {
     v \<leftarrow> h_get ''cookie'' hs;
     s \<leftarrow> to_str v;
     (case filter_map (cookie_part (cookie_name kind)) (split_char CHR '';'' s) of [] \<Rightarrow> None | c # _ \<Rightarrow> Some c) }"

definition challenge_cookie :: "string \<Rightarrow> string \<Rightarrow> int \<Rightarrow> string" where
  "challenge_cookie kind i max_age =
     cookie_name kind @ ''='' @ i @ ''; HttpOnly; Secure; SameSite=Strict; Path=/; Max-Age='' @ show_int max_age"

section \<open>Challenges\<close>

record challenge =
  ch_user :: "uuid option"
  ch_token_version :: "int option"
  ch_name :: "string option"
  ch_state :: string

definition challenge_of_row :: "challenge_row \<Rightarrow> challenge" where
  "challenge_of_row r = \<lparr>ch_user = pc_user r, ch_token_version = pc_token_version r, ch_name = pc_name r,
     ch_state = pc_state r\<rparr>"

text \<open>Expired challenges, and the one this browser started before, make room for the new one.\<close>

definition challenge_superseded :: "int \<Rightarrow> headers \<Rightarrow> string \<Rightarrow> challenge_row \<Rightarrow> bool" where
  "challenge_superseded now hs kind r \<longleftrightarrow>
     pc_expires r \<le> now \<or> cookie_id hs kind = Some (pc_id r) \<and> pc_kind r = kind"

definition challenge_row_of :: "string \<Rightarrow> string \<Rightarrow> challenge \<Rightarrow> int \<Rightarrow> challenge_row" where
  "challenge_row_of i kind c now = \<lparr>pc_id = i, pc_kind = kind, pc_user = ch_user c,
     pc_token_version = ch_token_version c, pc_name = ch_name c, pc_state = ch_state c,
     pc_expires = now + CHALLENGE_TTL\<rparr>"

definition insert_challenge :: "challenge_row \<Rightarrow> unit db_op" where
  "insert_challenge r = insert_op (\<lambda>d. \<exists>q\<in>set (passkey_challenges d). pc_id q = pc_id r)
     (\<lambda>d. case pc_user r of None \<Rightarrow> False | Some u \<Rightarrow> \<not> user_exists u d)
     (\<lambda>d. d\<lparr>passkey_challenges := passkey_challenges d @ [r]\<rparr>)"

definition drop_challenges :: "(challenge_row \<Rightarrow> bool) \<Rightarrow> (db, 'e, unit) op" where
  "drop_challenges p = modify_op (\<lambda>d. d\<lparr>passkey_challenges := sql_delete p (passkey_challenges d)\<rparr>)"

definition save_challenge :: "env \<Rightarrow> headers \<Rightarrow> string \<Rightarrow> challenge \<Rightarrow> json \<Rightarrow> response db_op" where
  "save_challenge e hs kind c options =
     bind_op (drop_challenges (challenge_superseded (ev_now e) hs kind)) (\<lambda>_.
     let i = x_hex_encode (ev_ext e) (ev_random e 0) in
     bind_op (insert_challenge (challenge_row_of i kind c (ev_now e))) (\<lambda>_.
     ret_op (plain 200 [(''set-cookie'', challenge_cookie kind i CHALLENGE_TTL)] (Json options))))"

definition challenge_open :: "int \<Rightarrow> string \<Rightarrow> string \<Rightarrow> challenge_row \<Rightarrow> bool" where
  "challenge_open now i kind r \<longleftrightarrow> pc_id r = i \<and> pc_kind r = kind \<and> now < pc_expires r"

text \<open>\<open>DELETE ... RETURNING\<close>, outside of any transaction.\<close>

definition take_challenge :: "env \<Rightarrow> headers \<Rightarrow> string \<Rightarrow> challenge db_op" where
  "take_challenge e hs kind =
     bind_op (ok_or_op AuthenticationRequired (cookie_id hs kind)) (\<lambda>i.
     bind_op (gets_op (\<lambda>d. sql_find (challenge_open (ev_now e) i kind) (passkey_challenges d))) (\<lambda>found.
     bind_op (drop_challenges (challenge_open (ev_now e) i kind)) (\<lambda>_.
     ok_or_op AuthenticationRequired (map_option challenge_of_row found))))"

definition rate_limit :: "env \<Rightarrow> audit_context \<Rightarrow> (login_error, unit) state_op" where
  "rate_limit e ctx = bind_op (map_err_op LoginRateLimit (check_login_limit e (ax_ip ctx))) (\<lambda>_. ret_op ())"

section \<open>Managing passkeys\<close>

record passkey_info =
  pi_id :: uuid
  pi_name :: string
  pi_created_at :: int
  pi_last_used_at :: "int option"

definition passkey_info_of_row :: "passkey_row \<Rightarrow> passkey_info" where
  "passkey_info_of_row r = \<lparr>pi_id = pk_id r, pi_name = pk_name r, pi_created_at = pk_created r,
     pi_last_used_at = pk_last_used r\<rparr>"

definition passkey_info_json :: "externals \<Rightarrow> passkey_info \<Rightarrow> json" where
  "passkey_info_json x i = JObj [(''id'', JStr (x_uuid_str x (pi_id i))), (''name'', JStr (pi_name i)),
     (''created_at'', JInt (pi_created_at i)), (''last_used_at'', jopt JInt (pi_last_used_at i))]"

definition list_passkeys :: "env \<Rightarrow> headers \<Rightarrow> passkey_info list db_op" where
  "list_passkeys e hs =
     bind_op (require_auth e hs) (\<lambda>auth.
     gets_op (\<lambda>d. map passkey_info_of_row
       (sort_key (\<lambda>r. - pk_created r) (filter (\<lambda>r. pk_user r = au_user_id auth) (passkeys d)))))"

definition passkeys_of :: "uuid \<Rightarrow> db \<Rightarrow> passkey_row list" where
  "passkeys_of u d = filter (\<lambda>r. pk_user r = u) (passkeys d)"

text \<open>The generation of an active account.\<close>

definition active_version :: "uuid \<Rightarrow> db \<Rightarrow> int option" where
  "active_version u d = map_option u_token_version (sql_find (\<lambda>r. u_id r = u \<and> u_active r) (users d))"

text \<open>Inserting into a JSON object, which keeps its keys in byte order.\<close>

fun str_less :: "string \<Rightarrow> string \<Rightarrow> bool" where
  "str_less _ [] = False"
| "str_less [] (_ # _) = True"
| "str_less (a # s) (b # t) = (byte a < byte b \<or> byte a = byte b \<and> str_less s t)"

fun json_put :: "string \<Rightarrow> json \<Rightarrow> (string \<times> json) list \<Rightarrow> (string \<times> json) list" where
  "json_put k v [] = [(k, v)]"
| "json_put k v ((k', v') # kvs) =
     (if k = k' then (k, v) # kvs
      else if str_less k k' then (k, v) # (k', v') # kvs
      else (k', v') # json_put k v kvs)"

definition discoverable_options :: "creation_options \<Rightarrow> json" where
  "discoverable_options co =
     JObj (json_put ''authenticatorSelection''
       (JObj (json_put ''requireResidentKey'' (JBool True)
         (json_put ''residentKey'' (JStr ''required'') (case co_selection co of None \<Rightarrow> [] | Some kvs \<Rightarrow> kvs))))
       (co_members co))"

definition valid_passkey_name :: "string \<Rightarrow> bool" where
  "valid_passkey_name name \<longleftrightarrow>
     \<not> (name = [] \<or> 100 < length (chars name) \<or> list_ex is_control (chars name))"

definition passkey_name_error :: app_error where
  "passkey_name_error = InputError [''Give your passkey a name of 1'' @ [CHR 0xE2, CHR 0x80, CHR 0x93] @ ''100 characters.'']"

definition register_challenge ::
  "('w, 'reg, 'auth, 'pk, 'rc, 'cr, 'res) webauthn_crate \<Rightarrow> env \<Rightarrow> headers \<Rightarrow> uuid \<Rightarrow> string \<Rightarrow> response db_op" where
  "register_challenge wn e hs user_id name =
     bind_op (lift_op (webauthn wn (ev_ext e) (ev_origin e))) (\<lambda>wa.
     bind_op (gets_op (user_get user_id)) (\<lambda>found.
     bind_op (ok_or_op AuthenticationRequired found) (\<lambda>u.
     bind_op (gets_op (\<lambda>d. map pk_credential_id (passkeys_of (u_id u) d))) (\<lambda>ids.
     bind_op (require_op (length ids < MAX_PASSKEYS)
                (InputError [''Remove a passkey before adding another (limit: 20).''])) (\<lambda>_.
     bind_op (gets_op (active_version (u_id u))) (\<lambda>v.
     bind_op (ok_or_op (app_error_of_sqlx RowNotFound) v) (\<lambda>version.
     bind_op (lift_op (internal (wn_start_registration wn wa (ev_random e 1) (u_id u) (u_username u) (u_name u) ids)))
       (\<lambda>(opts, registration).
     bind_op (lift_op (internal opts)) (\<lambda>options.
     bind_op (lift_op (internal (wn_encode_registration wn registration))) (\<lambda>st.
     save_challenge e hs ''register''
       \<lparr>ch_user = Some (u_id u), ch_token_version = Some version, ch_name = Some name, ch_state = st\<rparr>
       (discoverable_options options)))))))))))"

definition register_start ::
  "('w, 'reg, 'auth, 'pk, 'rc, 'cr, 'res) webauthn_crate \<Rightarrow> env \<Rightarrow> audit_context \<Rightarrow> headers \<Rightarrow> string
     \<Rightarrow> (login_error, response) state_op" where
  "register_start wn e ctx hs input_name =
     bind_op (map_err_op LoginApp (on_db (require_auth e hs))) (\<lambda>auth.
     bind_op (rate_limit e ctx) (\<lambda>_.
     let name = trim input_name in
     bind_op (require_op (valid_passkey_name name) (LoginApp passkey_name_error)) (\<lambda>_.
     map_err_op LoginApp (on_db (register_challenge wn e hs (au_user_id auth) name)))))"

definition insert_passkey :: "passkey_row \<Rightarrow> unit db_op" where
  "insert_passkey r = insert_op
     (\<lambda>d. \<exists>q\<in>set (passkeys d). pk_id q = pk_id r \<or> pk_credential_id q = pk_credential_id r)
     (\<lambda>d. \<not> user_exists (pk_user r) d)
     (\<lambda>d. d\<lparr>passkeys := passkeys d @ [r]\<rparr>)"

text \<open>
  The transaction that stores a verified credential, given its identifier and its serialised form.
  \<open>BEGIN IMMEDIATE\<close> takes the write lock, so the checks and the insertion see one state.
\<close>

definition store_passkey ::
  "env \<Rightarrow> audit_context \<Rightarrow> uuid \<Rightarrow> challenge \<Rightarrow> string \<Rightarrow> string + string \<Rightarrow> passkey_info db_op" where
  "store_passkey e ctx u c cred_id encoded = tx_op (
     bind_op (gets_op (active_version u)) (\<lambda>version.
     bind_op (require_op (\<not> (version = None \<or> version \<noteq> ch_token_version c)) AuthenticationRequired) (\<lambda>_.
     bind_op (gets_op (\<lambda>d. length (passkeys_of u d))) (\<lambda>count.
     bind_op (require_op (count < MAX_PASSKEYS) (InputError [''Passkey limit reached.''])) (\<lambda>_.
     let info = \<lparr>pi_id = ev_uuid e 0, pi_name = (case ch_name c of None \<Rightarrow> [] | Some n \<Rightarrow> n),
                 pi_created_at = ev_now e, pi_last_used_at = None\<rparr> in
     bind_op (lift_op (internal encoded)) (\<lambda>credential.
     bind_op (insert_passkey \<lparr>pk_id = pi_id info, pk_user = u, pk_credential_id = cred_id,
                pk_name = pi_name info, pk_credential = credential, pk_created = pi_created_at info,
                pk_last_used = None\<rparr>) (\<lambda>_.
     bind_op (audit_save (ev_ext e) (ev_uuid e 1) (ev_now e) (audit_details
                (JObj [(''name'', JStr (pi_name info)), (''passkey_id'', JStr (x_uuid_str (ev_ext e) (pi_id info)))])
                (audit_ctx ctx (audit_user u (audit PasskeyCreated))))) (\<lambda>_.
     ret_op info))))))))"

definition register_passkey ::
  "('w, 'reg, 'auth, 'pk, 'rc, 'cr, 'res) webauthn_crate \<Rightarrow> env \<Rightarrow> audit_context \<Rightarrow> headers \<Rightarrow> uuid \<Rightarrow> json
     \<Rightarrow> response db_op" where
  "register_passkey wn e ctx hs user_id input =
     bind_op (take_challenge e hs ''register'') (\<lambda>c.
     bind_op (require_op (ch_user c = Some user_id) AuthenticationRequired) (\<lambda>_.
     bind_op (lift_op (internal (wn_decode_registration wn (ch_state c)))) (\<lambda>registration.
     bind_op (ok_or_op (InputError [''Invalid passkey response.'']) (wn_register_response wn input)) (\<lambda>credential.
     bind_op (lift_op (webauthn wn (ev_ext e) (ev_origin e))) (\<lambda>wa.
     bind_op (ok_or_op AuthenticationRequired (wn_finish_registration wn wa credential registration)) (\<lambda>pk.
     bind_op (store_passkey e ctx user_id c (wn_cred_id wn pk) (wn_encode_passkey wn pk)) (\<lambda>info.
     ret_op (plain 201 [(''set-cookie'', challenge_cookie ''register'' [] 0)]
               (Json (passkey_info_json (ev_ext e) info))))))))))"

definition register_finish ::
  "('w, 'reg, 'auth, 'pk, 'rc, 'cr, 'res) webauthn_crate \<Rightarrow> env \<Rightarrow> audit_context \<Rightarrow> headers \<Rightarrow> json
     \<Rightarrow> (login_error, response) state_op" where
  "register_finish wn e ctx hs input =
     bind_op (map_err_op LoginApp (on_db (require_auth e hs))) (\<lambda>auth.
     bind_op (rate_limit e ctx) (\<lambda>_.
     map_err_op LoginApp (on_db (register_passkey wn e ctx hs (au_user_id auth) input))))"

section \<open>Signing in\<close>

definition login_challenge ::
  "('w, 'reg, 'auth, 'pk, 'rc, 'cr, 'res) webauthn_crate \<Rightarrow> env \<Rightarrow> headers \<Rightarrow> response db_op" where
  "login_challenge wn e hs =
     bind_op (lift_op (webauthn wn (ev_ext e) (ev_origin e))) (\<lambda>wa.
     bind_op (lift_op (internal (wn_start_authentication wn wa (ev_random e 1)))) (\<lambda>(opts, authentication).
     bind_op (lift_op (internal opts)) (\<lambda>options.
     bind_op (lift_op (internal (wn_encode_authentication wn authentication))) (\<lambda>st.
     save_challenge e hs ''login'' \<lparr>ch_user = None, ch_token_version = None, ch_name = None, ch_state = st\<rparr> options))))"

definition login_start ::
  "('w, 'reg, 'auth, 'pk, 'rc, 'cr, 'res) webauthn_crate \<Rightarrow> env \<Rightarrow> audit_context \<Rightarrow> headers
     \<Rightarrow> (login_error, response) state_op" where
  "login_start wn e ctx hs =
     bind_op (rate_limit e ctx) (\<lambda>_. map_err_op LoginApp (on_db (login_challenge wn e hs)))"

text \<open>The stored credential of an active user.\<close>

definition stored_passkey :: "uuid \<Rightarrow> string \<Rightarrow> db \<Rightarrow> passkey_row option" where
  "stored_passkey u credential_id d =
     sql_find (\<lambda>p. pk_user p = u \<and> pk_credential_id p = credential_id
       \<and> (\<exists>r\<in>set (users d). u_id r = pk_user p \<and> u_active r)) (passkeys d)"

definition touch_passkey :: "uuid \<Rightarrow> string \<Rightarrow> int \<Rightarrow> (db, 'e, unit) op" where
  "touch_passkey i credential now = modify_op (\<lambda>d. d\<lparr>passkeys :=
     sql_update (\<lambda>r. pk_id r = i) (\<lambda>r. r\<lparr>pk_credential := credential, pk_last_used := Some now\<rparr>) (passkeys d)\<rparr>)"

text \<open>The crate accepts the assertion, and the authenticator has verified its user.\<close>

definition verified_result ::
  "('w, 'reg, 'auth, 'pk, 'rc, 'cr, 'res) webauthn_crate \<Rightarrow> 'w \<Rightarrow> 'cr \<Rightarrow> 'auth \<Rightarrow> 'pk \<Rightarrow> 'res option" where
  "verified_result wn wa credential authentication pk =
     (case wn_finish_authentication wn wa credential authentication [pk] of
        None \<Rightarrow> None
      | Some result \<Rightarrow> (if wn_user_verified wn result then Some result else None))"

definition refuse_passkey :: "env \<Rightarrow> audit_context \<Rightarrow> uuid \<Rightarrow> token_pair option db_op" where
  "refuse_passkey e ctx user_id =
     bind_op (audit_save (ev_ext e) (ev_uuid e 0) (ev_now e) (audit_details
        (JObj [(''method'', JStr ''passkey'')]) (audit_ctx ctx (audit_user user_id (audit LoginFailed))))) (\<lambda>_.
     ret_op None)"

text \<open>Store the updated credential and open the session; \<open>updated\<close> is its serialised form.\<close>

definition accept_passkey :: "env \<Rightarrow> audit_context \<Rightarrow> uuid \<Rightarrow> uuid \<Rightarrow> string + string \<Rightarrow> token_pair option db_op" where
  "accept_passkey e ctx user_id i updated =
     bind_op (lift_op (internal updated)) (\<lambda>credential.
     bind_op (touch_passkey i credential (ev_now e)) (\<lambda>_.
     bind_op (gets_op (user_get user_id)) (\<lambda>usr.
     bind_op (ok_or_op AuthenticationRequired usr) (\<lambda>u.
     bind_op (gets_op (user_get_roles (u_id u))) (\<lambda>rls.
     bind_op (generate_token_pair (ev_ext e) (ev_key e) (ev_now e) (ev_mint e) user_id rls) (\<lambda>pair.
     bind_op (audit_save (ev_ext e) (ev_uuid e 0) (ev_now e) (audit_details
        (JObj [(''method'', JStr ''passkey''), (''passkey_id'', JStr (x_uuid_str (ev_ext e) i))])
        (audit_ctx ctx (audit_user user_id (audit LoginSuccess))))) (\<lambda>_.
     ret_op (Some pair))))))))"

text \<open>
  The transaction of a login. A refused assertion is recorded and committed, which is a result of
  the transaction (\<open>None\<close>); every other failure rolls it back.
\<close>

definition verify_passkey ::
  "('w, 'reg, 'auth, 'pk, 'rc, 'cr, 'res) webauthn_crate \<Rightarrow> env \<Rightarrow> audit_context \<Rightarrow> 'w \<Rightarrow> 'auth \<Rightarrow> 'cr
     \<Rightarrow> uuid \<Rightarrow> string \<Rightarrow> token_pair option db_op" where
  "verify_passkey wn e ctx wa authentication credential user_id credential_id = tx_op (
     bind_op (gets_op (stored_passkey user_id credential_id)) (\<lambda>found.
     bind_op (ok_or_op AuthenticationRequired found) (\<lambda>row.
     bind_op (lift_op (internal (wn_decode_passkey wn (pk_credential row)))) (\<lambda>pk.
     case verified_result wn wa credential authentication pk of
       None \<Rightarrow> refuse_passkey e ctx user_id
     | Some result \<Rightarrow>
         accept_passkey e ctx user_id (pk_id row) (wn_encode_passkey wn (wn_update_credential wn result pk))))))"

definition passkey_session ::
  "('w, 'reg, 'auth, 'pk, 'rc, 'cr, 'res) webauthn_crate \<Rightarrow> env \<Rightarrow> audit_context \<Rightarrow> headers \<Rightarrow> json
     \<Rightarrow> token_pair db_op" where
  "passkey_session wn e ctx hs input =
     bind_op (take_challenge e hs ''login'') (\<lambda>c.
     bind_op (lift_op (internal (wn_decode_authentication wn (ch_state c)))) (\<lambda>authentication.
     bind_op (ok_or_op AuthenticationRequired (wn_login_response wn input)) (\<lambda>credential.
     bind_op (lift_op (webauthn wn (ev_ext e) (ev_origin e))) (\<lambda>wa.
     bind_op (ok_or_op AuthenticationRequired (wn_identify wn wa credential)) (\<lambda>(user_id, credential_id).
     bind_op (verify_passkey wn e ctx wa authentication credential user_id credential_id) (\<lambda>pair.
     ok_or_op AuthenticationRequired pair))))))"

definition login_finish ::
  "('w, 'reg, 'auth, 'pk, 'rc, 'cr, 'res) webauthn_crate \<Rightarrow> env \<Rightarrow> audit_context \<Rightarrow> headers \<Rightarrow> string option \<Rightarrow> json
     \<Rightarrow> (login_error, response) state_op" where
  "login_finish wn e ctx hs redirect_uri input =
     bind_op (rate_limit e ctx) (\<lambda>_.
     bind_op (map_err_op LoginApp (on_db (passkey_session wn e ctx hs input))) (\<lambda>pair.
     bind_op (map_err_op LoginApp (lift_op (browser_login_response pair redirect_uri))) (\<lambda>r.
     ret_op (r\<lparr>rs_headers := h_append ''set-cookie'' (challenge_cookie ''login'' [] 0) (rs_headers r)\<rparr>))))"

section \<open>Removing a passkey\<close>

definition drop_passkey :: "uuid \<Rightarrow> uuid \<Rightarrow> nat db_op" where
  "drop_passkey i u = (\<lambda>d. (Inr (sql_count (\<lambda>r. pk_id r = i \<and> pk_user r = u) (passkeys d)),
     d\<lparr>passkeys := sql_delete (\<lambda>r. pk_id r = i \<and> pk_user r = u) (passkeys d)\<rparr>))"

definition delete_passkey :: "env \<Rightarrow> audit_context \<Rightarrow> headers \<Rightarrow> uuid \<Rightarrow> nat db_op" where
  "delete_passkey e ctx hs i =
     bind_op (require_auth e hs) (\<lambda>auth.
     tx_op (
       bind_op (drop_passkey i (au_user_id auth)) (\<lambda>deleted.
       bind_op (require_op (deleted \<noteq> 0) NotFound) (\<lambda>_.
       bind_op (revoke_all_user_tokens (ev_now e) (au_user_id auth)) (\<lambda>_.
       bind_op (drop_challenges (\<lambda>r. pc_user r = Some (au_user_id auth))) (\<lambda>_.
       bind_op (audit_save (ev_ext e) (ev_uuid e 0) (ev_now e) (audit_details
          (JObj [(''passkey_id'', JStr (x_uuid_str (ev_ext e) i))])
          (audit_ctx ctx (audit_user (au_user_id auth) (audit PasskeyDeleted))))) (\<lambda>_.
       ret_op 204)))))))"

end
