(* ===== verification/Account_Handlers.thy ===== *)
theory Account_Handlers
  imports Http Totp_Factor Invitations Settings Applications
begin

text \<open>
  The handlers by which administrators and users manage accounts: \<open>handlers/user.rs\<close>,
  \<open>handlers/role.rs\<close>, \<open>handlers/totp.rs\<close>, \<open>handlers/app_passwords.rs\<close> and
  \<open>handlers/application.rs\<close>. Every handler first runs its extractor (\<open>AuthUser\<close> or
  \<open>AdminUser\<close>) on the request's headers.
\<close>

section \<open>Users\<close>

text \<open>An absent email leaves it unchanged, an explicit null clears it.\<close>

record update_user_input =
  uu_name :: "string option"
  uu_email :: "string option option"
  uu_username :: "string option"

definition update_user_changes :: "update_user_input \<Rightarrow> json" where
  "update_user_changes i = JObj
     ((case uu_email i of None \<Rightarrow> [] | Some m \<Rightarrow> [(''email'', jopt JStr m)])
      @ (case uu_name i of None \<Rightarrow> [] | Some n \<Rightarrow> [(''name'', JStr n)])
      @ (case uu_username i of None \<Rightarrow> [] | Some u \<Rightarrow> [(''username'', JStr u)]))"

text \<open>The account, its password and its first role, in one transaction.\<close>

definition create_account :: "user \<Rightarrow> authenticator \<Rightarrow> unit db_op" where
  "create_account u a = tx_op (
     bind_op (user_save u) (\<lambda>_.
     bind_op (authenticator_save a) (\<lambda>_.
     bind_op (gets_op (role_get_by_name ROLE_USER)) (\<lambda>r.
     case r of None \<Rightarrow> ret_op () | Some ro \<Rightarrow> userrole_assign (u_id u) (ro_id ro)))))"

text \<open>\<open>dbg\<close> is the derived debug text of a user, which only an internal message contains.\<close>

definition create_user ::
  "(user \<Rightarrow> string) \<Rightarrow> env \<Rightarrow> audit_context \<Rightarrow> headers \<Rightarrow> create_user_input \<Rightarrow> user db_op" where
  "create_user dbg e ctx hs i =
     bind_op (require_admin e hs) (\<lambda>admin.
     bind_op (lift_op (validate_create_input i)) (\<lambda>_.
     let u = new_user (ev_uuid e 0) (ev_now e) (cu_username i) (cu_name i) (cu_email i) in
     case new_password (ev_ext e) (ev_random e 0) (ev_uuid e 1) (cu_password i) (u_id u) of
       Inl msg \<Rightarrow> raise_op (InternalError (''Failed to create Authenticator for user '' @ dbg u @ '' ('' @ msg @ '')''))
     | Inr a \<Rightarrow>
         bind_op (create_account u a) (\<lambda>_.
         bind_op (note_audit e 2 (audit_details (JObj [(''username'', JStr (u_username u))])
             (audit_ctx ctx (audit_actor (Some (au_user_id admin)) (audit_user (u_id u) (audit AdminCreateUser)))))) (\<lambda>_.
         ret_op u))))"

definition get_users :: "env \<Rightarrow> headers \<Rightarrow> user list db_op" where
  "get_users e hs = bind_op (require_admin e hs) (\<lambda>_. gets_op user_list)"

definition get_user :: "env \<Rightarrow> headers \<Rightarrow> uuid \<Rightarrow> user db_op" where
  "get_user e hs i =
     bind_op (require_admin e hs) (\<lambda>_.
     bind_op (gets_op (user_get i)) (\<lambda>found. ok_or_op NotFound found))"

text \<open>Both profile updates: fetch and update in one transaction.\<close>

definition update_profile :: "env \<Rightarrow> uuid \<Rightarrow> update_user_input \<Rightarrow> user db_op" where
  "update_profile e i inp = tx_op (
     bind_op (gets_op (user_get i)) (\<lambda>found.
     bind_op (ok_or_op NotFound found) (\<lambda>u.
     user_update (ev_now e) u (uu_name inp) (uu_email inp) (uu_username inp))))"

definition update_user :: "env \<Rightarrow> audit_context \<Rightarrow> headers \<Rightarrow> uuid \<Rightarrow> update_user_input \<Rightarrow> user db_op" where
  "update_user e ctx hs i inp =
     bind_op (require_admin e hs) (\<lambda>admin.
     bind_op (update_profile e i inp) (\<lambda>u.
     bind_op (note_audit e 0 (audit_details (update_user_changes inp)
         (audit_ctx ctx (audit_actor (Some (au_user_id admin)) (audit_user i (audit AdminUpdateUser)))))) (\<lambda>_.
     ret_op u)))"

record me_response =
  me_user_id :: string
  me_username :: string
  me_name :: string
  me_email :: "string option"
  me_roles :: "string list"

definition get_me :: "env \<Rightarrow> headers \<Rightarrow> me_response db_op" where
  "get_me e hs =
     bind_op (require_auth e hs) (\<lambda>auth.
     bind_op (gets_op (user_get (au_user_id auth))) (\<lambda>found.
     bind_op (ok_or_op NotFound found) (\<lambda>u.
     ret_op \<lparr>me_user_id = x_uuid_str (ev_ext e) (au_user_id auth), me_username = u_username u,
             me_name = u_name u, me_email = u_email u, me_roles = au_roles auth\<rparr>)))"

definition update_me :: "env \<Rightarrow> audit_context \<Rightarrow> headers \<Rightarrow> update_user_input \<Rightarrow> user db_op" where
  "update_me e ctx hs inp =
     bind_op (require_auth e hs) (\<lambda>auth.
     bind_op (update_profile e (au_user_id auth) inp) (\<lambda>u.
     bind_op (note_audit e 0 (audit_details (update_user_changes inp)
         (audit_ctx ctx (audit_user (au_user_id auth) (audit UserUpdated))))) (\<lambda>_.
     ret_op u)))"

definition change_my_password ::
  "env \<Rightarrow> audit_context \<Rightarrow> headers \<Rightarrow> string \<Rightarrow> string \<Rightarrow> nat db_op" where
  "change_my_password e ctx hs current new =
     bind_op (require_auth e hs) (\<lambda>auth.
     bind_op (input_err (validate_password new)) (\<lambda>_.
     bind_op (tx_op (
       bind_op (gets_op (user_get (au_user_id auth))) (\<lambda>found.
       bind_op (ok_or_op NotFound found) (\<lambda>u.
       bind_op (try_password_login (ev_ext e) u current) (\<lambda>_.
       bind_op (update_password (ev_ext e) (ev_random e 0) (ev_uuid e 1) (au_user_id auth) new) (\<lambda>_.
       revoke_all_user_tokens (ev_now e) (au_user_id auth))))))) (\<lambda>_.
     bind_op (note_audit e 0 (audit_ctx ctx (audit_user (au_user_id auth) (audit PasswordChanged)))) (\<lambda>_.
     ret_op 204))))"

definition admin_change_user_password ::
  "env \<Rightarrow> audit_context \<Rightarrow> headers \<Rightarrow> uuid \<Rightarrow> string \<Rightarrow> nat db_op" where
  "admin_change_user_password e ctx hs i new =
     bind_op (require_admin e hs) (\<lambda>admin.
     bind_op (input_err (validate_password new)) (\<lambda>_.
     bind_op (tx_op (
       bind_op (gets_op (user_get i)) (\<lambda>found.
       bind_op (ok_or_op NotFound found) (\<lambda>_.
       bind_op (update_password (ev_ext e) (ev_random e 0) (ev_uuid e 1) i new) (\<lambda>_.
       revoke_all_user_tokens (ev_now e) i))))) (\<lambda>_.
     bind_op (note_audit e 0 (audit_ctx ctx
         (audit_actor (Some (au_user_id admin)) (audit_user i (audit AdminPasswordReset))))) (\<lambda>_.
     ret_op 204))))"

section \<open>Roles\<close>

definition ensure_not_self_role_removal :: "uuid \<Rightarrow> uuid \<Rightarrow> unit result" where
  "ensure_not_self_role_removal actor target =
     (if actor = target then Inl (InputError [''You cannot remove roles from your own account. Ask another admin.''])
      else Inr ())"

definition list_roles :: "env \<Rightarrow> headers \<Rightarrow> role list db_op" where
  "list_roles e hs = bind_op (require_admin e hs) (\<lambda>_. gets_op role_list)"

definition uuid_json :: "env \<Rightarrow> uuid \<Rightarrow> json" where
  "uuid_json e i = JStr (x_uuid_str (ev_ext e) i)"

definition create_role :: "env \<Rightarrow> audit_context \<Rightarrow> headers \<Rightarrow> string \<Rightarrow> string option \<Rightarrow> role db_op" where
  "create_role e ctx hs name desc =
     bind_op (require_admin e hs) (\<lambda>admin.
     bind_op (lift_op (role_validate_input (ev_ext e) name desc)) (\<lambda>_.
     let r = \<lparr>ro_id = ev_uuid e 0, ro_name = name, ro_description = desc\<rparr> in
     bind_op (role_save r) (\<lambda>_.
     bind_op (note_audit e 1 (audit_details (JObj [(''role_id'', uuid_json e (ro_id r)), (''role_name'', JStr (ro_name r))])
         (audit_ctx ctx (audit_actor (Some (au_user_id admin)) (audit RoleCreated))))) (\<lambda>_.
     ret_op r))))"

definition delete_role :: "env \<Rightarrow> audit_context \<Rightarrow> headers \<Rightarrow> uuid \<Rightarrow> nat db_op" where
  "delete_role e ctx hs i =
     bind_op (require_admin e hs) (\<lambda>admin.
     bind_op (gets_op (\<lambda>d. map_option ro_name (role_get i d))) (\<lambda>role_name.
     bind_op (role_delete i) (\<lambda>deleted.
     if deleted
     then bind_op (note_audit e 0 (audit_details (JObj [(''role_id'', uuid_json e i), (''role_name'', jopt JStr role_name)])
            (audit_ctx ctx (audit_actor (Some (au_user_id admin)) (audit RoleDeleted))))) (\<lambda>_. ret_op 204)
     else raise_op NotFound)))"

definition handle_get_user_roles :: "env \<Rightarrow> headers \<Rightarrow> uuid \<Rightarrow> (uuid \<times> uuid \<times> string) list db_op" where
  "handle_get_user_roles e hs u =
     bind_op (require_admin e hs) (\<lambda>_.
     bind_op (gets_op (user_get u)) (\<lambda>found.
     bind_op (require_op (found \<noteq> None) NotFound) (\<lambda>_.
     gets_op (userrole_get_for_user u))))"

definition assign_role :: "env \<Rightarrow> audit_context \<Rightarrow> headers \<Rightarrow> uuid \<Rightarrow> uuid \<Rightarrow> nat db_op" where
  "assign_role e ctx hs u r =
     bind_op (require_admin e hs) (\<lambda>admin.
     bind_op (gets_op (user_get u)) (\<lambda>found.
     bind_op (require_op (found \<noteq> None) NotFound) (\<lambda>_.
     bind_op (gets_op (role_get r)) (\<lambda>rfound.
     bind_op (ok_or_op NotFound rfound) (\<lambda>ro.
     bind_op (userrole_assign u r) (\<lambda>_.
     bind_op (ignore_op (revoke_user_access_tokens (ev_now e) u)) (\<lambda>_.
     bind_op (note_audit e 0 (audit_details (JObj [(''role_id'', uuid_json e r), (''role_name'', JStr (ro_name ro))])
         (audit_ctx ctx (audit_actor (Some (au_user_id admin)) (audit_user u (audit AdminRoleAssigned)))))) (\<lambda>_.
     ret_op 201))))))))"

text \<open>SELECT COUNT(*) FROM user\_roles JOIN roles WHERE name = 'admin'.\<close>

definition admin_count :: "db \<Rightarrow> nat" where
  "admin_count d = length (filter (\<lambda>p. snd (fst p) = ro_id (snd p) \<and> ro_name (snd p) = ROLE_ADMIN)
     (List.product (user_roles d) (roles d)))"

definition remove_role :: "env \<Rightarrow> audit_context \<Rightarrow> headers \<Rightarrow> uuid \<Rightarrow> uuid \<Rightarrow> nat db_op" where
  "remove_role e ctx hs u r =
     bind_op (require_admin e hs) (\<lambda>admin.
     bind_op (lift_op (ensure_not_self_role_removal (au_user_id admin) u)) (\<lambda>_.
     bind_op (gets_op (role_get r)) (\<lambda>rfound.
     bind_op (case rfound of
         Some ro \<Rightarrow>
           (if ro_name ro = ROLE_ADMIN
            then bind_op (gets_op admin_count) (\<lambda>n.
                   require_op (\<not> n \<le> 1) (InputError [''Cannot remove the last admin role'']))
            else ret_op ())
       | None \<Rightarrow> ret_op ()) (\<lambda>_.
     bind_op (userrole_remove u r) (\<lambda>removed.
     if removed
     then bind_op (ignore_op (revoke_user_access_tokens (ev_now e) u)) (\<lambda>_.
          bind_op (note_audit e 0 (audit_details (JObj [(''role_id'', uuid_json e r)])
              (audit_ctx ctx (audit_actor (Some (au_user_id admin)) (audit_user u (audit AdminRoleRemoved)))))) (\<lambda>_.
          ret_op 204))
     else raise_op NotFound)))))"

section \<open>Second factors\<close>

definition DEFAULT_ISSUER :: string where "DEFAULT_ISSUER = ''Authere''"

definition audit_mfa ::
  "env \<Rightarrow> audit_event_type \<Rightarrow> uuid \<Rightarrow> uuid option \<Rightarrow> audit_context \<Rightarrow> unit db_op" where
  "audit_mfa e ev u actor ctx =
     note_audit e 0 (audit_ctx ctx (audit_actor actor (audit_user u (audit ev))))"

record totp_status =
  ts_enabled :: bool
  ts_pending :: bool

definition get_my_totp_status :: "env \<Rightarrow> headers \<Rightarrow> totp_status db_op" where
  "get_my_totp_status e hs =
     bind_op (require_auth e hs) (\<lambda>auth.
     bind_op (gets_op (totp_get (au_user_id auth))) (\<lambda>row.
     ret_op (case row of
         None \<Rightarrow> \<lparr>ts_enabled = False, ts_pending = False\<rparr>
       | Some t \<Rightarrow> (if is_activated t then \<lparr>ts_enabled = True, ts_pending = False\<rparr>
                    else \<lparr>ts_enabled = False, ts_pending = True\<rparr>))))"

text \<open>The secret is the twenty random bytes of \<open>generate_secret\<close>; encryption draws a nonce.\<close>

definition enroll_my_totp :: "env \<Rightarrow> headers \<Rightarrow> (string \<times> string) db_op" where
  "enroll_my_totp e hs =
     bind_op (require_auth e hs) (\<lambda>auth.
     bind_op (gets_op (totp_get (au_user_id auth))) (\<lambda>existing.
     bind_op (require_op (case existing of None \<Rightarrow> True | Some t \<Rightarrow> \<not> is_activated t)
                (UniqueError ''TOTP is already enabled. Disable it first to re-enroll.'')) (\<lambda>_.
     bind_op (gets_op (user_get (au_user_id auth))) (\<lambda>found.
     bind_op (ok_or_op NotFound found) (\<lambda>u.
     let secret = ev_random e 0 in
     bind_op (lift_op (encrypt_secret (ev_ext e) (ev_key_secret e) (ev_random e 1) secret)) (\<lambda>encrypted.
     bind_op (upsert_pending (ev_now e) (au_user_id auth) encrypted) (\<lambda>_.
     let issuer = (case ev_totp_issuer e of None \<Rightarrow> DEFAULT_ISSUER | Some s \<Rightarrow> s)
     in ret_op (encode_base32 secret, build_otpauth_uri (ev_ext e) issuer (u_username u) secret))))))))"

definition activate_my_totp :: "env \<Rightarrow> audit_context \<Rightarrow> headers \<Rightarrow> string \<Rightarrow> string list db_op" where
  "activate_my_totp e ctx hs code =
     bind_op (require_auth e hs) (\<lambda>auth.
     let codes = generate_recovery_codes (map (\<lambda>n. ev_random e n) [0..<RECOVERY_CODE_COUNT]) in
     bind_op (tx_op (
       bind_op (gets_op (totp_get (au_user_id auth))) (\<lambda>row.
       bind_op (ok_or_op (InputError [''No pending TOTP enrollment''])
                  (case row of None \<Rightarrow> None | Some t \<Rightarrow> (if is_activated t then None else Some t))) (\<lambda>pending.
       bind_op (lift_op (decrypt_secret (ev_ext e) (ev_key_secret e) (tp_secret pending))) (\<lambda>secret.
       bind_op (ok_or_op AuthenticationRequired (verify_code (ev_ext e) secret code (ev_now e) None)) (\<lambda>step.
       bind_op (totp_activate (ev_now e) (au_user_id auth) (tp_secret pending) step) (\<lambda>activated.
       bind_op (require_op activated AuthenticationRequired) (\<lambda>_.
       store_recovery_codes (ev_ext e) (ev_now e) (map (\<lambda>n. ev_uuid e (Suc n)) [0..<RECOVERY_CODE_COUNT])
         (au_user_id auth) codes)))))))) (\<lambda>_.
     bind_op (audit_mfa e MfaEnabled (au_user_id auth) None ctx) (\<lambda>_.
     ret_op codes)))"

definition disable_my_totp :: "env \<Rightarrow> audit_context \<Rightarrow> headers \<Rightarrow> string \<Rightarrow> nat db_op" where
  "disable_my_totp e ctx hs current =
     bind_op (require_auth e hs) (\<lambda>auth.
     bind_op (gets_op (user_get (au_user_id auth))) (\<lambda>found.
     bind_op (ok_or_op NotFound found) (\<lambda>u.
     bind_op (try_password_login (ev_ext e) u current) (\<lambda>_.
     bind_op (totp_delete (au_user_id auth)) (\<lambda>deleted.
     bind_op (require_op deleted NotFound) (\<lambda>_.
     bind_op (audit_mfa e MfaDisabled (au_user_id auth) None ctx) (\<lambda>_.
     ret_op 204)))))))"

definition admin_disable_user_totp :: "env \<Rightarrow> audit_context \<Rightarrow> headers \<Rightarrow> uuid \<Rightarrow> nat db_op" where
  "admin_disable_user_totp e ctx hs i =
     bind_op (require_admin e hs) (\<lambda>admin.
     bind_op (gets_op (user_get i)) (\<lambda>found.
     bind_op (ok_or_op NotFound found) (\<lambda>_.
     bind_op (totp_delete i) (\<lambda>deleted.
     bind_op (require_op deleted NotFound) (\<lambda>_.
     bind_op (audit_mfa e MfaDisabled i (Some (au_user_id admin)) ctx) (\<lambda>_.
     ret_op 204))))))"

section \<open>App passwords\<close>

definition list_my_app_passwords :: "env \<Rightarrow> headers \<Rightarrow> app_password list db_op" where
  "list_my_app_passwords e hs =
     bind_op (require_auth e hs) (\<lambda>auth. gets_op (app_password_list_for_user (au_user_id auth)))"

definition create_my_app_password ::
  "env \<Rightarrow> audit_context \<Rightarrow> headers \<Rightarrow> string \<Rightarrow> (app_password \<times> string) db_op" where
  "create_my_app_password e ctx hs name =
     bind_op (require_auth e hs) (\<lambda>auth.
     bind_op (\<lambda>d. (load_ldap_config (ev_sock e) d, d)) (\<lambda>cfg.
     bind_op (require_op (app_passwords_enabled (lc_password_mode cfg))
                (UniqueError ''App passwords are disabled in the current LDAP password mode'')) (\<lambda>_.
     bind_op (app_password_create (ev_ext e) (ev_now e) (ev_uuid e 0) (ev_draws e) (ev_random e 0)
                (au_user_id auth) name) (\<lambda>(rec, cleartext).
     bind_op (note_audit e 1 (audit_details
         (JObj [(''app_password_id'', uuid_json e (apw_id rec)), (''name'', JStr (apw_name rec))])
         (audit_ctx ctx (audit_user (au_user_id auth) (audit AppPasswordCreated))))) (\<lambda>_.
     ret_op (rec, cleartext))))))"

definition delete_my_app_password :: "env \<Rightarrow> audit_context \<Rightarrow> headers \<Rightarrow> uuid \<Rightarrow> nat db_op" where
  "delete_my_app_password e ctx hs i =
     bind_op (require_auth e hs) (\<lambda>auth.
     bind_op (app_password_delete_for_user i (au_user_id auth)) (\<lambda>deleted.
     bind_op (require_op deleted NotFound) (\<lambda>_.
     bind_op (note_audit e 0 (audit_details (JObj [(''app_password_id'', uuid_json e i)])
         (audit_ctx ctx (audit_user (au_user_id auth) (audit AppPasswordDeleted))))) (\<lambda>_.
     ret_op 204))))"

definition admin_list_app_passwords :: "env \<Rightarrow> headers \<Rightarrow> uuid \<Rightarrow> app_password list db_op" where
  "admin_list_app_passwords e hs u =
     bind_op (require_admin e hs) (\<lambda>_. gets_op (app_password_list_for_user u))"

definition admin_delete_app_password :: "env \<Rightarrow> audit_context \<Rightarrow> headers \<Rightarrow> uuid \<Rightarrow> uuid \<Rightarrow> nat db_op" where
  "admin_delete_app_password e ctx hs u i =
     bind_op (require_admin e hs) (\<lambda>admin.
     bind_op (app_password_delete_for_user i u) (\<lambda>deleted.
     bind_op (require_op deleted NotFound) (\<lambda>_.
     bind_op (note_audit e 0 (audit_details (JObj [(''app_password_id'', uuid_json e i)])
         (audit_ctx ctx (audit_actor (Some (au_user_id admin)) (audit_user u (audit AdminAppPasswordDeleted)))))) (\<lambda>_.
     ret_op 204))))"

section \<open>Applications\<close>

definition list_applications :: "env \<Rightarrow> headers \<Rightarrow> application list db_op" where
  "list_applications e hs = bind_op (require_admin e hs) (\<lambda>_. gets_op (application_list (ev_ext e)))"

definition create_application ::
  "env \<Rightarrow> audit_context \<Rightarrow> headers \<Rightarrow> create_application_input \<Rightarrow> (application \<times> string option) db_op" where
  "create_application e ctx hs i =
     bind_op (require_admin e hs) (\<lambda>admin.
     bind_op (lift_op (validate_input (ev_ext e) i)) (\<lambda>_.
     let (app, plaintext_secret) =
       (case unwrap_or ForwardAuth (ca_type i) of
          ForwardAuth \<Rightarrow> (new_application (ev_uuid e 0) (ev_now e) i, None)
        | Oidc \<Rightarrow> new_oidc (ev_ext e) (ev_uuid e 0) (ev_now e) (ev_random e 0) (ev_random e 1) i) in
     bind_op (application_save (ev_ext e) app) (\<lambda>_.
     bind_op (note_audit e 1 (audit_details
         (JObj [(''app_type'', JStr (app_type_str (ap_type app))), (''application_id'', uuid_json e (ap_id app)),
                (''name'', JStr (ap_name app)), (''slug'', JStr (ap_slug app))])
         (audit_ctx ctx (audit_actor (Some (au_user_id admin)) (audit ApplicationCreated))))) (\<lambda>_.
     ret_op (app, plaintext_secret)))))"

definition get_application :: "env \<Rightarrow> headers \<Rightarrow> uuid \<Rightarrow> application db_op" where
  "get_application e hs i =
     bind_op (require_admin e hs) (\<lambda>_.
     bind_op (gets_op (application_get (ev_ext e) i)) (\<lambda>found. ok_or_op NotFound found))"

definition update_application ::
  "env \<Rightarrow> audit_context \<Rightarrow> headers \<Rightarrow> uuid \<Rightarrow> update_application_input \<Rightarrow> application db_op" where
  "update_application e ctx hs i inp =
     bind_op (require_admin e hs) (\<lambda>admin.
     bind_op (gets_op (application_get (ev_ext e) i)) (\<lambda>found.
     bind_op (ok_or_op NotFound found) (\<lambda>app0.
     bind_op (application_update (ev_ext e) (ev_now e) inp app0) (\<lambda>app.
     bind_op (note_audit e 0 (audit_details
         (JObj [(''application_id'', uuid_json e (ap_id app)), (''name'', JStr (ap_name app)), (''slug'', JStr (ap_slug app))])
         (audit_ctx ctx (audit_actor (Some (au_user_id admin)) (audit ApplicationUpdated))))) (\<lambda>_.
     ret_op app)))))"

definition delete_application :: "env \<Rightarrow> audit_context \<Rightarrow> headers \<Rightarrow> uuid \<Rightarrow> nat db_op" where
  "delete_application e ctx hs i =
     bind_op (require_admin e hs) (\<lambda>admin.
     bind_op (gets_op (application_get (ev_ext e) i)) (\<lambda>existing.
     bind_op (application_delete i) (\<lambda>deleted.
     if deleted
     then bind_op (note_audit e 0 (audit_details
            (JObj ((''application_id'', uuid_json e i) # (case existing of None \<Rightarrow> []
               | Some app \<Rightarrow> [(''name'', JStr (ap_name app)), (''slug'', JStr (ap_slug app))])))
            (audit_ctx ctx (audit_actor (Some (au_user_id admin)) (audit ApplicationDeleted))))) (\<lambda>_. ret_op 204)
     else raise_op NotFound)))"

end
