(* ===== verification/Admin_Handlers.thy ===== *)
theory Admin_Handlers
  imports Account_Handlers
begin

text \<open>
  \<open>handlers/admin.rs\<close>: the audit log and its export, settings, restart and invitations; and
  \<open>init_admin\<close> of \<open>cli.rs\<close>, which creates the first administrator.
\<close>

section \<open>Reading the audit log\<close>

definition EXPORT_LIMIT :: int where "EXPORT_LIMIT = 50000"

record audit_log_params =
  alp_limit :: "int option"
  alp_offset :: "int option"
  alp_user_id :: "uuid option"
  alp_actor_id :: "uuid option"
  alp_event_type :: "string option"
  alp_since :: "int option"
  alp_until :: "int option"

definition parse_event_types :: "string option \<Rightarrow> audit_event_type list option" where
  "parse_event_types s =
     (case s of
        None \<Rightarrow> None
      | Some raw \<Rightarrow>
          (let types = filter_map event_of_str (filter (\<lambda>t. t \<noteq> []) (map trim (split_char CHR '','' raw)))
           in if types = [] then None else Some types))"

definition build_query :: "audit_log_params \<Rightarrow> audit_query" where
  "build_query p =
     \<lparr>aq_user = alp_user_id p, aq_actor = alp_actor_id p, aq_event_types = parse_event_types (alp_event_type p),
      aq_since = alp_since p, aq_until = alp_until p, aq_limit = None, aq_offset = None\<rparr>"

definition get_audit_log :: "env \<Rightarrow> headers \<Rightarrow> audit_log_params \<Rightarrow> (audit_record list \<times> int) db_op" where
  "get_audit_log e hs p =
     bind_op (require_admin e hs) (\<lambda>_.
     let limit = clamp 1 200 (unwrap_or 50 (alp_limit p));
         offset = max 0 (unwrap_or 0 (alp_offset p)) in
     bind_op (audit_count (build_query p)) (\<lambda>total.
     bind_op (audit_execute ((build_query p)\<lparr>aq_limit := Some limit, aq_offset := Some offset\<rparr>)) (\<lambda>entries.
     ret_op (entries, total))))"

definition get_audit_event_types :: "env \<Rightarrow> headers \<Rightarrow> string list db_op" where
  "get_audit_event_types e hs =
     bind_op (require_admin e hs) (\<lambda>_. ret_op (map event_str all_event_types))"

section \<open>Exporting it\<close>

datatype export_format = ExportJson | ExportCsv

definition starts_with_any :: "char list \<Rightarrow> string \<Rightarrow> bool" where
  "starts_with_any cs s = (case s of [] \<Rightarrow> False | c # _ \<Rightarrow> c \<in> set cs)"

definition formula_start :: "string \<Rightarrow> bool" where
  "formula_start value \<longleftrightarrow>
     starts_with_any ''=+-@'' (trim_start value) \<or> starts_with_any [CHR 0x09, CHR 0x0D, CHR 0x0A] value"

definition neutralised :: "string \<Rightarrow> string" where
  "neutralised value = (if formula_start value then CHR 0x27 # value else value)"

definition needs_quotes :: "string \<Rightarrow> bool" where
  "needs_quotes value \<longleftrightarrow> list_ex (\<lambda>c. c = CHR '','' \<or> c = CHR 0x0A \<or> c = CHR 0x0D \<or> c = CHR 0x22) value"

definition csv_field :: "string \<Rightarrow> string" where
  "csv_field v =
     (let value = neutralised v in
      if needs_quotes value
      then [CHR 0x22] @ concat (map (\<lambda>c. if c = CHR 0x22 then [CHR 0x22, CHR 0x22] else [c]) value) @ [CHR 0x22]
      else value)"

definition csv_header :: "string list" where
  "csv_header = [''id'', ''timestamp'', ''event_type'', ''user_id'', ''username'', ''actor_id'', ''actor_username'',
     ''ip_address'', ''user_agent'', ''details'']"

definition record_csv :: "externals \<Rightarrow> audit_record \<Rightarrow> string" where
  "record_csv x r =
     csv_field (x_uuid_str x (al_id r)) @ '',''
     @ show_int (al_timestamp r) @ '',''
     @ csv_field (al_event_type r) @ '',''
     @ csv_field (case al_user r of None \<Rightarrow> [] | Some u \<Rightarrow> x_uuid_str x u) @ '',''
     @ csv_field (unwrap_or [] (al_username r)) @ '',''
     @ csv_field (case al_actor r of None \<Rightarrow> [] | Some u \<Rightarrow> x_uuid_str x u) @ '',''
     @ csv_field (unwrap_or [] (al_actor_username r)) @ '',''
     @ csv_field (unwrap_or [] (al_ip r)) @ '',''
     @ csv_field (unwrap_or [] (al_user_agent r)) @ '',''
     @ csv_field (unwrap_or [] (al_details r)) @ [CHR 0x0A]"

definition records_to_csv :: "externals \<Rightarrow> audit_record list \<Rightarrow> string" where
  "records_to_csv x rs = join_str '','' csv_header @ [CHR 0x0A] @ concat (map (record_csv x) rs)"

definition export_filename :: "env \<Rightarrow> export_format \<Rightarrow> string" where
  "export_filename e f =
     ''authere-audit-'' @ show_int (max 0 (ev_now e)) @ ''.''
     @ (case f of ExportJson \<Rightarrow> ''json'' | ExportCsv \<Rightarrow> ''csv'')"

text \<open>\<open>pretty\<close> is the JSON library's pretty printer for the records.\<close>

definition export_audit_log ::
  "(audit_record list \<Rightarrow> string + string) \<Rightarrow> env \<Rightarrow> headers \<Rightarrow> export_format \<Rightarrow> audit_log_params \<Rightarrow> response db_op" where
  "export_audit_log pretty e hs f p =
     bind_op (require_admin e hs) (\<lambda>_.
     bind_op (audit_execute ((build_query p)\<lparr>aq_limit := Some EXPORT_LIMIT\<rparr>)) (\<lambda>records.
     let disposition = ''attachment; filename='' @ [CHR 0x22] @ export_filename e f @ [CHR 0x22];
         h = h_insert ''content-disposition'' (case header_value disposition of None \<Rightarrow> ''attachment'' | Some v \<Rightarrow> v) []
     in case f of
          ExportJson \<Rightarrow>
            (case pretty records of
               Inl msg \<Rightarrow> raise_op (InternalError (''json serialize: '' @ msg))
             | Inr b \<Rightarrow> ret_op (plain 200 (h_insert ''content-type'' ''application/json'' h) (Text b)))
        | ExportCsv \<Rightarrow>
            ret_op (plain 200 (h_insert ''content-type'' ''text/csv; charset=utf-8'' h)
              (Text (records_to_csv (ev_ext e) records)))))"

section \<open>Settings\<close>

record ldap_settings =
  ls_enabled :: bool
  ls_base_dn :: string
  ls_bind_address :: string
  ls_service_account_dn :: string
  ls_service_password_set :: bool
  ls_password_mode :: ldap_password_mode

definition to_ldap_settings :: "ldap_config \<Rightarrow> ldap_settings" where
  "to_ldap_settings c =
     \<lparr>ls_enabled = lc_enabled c, ls_base_dn = lc_base_dn c, ls_bind_address = lc_bind_address c,
      ls_service_account_dn = service_account_dn c,
      ls_service_password_set = (lc_service_password_hash c \<noteq> None), ls_password_mode = lc_password_mode c\<rparr>"

record settings_response =
  sr_open_registration :: bool
  sr_session_expiry :: int
  sr_ldap :: ldap_settings

record ldap_settings_input =
  lsi_enabled :: "bool option"
  lsi_base_dn :: "string option"
  lsi_bind_address :: "string option"
  lsi_password_mode :: "ldap_password_mode option"

record update_settings_input =
  us_open_registration :: "bool option"
  us_session_expiry :: "int option"
  us_ldap :: "ldap_settings_input option"

definition read_settings :: "env \<Rightarrow> settings_response db_op" where
  "read_settings e =
     bind_op (gets_op open_registration_enabled) (\<lambda>opn.
     bind_op (gets_op session_expiry_seconds) (\<lambda>expiry.
     bind_op (\<lambda>d. (load_ldap_config (ev_sock e) d, d)) (\<lambda>cfg.
     ret_op \<lparr>sr_open_registration = opn, sr_session_expiry = expiry, sr_ldap = to_ldap_settings cfg\<rparr>)))"

definition get_settings :: "env \<Rightarrow> headers \<Rightarrow> settings_response db_op" where
  "get_settings e hs = bind_op (require_admin e hs) (\<lambda>_. read_settings e)"

definition bool_text :: "bool \<Rightarrow> string" where
  "bool_text b = (if b then ''true'' else ''false'')"

definition validate_bind_address :: "env \<Rightarrow> string \<Rightarrow> string + unit" where
  "validate_bind_address e addr =
     (case ev_sock e addr of
        Inl msg \<Rightarrow> Inl (''Invalid bind address '' @ [CHR 0x27] @ addr @ [CHR 0x27] @ '': '' @ msg)
      | Inr _ \<Rightarrow> Inr ())"

definition set_if :: "'a option \<Rightarrow> ('a \<Rightarrow> unit db_op) \<Rightarrow> unit db_op" where
  "set_if v f = (case v of None \<Rightarrow> ret_op () | Some a \<Rightarrow> f a)"

text \<open>The recorded changes; the object keeps its keys sorted.\<close>

definition ldap_changes :: "ldap_settings_input \<Rightarrow> (string \<times> json) list" where
  "ldap_changes i =
     (case lsi_base_dn i of None \<Rightarrow> [] | Some b \<Rightarrow> [(''base_dn'', JStr (trim b))])
     @ (case lsi_bind_address i of None \<Rightarrow> [] | Some a \<Rightarrow> [(''bind_address'', JStr (trim a))])
     @ (case lsi_enabled i of None \<Rightarrow> [] | Some b \<Rightarrow> [(''enabled'', JBool b)])
     @ (case lsi_password_mode i of None \<Rightarrow> [] | Some m \<Rightarrow> [(''password_mode'', JStr (mode_str m))])"

definition apply_ldap_input :: "env \<Rightarrow> ldap_settings_input \<Rightarrow> (string \<times> json) list db_op" where
  "apply_ldap_input e i =
     bind_op (set_if (lsi_enabled i) (\<lambda>b. set_setting KEY_LDAP_ENABLED (bool_text b))) (\<lambda>_.
     bind_op (set_if (lsi_base_dn i) (\<lambda>b.
       bind_op (input_err (validate_base_dn b)) (\<lambda>_. set_setting KEY_LDAP_BASE_DN (trim b)))) (\<lambda>_.
     bind_op (set_if (lsi_bind_address i) (\<lambda>a.
       bind_op (input_err (validate_bind_address e a)) (\<lambda>_. set_setting KEY_LDAP_BIND_ADDRESS (trim a)))) (\<lambda>_.
     bind_op (set_if (lsi_password_mode i) (\<lambda>m. set_setting KEY_LDAP_PASSWORD_MODE (mode_str m))) (\<lambda>_.
     ret_op (if ldap_changes i = [] then [] else [(''ldap'', JObj (ldap_changes i))])))))"

definition update_settings ::
  "env \<Rightarrow> audit_context \<Rightarrow> headers \<Rightarrow> update_settings_input \<Rightarrow> settings_response db_op" where
  "update_settings e ctx hs i =
     bind_op (require_admin e hs) (\<lambda>admin. tx_op (
       bind_op (set_if (us_open_registration i) (\<lambda>b. set_setting KEY_OPEN_REGISTRATION (bool_text b))) (\<lambda>_.
       bind_op (case us_session_expiry i of
           None \<Rightarrow> ret_op []
         | Some v \<Rightarrow> (case validate_session_expiry_seconds v of
             Inl msg \<Rightarrow> raise_op (InputError [msg])
           | Inr w \<Rightarrow> bind_op (set_setting KEY_SESSION_EXPIRY_SECONDS (show_int w)) (\<lambda>_.
                 ret_op [(''session_expiry_seconds'', JInt w)]))) (\<lambda>expiry_change.
       bind_op (case us_ldap i of None \<Rightarrow> ret_op [] | Some l \<Rightarrow> apply_ldap_input e l) (\<lambda>ldap_change.
       bind_op (note_audit e 0 (audit_details
           (JObj (ldap_change
              @ (case us_open_registration i of None \<Rightarrow> [] | Some b \<Rightarrow> [(''open_registration'', JBool b)])
              @ expiry_change))
           (audit_ctx ctx (audit_actor (Some (au_user_id admin)) (audit SettingsUpdated))))) (\<lambda>_.
       read_settings e))))))"

definition service_charset :: string where
  "service_charset = ''ABCDEFGHJKLMNPQRSTUVWXYZabcdefghijkmnpqrstuvwxyz23456789''"

definition generate_service_password :: "nat list \<Rightarrow> string" where
  "generate_service_password draws = map (\<lambda>i. service_charset ! i) (take 32 draws)"

definition regenerate_ldap_bind_password :: "env \<Rightarrow> audit_context \<Rightarrow> headers \<Rightarrow> string db_op" where
  "regenerate_ldap_bind_password e ctx hs =
     bind_op (require_admin e hs) (\<lambda>admin.
     let password = generate_service_password (ev_draws e) in
     case x_argon2_hash (ev_ext e) (ev_random e 0) password of
       Inl msg \<Rightarrow> raise_op (InternalError (''Failed to hash password: '' @ msg))
     | Inr hash \<Rightarrow>
         bind_op (set_setting KEY_LDAP_SERVICE_PASSWORD_HASH hash) (\<lambda>_.
         bind_op (note_audit e 0 (audit_ctx ctx (audit_actor (Some (au_user_id admin)) (audit LdapBindPasswordRotated)))) (\<lambda>_.
         ret_op password)))"

text \<open>The shutdown signal itself is sent by a spawned task after the answer.\<close>

definition restart_service :: "env \<Rightarrow> audit_context \<Rightarrow> headers \<Rightarrow> nat db_op" where
  "restart_service e ctx hs =
     bind_op (require_admin e hs) (\<lambda>admin.
     bind_op (note_audit e 0 (audit_ctx ctx (audit_actor (Some (au_user_id admin)) (audit SystemRestarted)))) (\<lambda>_.
     ret_op 202))"

section \<open>Invitations\<close>

definition list_invitations :: "env \<Rightarrow> headers \<Rightarrow> invitation_status list db_op" where
  "list_invitations e hs = bind_op (require_admin e hs) (\<lambda>_. gets_op (invitation_list (ev_now e)))"

definition create_invitation ::
  "env \<Rightarrow> audit_context \<Rightarrow> headers \<Rightarrow> create_invitation_input \<Rightarrow> invitation db_op" where
  "create_invitation e ctx hs i =
     bind_op (require_admin e hs) (\<lambda>admin.
     bind_op (lift_op (validate_invitation (ev_now e) i)) (\<lambda>_.
     let iv = new_invitation (ev_ext e) (ev_random e 0) (ev_now e) i (au_user_id admin) in
     bind_op (invitation_save iv) (\<lambda>_.
     bind_op (note_audit e 0 (audit_details (JObj [(''invite_id'', JStr (in_id iv)), (''label'', jopt JStr (in_label iv))])
         (audit_ctx ctx (audit_actor (Some (au_user_id admin)) (audit InvitationCreated))))) (\<lambda>_.
     ret_op iv))))"

definition delete_invitation :: "env \<Rightarrow> audit_context \<Rightarrow> headers \<Rightarrow> string \<Rightarrow> nat db_op" where
  "delete_invitation e ctx hs i =
     bind_op (require_admin e hs) (\<lambda>admin.
     bind_op (invitation_delete i) (\<lambda>deleted.
     bind_op (require_op deleted NotFound) (\<lambda>_.
     bind_op (note_audit e 0 (audit_details (JObj [(''invite_id'', JStr i)])
         (audit_ctx ctx (audit_actor (Some (au_user_id admin)) (audit InvitationDeleted))))) (\<lambda>_.
     ret_op 204))))"

section \<open>The first administrator\<close>

definition init_admin ::
  "(user \<Rightarrow> string) \<Rightarrow> env \<Rightarrow> string \<Rightarrow> string \<Rightarrow> string \<Rightarrow> string option \<Rightarrow> unit db_op" where
  "init_admin dbg e username password name email =
     bind_op (input_err (validate_username username)) (\<lambda>_.
     bind_op (input_err (validate_name name)) (\<lambda>_.
     bind_op (input_err (validate_password password)) (\<lambda>_.
     bind_op (input_err (validate_email email)) (\<lambda>_.
     bind_op (gets_op admin_count) (\<lambda>existing.
     bind_op (require_op (\<not> 0 < existing)
                (UniqueError ''An admin user already exists. Use the web portal to manage admins.'')) (\<lambda>_.
     bind_op (gets_op (role_get_by_name ROLE_ADMIN)) (\<lambda>found.
     bind_op (ok_or_op (InternalError ''Admin role not found in database'') found) (\<lambda>admin_role.
     let u = new_user (ev_uuid e 0) (ev_now e) username name email in
     case new_password (ev_ext e) (ev_random e 0) (ev_uuid e 1) password (u_id u) of
       Inl msg \<Rightarrow> raise_op (InternalError (''Failed to create Authenticator for user '' @ dbg u @ '' ('' @ msg @ '')''))
     | Inr a \<Rightarrow> tx_op (
         bind_op (user_save u) (\<lambda>_.
         bind_op (authenticator_save a) (\<lambda>_.
         insert_op (\<lambda>d. (u_id u, ro_id admin_role) \<in> set (user_roles d))
           (\<lambda>d. \<not> user_exists (u_id u) d \<or> \<not> role_exists (ro_id admin_role) d)
           (\<lambda>d. d\<lparr>user_roles := user_roles d @ [(u_id u, ro_id admin_role)]\<rparr>))))))))))))"

end
