(* ===== verification/Store_Laws.thy ===== *)
theory Store_Laws
  imports Session_Laws Passkeys Admin_Handlers Ldap_Server
begin

text \<open>
  The whole interface between the handlers and the database: a law kept by every operation the
  components provide is kept by every handler. \<open>may_create\<close> restricts the identifiers of new
  accounts, for laws that speak about one user; taking away a role is covered by a law of its own
  handler, which guards it.
\<close>

lemma keeps_mode:
  "keeps Q m \<Longrightarrow> keeps Q n \<Longrightarrow> keeps Q k \<Longrightarrow>
     keeps Q (case v of PrimaryOnly \<Rightarrow> m | AppOnly \<Rightarrow> n | PrimaryAndApp \<Rightarrow> k)"
  by (cases v) simp_all

locale store_laws = session_laws P for P :: "db \<Rightarrow> db \<Rightarrow> bool" +
  fixes may_create :: "uuid \<Rightarrow> bool"
  assumes user_save_law: "may_create (u_id v) \<Longrightarrow> keeps P (user_save v)"
    and user_update_law: "keeps P (user_update now self name email username)"
    and authenticator_save_law: "keeps P (authenticator_save a)"
    and update_password_law: "keeps P (update_password x salt fresh i new)"
    and role_save_law: "keeps P (role_save r)"
    and role_delete_law: "keeps P (role_delete i)"
    and role_grant_law: "keeps P (insert_op (\<lambda>d. (u, i) \<in> set (user_roles d))
          (\<lambda>d. \<not> user_exists u d \<or> \<not> role_exists i d) (\<lambda>d. d\<lparr>user_roles := user_roles d @ [(u, i)]\<rparr>))"
    and remove_role_law: "keeps P (remove_role e ctx hs u i)"
    and set_setting_law: "keeps P (set_setting k val)"
    and code_issue_law: "keeps P (code_issue x now rnd app_id u ru sc n ch me ta ver se)"
    and code_consume_law: "keeps P (code_consume x now code app_id ru vf)"
    and code_sweep_law: "keeps P (code_sweep_expired now)"
    and issue_handoff_law: "keeps P (issue_handoff x key now jti parent app_id origin path st)"
    and redeem_handoff_law: "keeps P (redeem_handoff x key now tok origin st)"
    and sweep_law: "keeps P (sweep_expired_sessions now)"
    and application_save_law: "keeps P (application_save x ap)"
    and application_update_law: "keeps P (application_update x now inp ap)"
    and application_delete_law: "keeps P (application_delete i)"
    and upsert_pending_law: "keeps P (upsert_pending now u s)"
    and totp_activate_law: "keeps P (totp_activate now u s st2)"
    and record_step_law: "keeps P (record_step now u s st2)"
    and totp_delete_law: "keeps P (totp_delete u)"
    and store_recovery_law: "keeps P (store_recovery_codes x now ids u codes)"
    and consume_recovery_law: "keeps P (consume_recovery_code x now u code)"
    and invitation_save_law: "keeps P (invitation_save iv)"
    and invitation_delete_law: "keeps P (invitation_delete k)"
    and invitation_consume_law: "keeps P (invitation_consume now k)"
    and app_password_create_law: "keeps P (app_password_create x now i draws salt u nm)"
    and app_password_delete_law: "keeps P (app_password_delete_for_user i u)"
    and app_password_verify_law: "keeps P (app_password_verify_for_user x now u pw)"
    and insert_challenge_law: "keeps P (insert_challenge crow)"
    and drop_challenges_law: "keeps P (drop_challenges cq :: unit db_op)"
    and store_passkey_law: "keeps P (store_passkey e ctx u pch cid enc)"
    and touch_passkey_law: "keeps P (touch_passkey i cred now :: unit db_op)"
    and drop_passkey_law: "keeps P (drop_passkey i u)"
begin

lemma input_err_law: "keeps P (input_err r)"
  unfolding input_err_def by (intro keeps_rules)

lemma password_login_law: "keeps P (try_password_login x u p)"
  unfolding try_password_login_def get_password_for_def by (intro keeps_rules)

lemma user_login_law: "keeps P (user_login x i)"
  unfolding user_login_def by (intro keeps_rules password_login_law)

lemma role_assign_law: "keeps P (userrole_assign u i)"
  unfolding userrole_assign_def by (intro keeps_rules role_grant_law)

lemma read_law: "keeps P (\<lambda>d. (f d, d))"
  by (rule keeps_pure) simp

lemmas store_rules = session_rules input_err_law password_login_law user_login_law role_assign_law read_law
  user_update_law authenticator_save_law update_password_law role_save_law role_delete_law role_grant_law
  set_setting_law code_issue_law code_consume_law issue_handoff_law redeem_handoff_law
  application_save_law application_update_law application_delete_law
  upsert_pending_law totp_activate_law record_step_law totp_delete_law store_recovery_law consume_recovery_law
  invitation_save_law invitation_delete_law invitation_consume_law
  app_password_create_law app_password_delete_law app_password_verify_law log_login_failed_law
  insert_challenge_law drop_challenges_law store_passkey_law touch_passkey_law drop_passkey_law

section \<open>Signing in and registering\<close>

lemma enforce_mfa_law: "keeps P (enforce_mfa e u code)"
  unfolding enforce_mfa_def by (intro store_rules)

lemma open_session_law: "keeps P (open_session e ctx i)"
  unfolding open_session_def valid_or_def password_step_def mfa_step_def
  by (intro store_rules enforce_mfa_law)

lemma new_user_id [simp]: "u_id (new_user i now un nm em) = i"
  by (simp add: new_user_def)

lemma register_law: "may_create (ev_uuid e 0) \<Longrightarrow> keeps P (register_body e ctx i)"
  unfolding register_body_def register_tx_def Let_def
  by (intro store_rules user_save_law) simp_all

section \<open>Accounts, roles, second factors and app passwords\<close>

lemma create_account_law: "may_create (u_id u) \<Longrightarrow> keeps P (create_account u a)"
  unfolding create_account_def by (intro store_rules user_save_law)

lemma create_user_law: "may_create (ev_uuid e 0) \<Longrightarrow> keeps P (create_user dbg e ctx hs i)"
  unfolding create_user_def Let_def by (intro store_rules create_account_law) simp_all

lemma init_admin_law: "may_create (ev_uuid e 0) \<Longrightarrow> keeps P (init_admin dbg e un pw nm em)"
  unfolding init_admin_def Let_def by (intro store_rules user_save_law) simp_all

lemma user_handler_laws:
  "keeps P (get_users e hs)" "keeps P (get_user e hs i)" "keeps P (update_user e ctx hs i inp)"
  "keeps P (get_me e hs)" "keeps P (update_me e ctx hs inp)" "keeps P (change_my_password e ctx hs cur new)"
  "keeps P (admin_change_user_password e ctx hs i new)"
  unfolding get_users_def get_user_def update_user_def update_profile_def get_me_def update_me_def
    change_my_password_def admin_change_user_password_def
  by (intro store_rules)+

lemma role_handler_laws:
  "keeps P (list_roles e hs)" "keeps P (create_role e ctx hs name desc)" "keeps P (delete_role e ctx hs i)"
  "keeps P (handle_get_user_roles e hs u)" "keeps P (assign_role e ctx hs u i)"
  unfolding list_roles_def create_role_def delete_role_def handle_get_user_roles_def assign_role_def Let_def
  by (intro store_rules)+

lemma totp_handler_laws:
  "keeps P (get_my_totp_status e hs)" "keeps P (enroll_my_totp e hs)" "keeps P (activate_my_totp e ctx hs code)"
  "keeps P (disable_my_totp e ctx hs pw)" "keeps P (admin_disable_user_totp e ctx hs i)"
  unfolding get_my_totp_status_def enroll_my_totp_def activate_my_totp_def disable_my_totp_def
    admin_disable_user_totp_def audit_mfa_def Let_def
  by (intro store_rules)+

lemma app_password_handler_laws:
  "keeps P (list_my_app_passwords e hs)" "keeps P (create_my_app_password e ctx hs name)"
  "keeps P (delete_my_app_password e ctx hs i)" "keeps P (admin_list_app_passwords e hs u)"
  "keeps P (admin_delete_app_password e ctx hs u i)"
  unfolding list_my_app_passwords_def create_my_app_password_def delete_my_app_password_def
    admin_list_app_passwords_def admin_delete_app_password_def
  by (intro store_rules)+

lemma application_handler_laws:
  "keeps P (list_applications e hs)" "keeps P (create_application e ctx hs inp)"
  "keeps P (get_application e hs i)" "keeps P (update_application e ctx hs i upd)"
  "keeps P (delete_application e ctx hs i)"
  unfolding list_applications_def create_application_def get_application_def update_application_def
    delete_application_def Let_def
  by (intro store_rules)+

section \<open>Passkeys\<close>

lemma challenge_laws: "keeps P (save_challenge e hs kind c j)" "keeps P (take_challenge e hs kind)"
  unfolding save_challenge_def take_challenge_def Let_def by (intro store_rules)+

lemma verify_passkey_law: "keeps P (verify_passkey wn e ctx wa auth cr u ci)"
  unfolding verify_passkey_def refuse_passkey_def accept_passkey_def by (intro store_rules audit_law)

lemma passkey_db_laws:
  "keeps P (register_challenge wn e hs u nm)" "keeps P (register_passkey wn e ctx hs u input)"
  "keeps P (login_challenge wn e hs)" "keeps P (passkey_session wn e ctx hs input)"
  "keeps P (list_passkeys e hs)" "keeps P (delete_passkey e ctx hs i)"
  unfolding register_challenge_def register_passkey_def login_challenge_def passkey_session_def list_passkeys_def
    delete_passkey_def
  by (intro store_rules challenge_laws verify_passkey_law audit_law)+

section \<open>Administration\<close>

lemma audit_query_laws: "keeps P (audit_count q)" "keeps P (audit_execute q)"
  by (rule keeps_pure, simp add: audit_count_def audit_execute_def split: option.split)+

lemma settings_laws: "keeps P (read_settings e)" "keeps P (apply_ldap_input e i)"
  unfolding read_settings_def apply_ldap_input_def set_if_def by (intro store_rules)+

lemma export_law: "keeps P (export_audit_log pretty e hs f p)"
  unfolding export_audit_log_def Let_def
  by (cases f) (simp_all, (intro store_rules audit_query_laws)+)

lemma admin_handler_laws:
  "keeps P (get_audit_log e hs p)" "keeps P (get_audit_event_types e hs)"
  "keeps P (get_settings e hs)" "keeps P (update_settings e ctx hs i)"
  "keeps P (regenerate_ldap_bind_password e ctx hs)" "keeps P (restart_service e ctx hs)"
  "keeps P (list_invitations e hs)" "keeps P (create_invitation e ctx hs ci)" "keeps P (delete_invitation e ctx hs k)"
  unfolding get_audit_log_def get_audit_event_types_def get_settings_def update_settings_def
    regenerate_ldap_bind_password_def restart_service_def list_invitations_def create_invitation_def
    delete_invitation_def Let_def set_if_def
  by (intro store_rules audit_query_laws settings_laws)+

section \<open>Forward authentication and OpenID Connect\<close>

lemma forward_handler_laws:
  "keeps P (verify_auth e hs)" "keeps P (forward_auth_start e hs redirect_uri do_login)"
  "keeps P (forward_redirect e hs target st)" "keeps P (forward_auth_callback e hs tok)"
  "keeps P (lookup_forward_app e target)"
proof -
  have "keeps P (verify_session x key now tok origin)" for x key now tok origin
    by (rule keeps_pure) simp
  note rules = store_rules this browser_session_law
  show "keeps P (verify_auth e hs)" unfolding verify_auth_def or_error_def Let_def by (intro rules)
  show "keeps P (forward_auth_start e hs redirect_uri do_login)"
    unfolding forward_auth_start_def matched_app_def Let_def by (intro rules)
  show "keeps P (forward_redirect e hs target st)"
    unfolding forward_redirect_def matched_app_def denied_redirect_def Let_def by (intro rules)
  show "keeps P (forward_auth_callback e hs tok)"
    unfolding forward_auth_callback_def matched_app_def Let_def by (intro rules)
  show "keeps P (lookup_forward_app e target)" unfolding lookup_forward_app_def by (intro rules)
qed

lemma authorize_law: "P d (snd (authorize e ctx hs uri q d))"
proof -
  have c: "keeps P (authorize_checks (ev_ext e) q)"
    unfolding authorize_checks_def authorize_client_def Let_def by (intro store_rules)
  have g: "keeps P (authorize_grant e ctx uri q z claims)" for z claims
    unfolding authorize_grant_def Let_def by (intro store_rules)
  obtain r1 d1 where 1: "authorize_checks (ev_ext e) q d = (r1, d1)" by fastforce
  obtain r2 d2 where 2: "resolve_browser_session e hs d1 = (r2, d2)" by fastforce
  have p1: "P d d1" using c 1 by (metis keeps_def snd_conv)
  have p2: "P d d2" using resolve_browser_session_law [of e hs] 2 p1 trans by (metis keeps_def snd_conv)
  have p3: "P d (snd (answer (authorize_grant e ctx uri q z claims) d2))" for z claims
    by (rule trans [OF p2 answer_law [OF g]])
  have "P d (snd (authorize_impl e ctx hs uri q d))"
    using p1 p2 p3 1 2
    by (auto simp: authorize_impl_def split: sum.split option.split prod.split) (metis snd_conv)+
  then show ?thesis by (auto simp: authorize_def split: prod.split option.split)
qed

lemma exchange_code_law: "keeps P (exchange_code e ctx hs form)"
  unfolding exchange_code_def authenticate_client_def Let_def
  by (intro store_rules token_rejected_law oidc_audit_law)

lemma userinfo_law: "P d (snd (userinfo e ctx hs d))"
  unfolding userinfo_def
  by (rule answer_law) (unfold userinfo_impl_def Let_def, intro store_rules oidc_audit_law)

section \<open>Handlers that also use a rate limiter\<close>

definition on_store :: "app_state \<Rightarrow> app_state \<Rightarrow> bool" where
  "on_store s t \<longleftrightarrow> P (st_db s) (st_db t)"

lemma on_store_db: "keeps P m \<Longrightarrow> keeps on_store (on_db m)"
  by (simp add: keeps_def on_store_def on_db_apply)

lemma on_store_limits:
  "keeps on_store (check_login_limit e ip)" "keeps on_store (check_register_limit e ip)"
  "keeps on_store (check_ldap_bind_limit e ip)" "keeps on_store (check_oidc_token_limit e ip)"
  by (simp_all add: keeps_def on_store_def check_login_limit_def check_register_limit_def
      check_ldap_bind_limit_def check_oidc_token_limit_def refl split: prod.split)

end

sublocale store_laws \<subseteq> st: state_preorder on_store
  by unfold_locales (auto simp: on_store_def intro: refl trans)

context store_laws
begin

lemmas state_rules = st.keeps_rules on_store_limits on_store_db

lemma login_handler_laws:
  "keeps on_store (login e ctx i)" "keeps on_store (browser_login e ctx redirect_uri i)"
  unfolding login_def browser_login_def by (intro state_rules open_session_law)+

lemma register_handler_law: "may_create (ev_uuid e 0) \<Longrightarrow> keeps on_store (register e ctx i)"
  unfolding register_def by (intro state_rules keeps_map_err register_law)

lemma passkey_handler_laws:
  "keeps on_store (register_start wn e ctx hs nm)" "keeps on_store (register_finish wn e ctx hs input)"
  "keeps on_store (login_start wn e ctx hs)" "keeps on_store (login_finish wn e ctx hs uri input)"
  unfolding register_start_def register_finish_def login_start_def login_finish_def rate_limit_def Let_def
  by (intro state_rules require_auth_law passkey_db_laws)+

lemma token_handler_law: "on_store s (snd (token e ctx hs form s))"
proof -
  obtain r s1 where 1: "check_oidc_token_limit e (ax_ip ctx) s = (r, s1)" by fastforce
  then have p: "on_store s s1" using on_store_limits(4) by (metis keeps_def snd_conv)
  have "P (st_db s1) (snd (exchange_code e ctx hs form (st_db s1)))"
    using exchange_code_law by (simp add: keeps_def)
  then show ?thesis
    using 1 p trans by (auto simp: token_def on_store_def split: sum.split prod.split)
qed

lemma ldap_log_laws:
  "keeps P (log_ldap_bind_failed x fresh now u dn ip mode reason)"
  "keeps P (log_ldap_bind_success x fresh now u dn ip mode cred)"
  "keeps P (log_ldap_bind_rejected_mfa_required x fresh now v dn ip mode)"
  unfolding log_ldap_bind_failed_def log_ldap_bind_success_def log_ldap_bind_rejected_mfa_required_def
  by (rule audit_law)+

lemma bind_outcome_laws:
  "keeps on_store (bind_failed e ip mode reason u dn)" "keeps on_store (bind_succeeded e ip mode cred u dn bs)"
  unfolding bind_failed_def bind_succeeded_def by (intro state_rules keeps_ignore ldap_log_laws)+

lemma try_bind_laws:
  "keeps on_store (try_primary e req u ip mode)" "keeps on_store (try_app_password e req u ip mode)"
  unfolding try_primary_def try_app_password_def
  by (intro state_rules keeps_try password_login_law app_password_verify_law bind_outcome_laws)+

lemma handle_user_bind_law: "keeps on_store (handle_user_bind e req cfg ip mode name)"
  unfolding handle_user_bind_def
  by (intro state_rules keeps_mode keeps_gets keeps_ignore keeps_try ldap_log_laws bind_outcome_laws try_bind_laws
      app_password_verify_law)

lemma handle_bind_law: "keeps on_store (handle_bind e req cfg peer)"
  unfolding handle_bind_def handle_service_bind_def Let_def
  by (intro state_rules keeps_gets bind_outcome_laws handle_user_bind_law)

lemma serve_law: "on_store s (snd (serve e version peer m c s))"
proof -
  have "on_store s (snd (handle_bind e req cfg peer s))" for req cfg
    using handle_bind_law by (simp add: keeps_def)
  then show ?thesis
    by (auto simp: serve_def serve_op_def leave_loop_def st.refl
        split: incoming.split server_op.split sum.split prod.split, (metis snd_conv)+)
qed

end

end
