(* ===== verification/Server.thy ===== *)
theory Server
  imports Store_Laws
begin

text \<open>
  \<open>main.rs\<close>: the routes of the server, its background tasks and its runs. A call is a request
  after routing and extraction of path, query and body; the handlers are grouped by the extractor
  that guards them. The static files and the generated API description are not part of the model.
\<close>

section \<open>Routes\<close>

text \<open>Routes whose handler takes an \<open>AdminUser\<close>.\<close>

datatype admin_call =
    CreateUser create_user_input | GetUsers | GetUser uuid | UpdateUser uuid update_user_input
  | AdminChangePassword uuid string
  | ListRoles | CreateRole string "string option" | DeleteRole uuid
  | GetUserRoles uuid | AssignRole uuid uuid | RemoveRole uuid uuid
  | ListApplications | CreateApplication create_application_input | GetApplication uuid
  | UpdateApplication uuid update_application_input | DeleteApplication uuid
  | GetAuditLog audit_log_params | GetAuditEventTypes | ExportAuditLog export_format audit_log_params
  | GetSettings | UpdateSettings update_settings_input | RegenerateLdapPassword | RestartService
  | ListInvitations | CreateInvitation create_invitation_input | DeleteInvitation string
  | AdminDisableTotp uuid | AdminListAppPasswords uuid | AdminDeleteAppPassword uuid uuid

text \<open>Routes whose handler takes an \<open>AuthUser\<close>.\<close>

datatype member_call =
    GetMe | UpdateMe update_user_input | ChangeMyPassword string string
  | TotpStatus | EnrollTotp | ActivateTotp string | DisableTotp string
  | ListAppPasswords | CreateAppPassword string | DeleteAppPassword uuid
  | ListPasskeys | PasskeyRegisterStart string | PasskeyRegisterFinish json | DeletePasskey uuid

text \<open>The other routes; what they do depends on the credentials they are given.\<close>

datatype public_call =
    Login login_input | RefreshTokens string | LogoutToken string
  | PasskeyLoginStart | PasskeyLoginFinish "string option" json
  | BrowserLogin "string option" login_input | BrowserLogout "string option" | BrowserRefresh
  | Register register_input | ValidateInvite string
  | VerifyAuth | ForwardStart "string option" bool | ForwardRedirect string string | ForwardCallback string
  | ForwardApp string
  | Discovery | Jwks | Authorize "string option" authorize_query | TokenExchange token_form | Userinfo
  | EndSession end_session_query | EndSessionPost end_session_query

datatype api_call = Admin admin_call | Member member_call | Public public_call

section \<open>Dispatch\<close>

text \<open>The status of the answer and the state the handler leaves behind.\<close>

definition answered :: "nat \<Rightarrow> 'a db_op \<Rightarrow> app_state \<Rightarrow> nat \<times> app_state" where
  "answered ok m s = (case on_db m s of
     (Inl err, s') \<Rightarrow> (status_code err, s') | (Inr _, s') \<Rightarrow> (ok, s'))"

definition coded :: "nat db_op \<Rightarrow> app_state \<Rightarrow> nat \<times> app_state" where
  "coded m s = (case on_db m s of
     (Inl err, s') \<Rightarrow> (status_code err, s') | (Inr code, s') \<Rightarrow> (code, s'))"

definition responded :: "response db_op \<Rightarrow> app_state \<Rightarrow> nat \<times> app_state" where
  "responded m s = (case on_db m s of
     (Inl err, s') \<Rightarrow> (status_code err, s') | (Inr r, s') \<Rightarrow> (rs_status r, s'))"

definition replied :: "(db \<Rightarrow> response \<times> db) \<Rightarrow> app_state \<Rightarrow> nat \<times> app_state" where
  "replied f s = (case f (st_db s) of (r, d) \<Rightarrow> (rs_status r, s\<lparr>st_db := d\<rparr>))"

text \<open>\<open>dbg\<close> and \<open>pretty\<close> are the printers that two of the handlers take.\<close>

primrec handle_admin ::
  "(user \<Rightarrow> string) \<Rightarrow> (audit_record list \<Rightarrow> string + string) \<Rightarrow> env \<Rightarrow> audit_context \<Rightarrow> headers \<Rightarrow> admin_call
     \<Rightarrow> app_state \<Rightarrow> nat \<times> app_state" where
  "handle_admin dbg pretty e ctx hs (CreateUser i) = answered 201 (create_user dbg e ctx hs i)"
| "handle_admin dbg pretty e ctx hs GetUsers = answered 200 (get_users e hs)"
| "handle_admin dbg pretty e ctx hs (GetUser i) = answered 200 (get_user e hs i)"
| "handle_admin dbg pretty e ctx hs (UpdateUser i inp) = answered 200 (update_user e ctx hs i inp)"
| "handle_admin dbg pretty e ctx hs (AdminChangePassword i new) = coded (admin_change_user_password e ctx hs i new)"
| "handle_admin dbg pretty e ctx hs ListRoles = answered 200 (list_roles e hs)"
| "handle_admin dbg pretty e ctx hs (CreateRole name desc) = answered 201 (create_role e ctx hs name desc)"
| "handle_admin dbg pretty e ctx hs (DeleteRole i) = coded (delete_role e ctx hs i)"
| "handle_admin dbg pretty e ctx hs (GetUserRoles u) = answered 200 (handle_get_user_roles e hs u)"
| "handle_admin dbg pretty e ctx hs (AssignRole u i) = coded (assign_role e ctx hs u i)"
| "handle_admin dbg pretty e ctx hs (RemoveRole u i) = coded (remove_role e ctx hs u i)"
| "handle_admin dbg pretty e ctx hs ListApplications = answered 200 (list_applications e hs)"
| "handle_admin dbg pretty e ctx hs (CreateApplication inp) = answered 201 (create_application e ctx hs inp)"
| "handle_admin dbg pretty e ctx hs (GetApplication i) = answered 200 (get_application e hs i)"
| "handle_admin dbg pretty e ctx hs (UpdateApplication i upd) = answered 200 (update_application e ctx hs i upd)"
| "handle_admin dbg pretty e ctx hs (DeleteApplication i) = coded (delete_application e ctx hs i)"
| "handle_admin dbg pretty e ctx hs (GetAuditLog p) = answered 200 (get_audit_log e hs p)"
| "handle_admin dbg pretty e ctx hs GetAuditEventTypes = answered 200 (get_audit_event_types e hs)"
| "handle_admin dbg pretty e ctx hs (ExportAuditLog f p) = responded (export_audit_log pretty e hs f p)"
| "handle_admin dbg pretty e ctx hs GetSettings = answered 200 (get_settings e hs)"
| "handle_admin dbg pretty e ctx hs (UpdateSettings i) = answered 200 (update_settings e ctx hs i)"
| "handle_admin dbg pretty e ctx hs RegenerateLdapPassword = answered 200 (regenerate_ldap_bind_password e ctx hs)"
| "handle_admin dbg pretty e ctx hs RestartService = coded (restart_service e ctx hs)"
| "handle_admin dbg pretty e ctx hs ListInvitations = answered 200 (list_invitations e hs)"
| "handle_admin dbg pretty e ctx hs (CreateInvitation ci) = answered 201 (create_invitation e ctx hs ci)"
| "handle_admin dbg pretty e ctx hs (DeleteInvitation k) = coded (delete_invitation e ctx hs k)"
| "handle_admin dbg pretty e ctx hs (AdminDisableTotp i) = coded (admin_disable_user_totp e ctx hs i)"
| "handle_admin dbg pretty e ctx hs (AdminListAppPasswords u) = answered 200 (admin_list_app_passwords e hs u)"
| "handle_admin dbg pretty e ctx hs (AdminDeleteAppPassword u i) = coded (admin_delete_app_password e ctx hs u i)"

definition login_answered :: "(login_error, 'a) state_op \<Rightarrow> ('a \<Rightarrow> nat) \<Rightarrow> app_state \<Rightarrow> nat \<times> app_state" where
  "login_answered m code s = (case m s of
     (Inl err, s') \<Rightarrow> (fst (login_error_response err), s') | (Inr v, s') \<Rightarrow> (code v, s'))"

primrec handle_member ::
  "('w, 'reg, 'auth, 'pk, 'rc, 'cr, 'res) webauthn_crate \<Rightarrow> env \<Rightarrow> audit_context \<Rightarrow> headers \<Rightarrow> member_call \<Rightarrow> app_state \<Rightarrow> nat \<times> app_state" where
  "handle_member wn e ctx hs GetMe = answered 200 (get_me e hs)"
| "handle_member wn e ctx hs (UpdateMe inp) = answered 200 (update_me e ctx hs inp)"
| "handle_member wn e ctx hs (ChangeMyPassword cur new) = coded (change_my_password e ctx hs cur new)"
| "handle_member wn e ctx hs TotpStatus = answered 200 (get_my_totp_status e hs)"
| "handle_member wn e ctx hs EnrollTotp = answered 200 (enroll_my_totp e hs)"
| "handle_member wn e ctx hs (ActivateTotp code) = answered 200 (activate_my_totp e ctx hs code)"
| "handle_member wn e ctx hs (DisableTotp pw) = coded (disable_my_totp e ctx hs pw)"
| "handle_member wn e ctx hs ListAppPasswords = answered 200 (list_my_app_passwords e hs)"
| "handle_member wn e ctx hs (CreateAppPassword name) = answered 201 (create_my_app_password e ctx hs name)"
| "handle_member wn e ctx hs (DeleteAppPassword i) = coded (delete_my_app_password e ctx hs i)"
| "handle_member wn e ctx hs ListPasskeys = answered 200 (list_passkeys e hs)"
| "handle_member wn e ctx hs (PasskeyRegisterStart nm) = login_answered (register_start wn e ctx hs nm) rs_status"
| "handle_member wn e ctx hs (PasskeyRegisterFinish j) = login_answered (register_finish wn e ctx hs j) rs_status"
| "handle_member wn e ctx hs (DeletePasskey i) = coded (delete_passkey e ctx hs i)"

primrec handle_public ::
  "('w, 'reg, 'auth, 'pk, 'rc, 'cr, 'res) webauthn_crate \<Rightarrow> env \<Rightarrow> audit_context \<Rightarrow> headers \<Rightarrow> public_call \<Rightarrow> app_state \<Rightarrow> nat \<times> app_state" where
  "handle_public wn e ctx hs (Login i) = login_answered (login e ctx i) (\<lambda>_. 200)"
| "handle_public wn e ctx hs (RefreshTokens tok) = answered 200 (refresh_token e ctx tok)"
| "handle_public wn e ctx hs (LogoutToken tok) = coded (logout e ctx tok)"
| "handle_public wn e ctx hs PasskeyLoginStart = login_answered (login_start wn e ctx hs) rs_status"
| "handle_public wn e ctx hs (PasskeyLoginFinish r j) = login_answered (login_finish wn e ctx hs r j) rs_status"
| "handle_public wn e ctx hs (BrowserLogin r i) = login_answered (browser_login e ctx r i) rs_status"
| "handle_public wn e ctx hs (BrowserLogout r) = responded (browser_logout e ctx hs r)"
| "handle_public wn e ctx hs BrowserRefresh = responded (browser_refresh e ctx hs)"
| "handle_public wn e ctx hs (Register i) = (\<lambda>s. case register e ctx i s of
     (Inl err, s') \<Rightarrow> (fst (register_error_response err), s') | (Inr r, s') \<Rightarrow> (rs_status r, s'))"
| "handle_public wn e ctx hs (ValidateInvite code) = answered 200 (gets_op (validate_invite e code))"
| "handle_public wn e ctx hs VerifyAuth = replied (answer (verify_auth e hs))"
| "handle_public wn e ctx hs (ForwardStart r b) = responded (forward_auth_start e hs r b)"
| "handle_public wn e ctx hs (ForwardRedirect r st) = responded (forward_redirect e hs r st)"
| "handle_public wn e ctx hs (ForwardCallback tok) = responded (forward_auth_callback e hs tok)"
| "handle_public wn e ctx hs (ForwardApp r) = answered 200 (lookup_forward_app e r)"
| "handle_public wn e ctx hs Discovery = (\<lambda>s. (200, s))"
| "handle_public wn e ctx hs Jwks = (\<lambda>s. (200, s))"
| "handle_public wn e ctx hs (Authorize uri q) = replied (authorize e ctx hs uri q)"
| "handle_public wn e ctx hs (TokenExchange form) = (\<lambda>s. map_prod rs_status id (token e ctx hs form s))"
| "handle_public wn e ctx hs Userinfo = replied (userinfo e ctx hs)"
| "handle_public wn e ctx hs (EndSession q) = replied (end_session e ctx hs q)"
| "handle_public wn e ctx hs (EndSessionPost q) = replied (end_session_post e ctx hs q)"

primrec handle ::
  "('w, 'reg, 'auth, 'pk, 'rc, 'cr, 'res) webauthn_crate \<Rightarrow> (user \<Rightarrow> string) \<Rightarrow> (audit_record list \<Rightarrow> string + string) \<Rightarrow> env \<Rightarrow> audit_context \<Rightarrow> headers \<Rightarrow> api_call
     \<Rightarrow> app_state \<Rightarrow> nat \<times> app_state" where
  "handle wn dbg pretty e ctx hs (Admin c) = handle_admin dbg pretty e ctx hs c"
| "handle wn dbg pretty e ctx hs (Member c) = handle_member wn e ctx hs c"
| "handle wn dbg pretty e ctx hs (Public c) = handle_public wn e ctx hs c"

section \<open>Background tasks and runs\<close>

text \<open>Every five minutes: drop idle entries of the limiters, expired codes and expired sessions.\<close>

definition cleanup_limiters :: "env \<Rightarrow> app_state \<Rightarrow> app_state" where
  "cleanup_limiters e s = s\<lparr>
     st_login_limiter := rl_cleanup (ev_login_limit e) (ev_instant e) (st_login_limiter s),
     st_register_limiter := rl_cleanup (ev_register_limit e) (ev_instant e) (st_register_limiter s),
     st_ldap_bind_limiter := rl_cleanup (ev_ldap_bind_limit e) (ev_instant e) (st_ldap_bind_limiter s),
     st_oidc_token_limiter := rl_cleanup (ev_oidc_token_limit e) (ev_instant e) (st_oidc_token_limiter s)\<rparr>"

definition periodic_sweep :: "env \<Rightarrow> app_state \<Rightarrow> app_state" where
  "periodic_sweep e s = snd (on_db (bind_op (ignore_op (code_sweep_expired (ev_now e))) (\<lambda>_.
     sweep_expired_sessions (ev_now e))) s)"

text \<open>
  A step of the system: a request, a message on an LDAP connection, a background task, or the
  command that creates the first administrator. \<open>fresh\<close> says which identifiers the generator may
  hand out for new accounts.
\<close>

inductive server_step ::
  "('w, 'reg, 'auth, 'pk, 'rc, 'cr, 'res) webauthn_crate \<Rightarrow> (uuid \<Rightarrow> bool) \<Rightarrow> app_state \<Rightarrow> app_state \<Rightarrow> bool" for wn fresh where
  request: "fresh (ev_uuid e 0) \<Longrightarrow> server_step wn fresh s (snd (handle wn dbg pretty e ctx hs call s))"
| ldap_message: "server_step wn fresh s (snd (serve e version peer m c s))"
| limiter_cleanup: "server_step wn fresh s (cleanup_limiters e s)"
| sweep: "server_step wn fresh s (periodic_sweep e s)"
| first_admin: "fresh (ev_uuid e 0) \<Longrightarrow>
    server_step wn fresh s (snd (on_db (init_admin dbg e username password name email) s))"

definition server_runs :: "('w, 'reg, 'auth, 'pk, 'rc, 'cr, 'res) webauthn_crate \<Rightarrow> (uuid \<Rightarrow> bool) \<Rightarrow> app_state \<Rightarrow> app_state \<Rightarrow> bool" where
  "server_runs wn fresh s t \<longleftrightarrow> (server_step wn fresh)\<^sup>*\<^sup>* s t"

inductive_cases server_stepE: "server_step wn fresh s t"

lemma server_step_mono: "server_step wn fresh s t \<Longrightarrow> (\<And>u. fresh u \<Longrightarrow> fresh' u) \<Longrightarrow> server_step wn fresh' s t"
  by (erule server_stepE) (auto intro: server_step.intros)

lemma server_runs_mono:
  assumes "server_runs wn fresh s t" and "\<And>u. fresh u \<Longrightarrow> fresh' u"
  shows "server_runs wn fresh' s t"
  using assms(1) unfolding server_runs_def
  by (induction rule: rtranclp_induct) (auto intro: rtranclp.rtrancl_into_rtrancl server_step_mono assms(2))

section \<open>Laws of the store are laws of the system\<close>

context store_laws
begin

lemma answered_law: "keeps P m \<Longrightarrow> on_store s (snd (answered ok m s))"
  "keeps P n \<Longrightarrow> on_store s (snd (coded n s))" "keeps P k \<Longrightarrow> on_store s (snd (responded k s))"
  by (auto simp: answered_def coded_def responded_def on_store_def on_db_apply keeps_def split: sum.split)

lemma replied_law: "P (st_db s) (snd (f (st_db s))) \<Longrightarrow> on_store s (snd (replied f s))"
  by (auto simp: replied_def on_store_def split: prod.split)

lemma login_answered_law: "keeps on_store m \<Longrightarrow> on_store s (snd (login_answered m code s))"
  by (auto simp: login_answered_def keeps_def split: sum.split prod.split) (metis snd_conv)+

lemma handle_admin_law:
  "may_create (ev_uuid e 0) \<Longrightarrow> on_store s (snd (handle_admin dbg pretty e ctx hs c s))"
  by (cases c)
     (simp_all add: answered_law create_user_law user_handler_laws role_handler_laws remove_role_law
        totp_handler_laws app_password_handler_laws application_handler_laws admin_handler_laws export_law)

lemma handle_member_law: "on_store s (snd (handle_member wn e ctx hs c s))"
  by (cases c) (simp_all add: answered_law user_handler_laws totp_handler_laws app_password_handler_laws
      login_answered_law passkey_db_laws passkey_handler_laws)

lemma handle_public_law:
  assumes "may_create (ev_uuid e 0)"
  shows "on_store s (snd (handle_public wn e ctx hs c s))"
proof (cases c)
  case (Register i)
  have "on_store s (snd (register e ctx i s))"
    using register_handler_law [OF assms] by (simp add: keeps_def)
  then show ?thesis using Register by (auto split: sum.split prod.split)
qed (simp_all add: answered_law replied_law login_answered_law login_handler_laws passkey_handler_laws refresh_token_law logout_law
       browser_logout_law browser_refresh_law keeps_gets answer_law forward_handler_laws authorize_law
       token_handler_law userinfo_law end_session_law end_session_def end_session_post_def st.refl Let_def)

lemma server_step_law: "server_step wn may_create s t \<Longrightarrow> on_store s t"
proof (induction rule: server_step.induct)
  case (request e s dbg pretty ctx hs call)
  then show ?case by (cases call) (simp_all add: handle_admin_law handle_member_law handle_public_law)
next
  case (ldap_message s e version peer m c)
  then show ?case by (rule serve_law)
next
  case (limiter_cleanup s e)
  then show ?case by (simp add: on_store_def cleanup_limiters_def refl)
next
  case (sweep s e)
  have "keeps P (bind_op (ignore_op (code_sweep_expired (ev_now e))) (\<lambda>_. sweep_expired_sessions (ev_now e)))"
    by (intro keeps_bind keeps_ignore code_sweep_law sweep_law)
  then show ?case by (simp add: on_store_def periodic_sweep_def on_db_apply keeps_def)
next
  case (first_admin e s dbg username password name email)
  then show ?case
    using init_admin_law by (simp add: on_store_def on_db_apply keeps_def)
qed

lemma server_runs_law: "server_runs wn may_create s t \<Longrightarrow> P (st_db s) (st_db t)"
  unfolding server_runs_def
  by (induction rule: rtranclp_induct)
     (auto simp: refl on_store_def dest!: server_step_law intro: trans)

end

end
