(* ===== verification/Passkey_Properties.thy ===== *)
theory Passkey_Properties
  imports Passkeys Session_Laws Session_Properties
begin

text \<open>
  What a sign-in with a passkey rests on: a challenge that the server issued, that has not expired
  and that is used up by the attempt, and the credential stored for an active account.
\<close>

section \<open>Challenges\<close>

lemma internal_Inr: "internal r = Inr v \<longleftrightarrow> r = Inr v"
  by (cases r) (simp_all add: internal_def)

lemma challenge_of_row_sels [simp]:
  "ch_user (challenge_of_row r) = pc_user r" "ch_token_version (challenge_of_row r) = pc_token_version r"
  "ch_name (challenge_of_row r) = pc_name r" "ch_state (challenge_of_row r) = pc_state r"
  by (simp_all add: challenge_of_row_def)

lemma take_challenge_Inr:
  "take_challenge e hs kind d = (Inr c, d') \<longleftrightarrow>
     (\<exists>i r. cookie_id hs kind = Some i \<and> sql_find (challenge_open (ev_now e) i kind) (passkey_challenges d) = Some r
        \<and> c = challenge_of_row r
        \<and> d' = d\<lparr>passkey_challenges := sql_delete (challenge_open (ev_now e) i kind) (passkey_challenges d)\<rparr>)"
  by (auto simp: take_challenge_def drop_challenges_def op_results)

lemma rate_limit_Inr:
  "rate_limit e ctx s = (Inr u, s') \<longleftrightarrow>
     (\<exists>n l. rl_check (ev_login_limit e) (ev_instant e) (ax_ip ctx) (st_login_limiter s) = (Inr n, l)
        \<and> s' = s\<lparr>st_login_limiter := l\<rparr>)"
  by (auto simp: rate_limit_def check_login_limit_def op_results split: prod.splits)

text \<open>A step that adds no challenge.\<close>

definition no_new_challenges :: "db \<Rightarrow> db \<Rightarrow> bool" where
  "no_new_challenges d d' \<longleftrightarrow>
     set (passkey_challenges d') \<subseteq> set (passkey_challenges d)
   \<and> (keyed pc_id (passkey_challenges d) \<longrightarrow> keyed pc_id (passkey_challenges d'))"

interpretation nc: state_preorder no_new_challenges
  by unfold_locales (auto simp: no_new_challenges_def)

lemma keeps_session_nc: "keeps session_only m \<Longrightarrow> keeps no_new_challenges m"
  by (rule keeps_mono [of session_only]) (auto simp: no_new_challenges_def dest: session_onlyD)

lemma keeps_drop_challenges: "keeps no_new_challenges (drop_challenges p)"
  unfolding drop_challenges_def
  by (rule nc.keeps_modify) (auto simp: no_new_challenges_def keyed_sql_delete)

lemma keeps_verify_passkey:
  "keeps no_new_challenges (verify_passkey wn e ctx wa authentication credential user_id credential_id)"
proof -
  have "keeps no_new_challenges (touch_passkey i c now)" for i c now
    unfolding touch_passkey_def by (rule nc.keeps_modify) (simp add: no_new_challenges_def)
  then show ?thesis
    unfolding verify_passkey_def refuse_passkey_def accept_passkey_def
    by (intro nc.keeps_rules keeps_session_nc [OF so.audit_law] keeps_session_nc [OF so.login_pair_law])
qed

lemma keeps_passkey_session: "keeps no_new_challenges (passkey_session wn e ctx hs input)"
  unfolding passkey_session_def take_challenge_def
  by (intro nc.keeps_rules keeps_drop_challenges keeps_verify_passkey)

text \<open>The database a completed sign-in leaves, in terms of the one it found.\<close>

lemma login_finish_state:
  "no_new_challenges (st_db s) (st_db (snd (login_finish wn e ctx hs uri input s)))"
proof (cases "rate_limit e ctx s")
  case (Pair r s1)
  have s1: "st_db s1 = st_db s"
    using Pair by (auto simp: rate_limit_def check_login_limit_def bind_op_def map_err_op_def split: prod.splits sum.splits)
  have "no_new_challenges (st_db s1) (snd (passkey_session wn e ctx hs input (st_db s1)))"
    using keeps_passkey_session [of wn e ctx hs input] by (simp add: keeps_def)
  then show ?thesis
    using Pair s1 nc.refl
    by (auto simp: login_finish_def bind_op_def on_db_apply map_err_op_def split: sum.splits prod.splits)
qed

lemma verify_passkey_Inr:
  assumes "verify_passkey wn e ctx wa auth cr u ci d = (Inr (Some p), d')"
  obtains row pk res d1 d2 where "stored_passkey u ci d = Some row" "wn_decode_passkey wn (pk_credential row) = Inr pk"
    "wn_finish_authentication wn wa cr auth [pk] = Some res" "wn_user_verified wn res"
    "generate_token_pair (ev_ext e) (ev_key e) (ev_now e) (ev_mint e) u (user_get_roles u d) d1 = (Inr p, d2)"
    "passkey_challenges d' = passkey_challenges d"
proof -
  from assms obtain row pk where row: "stored_passkey u ci d = Some row"
    and pk: "wn_decode_passkey wn (pk_credential row) = Inr pk"
    by (auto simp: verify_passkey_def op_results internal_Inr)
  obtain res where res: "verified_result wn wa cr auth pk = Some res"
    and acc: "accept_passkey e ctx u (pk_id row) (wn_encode_passkey wn (wn_update_credential wn res pk)) d = (Inr (Some p), d')"
    using assms row pk
    by (auto simp: verify_passkey_def op_results internal_Inr refuse_passkey_def split: option.splits)
  obtain xs d1 usr d2 entry where usr: "user_get u d1 = Some usr"
    and d1: "d1 = d\<lparr>passkeys := xs\<rparr>"
    and gen: "generate_token_pair (ev_ext e) (ev_key e) (ev_now e) (ev_mint e) u (user_get_roles (u_id usr) d1) d1 = (Inr p, d2)"
    and d': "audit_save (ev_ext e) (ev_uuid e 0) (ev_now e) entry d2 = (Inr (), d')"
    using acc by (auto simp: accept_passkey_def op_results internal_Inr touch_passkey_def)
  have id: "u_id usr = u" using usr by (auto simp: user_get_def user.truncate_def dest: sql_find_SomeD)
  have rls: "user_get_roles u d1 = user_get_roles u d" by (simp add: d1 user_get_roles_def)
  have "session_only d1 d2" using so.login_pair_law gen unfolding keeps_def by (metis snd_conv)
  moreover have "session_only d2 d'" using d' so.audit_law unfolding keeps_def by (metis snd_conv)
  ultimately have "passkey_challenges d' = passkey_challenges d"
    by (simp add: d1 session_onlyD)
  then show ?thesis using that row pk res gen id rls by (simp add: verified_result_def split: option.splits if_splits)
qed

lemma passkey_session_Inr:
  assumes "passkey_session wn e ctx hs input d = (Inr p, d')"
  obtains i ch auth cr wa u row pk res d1 d2 where
    "cookie_id hs ''login'' = Some i"
    "sql_find (challenge_open (ev_now e) i ''login'') (passkey_challenges d) = Some ch"
    "wn_decode_authentication wn (pc_state ch) = Inr auth" "wn_login_response wn input = Some cr"
    "webauthn wn (ev_ext e) (ev_origin e) = Inr wa" "wn_identify wn wa cr = Some (u, pk_credential_id row)"
    "stored_passkey u (pk_credential_id row) d = Some row" "wn_decode_passkey wn (pk_credential row) = Inr pk"
    "wn_finish_authentication wn wa cr auth [pk] = Some res" "wn_user_verified wn res"
    "generate_token_pair (ev_ext e) (ev_key e) (ev_now e) (ev_mint e) u (user_get_roles u d) d1 = (Inr p, d2)"
    "passkey_challenges d' = sql_delete (challenge_open (ev_now e) i ''login'') (passkey_challenges d)"
proof -
  from assms obtain i ch auth cr wa u ci where
    a: "cookie_id hs ''login'' = Some i"
    "sql_find (challenge_open (ev_now e) i ''login'') (passkey_challenges d) = Some ch"
    "wn_decode_authentication wn (pc_state ch) = Inr auth" "wn_login_response wn input = Some cr"
    "webauthn wn (ev_ext e) (ev_origin e) = Inr wa" "wn_identify wn wa cr = Some (u, ci)"
    and v: "verify_passkey wn e ctx wa auth cr u ci
      (d\<lparr>passkey_challenges := sql_delete (challenge_open (ev_now e) i ''login'') (passkey_challenges d)\<rparr>) = (Inr (Some p), d')"
    by (auto simp: passkey_session_def op_results take_challenge_Inr internal_Inr)
  from v show ?thesis
  proof (rule verify_passkey_Inr)
    fix row pk res d1 d2
    assume "stored_passkey u ci (d\<lparr>passkey_challenges := sql_delete (challenge_open (ev_now e) i ''login'') (passkey_challenges d)\<rparr>) = Some row"
    then have "stored_passkey u ci d = Some row" by (simp add: stored_passkey_def)
    moreover from this have "ci = pk_credential_id row" by (auto simp: stored_passkey_def dest: sql_find_SomeD)
    moreover assume "wn_decode_passkey wn (pk_credential row) = Inr pk"
      "wn_finish_authentication wn wa cr auth [pk] = Some res" "wn_user_verified wn res"
      "generate_token_pair (ev_ext e) (ev_key e) (ev_now e) (ev_mint e) u (user_get_roles u
         (d\<lparr>passkey_challenges := sql_delete (challenge_open (ev_now e) i ''login'') (passkey_challenges d)\<rparr>)) d1 = (Inr p, d2)"
      "passkey_challenges d' = passkey_challenges
         (d\<lparr>passkey_challenges := sql_delete (challenge_open (ev_now e) i ''login'') (passkey_challenges d)\<rparr>)"
    moreover have "user_get_roles u (d\<lparr>passkey_challenges := xs\<rparr>) = user_get_roles u d" for xs
      by (simp add: user_get_roles_def)
    ultimately show thesis using that a by simp
  qed
qed

lemma on_db_result: "on_db m s = (r, s') \<longleftrightarrow> (\<exists>d. m (st_db s) = (r, d) \<and> s' = s\<lparr>st_db := d\<rparr>)"
  by (auto simp: on_db_def split: prod.splits)

lemma login_finish_Inr:
  assumes "login_finish wn e ctx hs uri input s = (Inr rs, s')"
  obtains p n l r where "rl_check (ev_login_limit e) (ev_instant e) (ax_ip ctx) (st_login_limiter s) = (Inr n, l)"
    "passkey_session wn e ctx hs input (st_db s) = (Inr p, st_db s')"
    "browser_login_response p uri = Inr r"
    "rs = r\<lparr>rs_headers := h_append ''set-cookie'' (challenge_cookie ''login'' [] 0) (rs_headers r)\<rparr>"
  using assms by (auto simp: login_finish_def op_results rate_limit_Inr on_db_result)

lemma browser_login_cookies:
  assumes "browser_login_response p uri = Inr r"
  shows "h_get_all ''set-cookie'' (rs_headers r) =
     [build_auth_cookie (tk_access p) (tk_expires_in p), build_refresh_cookie (tk_refresh p) (tk_refresh_expires_in p)]"
  using assms
  by (auto simp: browser_login_response_def redirect_or_def session_cookies_def plain_def h_get_all_insert h_get_all_append
      split: option.splits if_splits)

section \<open>Properties\<close>

text \<open>
  C2. A passkey opens a session only after everything has been checked. When a sign-in succeeds,
  the attempt counter allowed it; the browser presented the identifier of a challenge that this
  server stored for a login and that has not expired; the assertion names a credential stored for
  an active account, the WebAuthn library accepted it for exactly that challenge and that stored
  credential, and the authenticator verified its user. The cookies carry a token for that account
  with its current roles, and the challenge is gone.
\<close>

theorem passkey_login_grants:
  assumes "login_finish wn e ctx hs uri input s = (Inr rs, s')"
  shows "\<exists>n i ch auth cr wa row pk res (p :: token_pair).
       fst (rl_check (ev_login_limit e) (ev_instant e) (ax_ip ctx) (st_login_limiter s)) = Inr n
     \<and> cookie_id hs ''login'' = Some i
     \<and> ch \<in> set (passkey_challenges (st_db s)) \<and> pc_id ch = i \<and> pc_kind ch = ''login'' \<and> ev_now e < pc_expires ch
     \<and> wn_decode_authentication wn (pc_state ch) = Inr auth \<and> wn_login_response wn input = Some cr
     \<and> webauthn wn (ev_ext e) (ev_origin e) = Inr wa
     \<and> row \<in> set (passkeys (st_db s)) \<and> (\<exists>r\<in>set (users (st_db s)). u_id r = pk_user row \<and> u_active r)
     \<and> wn_identify wn wa cr = Some (pk_user row, pk_credential_id row)
     \<and> wn_decode_passkey wn (pk_credential row) = Inr pk
     \<and> wn_finish_authentication wn wa cr auth [pk] = Some res \<and> wn_user_verified wn res
     \<and> (\<exists>c. x_jwt_sign (ev_ext e) (ev_key e) eddsa_header (claims_to_json c) = Inr (tk_access p)
          \<and> c_sub c = x_uuid_str (ev_ext e) (pk_user row) \<and> c_roles c = user_get_roles (pk_user row) (st_db s))
     \<and> hd (h_get_all ''set-cookie'' (rs_headers rs)) = build_auth_cookie (tk_access p) (tk_expires_in p)
     \<and> \<not> (\<exists>r\<in>set (passkey_challenges (st_db s')). challenge_open (ev_now e) i ''login'' r)"
proof -
  from assms obtain p n l r where
    rl: "rl_check (ev_login_limit e) (ev_instant e) (ax_ip ctx) (st_login_limiter s) = (Inr n, l)"
    and sess: "passkey_session wn e ctx hs input (st_db s) = (Inr p, st_db s')"
    and resp: "browser_login_response p uri = Inr r"
    and rs: "rs = r\<lparr>rs_headers := h_append ''set-cookie'' (challenge_cookie ''login'' [] 0) (rs_headers r)\<rparr>"
    by (rule login_finish_Inr)
  have ck: "hd (h_get_all ''set-cookie'' (rs_headers rs)) = build_auth_cookie (tk_access p) (tk_expires_in p)"
    using browser_login_cookies [OF resp] by (simp add: rs h_get_all_append)
  from sess show ?thesis
  proof (rule passkey_session_Inr)
    fix i ch auth cr wa u row pk res d1 d2
    assume *: "cookie_id hs ''login'' = Some i"
      "sql_find (challenge_open (ev_now e) i ''login'') (passkey_challenges (st_db s)) = Some ch"
      "wn_decode_authentication wn (pc_state ch) = Inr auth" "wn_login_response wn input = Some cr"
      "webauthn wn (ev_ext e) (ev_origin e) = Inr wa" "wn_identify wn wa cr = Some (u, pk_credential_id row)"
      "stored_passkey u (pk_credential_id row) (st_db s) = Some row" "wn_decode_passkey wn (pk_credential row) = Inr pk"
      "wn_finish_authentication wn wa cr auth [pk] = Some res" "wn_user_verified wn res"
      "generate_token_pair (ev_ext e) (ev_key e) (ev_now e) (ev_mint e) u (user_get_roles u (st_db s)) d1 = (Inr p, d2)"
      "passkey_challenges (st_db s') = sql_delete (challenge_open (ev_now e) i ''login'') (passkey_challenges (st_db s))"
    from *(2) have ch: "ch \<in> set (passkey_challenges (st_db s))" "pc_id ch = i" "pc_kind ch = ''login''" "ev_now e < pc_expires ch"
      by (auto simp: challenge_open_def dest: sql_find_SomeD)
    from *(7) have row: "row \<in> set (passkeys (st_db s))" "pk_user row = u"
      "\<exists>r\<in>set (users (st_db s)). u_id r = pk_user row \<and> u_active r"
      by (auto simp: stored_passkey_def dest: sql_find_SomeD)
    have gone: "\<not> (\<exists>r\<in>set (passkey_challenges (st_db s')). challenge_open (ev_now e) i ''login'' r)"
      by (simp add: *(12))
    have "\<exists>c. x_jwt_sign (ev_ext e) (ev_key e) eddsa_header (claims_to_json c) = Inr (tk_access p)
        \<and> c_sub c = x_uuid_str (ev_ext e) u \<and> c_roles c = user_get_roles u (st_db s)"
      using generate_token_pair_frame(6) [OF *(11)] by blast
    with rl ck *(1,3-6,8-10) ch row gone show ?thesis
      by (intro exI [of _ n] exI [of _ i] exI [of _ ch] exI [of _ auth] exI [of _ cr] exI [of _ wa] exI [of _ row]
          exI [of _ pk] exI [of _ res] exI [of _ p]) simp
  qed
qed

text \<open>The challenge as a one-time credential of the sign-in handler.\<close>

definition use_passkey ::
  "('w, 'reg, 'auth, 'pk, 'rc, 'cr, 'res) webauthn_crate \<times> env \<times> audit_context \<times> headers \<times> string option \<times> json
     \<Rightarrow> app_state \<Rightarrow> bool \<times> app_state" where
  "use_passkey p s = (case p of (wn, e, ctx, hs, uri, input) \<Rightarrow>
     (case login_finish wn e ctx hs uri input s of (r, s') \<Rightarrow> (\<not> isl r, s')))"

definition passkey_cred ::
  "('w, 'reg, 'auth, 'pk, 'rc, 'cr, 'res) webauthn_crate \<times> env \<times> audit_context \<times> headers \<times> string option \<times> json
     \<Rightarrow> string option" where
  "passkey_cred p = (case p of (wn, e, ctx, hs, uri, input) \<Rightarrow> cookie_id hs ''login'')"

definition challenge_live :: "string option \<Rightarrow> app_state \<Rightarrow> bool" where
  "challenge_live k s \<longleftrightarrow> (\<exists>r\<in>set (passkey_challenges (st_db s)). k = Some (pc_id r))"

definition challenges_keyed :: "app_state \<Rightarrow> bool" where
  "challenges_keyed s \<longleftrightarrow> keyed pc_id (passkey_challenges (st_db s))"

lemma use_passkey_state:
  "no_new_challenges (st_db s) (st_db (snd (use_passkey p s)))"
proof -
  obtain wn e ctx hs uri input where p: "p = (wn, e, ctx, hs, uri, input)" by (cases p)
  show ?thesis
    using login_finish_state [of s wn e ctx hs uri input]
    by (cases "login_finish wn e ctx hs uri input s") (simp add: use_passkey_def p)
qed

lemma use_passkey_success:
  assumes "fst (use_passkey p s)" and "challenges_keyed s"
  shows "challenge_live (passkey_cred p) s \<and> \<not> challenge_live (passkey_cred p) (snd (use_passkey p s))"
proof -
  obtain wn e ctx hs uri input where p: "p = (wn, e, ctx, hs, uri, input)" by (cases p)
  obtain rs s' where fin: "login_finish wn e ctx hs uri input s = (Inr rs, s')"
    using assms(1) by (cases "login_finish wn e ctx hs uri input s"; cases "fst (login_finish wn e ctx hs uri input s)")
       (auto simp: use_passkey_def p)
  from fin show ?thesis
  proof (rule login_finish_Inr)
    fix q n l r
    assume "passkey_session wn e ctx hs input (st_db s) = (Inr q, st_db s')"
    then show ?thesis
    proof (rule passkey_session_Inr)
      fix i ch
      assume i: "cookie_id hs ''login'' = Some i"
        and ch: "sql_find (challenge_open (ev_now e) i ''login'') (passkey_challenges (st_db s)) = Some ch"
        and del: "passkey_challenges (st_db s') = sql_delete (challenge_open (ev_now e) i ''login'') (passkey_challenges (st_db s))"
      have c: "ch \<in> set (passkey_challenges (st_db s))" "challenge_open (ev_now e) i ''login'' ch"
        using ch by (auto dest: sql_find_SomeD)
      then have "q = ch" if "q \<in> set (passkey_challenges (st_db s))" "pc_id q = i" for q
        using keyed_unique [of pc_id "passkey_challenges (st_db s)" q ch] assms(2) that
        by (simp add: challenges_keyed_def challenge_open_def)
      then show ?thesis
        using c i by (auto simp: challenge_live_def passkey_cred_def p use_passkey_def fin del challenge_open_def)
    qed
  qed
qed

interpretation passkey: single_use challenges_keyed use_passkey passkey_cred challenge_live
  "\<lambda>k s s'. (challenge_live k s' \<longrightarrow> challenge_live k s) \<and> (challenges_keyed s \<longrightarrow> challenges_keyed s')"
proof
  fix s p
  assume "challenges_keyed s" "fst (use_passkey p s)"
  then show "challenge_live (passkey_cred p) s" "\<not> challenge_live (passkey_cred p) (snd (use_passkey p s))"
    using use_passkey_success by blast+
next
  fix s k p
  show "\<not> challenge_live k (snd (use_passkey p s))" if "\<not> challenge_live k s"
    using use_passkey_state [of s p] that by (auto simp: challenge_live_def no_new_challenges_def)
next
  fix s p
  show "challenges_keyed (snd (use_passkey p s))" if "challenges_keyed s"
    using use_passkey_state [of s p] that by (auto simp: challenges_keyed_def no_new_challenges_def)
qed auto

text \<open>
  C19. A recorded passkey assertion cannot be replayed. In any history of sign-ins with passkeys,
  successful or not, interleaved with any steps that do not store this very challenge, at most one
  sign-in with a given challenge succeeds.
\<close>

theorem passkey_challenge_single_use:
  assumes "passkey.run k s es s'" and "challenges_keyed s"
  shows "passkey.successes k es \<le> 1"
  using passkey.at_most_one_success [OF assms] .

section \<open>An example\<close>

text \<open>A crate whose ceremonies compare strings, an account with one passkey, and a pending login.\<close>

definition demo_crate :: "(unit, string, string, string, string, string, string) webauthn_crate" where
  "demo_crate = \<lparr>
     wn_new = (\<lambda>domain url. True), wn_build = (\<lambda>domain url name timeout. Inr ()),
     wn_start_registration = (\<lambda>w rnd u un nm ids. Inr (Inr \<lparr>co_selection = None, co_members = []\<rparr>, rnd)),
     wn_finish_registration = (\<lambda>w rc reg. if rc = reg then Some rc else None), wn_cred_id = id,
     wn_start_authentication = (\<lambda>w rnd. Inr (Inr (JStr rnd), rnd)),
     wn_identify = (\<lambda>w cr. Some (7, ''cred'')),
     wn_finish_authentication = (\<lambda>w cr auth pks. if cr = auth then Some cr else None),
     wn_user_verified = (\<lambda>res. True), wn_update_credential = (\<lambda>res pk. pk),
     wn_encode_registration = Inr, wn_decode_registration = Inr,
     wn_encode_authentication = Inr, wn_decode_authentication = Inr,
     wn_encode_passkey = Inr, wn_decode_passkey = Inr,
     wn_register_response = as_str, wn_login_response = as_str\<rparr>"

definition demo_site :: env where
  "demo_site = demo_env\<lparr>ev_origin := ''https://auth.example/''\<rparr>"

definition demo_challenge_id :: string where
  "demo_challenge_id = replicate 64 CHR ''0''"

definition demo_passkey_db :: db where
  "demo_passkey_db = demo_session\<lparr>
     passkeys := [\<lparr>pk_id = 50, pk_user = 7, pk_credential_id = ''cred'', pk_name = ''laptop'', pk_credential = ''key'',
       pk_created = 900, pk_last_used = None\<rparr>],
     passkey_challenges := [\<lparr>pc_id = demo_challenge_id, pc_kind = ''login'', pc_user = None, pc_token_version = None,
       pc_name = None, pc_state = ''nonce'', pc_expires = 1700\<rparr>]\<rparr>"

definition demo_passkey_cookie :: headers where
  "demo_passkey_cookie = [(''cookie'', cookie_name ''login'' @ ''='' @ demo_challenge_id)]"

lemma demo_cookie_id: "cookie_id demo_passkey_cookie ''login'' = Some demo_challenge_id"
proof -
  let ?n = "cookie_name ''login''" and ?v = "cookie_name ''login'' @ ''='' @ demo_challenge_id"
  have "trim ?v = ?v"
    by (rule trim_graphic) (simp_all add: cookie_name_def demo_challenge_id_def ascii_graphic_def byte_def last_replicate)
  moreover have "split_char CHR '';'' ?v = [?v]"
    by (rule split_char_single) (simp add: cookie_name_def demo_challenge_id_def)
  moreover have "split_once_char CHR ''='' ?v = Some (?n, demo_challenge_id)"
    by (simp add: split_once_char_Some) (simp add: cookie_name_def)
  moreover have "list_all visible_ascii ?v"
    by (simp add: cookie_name_def demo_challenge_id_def visible_ascii_def byte_def list_all_iff)
  moreover have "list_all is_ascii_hexdigit demo_challenge_id" "length demo_challenge_id = 64"
    by (simp_all add: demo_challenge_id_def list_all_iff is_ascii_hexdigit_def is_ascii_digit_def byte_def)
  ultimately show ?thesis
    by (simp add: cookie_id_def demo_passkey_cookie_def h_get_def h_get_all_def to_str_def cookie_part_def)
qed

lemma demo_site_sels:
  "ev_ext demo_site = ref_ext" "ev_now demo_site = 1500" "ev_key demo_site = []" "ev_mint demo_site = demo_mint2"
  "ev_origin demo_site = ''https://auth.example/''" "ev_uuid demo_site n = 100 + n" "ev_login_limit demo_site = default_rate_limit_config"
  "ev_instant demo_site = 0"
  by (simp_all add: demo_site_def demo_env_def)

lemma generate_token_pair_rows:
  "generate_token_pair x key now m u rls d = (Inr p, d') \<Longrightarrow> \<exists>rows. d' = d\<lparr>refresh_tokens := rows\<rparr>"
  by (auto simp: generate_token_pair_def op_results user_session_version_eq generate_pair_Inr split: option.splits)

lemma demo_accept_passkey:
  assumes "users d = [demo_user]" "audit_log d = []" "\<forall>r\<in>set (refresh_tokens d). rt_id r \<noteq> 2"
  shows "\<exists>p d'. accept_passkey demo_site ctx 7 i (Inr c) d = (Inr (Some p), d')"
proof -
  let ?d = "d\<lparr>passkeys := sql_update (\<lambda>r. pk_id r = i) (\<lambda>r. r\<lparr>pk_credential := c, pk_last_used := Some 1500\<rparr>) (passkeys d)\<rparr>"
  have "user_get 7 ?d = Some (user.truncate demo_user)" and id: "u_id demo_user = 7"
    by (simp_all add: user_get_def assms demo_user_def)
  moreover have "current_version 7 ?d = Some 0" "user_exists 7 ?d" "\<forall>r\<in>set (refresh_tokens ?d). rt_id r \<noteq> mi_row demo_mint2"
    using assms by (simp_all add: current_version_def user_exists_def demo_user_def demo_mint2_def)
  then obtain p d2 where gen: "generate_token_pair ref_ext [] 1500 demo_mint2 7 (user_get_roles 7 ?d) ?d = (Inr p, d2)"
    using generate_token_pair_ref by blast
  then obtain rows where d2: "d2 = ?d\<lparr>refresh_tokens := rows\<rparr>" using generate_token_pair_rows by blast
  have "\<exists>d'. audit_save ref_ext 100 1500 (audit_details j (audit_ctx ctx (audit_user 7 (audit LoginSuccess)))) d2 = (Inr (), d')" for j
    using id by (simp add: audit_save_def insert_op_def d2 assms user_exists_def audit_ctx_def audit_user_def audit_def audit_details_def
        Let_def split: option.split)
  then obtain d' where "audit_save ref_ext 100 1500 (audit_details (JObj [(''method'', JStr ''passkey''), (''passkey_id'', JStr (show_nat i))])
      (audit_ctx ctx (audit_user 7 (audit LoginSuccess)))) d2 = (Inr (), d')" by blast
  ultimately show ?thesis
    using gen by (simp add: accept_passkey_def bind_op_def internal_def touch_passkey_def demo_site_sels ok_or_op_def)
qed

lemma demo_passkey_session:
  "\<exists>p d'. passkey_session demo_crate demo_site demo_ctx demo_passkey_cookie (JStr ''nonce'') demo_passkey_db = (Inr p, d')"
proof -
  let ?d = "demo_passkey_db\<lparr>passkey_challenges := []\<rparr>"
  let ?r = "\<lparr>pk_id = 50, pk_user = 7, pk_credential_id = ''cred'', pk_name = ''laptop'',
     pk_credential = ''key'', pk_created = 900, pk_last_used = None\<rparr>"
  have take: "take_challenge demo_site demo_passkey_cookie ''login'' demo_passkey_db
      = (Inr \<lparr>ch_user = None, ch_token_version = None, ch_name = None, ch_state = ''nonce''\<rparr>, ?d)"
    by (simp add: take_challenge_def demo_cookie_id bind_op_def ok_or_op_def drop_challenges_def demo_site_sels demo_passkey_db_def
        sql_delete_def challenge_open_def challenge_of_row_def)
  have wa: "webauthn demo_crate ref_ext ''https://auth.example/'' = Inr ()"
    by (simp add: webauthn_def ref_url_def strip_prefix_def Let_def) (simp add: demo_crate_def internal_def)
  have row: "stored_passkey 7 ''cred'' ?d = Some ?r"
    by (simp add: stored_passkey_def demo_passkey_db_def demo_state_defs)
  have "users ?d = [demo_user]" "audit_log ?d = []" "\<forall>r\<in>set (refresh_tokens ?d). rt_id r \<noteq> 2"
    by (simp_all add: demo_passkey_db_def demo_state_defs)
  then obtain p d' where "accept_passkey demo_site demo_ctx 7 50 (Inr ''key'') ?d = (Inr (Some p), d')"
    using demo_accept_passkey by blast
  then have "verify_passkey demo_crate demo_site demo_ctx () ''nonce'' ''nonce'' 7 ''cred'' ?d = (Inr (Some p), d')"
    using row by (simp add: verify_passkey_def bind_op_def ok_or_op_def tx_op_def internal_def verified_result_def demo_crate_def)
  then show ?thesis
    using take wa by (simp add: passkey_session_def bind_op_def ok_or_op_def internal_def demo_site_sels demo_crate_def)
qed

lemma demo_login_finish:
  "\<exists>rs s'. login_finish demo_crate demo_site demo_ctx demo_passkey_cookie None (JStr ''nonce'')
     (demo_state\<lparr>st_db := demo_passkey_db\<rparr>) = (Inr rs, s')"
proof -
  obtain p d' where "passkey_session demo_crate demo_site demo_ctx demo_passkey_cookie (JStr ''nonce'') demo_passkey_db = (Inr p, d')"
    using demo_passkey_session by blast
  moreover obtain n l where "rl_check default_rate_limit_config 0 (ax_ip demo_ctx) new_limiter = (Inr n, l)"
    by (simp add: rl_check_def current_entry_def new_limiter_def default_rate_limit_config_def Let_def)
  ultimately show ?thesis
    by (simp add: login_finish_def bind_op_def rate_limit_def check_login_limit_apply demo_site_sels demo_state_def map_err_op_def
        on_db_apply browser_login_response_def redirect_or_def)
qed

theorem passkey_login_grants_witness:
  "\<exists>rs s' i. login_finish demo_crate demo_site demo_ctx demo_passkey_cookie None (JStr ''nonce'')
       (demo_state\<lparr>st_db := demo_passkey_db\<rparr>) = (Inr rs, s')
     \<and> cookie_id demo_passkey_cookie ''login'' = Some i
     \<and> \<not> (\<exists>r\<in>set (passkey_challenges (st_db s')). challenge_open 1500 i ''login'' r)"
proof -
  obtain rs s' where l: "login_finish demo_crate demo_site demo_ctx demo_passkey_cookie None (JStr ''nonce'')
       (demo_state\<lparr>st_db := demo_passkey_db\<rparr>) = (Inr rs, s')"
    using demo_login_finish by blast
  show ?thesis
    using passkey_login_grants [OF l] l by (simp add: demo_site_sels) blast
qed

theorem passkey_challenge_single_use_witness:
  "passkey.successes (Some demo_challenge_id)
     [((demo_crate, demo_site, demo_ctx, demo_passkey_cookie, None, JStr ''nonce''), True)] \<le> 1"
proof -
  let ?s = "demo_state\<lparr>st_db := demo_passkey_db\<rparr>"
  let ?p = "(demo_crate, demo_site, demo_ctx, demo_passkey_cookie, None :: string option, JStr ''nonce'')"
  have ok: "fst (use_passkey ?p ?s)" using demo_login_finish by (auto simp: use_passkey_def)
  have "challenges_keyed ?s" by (simp add: challenges_keyed_def demo_passkey_db_def keyed_def)
  then show ?thesis
    using passkey_challenge_single_use [OF passkey.present [OF passkey.start]] ok by (metis append_Nil)
qed

end
