(* ===== verification/Server_Users.thy ===== *)
theory Server_Users
  imports Server Token_Properties Passkey_Properties
begin

text \<open>
  The first law of the system: no run lowers a user's session generation or brings a user back.
  Revocations are therefore final whatever the server does next.
\<close>

lemma keeps_remove_role: "keeps (evolves u) (remove_role e ctx hs w i)"
proof -
  have "keeps (evolves u) (require_admin e hs)" by (rule ev.keeps_pure) simp
  moreover have "keeps (evolves u) (note_audit e n a)" for n a
    unfolding note_audit_def by (rule keeps_same_users_evolves [OF keeps_audited])
  ultimately show ?thesis
    unfolding remove_role_def
    by (intro ev.keeps_rules keeps_revoke_user_access keeps_same_users_evolves [OF keeps_role_ops(4)])
qed

lemma retry_evolves: "evolves u d (clear_stale_retries now (d\<lparr>refresh_tokens := rows\<rparr>))"
  by (rule same_users_evolves) (simp add: same_users_def clear_stale_retries_def)

lemma keeps_role_grant: "keeps same_users (insert_op dup dang (\<lambda>d. d\<lparr>user_roles := f d\<rparr>))"
  by (rule keeps_intros) simp

lemma keeps_set_setting: "keeps same_users (set_setting k v)"
  unfolding set_setting_def by (rule keeps_intros) simp

lemma keeps_passkey_ops:
  "keeps same_users (insert_challenge crow)" "keeps same_users (drop_challenges cq :: unit db_op)"
  "keeps same_users (store_passkey e ctx w pch cid enc)" "keeps same_users (touch_passkey i cred now :: unit db_op)"
  "keeps same_users (drop_passkey i w)"
  unfolding insert_challenge_def drop_challenges_def store_passkey_def insert_passkey_def touch_passkey_def Let_def
  by (intro su.keeps_rules keeps_intros keeps_audit_save; simp)+
     (simp add: keeps_def drop_passkey_def same_users_def)

interpretation users_evolve: store_laws "evolves u" "\<lambda>v. v \<noteq> u" for u
  by (unfold_locales)
     (intro keeps_same_users_evolves keeps_audit_save keeps_generate_pair_for_session keeps_consume retry_evolves
        keeps_revoke_all keeps_revoke_user_access keeps_user_save keeps_user_update keeps_password_ops keeps_role_ops
        keeps_role_grant keeps_remove_role keeps_set_setting keeps_code_ops keeps_issue_handoff keeps_redeem_handoff
        keeps_sweep keeps_application_ops keeps_totp_ops keeps_store_recovery keeps_invitation_ops
        keeps_app_password_ops keeps_passkey_ops; assumption)+

section \<open>Replacing or removing a credential\<close>

text \<open>The handlers that replace or remove a credential raise the generation of the account.\<close>

lemma same_users_version: "same_users d d' \<Longrightarrow> version_of u d' = version_of u d"
  by (simp add: same_users_def version_of_def)

lemma keeps_note: "keeps same_users (note_audit e n a)"
  unfolding note_audit_def by (rule keeps_audited)

lemma keepsD: "keeps P m \<Longrightarrow> m s = (r, t) \<Longrightarrow> P s t"
  by (metis keeps_def snd_conv)

lemma revoke_version: "revoke_all_user_tokens now u d = (r, d') \<Longrightarrow>
    version_of u d' = map_option (\<lambda>v. v + 1) (version_of u d)"
  using version_of_revoke_all [of u now d] by simp

lemma reset_version:
  assumes "update_password x salt fresh u new d = (Inr (), d1)" and "revoke_all_user_tokens now u d1 = (r, d2)"
    and "note_audit e n a d2 = (Inr (), d')"
  shows "version_of u d' = map_option (\<lambda>v. v + 1) (version_of u d)"
  using same_users_version [OF keepsD [OF keeps_password_ops(4) assms(1)], of u] revoke_version [OF assms(2)]
    same_users_version [OF keepsD [OF keeps_note assms(3)], of u] by simp

lemma status_code_ge: "400 \<le> status_code err"
  by (cases err) simp_all

lemma coded_success: "coded m s = (c, t) \<Longrightarrow> c < 400 \<Longrightarrow> \<exists>d. m (st_db s) = (Inr c, d) \<and> t = s\<lparr>st_db := d\<rparr>"
  using status_code_ge
  by (auto simp: coded_def on_db_apply split: sum.splits prod.splits) (metis leD prod.collapse)+

text \<open>
  The requests that replace or remove a credential of account \<open>u\<close>: a password set by an
  administrator or by the owner, and a passkey removed by the owner.
\<close>

definition ends_sessions :: "env \<Rightarrow> headers \<Rightarrow> db \<Rightarrow> uuid \<Rightarrow> api_call \<Rightarrow> bool" where
  "ends_sessions e hs d u call =
     (case call of
        Admin (AdminChangePassword v _) \<Rightarrow> v = u
      | Member (ChangeMyPassword _ _) \<Rightarrow> (case fst (require_auth e hs d) of Inl _ \<Rightarrow> False | Inr a \<Rightarrow> au_user_id a = u)
      | Member (DeletePasskey _) \<Rightarrow> (case fst (require_auth e hs d) of Inl _ \<Rightarrow> False | Inr a \<Rightarrow> au_user_id a = u)
      | _ \<Rightarrow> False)"

lemma read_steps:
  "require_auth e hs d = (r1, d') \<Longrightarrow> d' = d" "require_admin e hs d = (r1, d') \<Longrightarrow> d' = d"
  "input_err v d = (r2, d') \<Longrightarrow> d' = d" "try_password_login x u p d = (r2, d') \<Longrightarrow> d' = d"
  using keepsD [OF readonly.keeps_pure [OF readonly_require_auth]]
    keepsD [OF readonly.keeps_pure [OF readonly_require_admin]] keepsD [OF readonly.keeps_pure]
  by (auto simp: input_err_def try_password_login_def get_password_for_def bind_op_def split: sum.splits if_splits option.splits)

lemma my_password_version:
  assumes "change_my_password e ctx hs cur new d = (Inr c, d')" and "fst (require_auth e hs d) = Inr a"
  shows "version_of (au_user_id a) d' = map_option (\<lambda>v. v + 1) (version_of (au_user_id a) d)"
proof -
  have "require_auth e hs d = (Inr a, d)" using assms(2) by (simp add: prod_eq_iff)
  then show ?thesis
    using assms(1) by (auto simp: change_my_password_def op_results dest!: read_steps reset_version)
qed

lemma user_password_version:
  assumes "admin_change_user_password e ctx hs u new d = (Inr c, d')"
  shows "version_of u d' = map_option (\<lambda>v. v + 1) (version_of u d)"
  using assms
  by (auto simp: admin_change_user_password_def op_results dest!: read_steps reset_version)

lemma passkey_removal_version:
  assumes "delete_passkey e ctx hs i d = (Inr c, d')" and "fst (require_auth e hs d) = Inr a"
  shows "version_of (au_user_id a) d' = map_option (\<lambda>v. v + 1) (version_of (au_user_id a) d)"
proof -
  have auth: "require_auth e hs d = (Inr a, d)" using assms(2) by (simp add: prod_eq_iff)
  from assms(1) auth obtain xs ys d2 entry where
    rev: "revoke_all_user_tokens (ev_now e) (au_user_id a) (d\<lparr>passkeys := xs\<rparr>) = (Inr (), d2)" and
    sv: "audit_save (ev_ext e) (ev_uuid e 0) (ev_now e) entry (d2\<lparr>passkey_challenges := ys\<rparr>) = (Inr (), d')"
    by (auto simp: delete_passkey_def op_results drop_passkey_def drop_challenges_def)
  show ?thesis
    using revoke_version [OF rev] same_users_version [OF keepsD [OF keeps_audit_save sv], of "au_user_id a"]
    by (simp add: version_of_def)
qed

lemma credential_change_version:
  assumes "handle wn dbg pretty e ctx hs call s = (204, t)" and "ends_sessions e hs (st_db s) u call"
  shows "version_of u (st_db t) = map_option (\<lambda>v. v + 1) (version_of u (st_db s))"
  using assms
  by (auto simp: ends_sessions_def split: api_call.splits admin_call.splits member_call.splits sum.splits
      dest!: coded_success user_password_version my_password_version passkey_removal_version)

text \<open>
  C4. Replacing or removing a credential ends every session of the account, for good. When the
  server accepts a password change (by an administrator or by the owner) or the removal of a
  passkey, with 204, no access token that was valid before the request is accepted again,
  whatever requests, LDAP messages and background tasks the server handles afterwards.
\<close>

theorem credential_change_ends_sessions:
  assumes "handle wn dbg pretty e ctx hs call s = (204, s')" and "ends_sessions e hs (st_db s) u call"
    and "jwt_payload_fixed x" and "keyed u_id (users (st_db s))" and "access_live x key now tok c u (st_db s)"
    and "server_runs wn (\<lambda>v. v \<noteq> u) s' t"
  shows "isl (fst (verify_access_token x key later tok (st_db t)))"
proof -
  let ?t = "(x, key, now, tok)" and ?t' = "(x, key, later, tok)"
  have acc: "accepts_access ?t (st_db s)" and own: "presented_owner ?t = u"
    using assms(5) by (auto simp: accepts_access_live presented_owner_def presented_claims_def access_live_def)
  obtain v where v: "version_of u (st_db s) = Some v" using access.accept_version [OF acc assms(4)] own by auto
  then have gt: "\<forall>w. version_of u (st_db s') = Some w \<longrightarrow> v < w"
    using credential_change_version [OF assms(1,2)] by simp
  have "evolves u (st_db s) (st_db s')"
    using assms(1,2) users_evolve.user_handler_laws(6,7) [unfolded keeps_def, of u] users_evolve.passkey_db_laws(6) [unfolded keeps_def, of u]
    by (auto simp: ends_sessions_def split: api_call.splits admin_call.splits member_call.splits dest!: coded_success)
      (metis snd_conv)+
  then have k': "keyed u_id (users (st_db s'))" using assms(4) by (simp add: evolves_def)
  have "\<not> accepts_access ?t' (st_db t)"
  proof
    assume later: "accepts_access ?t' (st_db t)"
    then have "presented_claims ?t' = presented_claims ?t"
      using presented_claims_fixed [OF assms(3) acc] by simp
    then show False
      using access.dead_once_superseded [OF acc assms(4), of ?t' v "st_db s'" "st_db t"] own v gt k' later
        users_evolve.server_runs_law [OF assms(6)] by (simp add: presented_owner_def)
  qed
  then show ?thesis by (simp add: accepts_access_def)
qed

text \<open>The example session with a password, and a browser that presents its access token.\<close>

definition demo_owner :: db where
  "demo_owner = demo_session\<lparr>authenticators :=
     [\<lparr>au_id = 30, au_type = ''password'', au_value = ''correct horse'', au_owner = 7\<rparr>]\<rparr>"

definition demo_bearer :: headers where
  "demo_bearer = [(''authorization'', ''Bearer '' @ demo_access_token)]"

lemma demo_extract_token: "extract_token demo_bearer = Some demo_access_token"
proof -
  obtain n where n: "demo_access_token = replicate n CHR ''j''"
    by (simp add: demo_access_token_def json_text_def)
  have "list_all visible_ascii (''Bearer '' @ demo_access_token)"
    by (simp add: n visible_ascii_def byte_def list_all_iff)
  then show ?thesis
    by (simp add: extract_token_def demo_bearer_def h_get_def h_get_all_def to_str_def strip_prefix_def)
qed

lemma demo_owner_live: "now < 1900 \<Longrightarrow> access_live ref_ext key now demo_access_token demo_access 7 demo_owner"
  by (simp add: access_live_def session_live_def current_version_def demo_owner_def demo_state_defs)
     (simp add: demo_claim_defs)

lemma demo_owner_auth: "require_auth demo_env demo_bearer demo_owner = (Inr \<lparr>au_user_id = 7, au_roles = []\<rparr>, demo_owner)"
  unfolding require_auth_Inr
proof (intro conjI exI)
  show "access_live (ev_ext demo_env) (ev_key demo_env) (ev_now demo_env) demo_access_token demo_access
      (au_user_id \<lparr>au_user_id = 7, au_roles = []\<rparr>) demo_owner"
    using demo_owner_live [of 1500 "[]"] by (simp add: demo_env_def)
qed (simp_all add: demo_extract_token user_get_roles_def demo_owner_def demo_state_defs)

lemma demo_owner_steps:
  "validate_password ''battery staple'' = Inr ()"
  "user_get 7 demo_owner = Some (user.truncate demo_user)"
  "try_password_login ref_ext (user.truncate demo_user) ''correct horse'' demo_owner = (Inr (), demo_owner)"
  by (simp_all add: validate_password_def length_limits user_get_def demo_owner_def demo_state_defs
      try_password_login_eq password_matches_def user.truncate_def)

lemma demo_password_change:
  "\<exists>d'. change_my_password demo_env demo_ctx demo_bearer ''correct horse'' ''battery staple'' demo_owner = (Inr 204, d')"
proof -
  let ?d = "demo_owner\<lparr>authenticators := [\<lparr>au_id = 30, au_type = ''password'', au_value = ''battery staple'', au_owner = 7\<rparr>]\<rparr>"
  have env: "ev_ext demo_env = ref_ext" "ev_now demo_env = 1500" by (simp_all add: demo_env_def)
  have "update_password ref_ext salt fresh 7 ''battery staple'' demo_owner = (Inr (), ?d)" for salt fresh
    by (simp add: update_password_def new_password_def demo_owner_def sql_update_def)
  moreover obtain d' where "revoke_all_user_tokens 1500 7 ?d = (Inr (), d')"
    by (simp add: revoke_all_user_tokens_def revoke_user_access_tokens_def bind_op_def insert_op_def user_exists_def
        sql_update_def demo_owner_def demo_state_defs)
  ultimately show ?thesis
    by (simp add: change_my_password_def bind_op_def demo_owner_auth demo_owner_steps input_err_def tx_op_def
        ok_or_op_def env note_audit_apply)
qed

theorem credential_change_ends_sessions_witness:
  "\<exists>s'. handle demo_crate (\<lambda>_. []) (\<lambda>_. Inr []) demo_env demo_ctx demo_bearer (Member (ChangeMyPassword ''correct horse'' ''battery staple''))
       (demo_state\<lparr>st_db := demo_owner\<rparr>) = (204, s')
     \<and> isl (fst (verify_access_token ref_ext [] 1600 demo_access_token (st_db s')))"
proof -
  let ?call = "Member (ChangeMyPassword ''correct horse'' ''battery staple'')" and ?s = "demo_state\<lparr>st_db := demo_owner\<rparr>"
  obtain s' where h: "handle demo_crate (\<lambda>_. []) (\<lambda>_. Inr []) demo_env demo_ctx demo_bearer ?call ?s = (204, s')"
    using demo_password_change by (auto simp: coded_def on_db_apply)
  moreover have "server_runs demo_crate (\<lambda>v. v \<noteq> 7) s' s'" by (simp add: server_runs_def)
  moreover have "keyed u_id (users demo_owner)" using demo_keyed(1) by (simp add: demo_owner_def)
  ultimately have "isl (fst (verify_access_token ref_ext [] 1600 demo_access_token (st_db s')))"
    using credential_change_ends_sessions [OF h _ ref_hypotheses(4) _ _, of 7 "[]" 1500 demo_access_token demo_access s' 1600]
      demo_owner_live [of 1500 "[]"]
    by (simp add: ends_sessions_def demo_owner_auth)
  then show ?thesis using h by blast
qed

end
