(* ===== verification/Server_Types.thy ===== *)
theory Server_Types
  imports Server Passkey_Properties
begin

text \<open>
  The second law of the system: the database stays well typed. Keys stay unique, references point
  at rows that exist, no account has more passkeys than the limit, and an installation that has an
  administrator keeps one.
\<close>

section \<open>Well-typed databases\<close>

definition table_ok :: "('r \<Rightarrow> 'k) \<Rightarrow> ('r \<Rightarrow> bool) \<Rightarrow> 'r list \<Rightarrow> bool" where
  "table_ok key p rows \<longleftrightarrow> keyed key rows \<and> (\<forall>r\<in>set rows. p r)"

definition user_ids :: "db \<Rightarrow> uuid set" where
  "user_ids d = u_id ` set (users d)"

definition role_ids :: "db \<Rightarrow> uuid set" where
  "role_ids d = ro_id ` set (roles d)"

definition application_ids :: "db \<Rightarrow> uuid set" where
  "application_ids d = ar_id ` set (applications d)"

text \<open>An optional reference.\<close>

definition opt_in :: "'a option \<Rightarrow> 'a set \<Rightarrow> bool" where
  "opt_in v S = (case v of None \<Rightarrow> True | Some x \<Rightarrow> x \<in> S)"

definition account_tables_ok :: "db \<Rightarrow> bool" where
  "account_tables_ok d \<longleftrightarrow>
     keyed u_id (users d) \<and> keyed u_username (users d)
   \<and> table_ok au_id (\<lambda>r. au_owner r \<in> user_ids d) (authenticators d)
   \<and> keyed ro_id (roles d) \<and> keyed ro_name (roles d)
   \<and> table_ok id (\<lambda>r. fst r \<in> user_ids d \<and> snd r \<in> role_ids d) (user_roles d)
   \<and> table_ok tp_user (\<lambda>r. tp_user r \<in> user_ids d) (totps d)
   \<and> table_ok rc_id (\<lambda>r. rc_user r \<in> user_ids d) (recovery_codes d) \<and> keyed rc_hash (recovery_codes d)
   \<and> table_ok in_id (\<lambda>r. in_created_by r \<in> user_ids d) (invitations d)
   \<and> table_ok pw_id (\<lambda>r. pw_user r \<in> user_ids d) (app_passwords d)
   \<and> table_ok pk_id (\<lambda>r. pk_user r \<in> user_ids d) (passkeys d) \<and> keyed pk_credential_id (passkeys d)
   \<and> (\<forall>u. length (passkeys_of u d) \<le> MAX_PASSKEYS)
   \<and> table_ok pc_id (\<lambda>r. opt_in (pc_user r) (user_ids d)) (passkey_challenges d)"

definition session_tables_ok :: "db \<Rightarrow> bool" where
  "session_tables_ok d \<longleftrightarrow>
     table_ok rt_id (\<lambda>r. rt_user r \<in> user_ids d) (refresh_tokens d)
   \<and> table_ok fst (\<lambda>r. fst r \<in> user_ids d) (revocations d)
   \<and> keyed ar_id (applications d) \<and> keyed ar_slug (applications d)
   \<and> distinct (filter (\<lambda>c. c \<noteq> None) (map ar_client_id (applications d)))
   \<and> table_ok cd_hash (\<lambda>r. cd_application r \<in> application_ids d \<and> cd_user r \<in> user_ids d) (oidc_codes d)
   \<and> table_ok ho_id (\<lambda>r. ho_user r \<in> user_ids d) (handoffs d)
   \<and> keyed fst (settings d) \<and> keyed ky_id (keys d)
   \<and> table_ok al_id (\<lambda>r. opt_in (al_user r) (user_ids d) \<and> opt_in (al_actor r) (user_ids d)) (audit_log d)"

definition db_ok :: "db \<Rightarrow> bool" where
  "db_ok d \<longleftrightarrow> account_tables_ok d \<and> session_tables_ok d"

definition sound :: "db \<Rightarrow> db \<Rightarrow> bool" where
  "sound d d' \<longleftrightarrow> (db_ok d \<longrightarrow> db_ok d' \<and> (0 < admin_count d \<longrightarrow> 0 < admin_count d'))"

interpretation sound: state_preorder sound
  by unfold_locales (auto simp: sound_def)

lemma table_ok_append: "table_ok key p (rows @ [r]) \<longleftrightarrow> table_ok key p rows \<and> (\<forall>q\<in>set rows. key q \<noteq> key r) \<and> p r"
  by (auto simp: table_ok_def keyed_append)

lemma table_ok_delete: "table_ok key p rows \<Longrightarrow> table_ok key p (sql_delete q rows)"
  by (auto simp: table_ok_def keyed_sql_delete)

lemma table_ok_update:
  "(\<And>r. key (f r) = key r) \<Longrightarrow> (\<And>r. p r \<Longrightarrow> p (f r)) \<Longrightarrow> table_ok key p rows \<Longrightarrow> table_ok key p (sql_update q f rows)"
  by (auto simp: table_ok_def keyed_sql_update set_sql_update)

lemma table_ok_mono: "table_ok key p rows \<Longrightarrow> (\<And>r. p r \<Longrightarrow> q r) \<Longrightarrow> table_ok key q rows"
  by (auto simp: table_ok_def)

lemmas id_defs = user_ids_def role_ids_def application_ids_def passkeys_of_def

lemmas ok_defs = db_ok_def account_tables_ok_def session_tables_ok_def

lemma exists_ids: "user_exists u d \<longleftrightarrow> u \<in> user_ids d" "role_exists i d \<longleftrightarrow> i \<in> role_ids d"
  "application_exists j d \<longleftrightarrow> j \<in> application_ids d"
  by (auto simp: user_exists_def role_exists_def application_exists_def id_defs)

text \<open>Most operations leave the roles alone.\<close>

definition same_roles :: "db \<Rightarrow> db \<Rightarrow> bool" where
  "same_roles d d' \<longleftrightarrow> roles d' = roles d \<and> user_roles d' = user_roles d"

lemma soundI: "same_roles d d' \<Longrightarrow> (db_ok d \<Longrightarrow> db_ok d') \<Longrightarrow> sound d d'"
  by (simp add: sound_def same_roles_def admin_count_def)

lemma keeps_sound_insert:
  assumes "\<And>d. same_roles d (f d)" and "\<And>d. db_ok d \<Longrightarrow> \<not> dup d \<Longrightarrow> \<not> dang d \<Longrightarrow> db_ok (f d)"
  shows "keeps sound (insert_op dup dang f)"
  by (rule keeps_insert_op) (auto intro!: soundI assms simp: sound.refl)

lemma keeps_sound_modify:
  assumes "\<And>d. same_roles d (f d)" and "\<And>d. db_ok d \<Longrightarrow> db_ok (f d)"
  shows "keeps sound (modify_op f)"
  by (rule sound.keeps_modify) (auto intro!: soundI assms)

section \<open>Every operation keeps the database well typed\<close>

lemma audit_ok: "keeps sound (audit_save x fresh now entry)"
  unfolding audit_save_def
  by (rule keeps_sound_insert)
     (auto simp: same_roles_def ok_defs id_defs exists_ids table_ok_append audit_row_of_def opt_in_def split: option.splits)

lemma issue_ok: "keeps sound (generate_token_pair_for_session x key now m u rls ex ver aut)"
  unfolding generate_token_pair_for_session_def generate_refresh_token_for_session_def Let_def
  by (intro sound.keeps_rules keeps_sound_insert)
     (auto simp: same_roles_def ok_defs id_defs exists_ids table_ok_append)

lemma rows_ok:
  "db_ok d \<Longrightarrow> (\<And>r. rt_id (f r) = rt_id r) \<Longrightarrow> (\<And>r. rt_user (f r) = rt_user r) \<Longrightarrow>
     sound d (d\<lparr>refresh_tokens := sql_update p f (refresh_tokens d)\<rparr>)"
  by (rule soundI) (simp_all add: same_roles_def ok_defs id_defs table_ok_update)

lemma users_update_ok:
  assumes "db_ok d" and "\<And>r. u_id (f r) = u_id r" and "keyed u_username (sql_update p f (users d))"
  shows "db_ok (d\<lparr>users := sql_update p f (users d)\<rparr>)"
proof -
  have "user_ids (d\<lparr>users := sql_update p f (users d)\<rparr>) = user_ids d"
    using map_key_sql_update [of u_id f p "users d", OF assms(2)] by (simp add: user_ids_def flip: set_map)
  then show ?thesis
    using assms by (simp add: ok_defs keyed_sql_update) (simp add: role_ids_def application_ids_def passkeys_of_def)
qed

lemma revoke_ok: "keeps sound (revoke_user_access_tokens now u)" "keeps sound (revoke_all_user_tokens now u)"
proof -
  have bump: "keeps sound (modify_op (\<lambda>d. d\<lparr>users := sql_update (\<lambda>r. u_id r = u)
      (\<lambda>r. r\<lparr>u_token_version := u_token_version r + 1\<rparr>) (users d)\<rparr>))"
  proof (rule keeps_sound_modify)
    fix d
    assume "db_ok d"
    then show "db_ok (d\<lparr>users := sql_update (\<lambda>r. u_id r = u) (\<lambda>r. r\<lparr>u_token_version := u_token_version r + 1\<rparr>) (users d)\<rparr>)"
      by (intro users_update_ok) (simp_all add: ok_defs keyed_sql_update)
  qed (simp add: same_roles_def)
  then show *: "keeps sound (revoke_user_access_tokens now u)"
    unfolding revoke_user_access_tokens_def
    by (intro sound.keeps_rules keeps_sound_insert)
       (auto simp: same_roles_def ok_defs id_defs exists_ids table_ok_append table_ok_delete)
  show "keeps sound (revoke_all_user_tokens now u)"
    unfolding revoke_all_user_tokens_def
    by (intro sound.keeps_rules keeps_sound_modify *)
       (auto simp: same_roles_def ok_defs id_defs table_ok_update)
qed

lemma retry_ok:
  "sound d (clear_stale_retries now (d\<lparr>refresh_tokens :=
     sql_update (\<lambda>r. rt_hash r = h) (\<lambda>r. r\<lparr>rt_retry_until := t, rt_retry_pair := c\<rparr>) (refresh_tokens d)\<rparr>))"
  by (rule soundI) (auto simp: same_roles_def clear_stale_retries_def ok_defs id_defs table_ok_update)

lemma consume_ok: "keeps sound (consume_refresh_token x key now tok)"
  unfolding keeps_def
proof
  fix d
  have "sound d (mark_revoked x now tok d)"
    by (rule soundI) (auto simp: same_roles_def mark_revoked_def ok_defs id_defs table_ok_update)
  moreover have "sound d1 (snd (revoke_all_user_tokens now w d1))" for w d1
    using revoke_ok(2) by (simp add: keeps_def)
  ultimately show "sound d (snd (consume_refresh_token x key now tok d))"
    using sound.trans sound.refl
    by (cases "\<exists>c u. refresh_checks x key now tok c u d")
       (fastforce simp: consume_refresh_token_checked consume_refresh_token_unchecked Let_def split: option.split)+
qed

lemma user_save_ok: "keeps sound (user_save v)"
proof -
  have "keeps sound (insert_op (\<lambda>d. \<exists>r\<in>set (users d). u_id r = u_id v \<or> u_username r = u_username v) (\<lambda>d. False)
     (\<lambda>d. d\<lparr>users := users d @ [row_of_user v]\<rparr>))"
  proof (rule keeps_sound_insert)
    fix d
    assume ok: "db_ok d" and "\<not> (\<exists>r\<in>set (users d). u_id r = u_id v \<or> u_username r = u_username v)"
    moreover have "user_ids (d\<lparr>users := users d @ [row_of_user v]\<rparr>) = insert (u_id v) (user_ids d)"
      by (auto simp: user_ids_def)
    ultimately show "db_ok (d\<lparr>users := users d @ [row_of_user v]\<rparr>)"
      by (auto simp: ok_defs keyed_append role_ids_def application_ids_def passkeys_of_def opt_in_def
          elim!: table_ok_mono split: option.splits)
  qed (simp add: same_roles_def)
  then show ?thesis unfolding user_save_def by (rule sound.keeps_map_err)
qed

lemma keyed_update_key:
  assumes "keyed ident rows" and "keyed key rows" and "\<And>r. key (f r) = c"
    and "(\<exists>r\<in>set rows. ident r = i) \<longrightarrow> (\<forall>r\<in>set rows. ident r \<noteq> i \<longrightarrow> key r \<noteq> c)"
  shows "keyed key (sql_update (\<lambda>r. ident r = i) f rows)"
  using assms
proof (induction rows)
  case (Cons a rows)
  have IH: "keyed key (sql_update (\<lambda>r. ident r = i) f rows)"
    using Cons by (auto simp: keyed_def)
  show ?case
  proof (cases "ident a = i")
    case True
    then have "\<forall>r\<in>set rows. ident r \<noteq> i" using Cons.prems(1) by (auto simp: keyed_def image_iff)
    then have "sql_update (\<lambda>r. ident r = i) f rows = rows" "\<forall>r\<in>set rows. key r \<noteq> c"
      using True Cons.prems by (auto simp: sql_update_def intro!: map_idI)
    then show ?thesis using True Cons.prems by (auto simp: keyed_def sql_update_def)
  next
    case False
    then have "key a \<noteq> key (if ident r = i then f r else r)" if "r \<in> set rows" for r
      using Cons.prems that by (auto simp: keyed_def)
    then have "key a \<notin> set (map key (sql_update (\<lambda>r. ident r = i) f rows))"
      by (auto simp: sql_update_def)
    moreover have "sql_update (\<lambda>r. ident r = i) f (a # rows) = a # sql_update (\<lambda>r. ident r = i) f rows"
      using False by (simp add: sql_update_def)
    ultimately show ?thesis using IH by (simp add: keyed_def)
  qed
qed (simp add: sql_update_def)

lemma user_update_ok: "keeps sound (user_update now self name email username)"
proof -
  have "keeps sound (\<lambda>d. if user_exists (u_id v) d \<and> (\<exists>r\<in>set (users d). u_id r \<noteq> u_id v \<and> u_username r = u_username v)
       then (Inl (UniqueError ''Username already taken''), d)
       else (Inr v, d\<lparr>users := sql_update (\<lambda>r. u_id r = u_id v) (\<lambda>r. r\<lparr>u_name := u_name v, u_email := u_email v,
          u_username := u_username v, u_updated_at := u_updated_at v\<rparr>) (users d)\<rparr>))" for v :: user
  proof -
    have "sound d (d\<lparr>users := sql_update (\<lambda>r. u_id r = u_id v) (\<lambda>r. r\<lparr>u_name := u_name v, u_email := u_email v,
          u_username := u_username v, u_updated_at := u_updated_at v\<rparr>) (users d)\<rparr>)"
      if free: "user_exists (u_id v) d \<longrightarrow> (\<forall>r\<in>set (users d). u_id r \<noteq> u_id v \<longrightarrow> u_username r \<noteq> u_username v)" for d
    proof (rule soundI)
      assume ok: "db_ok d"
      then have k: "keyed u_id (users d)" "keyed u_username (users d)" by (simp_all add: ok_defs)
      have "keyed u_username (sql_update (\<lambda>r. u_id r = u_id v) (\<lambda>r. r\<lparr>u_name := u_name v, u_email := u_email v,
          u_username := u_username v, u_updated_at := u_updated_at v\<rparr>) (users d))"
        using free by (intro keyed_update_key [OF k]) (auto simp: user_exists_def)
      then show "db_ok (d\<lparr>users := sql_update (\<lambda>r. u_id r = u_id v) (\<lambda>r. r\<lparr>u_name := u_name v, u_email := u_email v,
          u_username := u_username v, u_updated_at := u_updated_at v\<rparr>) (users d)\<rparr>)"
        using ok by (intro users_update_ok) simp_all
    qed (simp add: same_roles_def)
    then show ?thesis by (auto simp: keeps_def sound.refl)
  qed
  moreover have "keeps sound (input_err r)" for r unfolding input_err_def by (intro sound.keeps_rules)
  ultimately show ?thesis
    unfolding user_update_def Let_def by (intro sound.keeps_rules)
qed

lemma authenticator_ok: "keeps sound (authenticator_save a)" "keeps sound (update_password x salt fresh i new)"
proof -
  show "keeps sound (authenticator_save a)"
    unfolding authenticator_save_def
    by (intro sound.keeps_rules keeps_sound_insert)
       (auto simp: same_roles_def ok_defs id_defs exists_ids table_ok_append)
  have "keeps sound (modify_op (\<lambda>d. d\<lparr>authenticators := sql_update (\<lambda>r. au_owner r = i \<and> au_type r = ''password'')
      (\<lambda>r. r\<lparr>au_value := hash\<rparr>) (authenticators d)\<rparr>))" for hash
    by (rule keeps_sound_modify) (auto simp: same_roles_def ok_defs id_defs table_ok_update)
  then show "keeps sound (update_password x salt fresh i new)"
    unfolding update_password_def by (auto split: sum.split authentication_scheme.split intro: sound.keeps_raise)
qed

lemma settings_ok: "keeps sound (set_setting k v)"
  unfolding set_setting_def
  by (rule keeps_sound_modify) (auto simp: same_roles_def ok_defs id_defs keyed_append keyed_sql_delete)

lemma code_ok: "keeps sound (code_issue x now rnd app_id u ru sc n ch me ta ver se)"
  "keeps sound (code_consume x now code app_id ru vf)" "keeps sound (code_sweep_expired now)"
proof -
  show "keeps sound (code_issue x now rnd app_id u ru sc n ch me ta ver se)"
    unfolding code_issue_def Let_def
    by (intro sound.keeps_rules keeps_sound_insert)
       (auto simp: same_roles_def ok_defs id_defs exists_ids table_ok_append)
  have "sound d (snd (code_mark x now code d))" for d
    by (rule soundI) (auto simp: same_roles_def code_mark_def ok_defs id_defs table_ok_update)
  then show "keeps sound (code_consume x now code app_id ru vf)"
    by (auto simp: keeps_def code_consume_def sound.refl split: option.split prod.split) (metis snd_conv)
  show "keeps sound (code_sweep_expired now)"
    by (auto simp: keeps_def code_sweep_expired_def Let_def intro!: soundI)
       (auto simp: same_roles_def ok_defs id_defs table_ok_delete)
qed

lemma handoff_ok: "keeps sound (issue_handoff x key now jti parent app_id origin path st)"
  "keeps sound (redeem_handoff x key now tok origin st)" "keeps sound (sweep_expired_sessions now)"
proof -
  have v: "keeps sound (verify_user_session u i v)" for u i v
    by (rule sound.keeps_pure) (simp add: verify_user_session_eq)
  show "keeps sound (issue_handoff x key now jti parent app_id origin path st)"
    unfolding issue_handoff_def Let_def
    by (intro sound.keeps_rules v keeps_sound_insert keeps_sound_modify)
       (auto simp: same_roles_def ok_defs id_defs exists_ids table_ok_append table_ok_delete)
  show "keeps sound (redeem_handoff x key now tok origin st)"
    unfolding redeem_handoff_def Let_def
    by (intro sound.keeps_rules v keeps_sound_modify)
       (auto simp: same_roles_def ok_defs id_defs table_ok_delete)
  show "keeps sound (sweep_expired_sessions now)"
    unfolding sweep_expired_sessions_def
    by (intro sound.keeps_rules keeps_sound_modify)
       (auto simp: same_roles_def clear_stale_retries_def ok_defs id_defs table_ok_delete table_ok_update)
qed

lemma applications_update_ok:
  assumes "db_ok d" and "\<And>r. ar_id (f r) = ar_id r" and "\<And>r. ar_slug (f r) = ar_slug r"
    and "\<And>r. ar_client_id (f r) = ar_client_id r"
  shows "db_ok (d\<lparr>applications := sql_update p f (applications d)\<rparr>)"
proof -
  have "application_ids (d\<lparr>applications := sql_update p f (applications d)\<rparr>) = application_ids d"
    using map_key_sql_update [of ar_id f p "applications d", OF assms(2)] by (simp add: application_ids_def flip: set_map)
  then show ?thesis
    using assms by (simp add: ok_defs keyed_sql_update map_key_sql_update) (simp add: role_ids_def user_ids_def passkeys_of_def)
qed

lemma distinct_filter_delete: "distinct (filter q (map f xs)) \<Longrightarrow> distinct (filter q (map f (sql_delete p xs)))"
  by (induction xs) (auto simp: sql_delete_def split: if_splits)

lemma application_ok: "keeps sound (application_save x ap)" "keeps sound (application_update x now inp ap)"
  "keeps sound (application_delete i)"
proof -
  show "keeps sound (application_save x ap)"
    unfolding application_save_def
  proof (rule keeps_sound_insert)
    fix d
    assume ok: "db_ok d" and new: "\<not> (\<exists>r\<in>set (applications d). ar_id r = ap_id ap \<or> ar_slug r = ap_slug ap
        \<or> ap_client_id ap \<noteq> None \<and> ar_client_id r = ap_client_id ap)"
    have ids: "application_ids (d\<lparr>applications := applications d @ [row_of_application x ap]\<rparr>)
        = insert (ap_id ap) (application_ids d)"
      by (simp add: application_ids_def row_of_application_def)
    show "db_ok (d\<lparr>applications := applications d @ [row_of_application x ap]\<rparr>)"
      using ok new unfolding ok_defs ids
      by (auto simp: keyed_append user_ids_def role_ids_def passkeys_of_def row_of_application_def elim!: table_ok_mono)
  qed (simp add: same_roles_def)
  show "keeps sound (application_update x now inp ap)"
    unfolding application_update_def Let_def
    by (intro sound.keeps_rules keeps_sound_modify applications_update_ok) (simp_all add: same_roles_def)
  have "db_ok (d\<lparr>applications := sql_delete (\<lambda>r. ar_id r = i) (applications d),
        oidc_codes := sql_delete (\<lambda>r. cd_application r = i) (oidc_codes d)\<rparr>)" if "db_ok d" for d
    using that by (auto simp: ok_defs id_defs keyed_sql_delete distinct_filter_delete table_ok_def)
  then show "keeps sound (application_delete i)"
    by (auto simp: keeps_def application_delete_def same_roles_def intro!: soundI)
qed

lemma totp_ok: "keeps sound (upsert_pending now u s)" "keeps sound (totp_activate now u s st2)"
  "keeps sound (record_step now u s st2)" "keeps sound (totp_delete u)"
proof -
  have ins: "db_ok (d\<lparr>totps := totps d @ [r]\<rparr>)" if "db_ok d" "tp_user r \<in> user_ids d" "totp_get (tp_user r) d = None" for d r
    using that by (auto simp: ok_defs id_defs table_ok_append totp_get_def sql_find_None)
  have upd: "db_ok (d\<lparr>totps := sql_update p f (totps d)\<rparr>)" if "db_ok d" "\<And>r. tp_user (f r) = tp_user r" for d p f
    using that by (simp add: ok_defs id_defs table_ok_update)
  have del: "db_ok (d\<lparr>totps := sql_delete p (totps d), recovery_codes := sql_delete q (recovery_codes d)\<rparr>)"
      "db_ok (d\<lparr>recovery_codes := sql_delete q (recovery_codes d)\<rparr>)" if "db_ok d" for d p q
    using that by (simp_all add: ok_defs id_defs table_ok_delete keyed_sql_delete)
  have "keeps sound (\<lambda>d. case totp_get u d of
         None \<Rightarrow> (if \<not> user_exists u d then (Inl fk_violation, d)
            else (Inr (1 :: nat), d\<lparr>totps := totps d @ [\<lparr>tp_user = u, tp_secret = s, tp_last_step = None,
                     tp_activated = None, tp_created = now, tp_updated = now\<rparr>]\<rparr>))
       | Some _ \<Rightarrow> (Inr (sql_count (\<lambda>r. tp_user r = u \<and> tp_activated r = None) (totps d)),
            d\<lparr>totps := sql_update (\<lambda>r. tp_user r = u \<and> tp_activated r = None)
                 (\<lambda>r. r\<lparr>tp_secret := s, tp_last_step := None, tp_activated := None, tp_updated := now\<rparr>) (totps d)\<rparr>))"
    by (auto simp: keeps_def exists_ids sound.refl same_roles_def split: option.split intro!: soundI ins upd)
  then show "keeps sound (upsert_pending now u s)"
    unfolding upsert_pending_def by (intro sound.keeps_rules keeps_sound_modify del(2)) (simp_all add: same_roles_def)
  show "keeps sound (totp_activate now u s st2)" "keeps sound (record_step now u s st2)" "keeps sound (totp_delete u)"
    by (auto simp: keeps_def totp_activate_def record_step_def totp_delete_def same_roles_def Let_def intro!: soundI upd del)
qed

lemma recovery_ok: "keeps sound (store_recovery_codes x now ids u codes)" "keeps sound (consume_recovery_code x now u code)"
proof -
  have "keeps sound (insert_recovery_codes x now u ps)" for ps
    by (induction ps rule: insert_recovery_codes.induct)
       (simp_all only: insert_recovery_codes.simps, intro sound.keeps_rules,
        (intro sound.keeps_rules keeps_sound_insert; auto simp: same_roles_def ok_defs id_defs exists_ids table_ok_append keyed_append))
  then show "keeps sound (store_recovery_codes x now ids u codes)"
    unfolding store_recovery_codes_def
    by (intro sound.keeps_rules keeps_sound_modify)
       (auto simp: same_roles_def ok_defs id_defs table_ok_delete keyed_sql_delete)
  show "keeps sound (consume_recovery_code x now u code)"
    by (auto simp: keeps_def consume_recovery_code_def intro!: soundI)
       (auto simp: same_roles_def ok_defs id_defs table_ok_update keyed_sql_update)
qed

lemma invitation_ok: "keeps sound (invitation_save iv)" "keeps sound (invitation_delete k)" "keeps sound (invitation_consume now k)"
proof -
  show "keeps sound (invitation_save iv)"
    unfolding invitation_save_def
    by (rule keeps_sound_insert) (auto simp: same_roles_def ok_defs id_defs exists_ids table_ok_append)
  show "keeps sound (invitation_delete k)" "keeps sound (invitation_consume now k)"
    by (auto simp: keeps_def invitation_delete_def invitation_consume_def intro!: soundI)
       (auto simp: same_roles_def ok_defs id_defs table_ok_delete table_ok_update count_use_def)
qed

lemma app_password_ok: "keeps sound (app_password_create x now i draws salt u nm)"
  "keeps sound (app_password_delete_for_user i u)" "keeps sound (app_password_verify_for_user x now u pw)"
proof -
  show "keeps sound (app_password_create x now i draws salt u nm)"
    unfolding app_password_create_def Let_def
    by (intro sound.keeps_rules keeps_sound_insert) (auto simp: same_roles_def ok_defs id_defs exists_ids table_ok_append)
  show "keeps sound (app_password_delete_for_user i u)" "keeps sound (app_password_verify_for_user x now u pw)"
    by (auto simp: keeps_def app_password_delete_for_user_def app_password_verify_for_user_def sound.refl
        split: option.split intro!: soundI)
       (auto simp: same_roles_def ok_defs id_defs table_ok_delete table_ok_update)
qed

lemma challenge_ok: "keeps sound (insert_challenge crow)" "keeps sound (drop_challenges cq :: unit db_op)"
proof -
  show "keeps sound (insert_challenge crow)"
    unfolding insert_challenge_def
    by (rule keeps_sound_insert) (auto simp: same_roles_def ok_defs id_defs exists_ids table_ok_append opt_in_def split: option.splits)
  show "keeps sound (drop_challenges cq :: unit db_op)"
    unfolding drop_challenges_def
    by (rule keeps_sound_modify) (auto simp: same_roles_def ok_defs id_defs table_ok_delete)
qed

lemma passkey_update_ok:
  assumes "db_ok d" and "\<And>r. pk_id (f r) = pk_id r" "\<And>r. pk_user (f r) = pk_user r"
    "\<And>r. pk_credential_id (f r) = pk_credential_id r"
  shows "db_ok (d\<lparr>passkeys := sql_update p f (passkeys d)\<rparr>)"
proof -
  have "length (filter (\<lambda>r. pk_user r = u) (sql_update p f xs)) = length (filter (\<lambda>r. pk_user r = u) xs)" for u xs
    by (induction xs) (simp_all add: sql_update_def assms(3))
  then show ?thesis using assms by (simp add: ok_defs id_defs table_ok_update keyed_sql_update)
qed

lemma passkey_drop_ok: "db_ok d \<Longrightarrow> db_ok (d\<lparr>passkeys := sql_delete p (passkeys d)\<rparr>)"
proof -
  have "length (filter q (sql_delete p xs)) \<le> length (filter q xs)" for q and xs :: "passkey_row list"
    by (induction xs) (simp_all add: sql_delete_def)
  then show "db_ok d \<Longrightarrow> db_ok (d\<lparr>passkeys := sql_delete p (passkeys d)\<rparr>)"
    by (simp add: ok_defs id_defs table_ok_delete keyed_sql_delete) (meson order_trans)
qed

lemma passkey_row_ok:
  assumes "db_ok d" and "length (passkeys_of (pk_user r) d) < MAX_PASSKEYS" and "insert_passkey r d = (Inr (), d')"
  shows "db_ok d'"
  using assms
  by (auto simp: insert_passkey_def op_results ok_defs id_defs exists_ids table_ok_append keyed_append MAX_PASSKEYS_def)

lemma passkey_ok: "keeps sound (store_passkey e ctx u pch cid enc)" "keeps sound (touch_passkey i cred now :: unit db_op)"
  "keeps sound (drop_passkey i u)"
proof -
  show "keeps sound (store_passkey e ctx u pch cid enc)"
    unfolding keeps_def
  proof
    fix d
    show "sound d (snd (store_passkey e ctx u pch cid enc d))"
    proof (cases "store_passkey e ctx u pch cid enc d")
      case (Pair r d')
      show ?thesis
      proof (cases r)
        case Inl
        then show ?thesis using Pair by (auto simp: store_passkey_def tx_op_Inl sound.refl)
      next
        case (Inr info)
        with Pair obtain row d1 entry where ins: "insert_passkey row d = (Inr (), d1)"
          and "pk_user row = u" "length (passkeys_of u d) < MAX_PASSKEYS"
          and a: "audit_save (ev_ext e) (ev_uuid e 1) (ev_now e) entry d1 = (Inr (), d')"
          by (fastforce simp: store_passkey_def op_results Let_def)
        then have "sound d d1"
          using passkey_row_ok by (intro soundI) (auto simp: same_roles_def insert_passkey_def op_results)
        moreover have "sound d1 d'" using audit_ok a unfolding keeps_def by (metis snd_conv)
        ultimately show ?thesis using Pair sound.trans by simp
      qed
    qed
  qed
  show "keeps sound (touch_passkey i cred now :: unit db_op)"
    unfolding touch_passkey_def by (rule keeps_sound_modify) (auto simp: same_roles_def intro!: passkey_update_ok)
  show "keeps sound (drop_passkey i u)"
    by (auto simp: keeps_def drop_passkey_def same_roles_def intro!: soundI passkey_drop_ok)
qed

section \<open>Roles, and the last administrator\<close>

definition admin_grant :: "db \<Rightarrow> uuid \<times> uuid \<Rightarrow> role \<Rightarrow> bool" where
  "admin_grant d ur r \<longleftrightarrow> ur \<in> set (user_roles d) \<and> r \<in> set (roles d) \<and> snd ur = ro_id r \<and> ro_name r = ROLE_ADMIN"

lemma admin_count_pos: "0 < admin_count d \<longleftrightarrow> (\<exists>ur r. admin_grant d ur r)"
  by (auto simp: admin_count_def filter_empty_conv admin_grant_def) (blast, force)

lemma distinct_pick: "distinct xs \<Longrightarrow> 1 < length xs \<Longrightarrow> \<exists>a\<in>set xs. a \<noteq> b"
  by (cases xs; cases "tl xs") auto

text \<open>With more than one grant of the role, one remains when another is taken away.\<close>

lemma admin_grants_two:
  assumes "db_ok d" and "1 < admin_count d"
  shows "\<exists>ur r. admin_grant d ur r \<and> ur \<noteq> (u, i)"
proof -
  let ?ms = "filter (\<lambda>p. snd (fst p) = ro_id (snd p) \<and> ro_name (snd p) = ROLE_ADMIN) (List.product (user_roles d) (roles d))"
  have k: "keyed ro_id (roles d)" "distinct (user_roles d)" using assms(1) by (auto simp: ok_defs table_ok_def keyed_def)
  then have "distinct (roles d)" by (simp add: keyed_def distinct_map)
  then have "distinct ?ms" using k(2) by (simp add: distinct_product)
  moreover have "1 < length ?ms" using assms(2) by (simp add: admin_count_def)
  ultimately have "\<exists>m\<in>set ?ms. m \<noteq> ((u, i), the (role_get i d))" by (rule distinct_pick)
  then obtain m where m: "m \<in> set ?ms" "m \<noteq> ((u, i), the (role_get i d))" by (elim bexE)
  have "fst m \<noteq> (u, i)"
  proof
    assume "fst m = (u, i)"
    moreover from this have "role_get i d = Some (snd m)"
      using m(1) sql_find_keyed [OF k(1), of "snd m"] by (auto simp: role_get_def)
    ultimately show False using m(2) by (cases m) simp
  qed
  then show ?thesis using m(1) by (intro exI [of _ "fst m"] exI [of _ "snd m"]) (auto simp: admin_grant_def)
qed

lemma role_save_ok: "keeps sound (role_save r)"
  unfolding role_save_def
proof (rule keeps_insert_op)
  fix d :: db
  assume new: "\<not> (\<exists>q\<in>set (roles d). ro_id q = ro_id r \<or> ro_name q = ro_name r)"
  have ids: "role_ids (d\<lparr>roles := roles d @ [r]\<rparr>) = insert (ro_id r) (role_ids d)" by (simp add: role_ids_def)
  have "db_ok (d\<lparr>roles := roles d @ [r]\<rparr>)" if "db_ok d"
    using that new unfolding ok_defs ids
    by (auto simp: keyed_append user_ids_def application_ids_def passkeys_of_def elim!: table_ok_mono)
  then show "sound d (d\<lparr>roles := roles d @ [r]\<rparr>)"
    by (auto simp: sound_def admin_count_pos admin_grant_def)
qed (rule sound.refl)

lemma role_grant_ok: "keeps sound (insert_op (\<lambda>d. (u, i) \<in> set (user_roles d))
    (\<lambda>d. \<not> user_exists u d \<or> \<not> role_exists i d) (\<lambda>d. d\<lparr>user_roles := user_roles d @ [(u, i)]\<rparr>))"
proof (rule keeps_insert_op)
  fix d :: db
  assume "(u, i) \<notin> set (user_roles d)" "\<not> (\<not> user_exists u d \<or> \<not> role_exists i d)"
  then have "db_ok (d\<lparr>user_roles := user_roles d @ [(u, i)]\<rparr>)" if "db_ok d"
    using that by (auto simp: ok_defs id_defs exists_ids table_ok_append)
  then show "sound d (d\<lparr>user_roles := user_roles d @ [(u, i)]\<rparr>)"
    by (auto simp: sound_def admin_count_pos admin_grant_def)
qed (rule sound.refl)

lemma unused_role_ok:
  assumes "sql_count (\<lambda>ur. snd ur = i) (user_roles d) = 0"
  shows "sound d (d\<lparr>roles := sql_delete (\<lambda>q. ro_id q = i) (roles d)\<rparr>)"
proof -
  have ids: "role_ids (d\<lparr>roles := sql_delete (\<lambda>q. ro_id q = i) (roles d)\<rparr>) = role_ids d - {i}"
    by (auto simp: role_ids_def)
  have "table_ok id (\<lambda>r. fst r \<in> user_ids d \<and> snd r \<in> role_ids (d\<lparr>roles := sql_delete (\<lambda>q. ro_id q = i) (roles d)\<rparr>)) (user_roles d)"
    if "db_ok d"
    using that assms unfolding ids by (auto simp: ok_defs table_ok_def)
  then have "db_ok (d\<lparr>roles := sql_delete (\<lambda>q. ro_id q = i) (roles d)\<rparr>)" if "db_ok d"
    using that by (simp add: ok_defs user_ids_def application_ids_def passkeys_of_def keyed_sql_delete)
  moreover have "admin_grant (d\<lparr>roles := sql_delete (\<lambda>q. ro_id q = i) (roles d)\<rparr>) ur r" if "admin_grant d ur r" for ur r
    using that assms by (auto simp: admin_grant_def)
  ultimately show ?thesis unfolding sound_def admin_count_pos by blast
qed

lemma role_delete_ok: "keeps sound (role_delete i)"
  using unused_role_ok by (auto simp: keeps_def role_delete_def Let_def sound.refl split: option.split)

text \<open>The guard of the handler that takes a role away.\<close>

lemma role_taken_ok:
  assumes "case role_get i d of Some ro \<Rightarrow> ro_name ro = ROLE_ADMIN \<longrightarrow> 1 < admin_count d | None \<Rightarrow> True"
  shows "sound d (d\<lparr>user_roles := sql_delete (\<lambda>ur. fst ur = u \<and> snd ur = i) (user_roles d)\<rparr>)"
proof -
  let ?d = "d\<lparr>user_roles := sql_delete (\<lambda>ur. fst ur = u \<and> snd ur = i) (user_roles d)\<rparr>"
  have "db_ok ?d" if "db_ok d" using that by (simp add: ok_defs id_defs table_ok_delete)
  moreover have "\<exists>ur r. admin_grant ?d ur r" if ok: "db_ok d" and g: "admin_grant d ur r" for ur r
  proof (cases "ur = (u, i)")
    case False
    then have "admin_grant ?d ur r" using g by (cases ur) (auto simp: admin_grant_def)
    then show ?thesis by blast
  next
    case True
    have "keyed ro_id (roles d)" using ok by (simp add: ok_defs)
    then have "role_get i d = Some r" using g True sql_find_keyed [of ro_id "roles d" r] by (simp add: admin_grant_def role_get_def)
    then have "1 < admin_count d" using assms g by (simp add: admin_grant_def)
    then obtain ur' r' where "admin_grant d ur' r'" "ur' \<noteq> (u, i)" using admin_grants_two [OF ok] by blast
    then have "admin_grant ?d ur' r'" by (cases ur') (auto simp: admin_grant_def)
    then show ?thesis by blast
  qed
  ultimately show ?thesis by (auto simp: sound_def admin_count_pos)
qed

lemma remove_role_ok: "keeps sound (remove_role e ctx hs u i)"
  unfolding keeps_def
proof
  fix d :: db
  let ?d1 = "d\<lparr>user_roles := sql_delete (\<lambda>ur. fst ur = u \<and> snd ur = i) (user_roles d)\<rparr>"
  let ?guard = "case role_get i d of Some ro \<Rightarrow> ro_name ro = ROLE_ADMIN \<longrightarrow> 1 < admin_count d | None \<Rightarrow> True"
  show "sound d (snd (remove_role e ctx hs u i d))"
  proof (cases "fst (require_admin e hs d)")
    case (Inl err)
    then have "require_admin e hs d = (Inl err, d)" by (simp add: prod_eq_iff)
    then show ?thesis by (simp add: remove_role_def bind_op_def sound.refl)
  next
    case (Inr a)
    then have adm: "require_admin e hs d = (Inr a, d)" by (simp add: prod_eq_iff)
    let ?rest = "\<lambda>removed. if removed
       then bind_op (ignore_op (revoke_user_access_tokens (ev_now e) u)) (\<lambda>_.
          bind_op (note_audit e 0 (audit_details (JObj [(''role_id'', uuid_json e i)])
              (audit_ctx ctx (audit_actor (Some (au_user_id a)) (audit_user u (audit AdminRoleRemoved)))))) (\<lambda>_.
          ret_op (204 :: nat))) else raise_op NotFound"
    have "keeps sound (?rest b)" for b
      unfolding note_audit_def audited_def by (intro sound.keeps_rules revoke_ok audit_ok)
    then have rest: "sound ?d1 (snd (?rest b ?d1))" for b by (simp add: keeps_def)
    show ?thesis
    proof (cases ?guard)
      case True
      have "sound d (snd (?rest b ?d1))" for b using role_taken_ok [OF True] rest sound.trans by blast
      then show ?thesis
        using True adm sound.refl
        by (auto simp: remove_role_def bind_op_def ensure_not_self_role_removal_def userrole_remove_def require_op_def
            split: option.splits)
    next
      case False
      then show ?thesis
        using adm sound.refl
        by (auto simp: remove_role_def bind_op_def ensure_not_self_role_removal_def require_op_def split: option.splits)
    qed
  qed
qed

interpretation sound: store_laws sound "\<lambda>_. True"
  by unfold_locales
     (intro audit_ok issue_ok consume_ok retry_ok revoke_ok user_save_ok user_update_ok authenticator_ok role_save_ok
       role_delete_ok role_grant_ok remove_role_ok settings_ok code_ok handoff_ok application_ok totp_ok recovery_ok
       invitation_ok app_password_ok challenge_ok passkey_ok)+

section \<open>Properties\<close>

text \<open>
  C12. The database stays well typed. Whatever requests, LDAP messages and background tasks the
  server handles, in whatever order and with whatever outcome: every key and every unique column
  stays unique, every reference between tables points at a row that exists, and no account has
  more passkeys than the limit allows.
\<close>

theorem database_well_typed:
  assumes "server_runs wn fresh s t" and "db_ok (st_db s)"
  shows "db_ok (st_db t)"
  using sound.server_runs_law [OF server_runs_mono [OF assms(1)]] assms(2) by (simp add: sound_def)

text \<open>
  C13. An installation does not lose its last administrator: if the database grants the role
  \<open>admin\<close> to someone, then it does so after every run of the server, although administrators may
  take the role from each other and delete roles. The requests of a run do not overlap.
\<close>

theorem administrator_remains:
  assumes "server_runs wn fresh s t" and "db_ok (st_db s)" and "0 < admin_count (st_db s)"
  shows "0 < admin_count (st_db t)"
  using sound.server_runs_law [OF server_runs_mono [OF assms(1)]] assms(2,3) by (simp add: sound_def)

section \<open>Examples\<close>

definition demo_roles_db :: db where
  "demo_roles_db = demo_passkey_db\<lparr>roles := [\<lparr>ro_id = 1, ro_name = ROLE_ADMIN, ro_description = None\<rparr>],
     user_roles := [(7, 1)]\<rparr>"

lemma demo_roles_ok: "db_ok demo_roles_db"
  by (simp add: ok_defs table_ok_def keyed_def id_defs opt_in_def demo_roles_db_def demo_passkey_db_def demo_state_defs
      MAX_PASSKEYS_def)

lemma demo_roles_admin: "admin_count demo_roles_db = 1"
  by (simp add: admin_count_def demo_roles_db_def)

text \<open>A sign-in with the example passkey, as a step of the server.\<close>

definition demo_after_login :: app_state where
  "demo_after_login = snd (handle demo_crate (\<lambda>_. []) (\<lambda>_. Inr []) demo_site demo_ctx demo_passkey_cookie
     (Public (PasskeyLoginFinish None (JStr ''nonce''))) (demo_state\<lparr>st_db := demo_roles_db\<rparr>))"

lemma demo_run: "server_runs demo_crate (\<lambda>_. True) (demo_state\<lparr>st_db := demo_roles_db\<rparr>) demo_after_login"
  unfolding server_runs_def demo_after_login_def by (rule r_into_rtranclp) (rule server_step.request, simp)

theorem database_well_typed_witness: "db_ok demo_roles_db \<and> db_ok (st_db demo_after_login)"
  using database_well_typed [OF demo_run] demo_roles_ok by simp

theorem administrator_remains_witness: "admin_count demo_roles_db = 1 \<and> 0 < admin_count (st_db demo_after_login)"
  using administrator_remains [OF demo_run] demo_roles_ok demo_roles_admin by simp

end
