(* ===== verification/Server_Guards.thy ===== *)
theory Server_Guards
  imports Server Passkey_Properties
begin

text \<open>
  The guards of the routes: a request to an administrative or a member route whose credentials do
  not pass the extractor gets the extractor's error and changes nothing.
\<close>

lemma guarded:
  assumes "fst (m d) = Inl err" and "snd (m d) = d"
  shows "bind_op m k d = (Inl err, d)"
  using assms by (cases "m d") (simp add: bind_op_def)

lemma guarded_replies:
  assumes "g (st_db s) = (Inl err, st_db s)"
  shows "answered ok g s = (status_code err, s)"
  using assms by (simp add: answered_def on_db_apply)

lemma guarded_codes:
  assumes "g (st_db s) = (Inl err, st_db s)"
  shows "coded g s = (status_code err, s)"
  using assms by (simp add: coded_def on_db_apply)

lemma guarded_responses:
  assumes "g (st_db s) = (Inl err, st_db s)"
  shows "responded g s = (status_code err, s)"
  using assms by (simp add: responded_def on_db_apply)

lemmas admin_handler_defs = create_user_def get_users_def get_user_def update_user_def admin_change_user_password_def
  list_roles_def create_role_def delete_role_def handle_get_user_roles_def assign_role_def remove_role_def
  list_applications_def create_application_def get_application_def update_application_def delete_application_def
  get_audit_log_def get_audit_event_types_def export_audit_log_def get_settings_def update_settings_def
  regenerate_ldap_bind_password_def restart_service_def list_invitations_def create_invitation_def
  delete_invitation_def admin_disable_user_totp_def admin_list_app_passwords_def admin_delete_app_password_def

lemmas member_handler_defs = get_me_def update_me_def change_my_password_def get_my_totp_status_def enroll_my_totp_def
  activate_my_totp_def disable_my_totp_def list_my_app_passwords_def create_my_app_password_def
  delete_my_app_password_def list_passkeys_def delete_passkey_def

lemma admin_routes_guarded:
  assumes "fst (require_admin e hs (st_db s)) = Inl err"
  shows "handle_admin dbg pretty e ctx hs c s = (status_code err, s)"
proof -
  have g: "bind_op (require_admin e hs) k (st_db s) = (Inl err, st_db s)" for k :: "auth_user \<Rightarrow> 'x db_op"
    using guarded [of "require_admin e hs" "st_db s" err] assms by simp
  show ?thesis
    by (cases c)
       (simp_all add: admin_handler_defs Let_def guarded_replies guarded_codes guarded_responses g)
qed

lemma member_routes_guarded:
  assumes "fst (require_auth e hs (st_db s)) = Inl err"
  shows "handle_member wn e ctx hs c s = (status_code err, s)"
proof -
  have g: "bind_op (require_auth e hs) k (st_db s) = (Inl err, st_db s)" for k :: "auth_user \<Rightarrow> 'x db_op"
    using guarded [of "require_auth e hs" "st_db s" err] assms by simp
  have l: "bind_op (map_err_op LoginApp (on_db (require_auth e hs))) k s = (Inl (LoginApp err), s)"
    for k :: "auth_user \<Rightarrow> (login_error, response) state_op"
    using assms by (simp add: bind_op_def map_err_op_def on_db_apply)
  have "fst (login_error_response (LoginApp err)) = status_code err"
    by (cases err) (simp_all add: app_response_def)
  then show ?thesis
    by (cases c)
       (simp_all add: member_handler_defs Let_def guarded_replies guarded_codes g l login_answered_def
          register_start_def register_finish_def)
qed

text \<open>
  C11. Every administrative route and every member route is guarded. For each of the 29
  administrative requests: unless the requester passes the administrator check at this moment, the
  answer is the error of the check and neither the database nor a rate limiter changes. For each of
  the 14 member requests the same holds for the session check. No route can be reached around its
  guard.
\<close>

theorem routes_guarded:
  "(fst (require_admin e hs (st_db s)) = Inl err \<longrightarrow>
      handle wn dbg pretty e ctx hs (Admin admin_request) s = (status_code err, s))
   \<and> (fst (require_auth e hs (st_db s)) = Inl err' \<longrightarrow>
      handle wn dbg pretty e ctx hs (Member member_request) s = (status_code err', s))"
  by (simp add: admin_routes_guarded member_routes_guarded)

text \<open>A request without credentials.\<close>

theorem routes_guarded_witness:
  "handle demo_crate (\<lambda>_. []) (\<lambda>_. Inr []) demo_env demo_ctx [] (Admin (AdminChangePassword 7 ''password'')) demo_state = (401, demo_state)
   \<and> handle demo_crate (\<lambda>_. []) (\<lambda>_. Inr []) demo_env demo_ctx [] (Member (DeletePasskey 50)) demo_state = (401, demo_state)"
proof -
  have "fst (require_auth demo_env [] (st_db demo_state)) = Inl AuthenticationRequired"
    by (simp add: require_auth_def extract_token_def first_cookie_def h_get_def h_get_all_def bind_op_def ok_or_op_def)
  moreover from this have "fst (require_admin demo_env [] (st_db demo_state)) = Inl AuthenticationRequired"
    by (cases "require_auth demo_env [] (st_db demo_state)") (simp add: require_admin_def bind_op_def)
  ultimately show ?thesis
    using routes_guarded [of demo_env "[]" demo_state AuthenticationRequired demo_crate "\<lambda>_. []" "\<lambda>_. Inr []" demo_ctx
        "AdminChangePassword 7 ''password''" AuthenticationRequired "DeletePasskey 50"] by simp
qed

end
