(* ===== verification/Server_Audit.thy ===== *)
theory Server_Audit
  imports Server_Types
begin

text \<open>
  A third law of the system, beside the session generations and the well-typed database: the audit
  log only grows.
\<close>

definition log_grows :: "db \<Rightarrow> db \<Rightarrow> bool" where
  "log_grows d d' \<longleftrightarrow> prefix (audit_log d) (audit_log d')"

interpretation lg: state_preorder log_grows
  by unfold_locales (auto simp: log_grows_def)

lemma same_log: "audit_log d' = audit_log d \<Longrightarrow> log_grows d d'"
  by (simp add: log_grows_def)

lemma keeps_log: "(\<And>d. audit_log (snd (m d)) = audit_log d) \<Longrightarrow> keeps log_grows m"
  by (simp add: keeps_def same_log)

lemma keeps_log_modify: "(\<And>d. audit_log (f d) = audit_log d) \<Longrightarrow> keeps log_grows (modify_op f)"
  by (simp add: keeps_def same_log)

lemma keeps_log_insert: "(\<And>d. audit_log (f d) = audit_log d) \<Longrightarrow> keeps log_grows (insert_op p q f)"
  by (simp add: keeps_def same_log insert_op_state)

lemma audit_grows: "keeps log_grows (audit_save x fresh now entry)"
  unfolding audit_save_def by (simp add: keeps_def insert_op_state log_grows_def)

lemma note_grows: "keeps log_grows (note_audit e n entry)"
  unfolding note_audit_def audited_def by (intro lg.keeps_rules audit_grows)

lemmas log_rules = lg.keeps_rules keeps_log_modify keeps_log_insert audit_grows note_grows

section \<open>Every operation of the components\<close>

lemma sessions_grow: "keeps log_grows (verify_user_session u i v)" "keeps log_grows (user_session_version u)"
  "keeps log_grows (require_admin e hs)"
  by (rule keeps_log, simp add: verify_user_session_eq user_session_version_eq)+

lemma revoke_log: "audit_log (snd (revoke_user_access_tokens now u d)) = audit_log d"
  "audit_log (snd (revoke_all_user_tokens now u d)) = audit_log d"
  by (simp_all add: revoke_all_user_tokens_def revoke_user_access_tokens_def tx_op_def bind_op_def insert_op_state
      split: prod.split sum.split)

lemma revoke_grows: "keeps log_grows (revoke_user_access_tokens now u)" "keeps log_grows (revoke_all_user_tokens now u)"
  by (rule keeps_log, rule revoke_log)+

lemma issue_grows: "keeps log_grows (generate_token_pair_for_session x key now m u rls ex ver aut)"
  unfolding generate_token_pair_for_session_def generate_refresh_token_for_session_def sign_claims_def Let_def
  by (intro log_rules) simp

lemma consume_grows: "keeps log_grows (consume_refresh_token x key now tok)"
  unfolding consume_refresh_token_def Let_def
  by (intro log_rules sessions_grow, rule keeps_log) (simp add: revoke_log split: option.split)

lemma retry_grows: "log_grows d (clear_stale_retries now (d\<lparr>refresh_tokens := rows\<rparr>))"
  by (rule same_log) (simp add: clear_stale_retries_def)

lemma account_grows: "keeps log_grows (user_save v)" "keeps log_grows (user_update now self name email username)"
  "keeps log_grows (authenticator_save a)" "keeps log_grows (update_password x salt fresh i new)"
proof -
  show "keeps log_grows (user_save v)" "keeps log_grows (authenticator_save a)"
    unfolding user_save_def authenticator_save_def by (intro log_rules; simp)+
  have input: "keeps log_grows (input_err r)" for r unfolding input_err_def by (intro log_rules)
  show "keeps log_grows (user_update now self name email username)"
    unfolding user_update_def Let_def by (intro log_rules input) (rule keeps_log, simp)
  show "keeps log_grows (update_password x salt fresh i new)"
    unfolding update_password_def by (auto split: sum.split authentication_scheme.split intro!: log_rules)
qed

lemma role_grows: "keeps log_grows (role_save r)" "keeps log_grows (role_delete i)" "keeps log_grows (userrole_remove u i)"
  "keeps log_grows (insert_op p q (\<lambda>d. d\<lparr>user_roles := user_roles d @ [(u, i)]\<rparr>))"
  unfolding role_save_def userrole_remove_def role_delete_def Let_def
  by (intro log_rules, simp | rule keeps_log, simp split: option.split)+

lemma remove_role_grows: "keeps log_grows (remove_role e ctx hs u i)"
  unfolding remove_role_def by (intro log_rules sessions_grow role_grows revoke_grows)

lemma settings_grow: "keeps log_grows (set_setting k val)"
  unfolding set_setting_def by (intro log_rules) simp

lemma code_grows: "keeps log_grows (code_issue x now rnd app_id u ru sc n ch me ta ver se)"
  "keeps log_grows (code_consume x now code app_id ru vf)" "keeps log_grows (code_sweep_expired now)"
  unfolding code_issue_def code_sweep_expired_def Let_def
  by (intro log_rules, simp | rule keeps_log, simp add: code_consume_def code_mark_def split: option.split)+

lemma handoff_grows: "keeps log_grows (issue_handoff x key now jti parent app_id origin path st)"
  "keeps log_grows (redeem_handoff x key now tok origin st)" "keeps log_grows (sweep_expired_sessions now)"
  unfolding issue_handoff_def redeem_handoff_def sweep_expired_sessions_def clear_stale_retries_def Let_def
  by (intro log_rules sessions_grow; simp)+

lemma application_grows: "keeps log_grows (application_save x ap)" "keeps log_grows (application_update x now inp ap)"
  "keeps log_grows (application_delete i)"
  unfolding application_save_def application_update_def application_delete_def Let_def
  by (intro log_rules, simp | rule keeps_log, simp)+

lemma totp_grows: "keeps log_grows (upsert_pending now u s)" "keeps log_grows (totp_activate now u s st2)"
  "keeps log_grows (record_step now u s st2)" "keeps log_grows (totp_delete u)"
  unfolding upsert_pending_def totp_activate_def record_step_def totp_delete_def Let_def
  by (intro log_rules | rule keeps_log | simp split: option.split)+

lemma recovery_grows: "keeps log_grows (store_recovery_codes x now ids u codes)" "keeps log_grows (consume_recovery_code x now u code)"
proof -
  have ins: "keeps log_grows (insert_recovery_codes x now u ps)" for ps
    by (induction ps rule: insert_recovery_codes.induct)
       (simp_all only: insert_recovery_codes.simps, intro log_rules, (intro log_rules; simp))
  show "keeps log_grows (store_recovery_codes x now ids u codes)"
    unfolding store_recovery_codes_def by (intro log_rules ins) simp
  show "keeps log_grows (consume_recovery_code x now u code)"
    by (rule keeps_log) (simp add: consume_recovery_code_def)
qed

lemma invitation_grows: "keeps log_grows (invitation_save iv)" "keeps log_grows (invitation_delete k)"
  "keeps log_grows (invitation_consume now k)"
  unfolding invitation_save_def invitation_delete_def invitation_consume_def Let_def
  by (intro log_rules, simp | rule keeps_log, simp)+

lemma app_password_grows: "keeps log_grows (app_password_create x now i draws salt u nm)"
  "keeps log_grows (app_password_delete_for_user i u)" "keeps log_grows (app_password_verify_for_user x now u pw)"
  unfolding app_password_create_def app_password_delete_for_user_def app_password_verify_for_user_def Let_def
  by (intro log_rules, simp | rule keeps_log, simp split: option.split)+

lemma passkey_grows: "keeps log_grows (insert_challenge crow)" "keeps log_grows (drop_challenges cq :: unit db_op)"
  "keeps log_grows (store_passkey e ctx u pch cid enc)" "keeps log_grows (touch_passkey i cred now :: unit db_op)"
  "keeps log_grows (drop_passkey i u)"
  unfolding insert_challenge_def drop_challenges_def store_passkey_def insert_passkey_def touch_passkey_def drop_passkey_def Let_def
  by (intro log_rules; simp | rule keeps_log, simp)+

interpretation log_grows: store_laws log_grows "\<lambda>_. True"
  by unfold_locales
     (intro audit_grows issue_grows consume_grows retry_grows revoke_grows account_grows role_grows remove_role_grows
       settings_grow code_grows handoff_grows application_grows totp_grows recovery_grows invitation_grows
       app_password_grows passkey_grows)+

section \<open>The property\<close>

text \<open>
  C15. The audit log is append-only. Whatever requests, LDAP messages and background tasks the
  server handles, in whatever order and with whatever outcome, an entry once written stays in the
  log, unchanged and in its place; new entries come after it. Administrators have no operation
  that edits, reorders or clears the log.
\<close>

theorem audit_log_append_only:
  assumes "server_runs wn fresh s t"
  shows "\<exists>new. audit_log (st_db t) = audit_log (st_db s) @ new"
  using log_grows.server_runs_law [OF server_runs_mono [OF assms]] by (auto simp: log_grows_def prefix_def)

text \<open>The sign-in of the example passkey, from a database whose log has an entry.\<close>

definition demo_logged :: db where
  "demo_logged = snd (audit_save ref_ext 50 900 (audit_user 7 (audit LoginSuccess)) demo_roles_db)"

theorem audit_log_append_only_witness:
  "\<exists>row new. map al_user [row] = [Some 7]
     \<and> audit_log (st_db (snd (handle demo_crate (\<lambda>_. []) (\<lambda>_. Inr []) demo_site demo_ctx demo_passkey_cookie
         (Public (PasskeyLoginFinish None (JStr ''nonce''))) (demo_state\<lparr>st_db := demo_logged\<rparr>)))) = row # new"
proof -
  let ?s = "demo_state\<lparr>st_db := demo_logged\<rparr>"
  let ?t = "snd (handle demo_crate (\<lambda>_. []) (\<lambda>_. Inr []) demo_site demo_ctx demo_passkey_cookie
         (Public (PasskeyLoginFinish None (JStr ''nonce''))) ?s)"
  have "server_runs demo_crate (\<lambda>_. True) ?s ?t"
    unfolding server_runs_def by (rule r_into_rtranclp) (rule server_step.request, simp)
  from audit_log_append_only [OF this] obtain new where "audit_log (st_db ?t) = audit_log demo_logged @ new" by auto
  moreover have "\<exists>row. audit_log demo_logged = [row] \<and> al_user row = Some 7"
    by (simp add: demo_logged_def audit_save_def insert_op_def audit_row_of_def audit_user_def audit_def user_exists_def demo_roles_db_def
        demo_passkey_db_def demo_state_defs)
  ultimately show ?thesis by auto
qed

end
