(* ===== verification/Oauth_Properties.thy ===== *)
theory Oauth_Properties
  imports Session_Laws Session_Properties Oidc_Properties
begin

text \<open>
  What the OpenID Connect endpoints promise as a whole: when the authorization endpoint issues a
  code, when the token endpoint grants tokens, and who may end a session through the logout
  endpoint.
\<close>

section \<open>The authorization endpoint\<close>

lemma given_Some: "given v = Some s \<longleftrightarrow> v = Some s \<and> s \<noteq> []"
  by (auto simp: given_def split: option.splits if_splits)

lemma authorize_checks_Inr:
  assumes "authorize_checks x q d = (Inr z, d')"
  shows "d' = d" "aq_client_id q = Some (az_client_id z)" "aq_redirect_uri q = Some (az_redirect z)"
    "get_by_oidc_client_id x (az_client_id z) d = Some (az_app z)" "ap_enabled (az_app z)" "ap_type (az_app z) = Oidc"
    "validate_redirect_uri (az_app z) (az_redirect z)" "aq_response_type q = Some ''code''"
    "\<not> reauthentication_requested q" "az_scope z = parse_scope (unwrap_or [] (aq_scope q))" "scope_acceptable (az_scope z)"
    "aq_code_challenge q = Some (az_challenge z)" "s256_challenge x (az_challenge z)"
    "aq_code_challenge_method q = Some ''S256''"
  using assms
  by (auto simp: authorize_checks_def authorize_client_def op_results given_Some Let_def unwrap_or_def split: option.splits)

lemma authorize_checks_readonly: "snd (authorize_checks x q d) = d"
proof -
  have "keeps (\<lambda>s t. t = s) (authorize_checks x q)"
    unfolding authorize_checks_def authorize_client_def Let_def by (intro readonly.keeps_rules)
  then show ?thesis by (simp add: keeps_def)
qed

lemma note_audit_codes: "note_audit e n a d = (r, d') \<Longrightarrow> r = Inr () \<and> oidc_codes d' = oidc_codes d"
  by (auto simp: note_audit_apply audit_save_frame)

lemma code_issue_result:
  assumes "code_issue x now rnd app_id u ru sc n ch me ta ver se d = (r, d')"
  shows "case r of Inl _ \<Rightarrow> d' = d
    | Inr code \<Rightarrow> code = generate_plaintext x rnd \<and> (\<exists>row. oidc_codes d' = oidc_codes d @ [row]
        \<and> cd_hash row = hash_code x code \<and> cd_application row = app_id \<and> cd_user row = u \<and> cd_redirect_uri row = ru
        \<and> cd_scope row = sc \<and> cd_nonce row = n \<and> cd_challenge row = ch \<and> cd_method row = me \<and> cd_auth_time row = ta
        \<and> cd_consumed row = None \<and> cd_session_version row = ver \<and> cd_session_exp row = se
        \<and> cd_expires row \<le> now + AUTHORIZATION_CODE_LIFETIME)"
  using assms
  by (auto simp: code_issue_def op_results Let_def split: sum.splits)

lemma authorize_grant_code:
  assumes "authorize_grant e ctx uri q z claims d = (r, d')" and "oidc_codes d' \<noteq> oidc_codes d"
  shows "\<exists>u usr row. x_uuid_parse (ev_ext e) (c_sub claims) = Some u \<and> user_get u d = Some usr \<and> u_active usr
     \<and> check_access_resolved (ev_ext e) (az_app z) (user_get_roles u d) d
     \<and> oidc_codes d' = oidc_codes d @ [row] \<and> cd_application row = ap_id (az_app z) \<and> cd_user row = u
     \<and> cd_redirect_uri row = az_redirect z \<and> cd_challenge row = az_challenge z
     \<and> cd_method row = unwrap_or ''plain'' (aq_code_challenge_method q) \<and> cd_consumed row = None
     \<and> cd_session_version row = c_session_version claims
     \<and> cd_expires row \<le> ev_now e + AUTHORIZATION_CODE_LIFETIME"
proof -
  have id: "u_id usr = u" if "user_get u d = Some usr" for u usr
    using that by (auto simp: user_get_def user.truncate_def dest: sql_find_SomeD)
  show ?thesis
    using assms id
    by (cases r)
       (fastforce simp: authorize_grant_def op_results Let_def dest!: note_audit_codes code_issue_result split: if_splits sum.splits)+
qed

lemma unless_unauthenticated_Inr:
  "unless_unauthenticated m d = (Inr v, d') \<longleftrightarrow>
     (\<exists>w. v = Some w \<and> m d = (Inr w, d')) \<or> v = None \<and> m d = (Inl AuthenticationRequired, d')"
  by (cases "m d"; cases "fst (m d)") (auto simp: unless_unauthenticated_def bind_op_def try_op_def)

lemma verified_claims:
  "verify_access_token x key now tok d = (Inr claims, d') \<Longrightarrow>
     d' = d \<and> (\<exists>c u. access_live x key now tok c u d \<and> x_uuid_parse x (c_sub claims) = Some u
       \<and> c_session_version claims = c_session_version c)"
  by (auto simp: verify_access_token_Inr access_live_def)

text \<open>The session behind a request: the access cookie, or the pair that renewed it.\<close>

lemma resolve_browser_session_Inr:
  assumes "resolve_browser_session e hs d = (Inr (Some claims, renewed), d')"
  shows "\<exists>tok c u. (case renewed of None \<Rightarrow> extract_session_cookie hs = Some tok | Some p \<Rightarrow> tok = tk_access p)
     \<and> access_live (ev_ext e) (ev_key e) (ev_now e) tok c u d' \<and> x_uuid_parse (ev_ext e) (c_sub claims) = Some u
     \<and> c_session_version claims = c_session_version c"
  using assms
  by (auto simp: resolve_browser_session_def op_results unless_unauthenticated_Inr split: option.splits dest!: verified_claims)

lemma check_access_roles:
  assumes "roles d' = roles d"
  shows "check_access_resolved x app names d' = check_access_resolved x app names d"
proof -
  have "required_names x d' es = required_names x d es" for es
    by (induction es) (simp_all add: role_get_def assms split: option.split)
  then show ?thesis by (simp add: check_access_resolved_def)
qed

lemma authorize_state:
  "authorize e ctx hs uri q d = (rs, d') \<Longrightarrow> \<exists>r renewed. authorize_impl e ctx hs uri q d = ((r, renewed), d')"
  by (auto simp: authorize_def split: prod.splits option.splits)

text \<open>
  C17. An authorization code is issued only for a request that deserves it. Whenever a request to the
  authorization endpoint stores a code, exactly one is stored and: the client is registered,
  enabled and of the OpenID Connect kind; the code is bound to that client and to a redirect URI
  registered for it; the request asked for a code, named supported scopes and carried a
  well-formed S256 challenge, to which the code is bound; the browser had a live session of an
  existing, active account, whose present roles give access to the application; and the code
  expires within its lifetime. Redirect URIs, clients and roles are read from the database as it
  is when the request arrives.
\<close>

theorem authorize_code_justified:
  assumes "authorize e ctx hs uri q d = (rs, d')" and "oidc_codes d' \<noteq> oidc_codes d"
  shows "\<exists>row cid app u usr tok c d2. oidc_codes d' = oidc_codes d @ [row] \<and> cd_consumed row = None
     \<and> aq_client_id q = Some cid \<and> get_by_oidc_client_id (ev_ext e) cid d = Some app \<and> ap_enabled app \<and> ap_type app = Oidc
     \<and> cd_application row = ap_id app
     \<and> aq_redirect_uri q = Some (cd_redirect_uri row) \<and> validate_redirect_uri app (cd_redirect_uri row)
     \<and> aq_response_type q = Some ''code'' \<and> scope_acceptable (parse_scope (unwrap_or [] (aq_scope q)))
     \<and> aq_code_challenge q = Some (cd_challenge row) \<and> s256_challenge (ev_ext e) (cd_challenge row) \<and> cd_method row = ''S256''
     \<and> cd_user row = u \<and> user_get u d = Some usr \<and> u_active usr
     \<and> check_access_resolved (ev_ext e) app (user_get_roles u d) d
     \<and> session_only d d2 \<and> access_live (ev_ext e) (ev_key e) (ev_now e) tok c u d2
     \<and> cd_session_version row = c_session_version c
     \<and> cd_expires row \<le> ev_now e + AUTHORIZATION_CODE_LIFETIME"
proof -
  from authorize_state [OF assms(1)] obtain r renewed where impl: "authorize_impl e ctx hs uri q d = ((r, renewed), d')" by blast
  obtain z where z: "authorize_checks (ev_ext e) q d = (Inr z, d)"
    using impl assms(2) authorize_checks_readonly [of "ev_ext e" q d]
    by (cases "authorize_checks (ev_ext e) q d"; cases "fst (authorize_checks (ev_ext e) q d)")
       (auto simp: authorize_impl_def)
  obtain s d2 where s: "resolve_browser_session e hs d = (s, d2)" by fastforce
  have so: "session_only d d2" using so.resolve_browser_session_law s unfolding keeps_def by (metis snd_conv)
  note frame = session_onlyD [OF so] session_only_users [OF so]
  obtain claims rn where s': "s = Inr (Some claims, rn)"
    using impl assms(2) z s frame(5)
    by (auto simp: authorize_impl_def split: sum.splits option.splits prod.splits)
  obtain g where "authorize_grant e ctx uri q z claims d2 = (g, d')"
    using impl z s s' by (auto simp: authorize_impl_def answer_def split: prod.splits sum.splits)
  from authorize_grant_code [OF this] assms(2) frame(5) obtain u usr row where
    g: "x_uuid_parse (ev_ext e) (c_sub claims) = Some u" "user_get u d2 = Some usr" "u_active usr"
      "check_access_resolved (ev_ext e) (az_app z) (user_get_roles u d2) d2" "oidc_codes d' = oidc_codes d2 @ [row]"
      "cd_application row = ap_id (az_app z)" "cd_user row = u" "cd_redirect_uri row = az_redirect z"
      "cd_challenge row = az_challenge z" "cd_method row = unwrap_or ''plain'' (aq_code_challenge_method q)"
      "cd_consumed row = None" "cd_session_version row = c_session_version claims"
      "cd_expires row \<le> ev_now e + AUTHORIZATION_CODE_LIFETIME" by auto
  from resolve_browser_session_Inr [OF s [unfolded s']] g(1) obtain tok c where
    live: "access_live (ev_ext e) (ev_key e) (ev_now e) tok c u d2" "c_session_version claims = c_session_version c" by auto
  have acc: "check_access_resolved (ev_ext e) (az_app z) (user_get_roles u d) d"
    using g(4) frame check_access_roles [of d2 d] by simp
  note c = authorize_checks_Inr [OF z]
  show ?thesis
    using g frame live so acc c
    by (intro exI [of _ row] exI [of _ "az_client_id z"] exI [of _ "az_app z"] exI [of _ u] exI [of _ usr] exI [of _ tok]
        exI [of _ c] exI [of _ d2]) (simp add: unwrap_or_def)
qed

lemma extract_cookie_value: "extract_cookie hs name = cookie_value name hs"
  by (simp add: extract_cookie_def cookie_value_def)

section \<open>The token endpoint\<close>

lemma code_consume_Some:
  assumes "code_consume x now code app uri ver d = (Inr (Some c), d')"
  shows "\<exists>row\<in>set (oidc_codes d). cd_hash row = hash_code x code \<and> code_bound x now app uri ver row \<and> c = consumed_of_row row
     \<and> d' = snd (code_mark x now code d) \<and> (\<exists>cs. d' = d\<lparr>oidc_codes := cs\<rparr>)"
  using assms
  by (auto simp: code_consume_def code_mark_def split: option.splits if_splits prod.splits dest!: sql_find_SomeD)

lemma client_credentials_Inr:
  assumes "authenticate_client e ctx hs form d = (Inr (cid, app), d')"
  shows "d' = d \<and> tf_grant_type form = Some ''authorization_code'' \<and> get_by_oidc_client_id (ev_ext e) cid d = Some app
     \<and> ap_enabled app \<and> ap_type app = Oidc
     \<and> (\<exists>secret. client_credentials (ev_ext e) hs form = Inr (cid, secret)
          \<and> (ap_confidential app \<longrightarrow> (\<exists>s. secret = Some s \<and> verify_client_secret (ev_ext e) app s)))"
  using assms
  by (auto simp: authenticate_client_def op_results token_rejected_def Let_def split: if_splits)

lemma client_credentials_cases:
  assumes "client_credentials x hs form = Inr (cid, secret)"
  shows "cid \<noteq> [] \<and>
      (h_get_all ''authorization'' hs = [] \<and> tf_client_id form = Some cid \<and> secret = tf_client_secret form
     \<or> length (h_get_all ''authorization'' hs) = 1 \<and> (\<exists>s. secret = Some s \<and> parse_basic_auth x hs = Some (cid, s))
         \<and> tf_client_secret form = None \<and> tf_client_id form \<in> {None, Some cid})"
proof (cases "h_get_all ''authorization'' hs")
  case Nil
  then have "parse_basic_auth x hs = None" by (simp add: parse_basic_auth_def h_get_def)
  with Nil assms show ?thesis by (auto simp: client_credentials_def Let_def given_Some split: option.splits)
next
  case (Cons v vs)
  with assms obtain c s where "parse_basic_auth x hs = Some (c, s)"
    by (cases "parse_basic_auth x hs") (auto simp: client_credentials_def Let_def)
  with Cons assms show ?thesis
    by (auto simp: client_credentials_def Let_def given_Some split: option.splits if_splits)
qed

text \<open>
  C16. The token endpoint grants tokens only against a complete proof. When it answers with tokens:
  the client named itself in exactly one way, in the form without any authorization header or in
  one authorization header with no secret and no other name in the form; it is
  registered, enabled and of the OpenID Connect kind, and a confidential client gave the secret
  whose hash is stored; the code was issued to this client for
  this redirect URI, which is still registered, was unused and unexpired, and the verifier, of 43 to
  128 unreserved characters, hashes to
  the stored S256 challenge; the session that authorised it has not been ended since; the account is
  active and its present roles still give access. The exchange marks the code as used now, and no other row of the
  table changes.
\<close>

theorem token_endpoint_grants:
  assumes "exchange_code e ctx hs form d = (Inr t, d')"
  shows "\<exists>cid secret app code uri verifier row usr.
       (h_get_all ''authorization'' hs = [] \<and> tf_client_id form = Some cid \<and> secret = tf_client_secret form
      \<or> length (h_get_all ''authorization'' hs) = 1 \<and> (\<exists>s. secret = Some s \<and> parse_basic_auth (ev_ext e) hs = Some (cid, s))
          \<and> tf_client_secret form = None \<and> tf_client_id form \<in> {None, Some cid})
     \<and> tf_grant_type form = Some ''authorization_code''
     \<and> get_by_oidc_client_id (ev_ext e) cid d = Some app \<and> ap_enabled app \<and> ap_type app = Oidc
     \<and> (ap_confidential app \<longrightarrow> (\<exists>s. secret = Some s \<and> ap_secret_hash app = Some (sha256_hex (ev_ext e) s)))
     \<and> tf_code form = Some code \<and> tf_redirect_uri form = Some uri \<and> tf_code_verifier form = Some verifier
     \<and> row \<in> set (oidc_codes d) \<and> cd_hash row = sha256_hex (ev_ext e) code
     \<and> cd_application row = ap_id app \<and> cd_redirect_uri row = uri \<and> uri \<in> set (ap_redirect_uris app)
     \<and> cd_consumed row = None \<and> ev_now e < cd_expires row
     \<and> cd_method row = ''S256'' \<and> cd_challenge row = x_b64url (ev_ext e) (x_sha256 (ev_ext e) verifier)
     \<and> 43 \<le> length verifier \<and> length verifier \<le> 128
     \<and> list_all (\<lambda>b. is_ascii_alphanumeric b \<or> b \<in> set ''-._~'') verifier
     \<and> session_live (cd_user row) (cd_auth_time row) (cd_session_version row) d
     \<and> user_get (cd_user row) d = Some usr \<and> u_active usr
     \<and> (ap_required_roles app = [] \<or> (\<exists>required\<in>set (ap_required_roles app). \<exists>name\<in>set (user_get_roles (cd_user row) d).
          case x_uuid_parse (ev_ext e) required of None \<Rightarrow> name = required | Some i \<Rightarrow> \<exists>r. role_get i d = Some r \<and> name = ro_name r))
     \<and> oidc_codes d' = map (\<lambda>r. if cd_hash r = sha256_hex (ev_ext e) code \<and> cd_consumed r = None \<and> ev_now e < cd_expires r
                            then r\<lparr>cd_consumed := Some (ev_now e)\<rparr> else r) (oidc_codes d)"
proof -
  from assms obtain cid app d0 code uri verifier c d1 usr kvs where
    cl: "authenticate_client e ctx hs form d = (Inr (cid, app), d0)"
    and f: "tf_code form = Some code" "tf_redirect_uri form = Some uri" "tf_code_verifier form = Some verifier"
    and con: "code_consume (ev_ext e) (ev_now e) code (ap_id app) uri verifier d0 = (Inr (Some c), d1)"
    and sess: "session_live (cc_user_id c) (cc_auth_time c) (cc_session_version c) d1" "validate_redirect_uri app uri"
    and usr: "user_get (cc_user_id c) d1 = Some usr" "u_active usr"
      "check_access_resolved (ev_ext e) app (user_get_roles (u_id usr) d1) d1"
    and aud: "oidc_audit e ctx (Some (u_id usr)) OidcTokenIssued kvs d1 = (Inr (), d')"
    by (auto simp: exchange_code_def op_results given_Some token_rejected_def verify_user_session_eq Let_def
        split: option.splits if_splits)
  note cl' = client_credentials_Inr [OF cl]
  then have d0: "d0 = d" by blast
  from code_consume_Some [OF con] obtain row cs where row: "row \<in> set (oidc_codes d)" "cd_hash row = hash_code (ev_ext e) code"
    "code_bound (ev_ext e) (ev_now e) (ap_id app) uri verifier row" "c = consumed_of_row row"
    and d1: "d1 = snd (code_mark (ev_ext e) (ev_now e) code d)" "d1 = d\<lparr>oidc_codes := cs\<rparr>"
    unfolding d0 by blast
  have id: "u_id usr = cc_user_id c" using usr(1) by (auto simp: user_get_def user.truncate_def dest: sql_find_SomeD)
  have "oidc_codes d' = oidc_codes d1"
    using aud note_audit_codes [of e 0 _ d1 "Inr ()" d'] by (simp add: oidc_audit_def)
  then have mark: "oidc_codes d' = map (\<lambda>r. if cd_hash r = sha256_hex (ev_ext e) code \<and> cd_consumed r = None \<and> ev_now e < cd_expires r
      then r\<lparr>cd_consumed := Some (ev_now e)\<rparr> else r) (oidc_codes d)"
    by (simp add: d1(1) code_mark_def sql_update_def code_open_def hash_code_def)
  have frame: "session_live u i v d1 = session_live u i v d" "user_get u d1 = user_get u d" "user_get_roles u d1 = user_get_roles u d"
    "role_get k d1 = role_get k d" for u i v k
    by (simp_all add: d1(2) session_live_def current_version_def user_get_def user_get_roles_def role_get_def cong: option.case_cong)
  have bound: "cd_application row = ap_id app" "cd_redirect_uri row = uri" "cd_consumed row = None" "ev_now e < cd_expires row"
    "cd_method row = ''S256''" "cd_challenge row = x_b64url (ev_ext e) (x_sha256 (ev_ext e) verifier)"
    "43 \<le> length verifier" "length verifier \<le> 128" "list_all (\<lambda>b. is_ascii_alphanumeric b \<or> b \<in> set ''-._~'') verifier"
    using row(3) by (simp_all add: code_bound_def verify_pkce_s256_def not_le not_less)
  have uri: "uri \<in> set (ap_redirect_uris app)" using sess(2) by (auto simp: validate_redirect_uri_def list_ex_iff)
  obtain secret where s: "client_credentials (ev_ext e) hs form = Inr (cid, secret)"
    and "ap_confidential app \<longrightarrow> (\<exists>s. secret = Some s \<and> verify_client_secret (ev_ext e) app s)"
    using cl' by blast
  then have sec: "ap_confidential app \<longrightarrow> (\<exists>s. secret = Some s \<and> ap_secret_hash app = Some (sha256_hex (ev_ext e) s))"
    by (auto simp: verify_client_secret_def hash_secret_def split: option.splits)
  have usr': "user_get (cd_user row) d = Some usr" "session_live (cd_user row) (cd_auth_time row) (cd_session_version row) d"
    "u_id usr = cd_user row"
    using usr(1) sess(1) id row(4) by (simp_all add: frame consumed_of_row_def)
  from cl' f uri usr(2,3) row(1,2) show ?thesis
    unfolding check_access_resolved_iff frame usr'(3) hash_code_def
    by (intro exI [of _ cid] exI [of _ secret] exI [of _ app] exI [of _ code] exI [of _ uri] exI [of _ verifier] exI [of _ row]
        exI [of _ usr] conjI conjunct2 [OF client_credentials_cases [OF s]] bound sec usr' mark) simp_all
qed

section \<open>The logout endpoint\<close>

text \<open>
  What entitles a request from another site to end the session of account \<open>u\<close>: the browser's own
  live access cookie and an ID token of this server for the same account and the same sign-in,
  of a generation that still holds.
\<close>

definition logout_authorised :: "env \<Rightarrow> headers \<Rightarrow> end_session_query \<Rightarrow> db \<Rightarrow> uuid \<Rightarrow> bool" where
  "logout_authorised e hs q d u \<longleftrightarrow>
     (\<exists>hint j h access c. es_id_token_hint q = Some hint
        \<and> x_jwt_verify (ev_ext e) (ev_key e) \<lparr>jv_leeway = 60, jv_required = [''sub'', ''iss'', ''aud'', ''iat'', ''exp''],
            jv_iss = Some [ev_origin e], jv_aud = None, jv_validate_aud = False, jv_validate_exp = False\<rparr> (ev_now e) hint = Some j
        \<and> id_claims_of_json j = Some h
        \<and> extract_session_cookie hs = Some access \<and> access_live (ev_ext e) (ev_key e) (ev_now e) access c u d
        \<and> it_sub h = c_sub c \<and> it_auth_time h = unwrap_or (c_iat c) (c_auth_time c)
        \<and> session_live u (it_iat h) (it_session_version h) d)"

lemma logout_authorised_intro:
  assumes "es_id_token_hint q = Some hint" "decode_hint e hint = Some h" "extract_session_cookie hs = Some access"
    and "fst (verify_access_token (ev_ext e) (ev_key e) (ev_now e) access d) = Inr session"
    and "x_uuid_parse (ev_ext e) (c_sub session) = Some u" "matching_hint (Some h) session u d"
  shows "logout_authorised e hs q d u"
proof -
  obtain c v where c: "access_live (ev_ext e) (ev_key e) (ev_now e) access c v d" "session = c\<lparr>c_roles := user_get_roles v d\<rparr>"
    using assms(4) verify_access_token_Inr by (metis prod.collapse)
  then have "v = u" using assms(5) by (simp add: access_live_def)
  moreover have "it_sub h = c_sub c" "it_auth_time h = unwrap_or (c_iat c) (c_auth_time c)" "session_live u (it_iat h) (it_session_version h) d"
    using assms(6) c(2) by (simp_all add: matching_hint_def verify_user_session_eq split: if_splits)
  moreover from assms(2) obtain j where "x_jwt_verify (ev_ext e) (ev_key e) (hint_validation (ev_origin e)) (ev_now e) hint = Some j"
    "id_claims_of_json j = Some h"
    by (auto simp: decode_hint_def bind_eq_Some_conv)
  ultimately show ?thesis
    using assms(1,3) c(1) unfolding logout_authorised_def hint_validation_def by blast
qed

definition refusal :: "response \<Rightarrow> bool" where
  "refusal r \<longleftrightarrow> 400 \<le> rs_status r \<and> (client_error r \<or> rs_status r = 500) \<and> h_get_all ''set-cookie'' (rs_headers r) = []"

lemma oauth_refusal: "refusal (oauth_response err)"
  by (cases err) (simp_all add: refusal_def oauth_response_def plain_def client_error_def Let_def h_insert_def h_get_all_def)

lemma plain_refusal: "refusal (plain 403 [] b)"
  by (simp add: refusal_def plain_def client_error_def h_get_all_def)

lemma logout_hint_Inl: "logout_hint e q d = (Inl r, d') \<Longrightarrow> d' = d \<and> refusal r"
  by (auto simp: logout_hint_def op_results oauth_refusal split: option.splits)

lemma logout_hint_Inr: "logout_hint e q d = (Inr h, d') \<Longrightarrow>
    d' = d \<and> (case h of None \<Rightarrow> es_id_token_hint q = None
      | Some c \<Rightarrow> \<exists>hint. es_id_token_hint q = Some hint \<and> decode_hint e hint = Some c)"
  by (auto simp: logout_hint_def op_results split: option.splits)

lemma logout_app_result: "logout_app e cid d = (r, d') \<Longrightarrow> d' = d \<and> (case r of Inl rs \<Rightarrow> refusal rs | Inr _ \<Rightarrow> True)"
  by (cases r) (auto simp: logout_app_def op_results oauth_refusal split: option.splits)

lemma logout_session_result:
  "logout_session e hs True hint d = (r, d') \<Longrightarrow> d' = d \<and> (case r of Inl rs \<Rightarrow> refusal rs
     | Inr (session, renewed) \<Rightarrow> renewed = None \<and> hint \<noteq> None \<and> (\<exists>access c. session = Some c
          \<and> extract_session_cookie hs = Some access
          \<and> fst (verify_access_token (ev_ext e) (ev_key e) (ev_now e) access d) = Inr c))"
proof -
  have v: "verify_access_token x key now tok d = (w, d1) \<Longrightarrow> d1 = d \<and> fst (verify_access_token x key now tok d) = w"
    for x key now tok w d1
    by (metis fst_conv snd_conv readonly_verify_access_token)
  show "logout_session e hs True hint d = (r, d') \<Longrightarrow> ?thesis"
    by (cases r) (auto simp: logout_session_def op_results oauth_refusal plain_refusal dest!: v split: if_splits)
qed

lemma logout_revoke_refused:
  assumes "\<not> (\<exists>u. x_uuid_parse (ev_ext e) (c_sub c) = Some u \<and> matching_hint hint c u d)"
  shows "\<exists>r. logout_revoke e ctx q False True hint cid c d = (Inl r, d) \<and> refusal r"
  using assms oauth_refusal plain_refusal
  by (cases "x_uuid_parse (ev_ext e) (c_sub c)") (auto simp: logout_revoke_def bind_op_def ok_or_op_def require_op_def)

lemma unconfirmed_logout_refused:
  assumes "\<forall>u. \<not> logout_authorised e hs q d u"
  shows "\<exists>r. end_session_response e ctx hs q False True d = ((r, None), d) \<and> refusal r"
proof (cases "logout_hint e q d")
  case (Pair hr d1)
  show ?thesis
  proof (cases hr)
    case (Inl r)
    then show ?thesis using logout_hint_Inl [of e q d r d1] Pair by (simp add: end_session_response_def bind_op_def)
  next
    case (Inr hint)
    with Pair logout_hint_Inr [of e q d hint d1] have h: "logout_hint e q d = (Inr hint, d)"
      "case hint of None \<Rightarrow> es_id_token_hint q = None | Some c \<Rightarrow> \<exists>t. es_id_token_hint q = Some t \<and> decode_hint e t = Some c"
      by auto
    obtain ar d2 where a: "logout_app e (logout_client_id q hint) d = (ar, d2)" by fastforce
    note a' = logout_app_result [OF a]
    obtain sr d3 where s: "logout_session e hs True hint d = (sr, d3)" by fastforce
    note s' = logout_session_result [OF s]
    show ?thesis
    proof (cases "isl ar \<or> isl sr")
      case True
      then show ?thesis using h a a' s s'
        by (auto simp: end_session_response_def bind_op_def isl_def split: sum.splits)
    next
      case False
      then obtain app c h0 access where ar: "ar = Inr app" and sr: "sr = Inr (Some c, None)" and h0: "hint = Some h0"
        and c: "extract_session_cookie hs = Some access"
          "fst (verify_access_token (ev_ext e) (ev_key e) (ev_now e) access d) = Inr c"
        using s' by (cases ar; cases sr) auto
      have "\<not> (\<exists>u. x_uuid_parse (ev_ext e) (c_sub c) = Some u \<and> matching_hint hint c u d)"
        using assms h(2) h0 c by (auto intro: logout_authorised_intro)
      from logout_revoke_refused [OF this, of ctx q "logout_client_id q hint"] obtain r where
        "logout_revoke e ctx q False True hint (logout_client_id q hint) c d = (Inl r, d)" "refusal r" by blast
      moreover have "logout_app e (logout_client_id q hint) d = (Inr app, d)" "logout_session e hs True hint d = (Inr (Some c, None), d)"
        using a a' s s' ar sr by simp_all
      ultimately show ?thesis
        using h(1) by (simp add: end_session_response_def bind_op_def)
    qed
  qed
qed

text \<open>
  C21. Another site cannot sign a user out. A POST to the logout endpoint whose Origin header is missing,
  unreadable or not the origin of the server's own confirmation page is refused, changes nothing in the database (no session ends, no
  token is rotated) and touches no cookie, unless the browser's access cookie is live and the
  request carries an ID token, signed by this server as issuer, for the subject of the cookie and the
  time of its sign-in, of a session generation that has not been revoked.
\<close>

theorem cross_site_logout_refused:
  assumes "\<forall>own. x_url_parse (ev_ext e) (ev_origin e) = Some own \<longrightarrow> Option.bind (h_get ''origin'' hs) to_str \<noteq> Some (ur_origin own)"
    and "\<not> (\<exists>hint j h access c u. es_id_token_hint q = Some hint
        \<and> x_jwt_verify (ev_ext e) (ev_key e) \<lparr>jv_leeway = 60, jv_required = [''sub'', ''iss'', ''aud'', ''iat'', ''exp''],
            jv_iss = Some [ev_origin e], jv_aud = None, jv_validate_aud = False, jv_validate_exp = False\<rparr> (ev_now e) hint = Some j
        \<and> id_claims_of_json j = Some h
        \<and> extract_session_cookie hs = Some access \<and> access_live (ev_ext e) (ev_key e) (ev_now e) access c u d
        \<and> it_sub h = c_sub c \<and> it_auth_time h = (case c_auth_time c of Some a \<Rightarrow> a | None \<Rightarrow> c_iat c)
        \<and> session_live u (it_iat h) (it_session_version h) d)"
  shows "\<exists>rs. end_session_post e ctx hs q d = (rs, d) \<and> rs_status rs \<in> {403, 500}
     \<and> h_get_all ''set-cookie'' (rs_headers rs) = []"
proof -
  have own: "\<not> posted_by_own_form e hs"
    using assms(1) by (auto simp: posted_by_own_form_def split: option.splits)
  have age: "unwrap_or i v = (case v of Some a \<Rightarrow> a | None \<Rightarrow> i)" for i :: int and v
    by (cases v) (simp_all add: unwrap_or_def)
  have "\<forall>u. \<not> logout_authorised e hs q d u"
    using assms(2) unfolding logout_authorised_def age by blast
  from unconfirmed_logout_refused [OF this] obtain r where
    "end_session_response e ctx hs q False True d = ((r, None), d)" "refusal r" by blast
  then show ?thesis
    using own
    by (auto simp: end_session_post_def end_session_impl_def refusal_def plain_def h_get_all_def)
qed

section \<open>An example\<close>

definition demo_authorize_query :: authorize_query where
  "demo_authorize_query = \<lparr>aq_response_type = Some ''code'', aq_client_id = ap_client_id demo_client,
     aq_redirect_uri = Some ''https://wiki.example/cb'', aq_scope = Some ''openid'', aq_state = None, aq_nonce = None,
     aq_code_challenge = Some demo_verifier, aq_code_challenge_method = Some ''S256'', aq_prompt = None, aq_max_age = None\<rparr>"

definition demo_cookies :: headers where
  "demo_cookies = [(''cookie'', AUTH_COOKIE_NAME @ ''='' @ demo_access_token)]"

lemma demo_client_facts:
  "ap_id demo_client = 9" "ap_enabled demo_client" "ap_type demo_client = Oidc" "ap_required_roles demo_client = []"
  "ap_redirect_uris demo_client = [''https://wiki.example/cb'']" "\<exists>i. ap_client_id demo_client = Some i \<and> i \<noteq> []"
  by (simp_all add: demo_client_def new_oidc_def new_application_def demo_client_input_def generate_client_secret_def
      generate_client_id_def unwrap_or_def Let_def)

lemma demo_client_found: "ap_client_id demo_client = Some i \<Longrightarrow> get_by_oidc_client_id ref_ext i demo_oidc = Some demo_client"
  by (auto simp: get_by_oidc_client_id_def demo_oidc_def row_of_application_def application_of_row_def demo_client_facts
      str_list_column_def demo_client_def new_oidc_def new_application_def demo_client_input_def generate_client_secret_def
      generate_client_id_def unwrap_or_def app_type_of_str_def Let_def)

lemma demo_checks:
  "\<exists>z. authorize_checks ref_ext demo_authorize_query demo_oidc = (Inr z, demo_oidc) \<and> az_app z = demo_client
     \<and> az_redirect z = ''https://wiki.example/cb'' \<and> az_challenge z = demo_verifier"
proof -
  obtain i where i: "ap_client_id demo_client = Some i" "i \<noteq> []" using demo_client_facts(6) by blast
  have sc: "parse_scope ''openid'' = [''openid'']"
    using split_whitespace_word [of "''openid''"] by (simp add: parse_scope_def ascii_graphic_def byte_def)
  have ch: "s256_challenge ref_ext demo_verifier"
    by (simp add: s256_challenge_def demo_verifier_def list_all_iff is_ascii_alphanumeric_def is_ascii_lower_def byte_def)
  show ?thesis
    using i demo_client_found [OF i(1)] sc ch demo_client_facts
    by (simp add: authorize_checks_def authorize_client_def demo_authorize_query_def bind_op_def ok_or_op_def require_op_def
        given_def unwrap_or_def reauthentication_requested_def prompt_none_def scope_acceptable_def scope_contains_def
        SCOPE_OPENID_def validate_redirect_uri_def Let_def demo_verifier_def)
qed

lemma demo_env_sels:
  "ev_ext demo_env = ref_ext" "ev_now demo_env = 1500" "ev_key demo_env = []" "ev_random demo_env n = ''random''"
  "ev_uuid demo_env n = 100 + n"
  by (simp_all add: demo_env_def)

lemma demo_oidc_live: "access_live ref_ext [] 1500 demo_access_token demo_access 7 demo_oidc"
  by (simp add: access_live_def session_live_def current_version_def demo_oidc_def demo_state_defs)
     (simp add: demo_claim_defs)

lemma demo_cookie: "cookie_value AUTH_COOKIE_NAME demo_cookies = Some demo_access_token"
proof -
  obtain n where n: "demo_access_token = replicate n CHR ''j''"
    by (simp add: demo_access_token_def json_text_def)
  show ?thesis
    using cookie_value_single [of AUTH_COOKIE_NAME demo_access_token]
    by (simp add: demo_cookies_def AUTH_COOKIE_NAME_def n visible_ascii_def byte_def list_all_iff ascii_graphic_def last_replicate)
qed

lemma demo_browser_session:
  "\<exists>claims. resolve_browser_session demo_env demo_cookies demo_oidc = (Inr (Some claims, None), demo_oidc)
     \<and> x_uuid_parse ref_ext (c_sub claims) = Some 7"
proof -
  have "verify_access_token ref_ext [] 1500 demo_access_token demo_oidc
      = (Inr (demo_access\<lparr>c_roles := user_get_roles 7 demo_oidc\<rparr>), demo_oidc)"
    using demo_oidc_live by (auto simp: verify_access_token_Inr)
  moreover have "x_uuid_parse ref_ext (c_sub demo_access) = Some 7"
    using demo_oidc_live by (simp add: access_live_def)
  ultimately show ?thesis
    using demo_cookie
    by (simp add: resolve_browser_session_def extract_session_cookie_def extract_cookie_value demo_env_sels
        unless_unauthenticated_def bind_op_def try_op_def)
qed

lemma demo_grant:
  assumes "x_uuid_parse ref_ext (c_sub claims) = Some 7" and "az_app z = demo_client"
  shows "oidc_codes (snd (authorize_grant demo_env demo_ctx uri demo_authorize_query z claims demo_oidc)) \<noteq> []"
proof -
  have usr: "user_get 7 demo_oidc = Some (user.truncate demo_user)" and u: "u_active demo_user" "u_id demo_user = 7"
    by (simp_all add: user_get_def demo_oidc_def demo_state_defs)
  have acc: "check_access_resolved ref_ext demo_client rls demo_oidc" for rls
    by (simp add: check_access_resolved_def demo_client_facts)
  have "\<exists>code d1. code_issue ref_ext 1500 rnd 9 7 ru sc n ch me ta ver se demo_oidc = (Inr code, d1) \<and> oidc_codes d1 \<noteq> []"
    for rnd ru sc n ch me ta ver se
    by (simp add: code_issue_def bind_op_def insert_op_def demo_oidc_def demo_state_defs application_exists_def user_exists_def
        row_of_application_def demo_client_facts Let_def)
  then obtain code d1 where iss: "code_issue ref_ext 1500 ''random'' 9 7 (az_redirect z) (join_str '' '' (az_scope z)) None (az_challenge z)
      ''S256'' (unwrap_or (c_iat claims) (c_auth_time claims)) (c_session_version claims)
      (Some (unwrap_or (c_exp claims) (c_session_exp claims))) demo_oidc = (Inr code, d1)" and d1: "oidc_codes d1 \<noteq> []"
    by blast
  show ?thesis
    using assms usr u acc iss d1
    by (simp add: authorize_grant_def bind_op_def demo_env_sels demo_client_facts ok_or_op_def require_op_def map_err_op_def
        note_audit_apply audit_save_frame demo_authorize_query_def unwrap_or_def Let_def)
qed

lemma demo_authorize:
  "oidc_codes (snd (authorize demo_env demo_ctx demo_cookies None demo_authorize_query demo_oidc)) \<noteq> []"
proof -
  obtain z where z: "authorize_checks ref_ext demo_authorize_query demo_oidc = (Inr z, demo_oidc)" "az_app z = demo_client"
    using demo_checks by blast
  obtain claims where c: "resolve_browser_session demo_env demo_cookies demo_oidc = (Inr (Some claims, None), demo_oidc)"
      "x_uuid_parse ref_ext (c_sub claims) = Some 7"
    using demo_browser_session by blast
  show ?thesis
    using demo_grant [OF c(2) z(2), of None] z(1) c(1)
    by (auto simp: authorize_def authorize_impl_def demo_env_sels answer_def split: prod.splits sum.splits)
qed

theorem authorize_code_justified_witness:
  "\<exists>row app. oidc_codes (snd (authorize demo_env demo_ctx demo_cookies None demo_authorize_query demo_oidc)) = [row]
     \<and> ap_type app = Oidc \<and> validate_redirect_uri app (cd_redirect_uri row) \<and> cd_method row = ''S256'' \<and> cd_user row = 7"
proof -
  obtain rs d' where a: "authorize demo_env demo_ctx demo_cookies None demo_authorize_query demo_oidc = (rs, d')" by fastforce
  have old: "oidc_codes demo_oidc = []" by (simp add: demo_oidc_def demo_state_defs)
  have "oidc_codes d' \<noteq> oidc_codes demo_oidc" using demo_authorize a old by simp
  from authorize_code_justified [OF a this] obtain row app u usr where
    "oidc_codes d' = [row]" "ap_type app = Oidc" "validate_redirect_uri app (cd_redirect_uri row)" "cd_method row = ''S256''"
    "cd_user row = u" "user_get u demo_oidc = Some usr" unfolding old by auto
  moreover from this have "u = 7"
    by (auto simp: user_get_def demo_oidc_def demo_state_defs split: if_splits)
  ultimately show ?thesis using a by auto
qed

text \<open>
  A form on another site posts the browser's cookies to the logout endpoint, with an ID token that
  the server issued to somebody else.
\<close>

definition demo_foreign_claims :: json where
  "demo_foreign_claims = JObj [(''iss'', JStr ''https://auth.example''), (''sub'', JStr ''8''), (''aud'', JStr ''cid''), (''exp'', JInt 1800),
     (''iat'', JInt 1200), (''auth_time'', JInt 1000), (''session_version'', JInt 0)]"

lemma demo_foreign_sub: "id_claims_of_json demo_foreign_claims = Some h \<Longrightarrow> it_sub h = ''8''"
  by (auto simp: id_claims_of_json_def demo_foreign_claims_def req_field_def bind_eq_Some_conv)

theorem cross_site_logout_refused_witness:
  "\<exists>rs. end_session_post demo_env demo_ctx ((''origin'', ''https://evil.example'') # demo_cookies)
       \<lparr>es_id_token_hint = Some (json_text demo_foreign_claims), es_client_id = None, es_post_logout_redirect_uri = None, es_state = None\<rparr> demo_oidc
     = (rs, demo_oidc) \<and> rs_status rs \<in> {403, 500} \<and> h_get_all ''set-cookie'' (rs_headers rs) = []"
proof (rule cross_site_logout_refused)
  show "\<forall>own. x_url_parse (ev_ext demo_env) (ev_origin demo_env) = Some own
      \<longrightarrow> Option.bind (h_get ''origin'' ((''origin'', ''https://evil.example'') # demo_cookies)) to_str \<noteq> Some (ur_origin own)"
    by (auto simp: h_get_def h_get_all_def to_str_def visible_ascii_def byte_def demo_env_def ref_url_def
        strip_prefix_def Let_def)
  have "extract_session_cookie ((''origin'', ''https://evil.example'') # demo_cookies) = Some demo_access_token"
    using demo_cookie by (simp add: extract_session_cookie_def extract_cookie_value cookie_value_def h_get_all_def)
  moreover have "c_sub c \<noteq> ''8''" if "access_live ref_ext [] 1500 demo_access_token c u demo_oidc" for c u
  proof -
    have "c = demo_access" using that by (simp add: access_live_def)
    then show ?thesis by (simp add: demo_claim_defs show_nat.simps char_of_eq_iff take_bit_eq_mod)
  qed
  ultimately show "\<not> (\<exists>hint j h access c u. es_id_token_hint \<lparr>es_id_token_hint = Some (json_text demo_foreign_claims), es_client_id = None,
            es_post_logout_redirect_uri = None, es_state = None\<rparr> = Some hint
        \<and> x_jwt_verify (ev_ext demo_env) (ev_key demo_env) \<lparr>jv_leeway = 60, jv_required = [''sub'', ''iss'', ''aud'', ''iat'', ''exp''],
            jv_iss = Some [ev_origin demo_env], jv_aud = None, jv_validate_aud = False, jv_validate_exp = False\<rparr> (ev_now demo_env) hint = Some j
        \<and> id_claims_of_json j = Some h
        \<and> extract_session_cookie ((''origin'', ''https://evil.example'') # demo_cookies) = Some access
        \<and> access_live (ev_ext demo_env) (ev_key demo_env) (ev_now demo_env) access c u demo_oidc
        \<and> it_sub h = c_sub c \<and> it_auth_time h = (case c_auth_time c of Some a \<Rightarrow> a | None \<Rightarrow> c_iat c)
        \<and> session_live u (it_iat h) (it_session_version h) demo_oidc)"
    by (auto simp: demo_env_sels dest!: demo_foreign_sub split: if_splits)
qed

definition demo_token_form :: token_form where
  "demo_token_form = \<lparr>tf_grant_type = Some ''authorization_code'', tf_code = Some ''code'',
     tf_redirect_uri = Some ''https://wiki.example/cb'', tf_client_id = Some ''cid'', tf_client_secret = Some ''secret'',
     tf_code_verifier = Some demo_verifier\<rparr>"

lemma demo_client_auth: "authenticate_client demo_env demo_ctx [] demo_token_form demo_coded = (Inr (''cid'', demo_client), demo_coded)"
proof -
  have "get_by_oidc_client_id ref_ext ''cid'' demo_oidc = Some demo_client"
    by (rule demo_client_found) (simp add: demo_client_def new_oidc_def new_application_def demo_client_input_def
        generate_client_secret_def generate_client_id_def unwrap_or_def Let_def)
  then have "get_by_oidc_client_id ref_ext ''cid'' demo_coded = Some demo_client"
    by (simp add: get_by_oidc_client_id_def demo_coded_def)
  moreover have "client_credentials ref_ext [] demo_token_form = Inr (''cid'', Some ''secret'')"
    by (simp add: client_credentials_def parse_basic_auth_def h_get_def h_get_all_def demo_token_form_def given_def Let_def)
  moreover have "verify_client_secret ref_ext demo_client ''secret''"
    by (simp add: verify_client_secret_def demo_client_def new_oidc_def new_application_def demo_client_input_def
        generate_client_secret_def unwrap_or_def Let_def)
  ultimately show ?thesis
    using demo_client_facts
    by (simp add: authenticate_client_def bind_op_def demo_env_sels require_op_def ok_or_op_def demo_token_form_def Let_def)
qed

lemma demo_exchange: "\<exists>t d'. exchange_code demo_env demo_ctx [] demo_token_form demo_coded = (Inr t, d')"
proof -
  let ?c = "\<lparr>cc_application_id = 9, cc_user_id = 7, cc_redirect_uri = ''https://wiki.example/cb'', cc_scope = ''openid'',
     cc_nonce = None, cc_code_challenge = demo_verifier, cc_code_challenge_method = ''S256'', cc_auth_time = 1000,
     cc_session_version = Some 0, cc_session_exp = Some 605800\<rparr>"
  define d1 where "d1 = snd (code_mark ref_ext 1500 ''code'' demo_coded)"
  have con: "code_consume ref_ext 1500 ''code'' 9 ''https://wiki.example/cb'' demo_verifier demo_coded = (Inr (Some ?c), d1)"
    using demo_pkce unfolding code_consume_cases [OF demo_coded_keyed] d1_def
    by (simp add: demo_coded_def hash_code_def code_bound_def consumed_of_row_def)
  from code_consume_Some [OF con] obtain cs where d1: "d1 = demo_coded\<lparr>oidc_codes := cs\<rparr>" by blast
  have live: "session_live 7 1000 (Some 0) d1" and usr: "user_get 7 d1 = Some (user.truncate demo_user)"
    and u: "u_active demo_user" "u_id demo_user = 7"
    by (simp_all add: d1 session_live_def current_version_def user_get_def demo_coded_def demo_oidc_def demo_state_defs)
  have acc: "check_access_resolved ref_ext demo_client rls d1" for rls
    by (simp add: check_access_resolved_def demo_client_facts)
  obtain i where i: "ap_client_id demo_client = Some i" using demo_client_facts(6) by blast
  have mint: "mint_token_pair ref_ext now jti iss demo_client v rls sc nn ta key kid ver se \<noteq> Inl err"
    for now jti iss v rls sc nn ta key kid ver se err
    by (simp add: mint_token_pair_def i encode_id_token_def generate_oidc_access_token_def Let_def)
  have f: "given (tf_code demo_token_form) = Some ''code''" "given (tf_redirect_uri demo_token_form) = Some ''https://wiki.example/cb''"
    "given (tf_code_verifier demo_token_form) = Some demo_verifier"
    by (simp_all add: demo_token_form_def given_def demo_verifier_def)
  have "validate_redirect_uri demo_client ''https://wiki.example/cb''"
    by (simp add: validate_redirect_uri_def demo_client_facts)
  then show ?thesis
    using con live usr u acc mint f demo_client_auth
    by (simp add: exchange_code_def bind_op_def demo_env_sels ok_or_op_def map_err_op_def try_op_def verify_user_session_eq
        require_op_def demo_client_facts oidc_audit_def note_audit_apply Let_def split: sum.split)
qed

theorem token_endpoint_grants_witness:
  "\<exists>t d' row. exchange_code demo_env demo_ctx [] demo_token_form demo_coded = (Inr t, d')
     \<and> row \<in> set (oidc_codes demo_coded) \<and> cd_redirect_uri row = ''https://wiki.example/cb'' \<and> cd_consumed row = None
     \<and> cd_challenge row = x_b64url ref_ext (x_sha256 ref_ext demo_verifier)
     \<and> session_live (cd_user row) (cd_auth_time row) (cd_session_version row) demo_coded
     \<and> row\<lparr>cd_consumed := Some 1500\<rparr> \<in> set (oidc_codes d')"
proof -
  obtain t d' where x: "exchange_code demo_env demo_ctx [] demo_token_form demo_coded = (Inr t, d')"
    using demo_exchange by blast
  from token_endpoint_grants [OF x] obtain code uri verifier row where
    row: "row \<in> set (oidc_codes demo_coded)" "cd_hash row = sha256_hex ref_ext code" "cd_consumed row = None" "1500 < cd_expires row"
    "cd_redirect_uri row = uri" "cd_challenge row = x_b64url ref_ext (x_sha256 ref_ext verifier)"
    "tf_redirect_uri demo_token_form = Some uri" "tf_code_verifier demo_token_form = Some verifier"
    "session_live (cd_user row) (cd_auth_time row) (cd_session_version row) demo_coded"
    and d': "oidc_codes d' = map (\<lambda>r. if cd_hash r = sha256_hex ref_ext code \<and> cd_consumed r = None \<and> 1500 < cd_expires r
        then r\<lparr>cd_consumed := Some 1500\<rparr> else r) (oidc_codes demo_coded)"
    unfolding demo_env_sels by blast
  have "row\<lparr>cd_consumed := Some 1500\<rparr> \<in> set (oidc_codes d')"
    unfolding d' set_map by (rule image_eqI [OF _ row(1)]) (simp add: row(2-4))
  with x row show ?thesis by (auto simp: demo_token_form_def)
qed

end
