(* ===== verification/Startup.thy ===== *)
theory Startup
  imports Server Token_Properties
begin

text \<open>
  \<open>main.rs\<close>, \<open>cli.rs\<close> and \<open>static_files.rs\<close>: how a process starts. It reads its environment, prepares
  the signing key, and then either runs the command that creates the first administrator or serves.
  The environment is a function from names to values, \<open>None\<close> where \<open>env::var\<close> fails.
\<close>

section \<open>Configuration\<close>

type_synonym env_vars = "string \<Rightarrow> string option"

text \<open>Parsing a \<open>u32\<close>: an optional plus sign and decimal digits, without overflow.\<close>

definition parse_u32 :: "string \<Rightarrow> 32 word option" where
  "parse_u32 s =
     (case parse_digits (case s of [] \<Rightarrow> [] | c # cs \<Rightarrow> (if c = CHR ''+'' then cs else s)) of
        None \<Rightarrow> None
      | Some n \<Rightarrow> (if n < 2 ^ 32 then Some (word_of_nat n) else None))"

definition env_override :: "env_vars \<Rightarrow> string \<Rightarrow> 32 word \<Rightarrow> 32 word" where
  "env_override vars name fallback =
     (case vars name of None \<Rightarrow> fallback
      | Some v \<Rightarrow> (case parse_u32 v of None \<Rightarrow> fallback | Some n \<Rightarrow> n))"

definition limiter_config :: "env_vars \<Rightarrow> string \<Rightarrow> 32 word \<Rightarrow> 32 word \<Rightarrow> rate_limit_config" where
  "limiter_config vars name requests secs =
     \<lparr>max_requests = env_override vars (''AUTHERE_'' @ name @ ''_MAX_REQUESTS'') requests,
      rl_window = unat (env_override vars (''AUTHERE_'' @ name @ ''_WINDOW_SECS'') secs) * nanos_per_sec\<rparr>"

definition login_limit :: "env_vars \<Rightarrow> rate_limit_config" where
  "login_limit vars = limiter_config vars ''LOGIN'' 5 60"

definition register_limit :: "env_vars \<Rightarrow> rate_limit_config" where
  "register_limit vars = limiter_config vars ''REGISTER'' 3 3600"

definition ldap_bind_limit :: "env_vars \<Rightarrow> rate_limit_config" where
  "ldap_bind_limit vars = limiter_config vars ''LDAP'' 30 60"

definition oidc_token_limit :: "env_vars \<Rightarrow> rate_limit_config" where
  "oidc_token_limit vars = limiter_config vars ''OIDC_TOKEN'' 60 60"

definition server_origin :: "env_vars \<Rightarrow> string" where
  "server_origin vars = trim_end_slashes
     (case vars ''AUTHERE_ORIGIN'' of None \<Rightarrow> ''http://localhost:3000'' | Some o' \<Rightarrow> o')"

text \<open>The origins that may send writes with a browser's cookies: the server's own comes first.\<close>

definition allowed_browser_origins :: "env_vars \<Rightarrow> string list" where
  "allowed_browser_origins vars = server_origin vars #
     filter (\<lambda>s. s \<noteq> []) (map trim (split_char CHR '','' (case vars ''AUTHERE_ALLOWED_ORIGINS'' of None \<Rightarrow> [] | Some s \<Rightarrow> s)))"

text \<open>The origins of the CORS layer; \<open>None\<close> is the layer that allows none.\<close>

definition cors_origins :: "env_vars \<Rightarrow> string list option" where
  "cors_origins vars = map_option (\<lambda>s. filter_map (\<lambda>p. header_value (trim p)) (split_char CHR '','' s))
     (vars ''AUTHERE_ALLOWED_ORIGINS'')"

text \<open>The part of the shared state that comes from the environment and the signing key.\<close>

definition configure :: "env_vars \<Rightarrow> skey \<Rightarrow> string \<Rightarrow> env \<Rightarrow> env" where
  "configure vars key kid e = e\<lparr>ev_key := key, ev_kid := kid, ev_origin := server_origin vars,
     ev_login_limit := login_limit vars, ev_register_limit := register_limit vars,
     ev_ldap_bind_limit := ldap_bind_limit vars, ev_oidc_token_limit := oidc_token_limit vars\<rparr>"

section \<open>Starting\<close>

text \<open>
  The key is generated on the first start and loaded on every one; a key that an older release
  stored in the clear is encrypted when it is loaded. The arguments after the secret are drawn:
  a key, its identifier and nonces.
\<close>

definition prepare_key :: "externals \<Rightarrow> string option \<Rightarrow> skey \<Rightarrow> uuid \<Rightarrow> string \<Rightarrow> string \<Rightarrow> (skey \<times> string) db_op" where
  "prepare_key x secret key fresh nonce nonce' =
     bind_op (try_initialize x secret key fresh nonce) (\<lambda>_.
     bind_op (load_signing_key x secret nonce') (\<lambda>k.
     bind_op (load_signing_kid x) (\<lambda>kid. ret_op (k, kid))))"

datatype commands =
    Serve
  | InitAdmin string "string option" string "string option"

text \<open>What the password prompt makes of the line it reads.\<close>

definition prompt_password :: "string + string \<Rightarrow> string + string" where
  "prompt_password line = (case line of
     Inl err \<Rightarrow> Inl err
   | Inr s \<Rightarrow> (if trim s = [] then Inl ''Password cannot be empty'' else Inr (trim s)))"

text \<open>The command is done, or the server runs, with or without its LDAP listener.\<close>

datatype boot = Finished | Serving bool

definition run_command ::
  "(user \<Rightarrow> string) \<Rightarrow> env \<Rightarrow> string + string \<Rightarrow> commands option \<Rightarrow> boot db_op" where
  "run_command dbg e line command = (case command of
     Some (InitAdmin username password name email) \<Rightarrow>
       bind_op (lift_op (case password of Some p \<Rightarrow> Inr p
                | None \<Rightarrow> (case prompt_password line of
                    Inl err \<Rightarrow> Inl (InternalError (''Failed to read password: '' @ err)) | Inr p \<Rightarrow> Inr p))) (\<lambda>p.
       bind_op (init_admin dbg e username p name email) (\<lambda>_.
       ret_op Finished))
   | _ \<Rightarrow> bind_op (\<lambda>d. (load_ldap_config (ev_sock e) d, d)) (\<lambda>cfg. ret_op (Serving (lc_enabled cfg))))"

text \<open>
  A start of the process on a migrated database. A served process ends by the restart request,
  which is the exit code that makes its supervisor start it again.
\<close>

definition start_process ::
  "(user \<Rightarrow> string) \<Rightarrow> env_vars \<Rightarrow> env \<Rightarrow> skey \<Rightarrow> uuid \<Rightarrow> string \<Rightarrow> string \<Rightarrow> string + string \<Rightarrow> commands option
     \<Rightarrow> (env \<times> boot) db_op" where
  "start_process dbg vars e key fresh nonce nonce' line command =
     bind_op (prepare_key (ev_ext e) (ev_key_secret e) key fresh nonce nonce') (\<lambda>(k, kid).
     let e' = configure vars k kid e in
     bind_op (run_command dbg e' line command) (\<lambda>b. ret_op (e', b)))"

definition EXIT_RESTART :: nat where "EXIT_RESTART = 75"

definition exit_code :: "bool result \<Rightarrow> nat" where
  "exit_code r = (case r of Inr restart \<Rightarrow> (if restart then EXIT_RESTART else 0) | Inl _ \<Rightarrow> 1)"

section \<open>Static files\<close>

text \<open>\<open>assets\<close> is the embedded directory, \<open>mime\<close> the guess from the file name. An answer is its status, headers and bytes.\<close>

definition serve_asset :: "(string \<Rightarrow> string option) \<Rightarrow> (string \<Rightarrow> string) \<Rightarrow> string \<Rightarrow> nat \<times> headers \<times> string" where
  "serve_asset assets mime path =
     (case assets (''assets/'' @ path) of
        Some content \<Rightarrow> (200, [(''content-type'', case header_value (mime path) of
            None \<Rightarrow> ''application/octet-stream'' | Some v \<Rightarrow> v),
          (''cache-control'', ''public, max-age=31536000, immutable'')], content)
      | None \<Rightarrow> (404, [], ''not found''))"

definition serve_spa :: "(string \<Rightarrow> string option) \<Rightarrow> nat \<times> headers \<times> string" where
  "serve_spa assets =
     (case assets ''index.html'' of
        Some content \<Rightarrow> (200, [(''content-type'', ''text/html; charset=utf-8''), (''cache-control'', ''no-cache'')],
          content)
      | None \<Rightarrow> (503, [], ''UI not built. Run `npm run build` in ui/.''))"

section \<open>The key survives restarts\<close>

lemma encrypt_nonce: "encrypt_private_key x nonce key kek = Inr (ct, nn) \<Longrightarrow> nn = nonce"
  by (auto simp: encrypt_private_key_def split: option.splits)

text \<open>Once loaded, the stored key is encrypted and loads again.\<close>

lemma load_signing_key_again:
  assumes "aead_roundtrip x" "length n1 = 12" "load_signing_key x secret n1 d = (Inr k, d')"
  shows "load_signing_key x secret n2 d' = (Inr k, d')
     \<and> (\<exists>r r'. sql_find (\<lambda>r. ky_name r = ''default'') (keys d) = Some r
          \<and> sql_find (\<lambda>r. ky_name r = ''default'') (keys d') = Some r' \<and> ky_id r' = ky_id r)"
proof -
  from assms(3) obtain r where r: "sql_find (\<lambda>r. ky_name r = ''default'') (keys d) = Some r"
    by (auto simp: load_signing_key_def op_results)
  show ?thesis
  proof (cases "ky_nonce r")
    case (Some nn)
    with assms(3) r obtain kek where "get_kek x secret = Inr kek" "length nn = 12"
        "decrypt_private_key x (ky_private r) nn kek = Inr k" and "d' = d"
      by (auto simp: load_signing_key_def op_results lift_op_def)
    with Some r show ?thesis
      by (simp add: load_signing_key_def bind_op_def ok_or_op_def require_op_def lift_op_def)
  next
    case None
    with assms(3) r obtain kek ct nn where kek: "get_kek x secret = Inr kek" and k: "k = ky_private r" "length k = 32"
      and enc: "encrypt_private_key x n1 k kek = Inr (ct, nn)"
      and d': "d' = d\<lparr>keys := sql_update (\<lambda>r. ky_name r = ''default'') (\<lambda>r. r\<lparr>ky_private := ct, ky_nonce := Some nn\<rparr>) (keys d)\<rparr>"
      by (auto simp: load_signing_key_def op_results lift_op_def)
    let ?r = "r\<lparr>ky_private := ct, ky_nonce := Some nn\<rparr>"
    have "sql_find (\<lambda>r. ky_name r = ''default'') (keys d') = Some ?r"
      using r by (auto simp: d' sql_find_update dest: sql_find_SomeD)
    then show ?thesis
      using r kek decrypt_encrypt_private_key [OF assms(1) k(2) enc] encrypt_nonce [OF enc] assms(2)
      by (simp add: load_signing_key_def bind_op_def ok_or_op_def require_op_def lift_op_def)
  qed
qed

lemma try_initialize_again:
  "sql_find (\<lambda>r. ky_name r = ''default'') (keys d) = Some r \<Longrightarrow> try_initialize x secret key fresh nonce d = (Inr False, d)"
  by (simp add: try_initialize_def bind_op_def)

text \<open>
  C39. Restarts keep the signing key. Once a process has started on a database, every later start
  with the same secret uses exactly the same key under the same key identifier, whatever it draws,
  and changes nothing, so the tokens of one process stay valid in the next. This covers the first
  start, which generates the key, and the start that encrypts a key stored in the clear.
\<close>

theorem restart_keeps_key:
  assumes "aead_roundtrip x" "length nonce' = 12"
    and "prepare_key x secret key fresh nonce nonce' d = (Inr (k, kid), d')"
  shows "prepare_key x secret key2 fresh2 nonce2 nonce2' d' = (Inr (k, kid), d')"
proof -
  from assms(3) obtain d1 b where load: "load_signing_key x secret nonce' d1 = (Inr k, d')"
    and kid: "load_signing_kid x d' = (Inr kid, d')"
    by (auto simp: prepare_key_def op_results load_signing_kid_def split: option.splits)
  from load_signing_key_again [OF assms(1,2) load] obtain r' where
    again: "load_signing_key x secret nonce2' d' = (Inr k, d')"
    and "sql_find (\<lambda>r. ky_name r = ''default'') (keys d') = Some r'" by blast
  then show ?thesis
    using try_initialize_again kid by (simp add: prepare_key_def bind_op_def)
qed

theorem restart_keeps_key_witness:
  "\<exists>d'. prepare_key ref_ext (Some (replicate 32 CHR ''k'')) (replicate 32 CHR ''s'') 5 ''123456789012'' ''abcdefghijkl'' demo_db
     = (Inr (replicate 32 CHR ''s'', show_nat 5), d')
   \<and> prepare_key ref_ext (Some (replicate 32 CHR ''k'')) (replicate 32 CHR ''t'') 6 ''210987654321'' ''lkjihgfedcba'' d'
     = (Inr (replicate 32 CHR ''s'', show_nat 5), d')"
proof -
  let ?d = "snd (try_initialize ref_ext (Some (replicate 32 CHR ''k'')) (replicate 32 CHR ''s'') 5 ''123456789012'' demo_db)"
  have "load_signing_key ref_ext (Some (replicate 32 CHR ''k'')) ''abcdefghijkl'' ?d = (Inr (replicate 32 CHR ''s''), ?d)"
    using signing_key_roundtrip [OF ref_hypotheses(6) _ _ demo_initialize] by (simp add: demo_initialize)
  then have "prepare_key ref_ext (Some (replicate 32 CHR ''k'')) (replicate 32 CHR ''s'') 5 ''123456789012'' ''abcdefghijkl'' demo_db
     = (Inr (replicate 32 CHR ''s'', show_nat 5), ?d)"
    by (simp add: prepare_key_def bind_op_def demo_initialize load_signing_kid_def)
  with restart_keeps_key [OF ref_hypotheses(6) _ this] show ?thesis by simp
qed

end
