(* ===== verification/Races.thy ===== *)
theory Races
  imports Token_Properties Oidc_Properties
begin

text \<open>
  Concurrent requests, statement by statement: the exchange of an authorization code
  (\<open>oidc/codes.rs\<close>) and the rotation of a refresh token (\<open>user/auth/token.rs\<close>), neither of which
  runs in a transaction. Run alone, each is the operation of the components.
\<close>

section \<open>Exchanging a code\<close>

definition code_consume_stmts ::
  "externals \<Rightarrow> int \<Rightarrow> string \<Rightarrow> uuid \<Rightarrow> string \<Rightarrow> string \<Rightarrow> (db, app_error + consumed_code option) proc" where
  "code_consume_stmts x now code application_id redirect_uri verifier =
     then_do (atomic (gets_op (\<lambda>d. sql_find (\<lambda>r. cd_hash r = hash_code x code) (oidc_codes d)))) (\<lambda>found.
     case found of
       None \<Rightarrow> Done (Inr None)
     | Some row \<Rightarrow>
         (if \<not> code_bound x now application_id redirect_uri verifier row then Done (Inr None)
          else then_do (atomic (\<lambda>d. (Inr (fst (code_mark x now code d)), snd (code_mark x now code d)))) (\<lambda>one.
            Done (Inr (if one then Some (consumed_of_row row) else None)))))"

lemma code_consume_alone: "run_proc (code_consume_stmts x now code app uri ver) = code_consume x now code app uri ver"
  by (simp add: fun_eq_iff code_consume_stmts_def code_consume_def bind_op_def split: option.split prod.split)

definition issued_code :: "app_error + consumed_code option \<Rightarrow> bool" where
  "issued_code r = (case r of Inr (Some _) \<Rightarrow> True | _ \<Rightarrow> False)"

lemma won_code: "(\<exists>a. q = Done a \<and> issued_code a) \<longleftrightarrow> (\<exists>c. q = Done (Inr (Some c)))"
  by (cases q) (auto simp: issued_code_def split: sum.split option.split)

lemma code_consume_claimant: "code.claimant (x, now, code) issued_code (code_consume_stmts x now code app uri ver)"
  unfolding code_consume_stmts_def
proof (rule code.claimant_read)
  fix found :: "code_row option"
  show "code.claimant (x, now, code) issued_code (case found of None \<Rightarrow> Done (Inr None)
     | Some row \<Rightarrow> (if \<not> code_bound x now app uri ver row then Done (Inr None)
          else then_do (atomic (\<lambda>d. (Inr (fst (code_mark x now code d)), snd (code_mark x now code d)))) (\<lambda>one.
            Done (Inr (if one then Some (consumed_of_row row) else None)))))"
    by (auto simp: use_code_def issued_code_def split: option.split
        intro!: code.lost code.claimant_use code.settled_done)
qed (simp_all add: issued_code_def)

text \<open>
  C20. However the statements of concurrent exchanges interleave with one another and with anything
  else the server does that does not issue this very code, at most one of the exchanges obtains
  the code's grant: each reads the row in one statement and claims it in another, and only the
  claim that finds it unused succeeds. The exchanges may come from any clients, with any redirect
  URIs and verifiers, at any times.
\<close>

theorem code_exchange_race:
  assumes "weaves R (map (\<lambda>(now, code, app, uri, ver). code_consume_stmts x now code app uri ver) reqs) d qs d'"
    and "keyed cd_hash (oidc_codes d)"
    and "\<And>d d'. R d d' \<Longrightarrow> (code_id_live h d' \<longrightarrow> code_id_live h d)
      \<and> (keyed cd_hash (oidc_codes d) \<longrightarrow> keyed cd_hash (oidc_codes d'))"
  shows "card {i. i < length qs \<and> hash_code x (fst (snd (reqs ! i))) = h \<and> (\<exists>c. qs ! i = Done (Inr (Some c)))} \<le> 1"
proof -
  let ?p = "\<lambda>i. (x, fst (reqs ! i), fst (snd (reqs ! i)))"
  have "code.claimant (?p i) issued_code (map (\<lambda>(now, code, app, uri, ver). code_consume_stmts x now code app uri ver) reqs ! i)"
    if "i < length (map (\<lambda>(now, code, app, uri, ver). code_consume_stmts x now code app uri ver) reqs)" for i
    using that code_consume_claimant by (cases "reqs ! i") simp
  from code.one_winner [OF assms(1,2) this] assms(3)
  have "card {i. i < length qs \<and> code_cred (?p i) = h \<and> (\<exists>a. qs ! i = Done a \<and> issued_code a)} \<le> 1" by blast
  then show ?thesis unfolding won_code by (simp add: code_cred_def)
qed

text \<open>Two exchanges that have both read the unused row: the second claim fails.\<close>

definition demo_exchanges :: "(int \<times> string \<times> uuid \<times> string \<times> string) list" where
  "demo_exchanges = [(1600, ''code'', 9, ''https://wiki.example/cb'', demo_verifier),
     (1600, ''code'', 9, ''https://wiki.example/cb'', demo_verifier)]"

theorem code_exchange_race_witness:
  "\<exists>qs d'. weaves (\<lambda>d d'. False) (map (\<lambda>(now, code, app, uri, ver). code_consume_stmts ref_ext now code app uri ver)
        demo_exchanges) demo_coded qs d'
     \<and> (\<exists>c. qs ! 0 = Done (Inr (Some c))) \<and> qs ! 1 = Done (Inr None)
     \<and> card {i. i < length qs \<and> hash_code ref_ext (fst (snd (demo_exchanges ! i))) = ''code''
          \<and> (\<exists>c. qs ! i = Done (Inr (Some c)))} \<le> 1"
proof -
  let ?ps = "map (\<lambda>(now, code, app, uri, ver). code_consume_stmts ref_ext now code app uri ver) demo_exchanges"
  obtain qs d' where qs: "schedule [0, 1, 0, 1] ?ps demo_coded = (qs, d')" by fastforce
  then have w: "weaves (\<lambda>d d'. False) ?ps demo_coded qs d'"
    using schedule_weaves [OF weaves.idle, of "[0, 1, 0, 1]" ?ps "\<lambda>d d'. False" demo_coded]
    by (simp add: demo_exchanges_def)
  have "(\<exists>c. qs ! 0 = Done (Inr (Some c))) \<and> qs ! 1 = Done (Inr None)"
    using qs demo_pkce by (auto simp: demo_exchanges_def code_consume_stmts_def atomic_eq demo_coded_def hash_code_def
        code_bound_def code_mark_def code_open_def sql_count_def sql_update_def)
  with w code_exchange_race [OF w demo_coded_keyed, of "''code''"] show ?thesis by blast
qed

section \<open>Consuming a refresh token\<close>

definition verify_user_session_stmts :: "uuid \<Rightarrow> int \<Rightarrow> int option \<Rightarrow> (db, app_error + unit) proc" where
  "verify_user_session_stmts user_id issued_at session_version =
     then_do (atomic (user_session_version user_id)) (\<lambda>current_version.
     case session_version of
       Some version \<Rightarrow> Done (if version = current_version then Inr () else Inl AuthenticationRequired)
     | None \<Rightarrow>
         (if current_version \<noteq> 0 then Done (Inl AuthenticationRequired)
          else then_do (atomic (gets_op (\<lambda>d. sql_find (\<lambda>r. fst r = user_id) (revocations d)))) (\<lambda>revocation.
            Done (case revocation of
                Some r \<Rightarrow> (if issued_at \<le> snd r then Inl AuthenticationRequired else Inr ())
              | None \<Rightarrow> Inr ()))))"

lemma verify_user_session_alone: "run_proc (verify_user_session_stmts u i g) = verify_user_session u i g"
proof
  fix d
  show "run_proc (verify_user_session_stmts u i g) d = verify_user_session u i g d"
    by (cases "user_session_version u d"; cases "fst (user_session_version u d)"; cases g)
       (auto simp: verify_user_session_stmts_def verify_user_session_def bind_op_def split: option.split)
qed

definition revoke_all_user_tokens_stmts :: "int \<Rightarrow> uuid \<Rightarrow> (db, app_error + unit) proc" where
  "revoke_all_user_tokens_stmts now user_id =
     then_do (atomic (modify_op (\<lambda>d. d\<lparr>refresh_tokens :=
                sql_update (\<lambda>r. rt_user r = user_id \<and> rt_revoked r = None)
                  (\<lambda>r. r\<lparr>rt_revoked := Some now\<rparr>) (refresh_tokens d)\<rparr>))) (\<lambda>_.
     then_do (atomic (modify_op (\<lambda>d. d\<lparr>users := sql_update (\<lambda>r. u_id r = user_id)
                (\<lambda>r. r\<lparr>u_token_version := u_token_version r + 1\<rparr>) (users d)\<rparr>))) (\<lambda>_.
     atomic (insert_op (\<lambda>d. False) (\<lambda>d. \<not> user_exists user_id d)
       (\<lambda>d. d\<lparr>revocations := sql_delete (\<lambda>r. fst r = user_id) (revocations d) @ [(user_id, now)]\<rparr>))))"

lemma revoke_all_alone: "run_proc (revoke_all_user_tokens_stmts now u) = revoke_all_user_tokens now u"
  by (simp add: revoke_all_user_tokens_stmts_def revoke_all_user_tokens_def revoke_user_access_tokens_def)

definition consume_refresh_token_stmts ::
  "externals \<Rightarrow> skey \<Rightarrow> int \<Rightarrow> string \<Rightarrow> (db, app_error + uuid \<times> claims) proc" where
  "consume_refresh_token_stmts x key now tok =
     (case decode_claims x key now tok of
        None \<Rightarrow> Done (Inl AuthenticationRequired)
      | Some c \<Rightarrow>
          (if c_typ c \<noteq> ''refresh'' then Done (Inl AuthenticationRequired)
           else case x_uuid_parse x (c_sub c) of
               None \<Rightarrow> Done (Inl AuthenticationRequired)
             | Some user_id \<Rightarrow>
                 then_do (atomic (user_session_version user_id)) (\<lambda>version_before.
                 then_do (verify_user_session_stmts user_id (c_iat c) (c_session_version c)) (\<lambda>_.
                 let c' = (if c_session_version c = None then c\<lparr>c_session_version := Some version_before\<rparr> else c);
                     hash = hash_token x tok;
                     live = (\<lambda>r. rt_hash r = hash \<and> rt_revoked r = None \<and> now < rt_expires r)
                 in then_do (atomic (\<lambda>d. (Inr (sql_count live (refresh_tokens d) = 1),
                      d\<lparr>refresh_tokens := sql_update live (\<lambda>r. r\<lparr>rt_revoked := Some now\<rparr>) (refresh_tokens d)\<rparr>))) (\<lambda>one.
                    if one then Done (Inr (user_id, c'))
                    else then_do (atomic (gets_op (\<lambda>d. sql_find (\<lambda>r. rt_hash r = hash) (refresh_tokens d)))) (\<lambda>exists.
                      case exists of
                        Some row \<Rightarrow> then_do (attempt (revoke_all_user_tokens_stmts now (rt_user row)))
                                      (\<lambda>_. Done (Inl AuthenticationRequired))
                      | None \<Rightarrow> Done (Inl AuthenticationRequired)))))))"

lemma consume_refresh_token_alone:
  "run_proc (consume_refresh_token_stmts x key now tok) = consume_refresh_token x key now tok"
proof
  fix d
  show "run_proc (consume_refresh_token_stmts x key now tok) d = consume_refresh_token x key now tok d"
    by (cases "decode_claims x key now tok"; cases "x_uuid_parse x (c_sub (the (decode_claims x key now tok)))")
       (auto simp: consume_refresh_token_stmts_def consume_refresh_token_def bind_op_def ok_or_op_def require_op_def
          verify_user_session_alone revoke_all_alone try_op_def Let_def split: sum.split prod.split option.split)
qed

text \<open>The marking statement on its own is a single use of the token's row.\<close>

definition use_mark :: "externals \<times> int \<times> string \<Rightarrow> db \<Rightarrow> bool \<times> db" where
  "use_mark p d = (case p of (x, now, tok) \<Rightarrow>
     (sql_count (row_live x now tok) (refresh_tokens d) = 1, mark_revoked x now tok d))"

interpretation refresh_mark: single_use "\<lambda>d. keyed rt_hash (refresh_tokens d)" use_mark "\<lambda>(x, now, tok). hash_token x tok"
  refresh_hash_live "\<lambda>h d d'. not_issuing h d d' \<and> (keyed rt_hash (refresh_tokens d) \<longrightarrow> keyed rt_hash (refresh_tokens d'))"
proof
  fix d and p :: "externals \<times> int \<times> string"
  assume k: "keyed rt_hash (refresh_tokens d)" and s: "fst (use_mark p d)"
  obtain x now tok where p: "p = (x, now, tok)" by (cases p)
  with s have one: "sql_count (row_live x now tok) (refresh_tokens d) = 1" by (simp add: use_mark_def)
  from sql_count_one [OF this] show "refresh_hash_live (case p of (x, now, tok) \<Rightarrow> hash_token x tok) d"
    by (auto simp: p refresh_hash_live_def row_live_def)
  show "\<not> refresh_hash_live (case p of (x, now, tok) \<Rightarrow> hash_token x tok) (snd (use_mark p d))"
    using mark_revoked_spends [OF k one] by (simp add: p use_mark_def)
next
  fix d :: db and k and p :: "externals \<times> int \<times> string"
  assume "\<not> refresh_hash_live k d"
  then show "\<not> refresh_hash_live k (snd (use_mark p d))"
    using not_issuing_mark_revoked by (cases p) (auto simp: use_mark_def not_issuing_def)
next
  fix d :: db and p :: "externals \<times> int \<times> string"
  assume "keyed rt_hash (refresh_tokens d)"
  then show "keyed rt_hash (refresh_tokens (snd (use_mark p d)))"
    using same_hashes_keyed [OF same_hashes_mark_revoked] by (cases p) (simp add: use_mark_def)
qed (auto simp: not_issuing_def)


lemma mark_harmless:
  assumes "\<And>d h. not_issuing h d (g d)" and "\<And>d. same_hashes d (g d)"
  shows "refresh_mark.harmless g"
  using assms(1) same_hashes_keyed [OF assms(2)] by (simp add: refresh_mark.harmless_def)

lemma revoke_all_settled: "refresh_mark.settled (revoke_all_user_tokens_stmts now u)"
  unfolding revoke_all_user_tokens_stmts_def
  by (intro refresh_mark.settled_then refresh_mark.settled_atomic mark_harmless)
     (auto simp: not_issuing_def refresh_hash_live_def same_hashes_def set_sql_update insert_op_state sql_update_def
       split: if_splits)

definition consumed_token :: "app_error + 'a \<Rightarrow> bool" where
  "consumed_token r = (case r of Inl _ \<Rightarrow> False | Inr _ \<Rightarrow> True)"

lemma won_token: "(\<exists>a. q = Done a \<and> consumed_token a) \<longleftrightarrow> (\<exists>r. q = Done (Inr r))"
  by (cases q) (auto simp: consumed_token_def split: sum.split)

lemma verify_user_session_claimant:
  assumes "\<And>v. refresh_mark.claimant p consumed_token (k v)"
  shows "refresh_mark.claimant p consumed_token (then_do (verify_user_session_stmts u i g) k)"
  unfolding verify_user_session_stmts_def then_do_assoc
proof (rule refresh_mark.claimant_read)
  fix cv :: int
  show "refresh_mark.claimant p consumed_token (then_do (case g of
       Some version \<Rightarrow> Done (if version = cv then Inr () else Inl AuthenticationRequired)
     | None \<Rightarrow> if cv \<noteq> 0 then Done (Inl AuthenticationRequired)
          else then_do (atomic (gets_op (\<lambda>d. sql_find (\<lambda>r. fst r = u) (revocations d)))) (\<lambda>revocation.
            Done (case revocation of Some r \<Rightarrow> (if i \<le> snd r then Inl AuthenticationRequired else Inr ()) | None \<Rightarrow> Inr ()))) k)"
    using assms
    by (auto simp: then_do_assoc consumed_token_def split: option.split
        intro!: refresh_mark.lost refresh_mark.claimant_read)
qed (simp_all add: consumed_token_def user_session_version_eq)

lemma consume_refresh_token_claimant:
  "refresh_mark.claimant (x, now, tok) consumed_token (consume_refresh_token_stmts x key now tok)"
proof -
  have tail: "refresh_mark.claimant (x, now, tok) consumed_token
      (then_do (atomic (\<lambda>d. (Inr (sql_count (row_live x now tok) (refresh_tokens d) = 1), mark_revoked x now tok d))) (\<lambda>one.
         if one then Done (Inr (u, c'))
         else then_do (atomic (gets_op (\<lambda>d. sql_find (\<lambda>r. rt_hash r = hash_token x tok) (refresh_tokens d)))) (\<lambda>exists.
           case exists of
             Some row \<Rightarrow> then_do (attempt (revoke_all_user_tokens_stmts now (rt_user row))) (\<lambda>_. Done (Inl AuthenticationRequired))
           | None \<Rightarrow> Done (Inl AuthenticationRequired))))" for u :: uuid and c' :: claims
  proof (rule refresh_mark.claimant_use)
    show "(Inr (sql_count (row_live x now tok) (refresh_tokens d) = 1), mark_revoked x now tok d)
        = (Inr (fst (use_mark (x, now, tok) d)), snd (use_mark (x, now, tok) d))" for d
      by (simp add: use_mark_def)
  qed (auto simp: consumed_token_def split: option.split
      intro!: refresh_mark.settled_done refresh_mark.claimant_read refresh_mark.claimant_attempt refresh_mark.lost
        revoke_all_settled)
  have "refresh_mark.claimant (x, now, tok) consumed_token
      (then_do (atomic (user_session_version u)) (\<lambda>v. then_do (verify_user_session_stmts u i g) (\<lambda>_.
         let c' = f v; hash = hash_token x tok; live = (\<lambda>r. rt_hash r = hash \<and> rt_revoked r = None \<and> now < rt_expires r)
         in then_do (atomic (\<lambda>d. (Inr (sql_count live (refresh_tokens d) = 1),
              d\<lparr>refresh_tokens := sql_update live (\<lambda>r. r\<lparr>rt_revoked := Some now\<rparr>) (refresh_tokens d)\<rparr>))) (\<lambda>one.
            if one then Done (Inr (u, c'))
            else then_do (atomic (gets_op (\<lambda>d. sql_find (\<lambda>r. rt_hash r = hash) (refresh_tokens d)))) (\<lambda>exists.
              case exists of
                Some row \<Rightarrow> then_do (attempt (revoke_all_user_tokens_stmts now (rt_user row))) (\<lambda>_. Done (Inl AuthenticationRequired))
              | None \<Rightarrow> Done (Inl AuthenticationRequired))))))" for u i g and f :: "int \<Rightarrow> claims"
    by (rule refresh_mark.claimant_read, simp add: user_session_version_eq, simp add: consumed_token_def,
        rule verify_user_session_claimant, unfold Let_def,
        rule tail [unfolded row_live_eta mark_revoked_def])
  then show ?thesis
    unfolding consume_refresh_token_stmts_def
    by (auto simp: consumed_token_def split: option.split intro: refresh_mark.lost)
qed

text \<open>
  C5. However the statements of concurrent refreshes interleave with one another and with anything
  else the server does that does not issue this very token, at most one of the requests that
  present a refresh token consumes it. All the others are refused.
\<close>

theorem refresh_race:
  assumes "weaves R (map (\<lambda>(now, tok). consume_refresh_token_stmts x key now tok) reqs) d qs d'"
    and "keyed rt_hash (refresh_tokens d)"
    and "\<And>d d'. R d d' \<Longrightarrow> not_issuing h d d' \<and> (keyed rt_hash (refresh_tokens d) \<longrightarrow> keyed rt_hash (refresh_tokens d'))"
  shows "card {i. i < length qs \<and> hash_token x (snd (reqs ! i)) = h \<and> (\<exists>r. qs ! i = Done (Inr r))} \<le> 1"
proof -
  let ?p = "\<lambda>i. (x, fst (reqs ! i), snd (reqs ! i))"
  have "refresh_mark.claimant (?p i) consumed_token (map (\<lambda>(now, tok). consume_refresh_token_stmts x key now tok) reqs ! i)"
    if "i < length (map (\<lambda>(now, tok). consume_refresh_token_stmts x key now tok) reqs)" for i
    using that consume_refresh_token_claimant by (cases "reqs ! i") simp
  from refresh_mark.one_winner [OF assms(1,2) this] assms(3)
  have "card {i. i < length qs \<and> (case ?p i of (x, now, tok) \<Rightarrow> hash_token x tok) = h
      \<and> (\<exists>a. qs ! i = Done a \<and> consumed_token a)} \<le> 1" by blast
  then show ?thesis unfolding won_token by (simp add: case_prod_beta)
qed

text \<open>Two refreshes that both passed the checks: the second finds the token consumed.\<close>

theorem refresh_race_witness:
  "\<exists>qs d'. weaves (\<lambda>d d'. False) (map (\<lambda>(now, tok). consume_refresh_token_stmts ref_ext [] now tok)
        [(1500, demo_refresh_token), (1500, demo_refresh_token)]) demo_session qs d'
     \<and> (\<exists>r. qs ! 0 = Done (Inr r)) \<and> (\<exists>e. qs ! 1 = Done (Inl e))
     \<and> card {i. i < length qs \<and> hash_token ref_ext (snd ([(1500 :: int, demo_refresh_token), (1500, demo_refresh_token)] ! i))
            = hash_token ref_ext demo_refresh_token \<and> (\<exists>r. qs ! i = Done (Inr r))} \<le> 1"
proof -
  let ?ps = "map (\<lambda>(now, tok). consume_refresh_token_stmts ref_ext [] now tok) [(1500, demo_refresh_token), (1500, demo_refresh_token)]"
  let ?is = "[0, 1, 0, 1, 0, 1, 1, 1, 1, 1]"
  obtain qs d' where qs: "schedule ?is ?ps demo_session = (qs, d')" by fastforce
  then have w: "weaves (\<lambda>d d'. False) ?ps demo_session qs d'"
    using schedule_weaves [OF weaves.idle, of ?is ?ps "\<lambda>d d'. False" demo_session] by simp
  have c: "c_typ demo_refresh = ''refresh''" "c_session_version demo_refresh = Some 0" "x_uuid_parse ref_ext (c_sub demo_refresh) = Some 7"
    by (simp_all add: demo_claim_defs)
  have "(\<exists>r. qs ! 0 = Done (Inr r)) \<and> (\<exists>e. qs ! 1 = Done (Inl e))"
    using qs c by (auto simp: consume_refresh_token_stmts_def verify_user_session_stmts_def revoke_all_user_tokens_stmts_def
        then_do_assoc atomic_eq user_session_version_def demo_state_defs issued_row_def Let_def sql_count_def sql_update_def
        insert_op_def user_exists_def)
  with w refresh_race [OF w demo_keyed(2), of "hash_token ref_ext demo_refresh_token"] show ?thesis by blast
qed

section \<open>Rotation against revocation\<close>

definition rotate_token_pair_stmts ::
  "externals \<Rightarrow> skey \<Rightarrow> int \<Rightarrow> mint \<Rightarrow> string \<Rightarrow> (db, app_error + token_pair) proc" where
  "rotate_token_pair_stmts x key now m tok =
     then_do (consume_refresh_token_stmts x key now tok) (\<lambda>(user_id, c).
     then_do (atomic (gets_op (user_get user_id))) (\<lambda>found.
     case found of
       None \<Rightarrow> Done (Inl AuthenticationRequired)
     | Some u \<Rightarrow>
         then_do (atomic (gets_op (user_get_roles (u_id u)))) (\<lambda>rls.
         atomic (generate_token_pair_for_session x key now m user_id rls (rotated_deadline c)
           (c_session_version c) (rotated_auth_time c)))))"

lemma rotate_token_pair_alone: "run_proc (rotate_token_pair_stmts x key now m tok) = rotate_token_pair x key now m tok"
proof -
  have "(\<lambda>v. run_proc (case v of (u, c) \<Rightarrow> k u c)) = (\<lambda>(u, c). run_proc (k u c))" for k :: "uuid \<Rightarrow> claims \<Rightarrow> (db, app_error + token_pair) proc"
    by (simp add: fun_eq_iff)
  moreover have "run_proc (case v of None \<Rightarrow> Done (Inl e) | Some u \<Rightarrow> k u) = bind_op (ok_or_op e v) (\<lambda>u. run_proc (k u))"
    for v :: "user option" and e and k :: "user \<Rightarrow> (db, app_error + token_pair) proc"
    by (cases v) (simp_all add: fun_eq_iff bind_op_def ok_or_op_def)
  ultimately show ?thesis
    by (simp add: rotate_token_pair_stmts_def rotate_token_pair_def consume_refresh_token_alone)
qed

lemma as_i64_range: "as_i64 j = Some n \<Longrightarrow> in_i64 n"
  by (cases j) (auto split: if_splits)

lemma field_i64: "req_field as_i64 k j = Some n \<Longrightarrow> in_i64 n" "opt_field as_i64 k j = Some v \<Longrightarrow> opt_i64 v"
  by (auto simp: req_field_def opt_field_def opt_i64_def split: option.splits json.splits if_splits dest: as_i64_range)

lemma claims_decoded_i64:
  assumes "decode_claims x key now tok = Some c"
  shows "claims_i64 c"
proof -
  from assms obtain j where "claims_of_json j = Some c" by (auto simp: decode_claims_def bind_eq_Some_conv)
  then show ?thesis
    by (auto simp: claims_of_json_def claims_i64_def bind_eq_Some_conv dest!: field_i64)
qed

text \<open>A version that cannot have moved: it is the same at the beginning and at the end.\<close>

lemma evolves_between:
  assumes "evolves u d d1" "evolves u d1 d2" "keyed u_id (users d)"
    and "version_of u d = Some v" "version_of u d2 = Some v"
  shows "version_of u d1 = Some v"
proof -
  from assms(1,3) have k: "keyed u_id (users d1)" by (simp add: evolves_def)
  with assms(2,5) obtain w where w: "version_of u d1 = Some w" "w \<le> v" by (auto simp: evolves_def)
  with assms(1,3,4) have "v \<le> w" by (auto simp: evolves_def)
  with w show ?thesis by simp
qed

lemma evolves_keyed: "evolves u d d' \<Longrightarrow> keyed u_id (users d) \<Longrightarrow> keyed u_id (users d')"
  by (simp add: evolves_def)

text \<open>
  A session check that succeeds among other requests: the generation is the one of the
  credential at the moment of the check.
\<close>

lemma exec_verify_user_session:
  assumes "exec (evolves u) (then_do (verify_user_session_stmts u i g) k) d (Inr r) d'"
  shows "\<exists>d1 d2. evolves u d d1 \<and> evolves u d1 d2 \<and> current_version u d1 = Some (case g of None \<Rightarrow> 0 | Some v \<Rightarrow> v)
     \<and> exec (evolves u) (k ()) d2 (Inr r) d'"
proof -
  from assms obtain d1 cv where d1: "evolves u d d1" "current_version u d1 = Some cv"
    and rest: "exec (evolves u) (then_do (case g of
       Some version \<Rightarrow> Done (if version = cv then Inr () else Inl AuthenticationRequired)
     | None \<Rightarrow> if cv \<noteq> 0 then Done (Inl AuthenticationRequired)
          else then_do (atomic (gets_op (\<lambda>d. sql_find (\<lambda>r. fst r = u) (revocations d)))) (\<lambda>revocation.
            Done (case revocation of Some r \<Rightarrow> (if i \<le> snd r then Inl AuthenticationRequired else Inr ()) | None \<Rightarrow> Inr ()))) k)
       d1 (Inr r) d'"
    unfolding verify_user_session_stmts_def then_do_assoc
    by (rule exec_atomic_Inr) (auto simp: user_session_version_eq split: option.splits)
  show ?thesis
  proof (cases g)
    case (Some v)
    with d1 rest show ?thesis using ev.refl by (auto split: if_splits)
  next
    case None
    with rest d1 show ?thesis
      by (auto simp: then_do_assoc exec_atomic_then split: if_splits option.splits)
  qed
qed

lemma exec_consume_refresh_token:
  assumes run: "exec (evolves u) (then_do (consume_refresh_token_stmts x key now tok) k) d (Inr r) d'"
    and chk: "refresh_checks x key now tok c u d" and key: "keyed u_id (users d)"
  shows "\<exists>v c' d1. version_of u d = Some v \<and> c' = c\<lparr>c_session_version := Some v\<rparr>
     \<and> evolves u d d1 \<and> exec (evolves u) (k (u, c')) d1 (Inr r) d'"
proof -
  let ?g = "c_session_version c" and ?live = "\<lambda>r. rt_hash r = hash_token x tok \<and> rt_revoked r = None \<and> now < rt_expires r"
  let ?k = "\<lambda>v one. then_do (if one then Done (Inr (u, if ?g = None then c\<lparr>c_session_version := Some v\<rparr> else c))
      else then_do (atomic (gets_op (\<lambda>d. sql_find (\<lambda>r. rt_hash r = hash_token x tok) (refresh_tokens d)))) (\<lambda>exists.
        case exists of
          Some row \<Rightarrow> then_do (attempt (revoke_all_user_tokens_stmts now (rt_user row))) (\<lambda>_. Done (Inl AuthenticationRequired))
        | None \<Rightarrow> Done (Inl AuthenticationRequired))) k"
  from chk have c: "decode_claims x key now tok = Some c" "c_typ c = ''refresh''" "x_uuid_parse x (c_sub c) = Some u"
    and live: "session_live u (c_iat c) ?g d" by (simp_all add: refresh_checks_def)
  from live obtain v where v: "current_version u d = Some v" "v = (case ?g of None \<Rightarrow> 0 | Some w \<Rightarrow> w)"
    by (auto simp: session_live_def split: option.splits)
  note vd = current_version_of [OF key v(1)]
  from run c obtain d1 w where d1: "evolves u d d1" "current_version u d1 = Some w"
    and r1: "exec (evolves u) (then_do (verify_user_session_stmts u (c_iat c) ?g) (\<lambda>_.
       then_do (atomic (\<lambda>d. (Inr (sql_count ?live (refresh_tokens d) = 1),
          d\<lparr>refresh_tokens := sql_update ?live (\<lambda>r. r\<lparr>rt_revoked := Some now\<rparr>) (refresh_tokens d)\<rparr>))) (?k w))) d1 (Inr r) d'"
    unfolding consume_refresh_token_stmts_def
    by (simp add: then_do_assoc Let_def) (erule exec_atomic_Inr, auto simp: user_session_version_eq split: option.splits)
  from exec_verify_user_session [OF r1] obtain d2 d3 where d2: "evolves u d1 d2" "evolves u d2 d3" "current_version u d2 = Some v"
    and r2: "exec (evolves u) (then_do (atomic (\<lambda>d. (Inr (sql_count ?live (refresh_tokens d) = 1),
          d\<lparr>refresh_tokens := sql_update ?live (\<lambda>r. r\<lparr>rt_revoked := Some now\<rparr>) (refresh_tokens d)\<rparr>))) (?k w)) d3 (Inr r) d'"
    unfolding v(2) by blast
  from r2 obtain d4 one where d4: "evolves u d3 d4"
    and r3: "exec (evolves u) (?k w one) (d4\<lparr>refresh_tokens := sql_update ?live (\<lambda>r. r\<lparr>rt_revoked := Some now\<rparr>) (refresh_tokens d4)\<rparr>) (Inr r) d'"
    by (rule exec_atomic_Inr) auto
  have one: one
  proof (rule ccontr)
    assume "\<not> one"
    with r3 show False
      by (auto simp: then_do_assoc exec_attempt_Inl elim!: exec_atomic_Inr split: option.splits)
  qed
  note k1 = evolves_keyed [OF d1(1) key] and k2 = evolves_keyed [OF ev.trans [OF d1(1) d2(1)] key]
  have "version_of u d1 = Some v"
    by (rule evolves_between [OF d1(1) d2(1) key vd current_version_of [OF k2 d2(3)]])
  with current_version_of [OF k1 d1(2)] have "w = v" by simp
  with v(2) have "(if ?g = None then c\<lparr>c_session_version := Some w\<rparr> else c) = c\<lparr>c_session_version := Some v\<rparr>"
    by (cases ?g) auto
  with r3 one have "exec (evolves u) (k (u, c\<lparr>c_session_version := Some v\<rparr>))
      (d4\<lparr>refresh_tokens := sql_update ?live (\<lambda>r. r\<lparr>rt_revoked := Some now\<rparr>) (refresh_tokens d4)\<rparr>) (Inr r) d'"
    by simp
  moreover have "evolves u d4 (d4\<lparr>refresh_tokens := sql_update ?live (\<lambda>r. r\<lparr>rt_revoked := Some now\<rparr>) (refresh_tokens d4)\<rparr>)"
    by (rule same_users_evolves) (simp add: same_users_def)
  then have "evolves u d (d4\<lparr>refresh_tokens := sql_update ?live (\<lambda>r. r\<lparr>rt_revoked := Some now\<rparr>) (refresh_tokens d4)\<rparr>)"
    using d1(1) d2(1,2) d4 ev.trans by blast
  ultimately show ?thesis using vd by blast
qed

text \<open>What a rotation that succeeds among other requests has signed.\<close>

lemma exec_rotation:
  assumes run: "exec (evolves u) (rotate_token_pair_stmts x key now m tok) d (Inr p) d'"
    and live: "refresh_checks x key now tok c u d" "keyed u_id (users d)"
  shows "\<exists>v rls c'. version_of u d = Some v \<and> evolves u d d' \<and> c' = c\<lparr>c_session_version := Some v\<rparr>
     \<and> now < rotated_deadline c'
     \<and> x_jwt_sign x key eddsa_header (claims_to_json (access_claims x now (mi_access_jti m) u rls (rotated_deadline c')
         (Some v) (rotated_auth_time c'))) = Inr (tk_access p)"
proof -
  let ?c = "\<lambda>v. c\<lparr>c_session_version := Some v\<rparr>"
  from exec_consume_refresh_token [OF run [unfolded rotate_token_pair_stmts_def] live(1,2)] obtain v d1 where
    v: "version_of u d = Some v" and d1: "evolves u d d1"
    and r1: "exec (evolves u) (then_do (atomic (gets_op (user_get u))) (\<lambda>found. case found of
         None \<Rightarrow> Done (Inl AuthenticationRequired)
       | Some w \<Rightarrow> then_do (atomic (gets_op (user_get_roles (u_id w)))) (\<lambda>rls.
           atomic (generate_token_pair_for_session x key now m u rls (rotated_deadline (?c v)) (Some v) (rotated_auth_time (?c v))))))
       d1 (Inr p) d'"
    by auto
  from r1 obtain d3 and w :: user where d3: "evolves u d1 d3"
    and r2: "exec (evolves u) (then_do (atomic (gets_op (user_get_roles (u_id w)))) (\<lambda>rls.
           atomic (generate_token_pair_for_session x key now m u rls (rotated_deadline (?c v)) (Some v) (rotated_auth_time (?c v)))))
       d3 (Inr p) d'"
    by (rule exec_atomic_Inr) (auto split: option.splits)
  from r2 obtain d4 rls where d4: "evolves u d3 d4"
    and r3: "exec (evolves u) (atomic (generate_token_pair_for_session x key now m u rls (rotated_deadline (?c v)) (Some v) (rotated_auth_time (?c v))))
       d4 (Inr p) d'"
    by (rule exec_atomic_Inr) auto
  then obtain d5 d6 where d5: "evolves u d4 d5" "evolves u d6 d'"
    and gen: "generate_token_pair_for_session x key now m u rls (rotated_deadline (?c v)) (Some v) (rotated_auth_time (?c v)) d5 = (Inr p, d6)"
    by (auto simp: atomic_eq exec_Stmt prod_eq_iff)
  have "evolves u d5 d6" using gen by (intro same_users_evolves) (auto simp: generate_pair_Inr same_users_def)
  then have "evolves u d d'" using d1 d3 d4 d5 ev.trans by blast
  with v gen show ?thesis by (intro exI [of _ v] exI [of _ rls]) (auto simp: generate_pair_Inr)
qed

lemma rotated_claims_i64:
  assumes chk: "refresh_checks x key now tok c u d" and key: "keyed u_id (users d)" and v: "version_of u d = Some v"
    and now: "in_i64 now" "now < rotated_deadline (c\<lparr>c_session_version := Some v\<rparr>)"
  shows "claims_i64 (access_claims x now j u rls (rotated_deadline (c\<lparr>c_session_version := Some v\<rparr>)) (Some v)
     (rotated_auth_time (c\<lparr>c_session_version := Some v\<rparr>)))"
proof -
  have c64: "claims_i64 c" using chk claims_decoded_i64 by (auto simp: refresh_checks_def)
  have v64: "in_i64 v"
  proof -
    from chk have "current_version u d = Some (case c_session_version c of None \<Rightarrow> 0 | Some w \<Rightarrow> w)"
      by (auto simp: refresh_checks_def session_live_def split: option.splits)
    from current_version_of [OF key this] v c64 show ?thesis
      by (auto simp: claims_i64_def opt_i64_def in_i64_def split: option.splits)
  qed
  show ?thesis
    using c64 v64 now
    by (auto simp: claims_i64_def opt_i64_def access_claims_def rotated_deadline_def rotated_auth_time_def in_i64_def
        ACCESS_TOKEN_LIFETIME_def min_def split: option.splits if_splits)
qed

text \<open>
  C6. A revocation that comes in while a refresh token is being rotated wins. Rotation reads the
  session generation before it checks the token and signs that generation into the new pair; so
  if the owner's generation moves at any moment between the start and the end of the request,
  because the password was changed or the sessions were revoked by another request whose
  statements ran in between, then the new access token is refused from the start and at all
  later times, although the rotation itself reported success.
\<close>

theorem rotation_revocation_race:
  assumes ext: "jwt_roundtrip x" "jwt_payload_fixed x" "uuid_text x"
    and run: "exec (evolves u) (rotate_token_pair_stmts x key now m tok) d (Inr p) d'"
    and live: "refresh_checks x key now tok c u d" "keyed u_id (users d)" "in_i64 now"
    and revoked: "version_of u d' \<noteq> version_of u d"
    and later: "evolves u d' d2"
  shows "isl (fst (verify_access_token x key t (tk_access p) d2))"
proof (rule ccontr)
  assume "\<not> ?thesis"
  from exec_rotation [OF run live(1,2)] obtain v rls c' where v: "version_of u d = Some v" and all: "evolves u d d'"
    and c': "c' = c\<lparr>c_session_version := Some v\<rparr>" and exp: "now < rotated_deadline c'"
    and sign: "x_jwt_sign x key eddsa_header (claims_to_json (access_claims x now (mi_access_jti m) u rls (rotated_deadline c')
         (Some v) (rotated_auth_time c'))) = Inr (tk_access p)"
    by blast
  let ?ca = "access_claims x now (mi_access_jti m) u rls (rotated_deadline c') (Some v) (rotated_auth_time c')"
  have ok: "claims_i64 ?ca"
    unfolding c' by (rule rotated_claims_i64 [OF live(1,2) v live(3)]) (use exp c' in simp)
  have dec: "decode_claims x key now (tk_access p) = Some ?ca"
    using decode_signed [OF ext(1) sign ok] exp by (simp add: access_claims_def ACCESS_TOKEN_LIFETIME_def)
  from \<open>\<not> ?thesis\<close> have "accepts_access (x, key, t, tk_access p) d2" by (simp add: accepts_access_def)
  then obtain c2 u2 where acc: "access_live x key t (tk_access p) c2 u2 d2" by (auto simp: accepts_access_live)
  then have "decode_claims x key t (tk_access p) = Some c2" by (simp add: access_live_def)
  from decode_claims_fixed [OF ext(2) dec this] have c2: "c2 = ?ca" .
  with acc ext(3) have "u2 = u" by (auto simp: access_live_def uuid_text_def access_claims_def)
  with acc c2 have cur: "current_version u d2 = Some v"
    by (auto simp: access_live_def session_live_def access_claims_def)
  have "version_of u d' = Some v"
    by (rule evolves_between [OF all later live(2) v current_version_of])
       (use all later live(2) cur in \<open>auto intro: evolves_keyed\<close>)
  with revoked v show False by simp
qed

text \<open>The sessions of the demonstration user are revoked while the rotation reads the roles.\<close>

definition demo_interrupted :: db where
  "demo_interrupted = snd (revoke_user_access_tokens 2000 7 (mark_revoked ref_ext 2000 demo_refresh_token demo_session))"

lemma demo_interrupted_rotation:
  "\<exists>p d'. exec (evolves 7) (rotate_token_pair_stmts ref_ext [] 2000 demo_mint2 demo_refresh_token) demo_session (Inr p) d'
     \<and> version_of 7 d' = Some 1"
proof -
  let ?d = "mark_revoked ref_ext 2000 demo_refresh_token demo_session"
  have tr: "transp (evolves 7)" using ev.trans by (auto intro!: transpI)
  have "sql_count (row_live ref_ext 2000 demo_refresh_token) (refresh_tokens demo_session) = 1"
    by (simp add: demo_state_defs sql_count_def row_live_def)
  then have "consume_refresh_token ref_ext [] 2000 demo_refresh_token demo_session = (Inr (7, demo_refresh), ?d)"
    using demo_refresh_checks [of 2000 "[]"]
    by (auto simp: consume_refresh_token_Inr with_version_def demo_claim_defs)
  then have "exec (\<lambda>s t. t = s) (consume_refresh_token_stmts ref_ext [] 2000 demo_refresh_token) demo_session (Inr (7, demo_refresh)) ?d"
    unfolding exec_alone consume_refresh_token_alone .
  then have con: "exec (evolves 7) (consume_refresh_token_stmts ref_ext [] 2000 demo_refresh_token) demo_session (Inr (7, demo_refresh)) ?d"
    by (rule exec_mono) (simp add: ev.refl)
  have bump: "evolves 7 ?d demo_interrupted"
    using keeps_revoke_user_access by (simp add: keeps_def demo_interrupted_def)
  have get: "user_get 7 ?d = Some (user.truncate demo_user)" and id: "u_id demo_user = 7"
    by (simp_all add: user_get_def mark_revoked_def demo_state_defs)
  have v: "version_of 7 demo_interrupted = Some 1"
    by (simp add: demo_interrupted_def version_of_revoke_user_access)
       (simp add: version_of_def mark_revoked_def demo_state_defs)
  obtain p d' where gen: "generate_token_pair_for_session ref_ext [] 2000 demo_mint2 7 (user_get_roles 7 demo_interrupted)
      (rotated_deadline demo_refresh) (c_session_version demo_refresh) (rotated_auth_time demo_refresh) demo_interrupted = (Inr p, d')"
    and d': "users d' = users demo_interrupted"
  proof -
    have "\<exists>p d'. generate_token_pair_for_session ref_ext [] 2000 demo_mint2 7 (user_get_roles 7 demo_interrupted)
      (rotated_deadline demo_refresh) (c_session_version demo_refresh) (rotated_auth_time demo_refresh) demo_interrupted = (Inr p, d')
      \<and> users d' = users demo_interrupted"
      by (simp add: generate_token_pair_for_session_def generate_access_token_for_session_def
          generate_refresh_token_for_session_def sign_claims_def rotated_deadline_def rotated_auth_time_def
          bind_op_def require_op_def insert_op_def demo_claim_defs sql_update_def user_exists_def demo_interrupted_def
          revoke_user_access_tokens_def mark_revoked_def demo_state_defs demo_mint2_def)
    then show ?thesis using that by blast
  qed
  have "exec (evolves 7) (atomic (generate_token_pair_for_session ref_ext [] 2000 demo_mint2 7 (user_get_roles 7 demo_interrupted)
      (rotated_deadline demo_refresh) (c_session_version demo_refresh) (rotated_auth_time demo_refresh))) demo_interrupted (Inr p) d'"
    by (rule exec_atomic [where R = "evolves 7", OF ev.refl _ ev.refl]) (rule gen)
  moreover have "exec (evolves 7) (atomic (gets_op (user_get_roles 7))) ?d (Inr (user_get_roles 7 demo_interrupted) :: app_error + _) demo_interrupted"
    by (rule exec_atomic [where R = "evolves 7", OF bump _ ev.refl]) simp
  moreover have "exec (evolves 7) (atomic (gets_op (user_get 7))) ?d (Inr (Some (user.truncate demo_user)) :: app_error + _) ?d"
    by (rule exec_atomic [where R = "evolves 7", OF ev.refl _ ev.refl]) (simp add: get)
  ultimately have "exec (evolves 7) (rotate_token_pair_stmts ref_ext [] 2000 demo_mint2 demo_refresh_token) demo_session (Inr p) d'"
    unfolding rotate_token_pair_stmts_def
    by (intro exec_seq [OF con HOL.refl _ tr]) (simp, rule exec_seq [OF _ HOL.refl _ tr], assumption,
        simp add: id, rule exec_seq [OF _ HOL.refl _ tr])
  moreover have "version_of 7 d' = Some 1" using v d' by (simp add: version_of_def)
  ultimately show ?thesis by blast
qed

theorem rotation_revocation_race_witness:
  "\<exists>p d'. exec (evolves 7) (rotate_token_pair_stmts ref_ext [] 2000 demo_mint2 demo_refresh_token) demo_session (Inr p) d'
     \<and> isl (fst (verify_access_token ref_ext [] 2100 (tk_access p) d'))"
proof -
  obtain p d' where run: "exec (evolves 7) (rotate_token_pair_stmts ref_ext [] 2000 demo_mint2 demo_refresh_token) demo_session (Inr p) d'"
    and v: "version_of 7 d' = Some 1"
    using demo_interrupted_rotation by blast
  have "isl (fst (verify_access_token ref_ext [] 2100 (tk_access p) d'))"
    by (rule rotation_revocation_race [OF ref_hypotheses(2,4,5) run demo_refresh_checks demo_keyed(1) _ _ ev.refl])
       (simp_all add: v in_i64_def, simp add: version_of_def demo_state_defs)
  with run show ?thesis by blast
qed

end
