(* ===== verification/Handler_Races.thy ===== *)
theory Handler_Races
  imports Races Server_Users
begin

text \<open>
  Two handlers that check in one statement and act in another, without a transaction: removing a
  role (\<open>handlers/role.rs\<close>), whose guard counts the administrators before it deletes, and the
  password sign-in (\<open>handlers/auth.rs\<close>), which reads the session generation after it has checked
  the password. Groups of statements that nothing here interrupts (authenticating the request, the
  password check, the revocation) are one step each; what is shown is that an interleaving exists.
\<close>

section \<open>Removing a role\<close>

definition remove_role_stmts :: "env \<Rightarrow> audit_context \<Rightarrow> headers \<Rightarrow> uuid \<Rightarrow> uuid \<Rightarrow> (db, app_error + nat) proc" where
  "remove_role_stmts e ctx hs u r =
     then_do (atomic (require_admin e hs)) (\<lambda>admin.
     then_do (Done (ensure_not_self_role_removal (au_user_id admin) u)) (\<lambda>_.
     then_do (atomic (gets_op (role_get r))) (\<lambda>rfound.
     then_do (case rfound of
         Some ro \<Rightarrow>
           (if ro_name ro = ROLE_ADMIN
            then then_do (atomic (gets_op admin_count)) (\<lambda>n.
                   Done (if n \<le> 1 then Inl (InputError [''Cannot remove the last admin role'']) else Inr ()))
            else Done (Inr ()))
       | None \<Rightarrow> Done (Inr ())) (\<lambda>_.
     then_do (atomic (userrole_remove u r)) (\<lambda>removed.
     if removed
     then then_do (atomic (ignore_op (revoke_user_access_tokens (ev_now e) u))) (\<lambda>_.
          then_do (atomic (note_audit e 0 (audit_details (JObj [(''role_id'', uuid_json e r)])
              (audit_ctx ctx (audit_actor (Some (au_user_id admin)) (audit_user u (audit AdminRoleRemoved))))))) (\<lambda>_.
          Done (Inr 204)))
     else Done (Inl NotFound))))))"

lemma remove_role_alone: "run_proc (remove_role_stmts e ctx hs u r) = remove_role e ctx hs u r"
proof -
  have lift: "run_proc (Done x) = lift_op x" for x :: "app_error + 'a"
    by (simp add: fun_eq_iff)
  have guard: "run_proc (case v of
        Some ro \<Rightarrow> (if ro_name ro = ROLE_ADMIN
            then then_do (atomic (gets_op admin_count)) (\<lambda>n.
                   Done (if n \<le> 1 then Inl (InputError [''Cannot remove the last admin role'']) else Inr ()))
            else Done (Inr ()))
       | None \<Rightarrow> Done (Inr ())) = (case v of
        Some ro \<Rightarrow> (if ro_name ro = ROLE_ADMIN
            then bind_op (gets_op admin_count) (\<lambda>n.
                   require_op (\<not> n \<le> 1) (InputError [''Cannot remove the last admin role'']))
            else ret_op ())
       | None \<Rightarrow> ret_op ())" for v
    by (auto simp: fun_eq_iff bind_op_def require_op_def split: option.split)
  have rest: "run_proc (if b then p else Done (Inl NotFound)) = (if b then run_proc p else raise_op NotFound)"
    for b and p :: "(db, app_error + nat) proc"
    by (simp add: fun_eq_iff)
  show ?thesis
    unfolding remove_role_stmts_def remove_role_def run_then_do run_atomic guard rest lift
    by (simp add: fun_eq_iff bind_op_def split: prod.split sum.split)
qed

text \<open>The last two grants of the role, once both are deleted.\<close>

lemma admin_count_zero:
  assumes two: "admin_count d = 2" and "(ua, r) \<in> set (user_roles d)" "(ub, r) \<in> set (user_roles d)" "ua \<noteq> ub"
    and ro: "role_get r d = Some ro" "ro_name ro = ROLE_ADMIN"
    and d': "roles d' = roles d" "set (user_roles d') \<subseteq> set (user_roles d) - {(ua, r), (ub, r)}"
  shows "admin_count d' = 0"
proof -
  let ?P = "\<lambda>p. snd (fst p) = ro_id (snd p) \<and> ro_name (snd p) = ROLE_ADMIN"
  let ?l = "filter ?P (List.product (user_roles d) (roles d))"
  from ro have "ro \<in> set (roles d)" "ro_id ro = r" by (auto simp: role_get_def dest: sql_find_SomeD)
  with assms(2,3) ro(2) have sub: "{((ua, r), ro), ((ub, r), ro)} \<subseteq> set ?l" by auto
  have "card (set ?l) \<le> 2" using card_length [of ?l] two by (simp add: admin_count_def)
  moreover have "card {((ua, r), ro), ((ub, r), ro)} = 2" using assms(4) by simp
  ultimately have "set ?l = {((ua, r), ro), ((ub, r), ro)}"
    using card_seteq [OF _ sub] by simp
  then have "\<not> ?P ((w, q), x)" if "(w, q) \<in> set (user_roles d')" "x \<in> set (roles d')" for w q x
    using that d' by fastforce
  then show ?thesis by (auto simp: admin_count_def filter_empty_conv)
qed

lemma revoke_keeps_grants:
  "user_roles (snd (revoke_user_access_tokens now u d)) = user_roles d" "roles (snd (revoke_user_access_tokens now u d)) = roles d"
  by (simp_all add: revoke_user_access_tokens_def bind_op_def insert_op_state)

text \<open>
  C14. The guard on the last administrator holds for requests that follow one another, but not for
  requests that overlap: when the two administrators of an installation take the role from each
  other at the same time, both requests can count two administrators before either deletes,
  both are answered with success, and no administrator is left.
\<close>

theorem last_admins_race:
  assumes "require_admin e1 hs1 d = (Inr a, d)" "require_admin e2 hs2 d = (Inr b, d)" "au_user_id a \<noteq> au_user_id b"
    and "(au_user_id a, r) \<in> set (user_roles d)" "(au_user_id b, r) \<in> set (user_roles d)"
    and "role_get r d = Some ro" "ro_name ro = ROLE_ADMIN" "admin_count d = 2"
  shows "\<exists>d'. weaves (\<lambda>_ _. False)
        [remove_role_stmts e1 ctx1 hs1 (au_user_id b) r, remove_role_stmts e2 ctx2 hs2 (au_user_id a) r] d
        [Done (Inr 204), Done (Inr 204)] d'
     \<and> admin_count d' = 0"
proof -
  let ?ps = "[remove_role_stmts e1 ctx1 hs1 (au_user_id b) r, remove_role_stmts e2 ctx2 hs2 (au_user_id a) r]"
  let ?is = "[0, 1, 0, 1, 0, 1, 0, 1, 0, 0, 1, 1]"
  let ?d2 = "snd (userrole_remove (au_user_id a) r (snd (userrole_remove (au_user_id b) r d)))"
  have n: "0 < sql_count (\<lambda>ur. fst ur = au_user_id b \<and> snd ur = r) (user_roles d)"
    "0 < sql_count (\<lambda>ur. fst ur = au_user_id a \<and> snd ur = r) (sql_delete (\<lambda>ur. fst ur = au_user_id b \<and> snd ur = r) (user_roles d))"
    using assms(3-5) by (force simp: sql_count_def sql_delete_def filter_empty_conv)+
  obtain d' where run: "schedule ?is ?ps d = ([Done (Inr 204), Done (Inr 204)], d')"
    and d': "user_roles d' = user_roles ?d2" "roles d' = roles d"
    using assms(1-3,6-8) n
    by (simp add: remove_role_stmts_def atomic_eq then_do_assoc ensure_not_self_role_removal_def userrole_remove_def
        note_audit_apply audit_save_frame revoke_keeps_grants)
  have "weaves (\<lambda>_ _. False) ?ps d [Done (Inr 204), Done (Inr 204)] d'"
    using schedule_weaves [OF weaves.idle, of ?is ?ps "\<lambda>_ _. False" d] run by simp
  moreover have "admin_count d' = 0"
    by (rule admin_count_zero [OF assms(8,4,5,3,6,7) d'(2)]) (auto simp: d'(1) userrole_remove_def sql_delete_def)
  ultimately show ?thesis by blast
qed

definition demo_admin_claims :: "uuid \<Rightarrow> claims" where
  "demo_admin_claims u = access_claims ref_ext 1000 ''a'' u [] 605800 (Some 0) 1000"

definition demo_admin_bearer :: "uuid \<Rightarrow> headers" where
  "demo_admin_bearer u = [(''authorization'', ''Bearer '' @ json_text (claims_to_json (demo_admin_claims u)))]"

definition demo_two_admins :: db where
  "demo_two_admins = demo_db\<lparr>users := [demo_user, demo_user\<lparr>u_id := 8, u_username := ''bob''\<rparr>],
     roles := [\<lparr>ro_id = 1, ro_name = ROLE_ADMIN, ro_description = None\<rparr>], user_roles := [(7, 1), (8, 1)]\<rparr>"

lemma demo_two_admins_auth:
  assumes "u = 7 \<or> u = 8"
  shows "require_admin demo_env (demo_admin_bearer u) demo_two_admins = (Inr \<lparr>au_user_id = u, au_roles = [ROLE_ADMIN]\<rparr>, demo_two_admins)"
proof -
  let ?tok = "json_text (claims_to_json (demo_admin_claims u))"
  obtain n where n: "?tok = replicate n CHR ''j''" by (simp add: json_text_def)
  have "list_all visible_ascii (''Bearer '' @ ?tok)"
    by (simp add: n visible_ascii_def byte_def list_all_iff)
  then have tok: "extract_token (demo_admin_bearer u) = Some ?tok"
    by (simp add: extract_token_def demo_admin_bearer_def h_get_def h_get_all_def to_str_def strip_prefix_def)
  have "decode_claims ref_ext [] 1500 ?tok = Some (demo_admin_claims u)"
    by (rule decode_signed [of _ _ eddsa_header])
       (simp_all add: ref_hypotheses, simp_all add: demo_admin_claims_def demo_claim_defs claims_i64_def opt_i64_def in_i64_def)
  then have "access_live ref_ext [] 1500 ?tok (demo_admin_claims u) u demo_two_admins"
    using assms by (auto simp: access_live_def session_live_def current_version_def demo_two_admins_def demo_state_defs
        demo_admin_claims_def demo_claim_defs)
  then have "require_auth demo_env (demo_admin_bearer u) demo_two_admins = (Inr \<lparr>au_user_id = u, au_roles = [ROLE_ADMIN]\<rparr>, demo_two_admins)"
    unfolding require_auth_Inr using tok assms
    by (auto simp: demo_env_def user_get_roles_def demo_two_admins_def demo_state_defs)
  then show ?thesis by (simp add: require_admin_def bind_op_def require_op_def is_admin_def has_role_def)
qed

theorem last_admins_race_witness:
  "\<exists>d'. weaves (\<lambda>_ _. False)
        [remove_role_stmts demo_env demo_ctx (demo_admin_bearer 7) 8 1, remove_role_stmts demo_env demo_ctx (demo_admin_bearer 8) 7 1]
        demo_two_admins [Done (Inr 204), Done (Inr 204)] d'
     \<and> admin_count d' = 0"
  using last_admins_race [OF demo_two_admins_auth demo_two_admins_auth, of 7 8 1 "\<lparr>ro_id = 1, ro_name = ROLE_ADMIN, ro_description = None\<rparr>" demo_ctx demo_ctx]
  by (simp add: demo_two_admins_def role_get_def admin_count_def)

section \<open>Signing in\<close>

text \<open>The password check, the second factor, the roles and the new session are separate steps.\<close>

definition open_session_stmts :: "env \<Rightarrow> audit_context \<Rightarrow> login_input \<Rightarrow> (db, login_error + token_pair) proc" where
  "open_session_stmts e ctx i =
     then_do (Done (fst (valid_or (validate_username (li_username i)) empty_db))) (\<lambda>_.
     then_do (Done (fst (valid_or (validate_password (li_password i)) empty_db))) (\<lambda>_.
     then_do (atomic (password_step e ctx i)) (\<lambda>u.
     then_do (atomic (mfa_step e ctx i u)) (\<lambda>_.
     then_do (atomic (gets_op (user_get_roles (u_id u)))) (\<lambda>rls.
     then_do (atomic (map_err_op LoginApp (generate_token_pair (ev_ext e) (ev_key e) (ev_now e) (ev_mint e) (u_id u) rls))) (\<lambda>pair.
     then_do (atomic (note_audit e 1 (audit_ctx ctx (audit_user (u_id u) (audit LoginSuccess))))) (\<lambda>_.
     Done (Inr pair))))))))"

lemma open_session_alone: "run_proc (open_session_stmts e ctx i) = open_session e ctx i"
  by (cases "validate_username (li_username i)"; cases "validate_password (li_password i)")
     (simp_all add: fun_eq_iff open_session_stmts_def open_session_def bind_op_def valid_or_def split: prod.split sum.split)

text \<open>
  A password change that commits between the password check and the reading of the generation
  does not stop the sign-in: \<open>d\<close> is the state with the old password and \<open>d1\<close> the one after the
  change, and the session that the old password opens is of the generation after the change, so
  the revocation that came with the change does not reach it.
\<close>

lemma login_overtakes_password_change:
  assumes "validate_username (li_username i) = Inr ()" "validate_password (li_password i) = Inr ()"
    and pw: "password_step e ctx i d = (Inr u, d)"
    and mfa: "totp_get (u_id u) d1 = None"
    and gen: "generate_token_pair (ev_ext e) (ev_key e) (ev_now e) (ev_mint e) (u_id u) (user_get_roles (u_id u) d1) d1 = (Inr p, d2)"
    and change: "R d d1" and refl: "\<And>s. R s s"
  shows "\<exists>d'. exec R (open_session_stmts e ctx i) d (Inr p) d' \<and> users d' = users d2 \<and> revocations d' = revocations d2"
proof -
  have none: "mfa_step e ctx i u d1 = (Inr (), d1)"
    using mfa by (simp add: mfa_step_def enforce_mfa_def bind_op_def try_op_def)
  let ?d' = "snd (audit_save (ev_ext e) (ev_uuid e 1) (ev_now e) (audit_ctx ctx (audit_user (u_id u) (audit LoginSuccess))) d2)"
  have "exec R (then_do (atomic (note_audit e 1 (audit_ctx ctx (audit_user (u_id u) (audit LoginSuccess))))) (\<lambda>_. Done (Inr p))) d2
      (Inr p :: login_error + _) ?d'"
    unfolding exec_atomic_then by (rule exI [of _ d2]) (simp add: refl note_audit_apply)
  then have "exec R (then_do (atomic (map_err_op LoginApp (generate_token_pair (ev_ext e) (ev_key e) (ev_now e) (ev_mint e) (u_id u)
        (user_get_roles (u_id u) d1)))) (\<lambda>pair. then_do (atomic (note_audit e 1 (audit_ctx ctx (audit_user (u_id u) (audit LoginSuccess)))))
        (\<lambda>_. Done (Inr pair)))) d1 (Inr p) ?d'"
    unfolding exec_atomic_then [of R "map_err_op LoginApp m" for m] by (intro exI [of _ d1]) (simp add: refl gen map_err_op_def)
  then have "exec R (open_session_stmts e ctx i) d (Inr p) ?d'"
    using assms(1,2) unfolding open_session_stmts_def valid_or_def
    by (simp, subst exec_atomic_then, intro exI [of _ d] conjI refl, simp add: pw,
        subst exec_atomic_then, intro exI [of _ d1] conjI change, simp add: none,
        subst exec_atomic_then, intro exI [of _ d1] conjI refl, simp)
  then show ?thesis by (auto simp: audit_save_frame)
qed

end
