(* ===== verification/Spec2Isabelle.thy ===== *)
theory Spec2Isabelle
  imports Token_Properties Forward_Properties Forward_Access Applications Rate_Limit Audit_Log
    Oidc_Properties Base32_Spec Totp_Properties Http Invitations Ldap_Server Session_Properties
    Denied_Page Server_Users Server_Types Server_Guards Server_Audit Oauth_Properties Startup
    Races Handler_Races
begin

text \<open>
  Verification of authere, a self-hosted authentication server in Rust (\<open>src/server/src\<close>): accounts
  with passwords, second factors and passkeys; signed session tokens; forward authentication for
  reverse proxies; an OpenID Connect provider; a read-only LDAP directory.

  \<^bold>\<open>How the program is put together.\<close>
  Every HTTP request passes \<open>browser_security.rs\<close>, is routed by \<open>main.rs\<close> to one handler under
  \<open>handlers/\<close>, which authenticates it through \<open>auth_middleware.rs\<close>, calls the components
  (\<open>user/\<close>, \<open>role.rs\<close>, \<open>application.rs\<close>, \<open>invitation.rs\<close>, \<open>app_passwords.rs\<close>, \<open>settings.rs\<close>, \<open>oidc/\<close>), all
  of which keep their state in one SQLite database, and records the outcome through \<open>audit.rs\<close>. LDAP
  connections (\<open>ldap/\<close>) read the same database. Four limiters (\<open>rate_limit.rs\<close>) are kept in memory.

  \<^bold>\<open>How code becomes definitions.\<close>
  A function that returns \<open>Result\<close> and mutates a connection is an operation \<open>'s \<Rightarrow> ('e + 'a) \<times> 's\<close>
  (\<open>Prelude\<close>: \<open>bind_op\<close> is the \<open>?\<close> operator, \<open>tx_op\<close> a transaction that rolls back on error, \<open>ignore_op\<close> a
  discarded result). The database is a record with one list of rows per table (\<open>Database\<close>); an
  insertion fails on a duplicate key and on a dangling reference, deletions cascade as the schema
  says. Rust strings are their UTF-8 bytes (\<open>Rust_Str\<close>). Counters and one-time codes are machine words;
  timestamps are integers with their width checked where the code converts them; \<open>usize\<close> is taken
  to have 64 bits. Panics are values of the error types. Randomness, fresh identifiers and the
  clock are arguments (the record \<open>env\<close> of \<open>Http\<close>): a request or an LDAP
  message reads the clock once. Third-party code
  is the record \<open>externals\<close> (\<open>Externals\<close>) and, for WebAuthn, the record \<open>webauthn_crate\<close> (\<open>Passkeys\<close>);
  what the server relies on is stated as named hypotheses (\<open>jwt_roundtrip\<close>, \<open>jwt_authentic\<close>,
  \<open>aead_roundtrip\<close>, \<open>uuid_text\<close>, \<open>json_roundtrip\<close>), which \<open>Reference_Externals\<close> shows to be satisfiable.
  \<open>Demo\<close> is a small installation on which the concrete runs are computed.

  \<^bold>\<open>Theories and source files.\<close>
  \<^item> \<open>Prelude\<close>, \<open>Rust_Str\<close>, \<open>Json\<close>, \<open>Ip_Addr\<close>: operations, SQL on lists, strings, JSON, addresses.
  \<^item> \<open>Errors\<close> (\<open>errors.rs\<close>), \<open>Database\<close> (\<open>migrations/\<close>), \<open>Http\<close> (\<open>lib.rs\<close>, \<open>handlers/mod.rs\<close>,
    \<open>auth_middleware.rs\<close>, \<open>browser_security.rs\<close>), \<open>Rate_Limit\<close> (\<open>rate_limit.rs\<close>), \<open>Audit_Log\<close> (\<open>audit.rs\<close>).
  \<^item> \<open>Users\<close> (\<open>user/mod.rs\<close>, \<open>user/auth/mod.rs\<close>, \<open>role.rs\<close>), \<open>Totp_Factor\<close> (\<open>user/auth/totp.rs\<close>),
    \<open>Invitations\<close> (\<open>invitation.rs\<close>, \<open>app_passwords.rs\<close>), \<open>Settings\<close> (\<open>settings.rs\<close>).
  \<^item> \<open>Tokens\<close> (\<open>user/auth/token.rs\<close>), \<open>Forward\<close> (\<open>user/auth/forward.rs\<close>), \<open>Applications\<close> (\<open>application.rs\<close>),
    \<open>Oidc\<close> (\<open>oidc/codes.rs\<close>, \<open>oidc/token.rs\<close>, \<open>oidc/jwks.rs\<close>).
  \<^item> \<open>Session_Handlers\<close>, \<open>Forward_Handlers\<close>, \<open>Denied_Page\<close> (\<open>handlers/auth.rs\<close>, \<open>handlers/registration.rs\<close>),
    \<open>Account_Handlers\<close> (\<open>handlers/user.rs\<close>, \<open>role.rs\<close>, \<open>totp.rs\<close>, \<open>app_passwords.rs\<close>, \<open>application.rs\<close>),
    \<open>Admin_Handlers\<close> (\<open>handlers/admin.rs\<close> and the command of \<open>cli.rs\<close>), \<open>Oauth_Handlers\<close> and
    \<open>Signed_Out_Page\<close> (\<open>handlers/oauth.rs\<close>), \<open>Passkeys\<close> (\<open>handlers/passkeys.rs\<close>).
  \<^item> \<open>Ldap_Schema\<close> (\<open>ldap/schema.rs\<close>, \<open>ldap/filter.rs\<close>), \<open>Ldap_Handler\<close> (\<open>ldap/handler.rs\<close>), \<open>Ldap_Server\<close>
    (\<open>ldap/server.rs\<close>).
  \<^item> \<open>Server\<close> (routes, background tasks and runs of \<open>main.rs\<close>) and \<open>Startup\<close> (configuration, key
    preparation and commands of \<open>main.rs\<close> and \<open>cli.rs\<close>; \<open>static_files.rs\<close>).

  \<^bold>\<open>Interfaces.\<close>
  \<^item> \<open>state_preorder\<close> (\<open>Prelude\<close>): relations between states that sequencing, transactions and ignored
    errors keep; its instances are the frame conditions of the components.
  \<^item> \<open>bounded_use\<close> and \<open>single_use\<close> (\<open>Single_Use\<close>): credentials with a limited number of uses under any
    interleaving with other steps. Instances: refresh tokens, handoffs, authorization codes, TOTP
    steps, recovery codes, passkey challenges, invitations. \<open>Statements\<close> adds requests that are
    sequences of SQL statements: when the statements of many requests interleave, at most one of
    those that present a credential wins it.
  \<^item> \<open>session_credential\<close> (\<open>Token_Laws\<close>): credentials bound to a session generation; a revocation
    is final. Instances: access tokens and forward-auth sessions.
  \<^item> \<open>kv_store\<close> (\<open>Settings\<close>): the laws of the settings table.
  \<^item> \<open>session_laws\<close> and \<open>store_laws\<close> (\<open>Session_Laws\<close>, \<open>Store_Laws\<close>): what each operation on the database
    must keep for a law to hold of every handler, hence of every run of the server (\<open>Server\<close>).
    Instances: session generations never go down (\<open>Server_Users\<close>); the database stays well typed
    (\<open>Server_Types\<close>); the audit log is append-only (\<open>Server_Audit\<close>).

  \<^bold>\<open>What is shown.\<close>
  \<^item> Signing in: which factors a session requires, uniform failures, passkeys with their
    challenges (\<open>Session_Properties\<close>, \<open>Passkey_Properties\<close>, \<open>Totp_Properties\<close>).
  \<^item> Sessions: revocation is permanent, rotation is single-use, keeps the deadline and detects
    replays, a browser's retry gets the same pair (\<open>Token_Properties\<close>); replacing or removing a
    credential ends every session for good, whatever the server does next (\<open>Server_Users\<close>).
  \<^item> Access: the proxy lets exactly the authorised requests pass (\<open>Forward_Access\<close>), handoffs
    are single-use and deliver their session (\<open>Forward_Properties\<close>), the most specific policy wins
    (\<open>Applications\<close>); administrative and member routes are guarded (\<open>Server_Guards\<close>), writes from
    other origins are refused (\<open>Http\<close>).
  \<^item> OpenID Connect: when codes are issued and tokens granted, who can end a session
    (\<open>Oauth_Properties\<close>); codes are single-use and the flow completes, ID tokens disclose what the
    scope covers (\<open>Oidc_Properties\<close>).
  \<^item> LDAP: which binds succeed, what a search returns and to whom, the authority of a connection,
    total and bounded decoding (\<open>Ldap_Handler\<close>, \<open>Ldap_Server\<close>, \<open>Ldap_Schema\<close>).
  \<^item> Overlapping requests, statement by statement: one winner among concurrent refreshes and among
    concurrent exchanges of a code, and a revocation that comes in during a rotation reaches the
    new pair (\<open>Races\<close>). Two handlers check in one statement and act in another: two administrators
    who remove each other at the same time can leave none, and a sign-in with the old password
    can outlive a password change that commits while it runs (\<open>Handler_Races\<close>).
  \<^item> The system: the database stays well typed in every run, an administrator remains, the audit
    log only grows, restarts keep the signing key (\<open>Server_Types\<close>, \<open>Server_Audit\<close>, \<open>Startup\<close>); limits on requests and invitations
    (\<open>Rate_Limit\<close>, \<open>Invitations\<close>); encoders against their specifications (\<open>Base32_Spec\<close>, \<open>Denied_Page\<close>).

  \<^bold>\<open>Bounds and fuel.\<close>
  The chain of retries of a browser is followed for at most 16 steps and percent-decoding for at
  most 5 rounds, as in the code. The BER loop is a partial function that is shown to end for
  every frame. All other loops are structural or have a termination measure.

  \<^bold>\<open>Not modelled.\<close>
  Connections of the database pool and errors of the database other than violated constraints and
  missing rows; the accept loops, the timers and the connection limit of the two listeners and replies
  that cannot be sent (that an LDAP connection fell silent is an input of its loop); tracing;
  the HTTP and CORS layers of the framework (routing and body extraction have happened when a call
  is made); the generated API description; the migration of databases of older releases; the
  timing of the dummy password check; the user interface and the deployment scripts. 

  \<^bold>\<open>Concurrency.\<close>
  A run of the server (\<open>Server\<close>) is a sequence of whole requests, LDAP messages and background tasks,
  so what is shown of runs holds for requests that do not overlap. SQLite makes single statements
  and transactions atomic, and the locks of the limiters their operations. The requests that
  work on one credential or guard without a transaction, and for which that matters, are refined
  to their statements: rotation and code exchange in \<open>Races\<close>, removing a role and signing in in
  \<open>Handler_Races\<close>. Each refinement, run alone, is the operation of the component (lemmas ending in
  \<open>_alone\<close>). The other handlers are not refined.
\<close>

end
